(* ===== verification/Fabric_Prelude.thy ===== *)
theory Fabric_Prelude
  imports Main "HOL-Library.Word" "HOL-Library.Char_ord" "HOL-Library.List_Lexorder"
begin

text \<open>
  Shared vocabulary of the development: Rust's fixed-width integers with their saturating
  arithmetic, the outcome of a fallible call (a value, an error, a panic) and its \<open>?\<close>
  operator with and without state, decimal rendering and searches in vectors. The interfaces
  shared by the stateful components are the locales \<open>invariant_machine\<close> and
  \<open>monotone_machine\<close>.
\<close>

named_theorems outcome_simps \<open>evaluation of fallible calls\<close>
named_theorems u64_facts \<open>order facts about saturating arithmetic\<close>
named_theorems vec_simps \<open>searches and updates in vectors\<close>

section \<open>Machine integers\<close>

type_synonym u64 = "64 word"
type_synonym u32 = "32 word"
type_synonym u16 = "16 word"

definition u64_max :: u64 where
  "u64_max = - 1"

definition sat_add :: "u64 \<Rightarrow> u64 \<Rightarrow> u64" where
  "sat_add a b = (if unat a + unat b < 2 ^ 64 then a + b else u64_max)"

definition sat_sub :: "u64 \<Rightarrow> u64 \<Rightarrow> u64" where
  "sat_sub a b = (if b \<le> a then a - b else 0)"

definition checked_add :: "u64 \<Rightarrow> u64 \<Rightarrow> u64 option" where
  "checked_add a b = (if unat a + unat b < 2 ^ 64 then Some (a + b) else None)"

lemma le_u64_max [simp, u64_facts]: "a \<le> u64_max"
  by (simp add: u64_max_def)

lemma unat_u64_max: "unat u64_max = 2 ^ 64 - 1"
  by (simp add: u64_max_def unsigned_minus_1_eq_mask mask_eq_exp_minus_1)

lemma unat_sat_add: "unat (sat_add a b) = min (unat a + unat b) (2 ^ 64 - 1)"
  by (auto simp: sat_add_def unat_u64_max unat_word_ariths min_def)

lemma sat_add_ge [u64_facts]: "a \<le> sat_add a b"
proof -
  have "unat a < 2 ^ 64" using unsigned_less [of a] by simp
  then show ?thesis by (simp add: word_le_nat_alt unat_sat_add)
qed

lemma sat_add_mono [u64_facts]: "a \<le> a' \<Longrightarrow> sat_add a b \<le> sat_add a' b"
  by (auto simp: word_le_nat_alt unat_sat_add)

lemma sat_add_one_gt [u64_facts]: "a \<noteq> u64_max \<Longrightarrow> a < sat_add a 1"
proof -
  assume "a \<noteq> u64_max"
  then have "unat a \<noteq> 2 ^ 64 - 1" using unat_u64_max by (metis word_unat_eq_iff)
  moreover have "unat a < 2 ^ 64" using unsigned_less [of a] by simp
  ultimately show ?thesis by (auto simp: word_less_nat_alt unat_sat_add min_def)
qed

text \<open>A loop that adds a nonzero amount, saturating, comes closer to any bound it has not reached.\<close>

lemma sat_add_closer:
  assumes "offset < sz" "bytes \<noteq> 0"
  shows "unat sz - unat (sat_add offset bytes) < unat sz - unat offset"
proof -
  have "unat offset < unat sz" "0 < unat bytes" using assms by (simp_all add: word_less_nat_alt unat_gt_0)
  moreover have "unat sz < 2 ^ 64" using unsigned_less [of sz] by simp
  ultimately show ?thesis unfolding unat_sat_add by linarith
qed

lemma plus_one_gt [u64_facts]: "(a :: u64) \<noteq> u64_max \<Longrightarrow> a < a + 1"
  using sat_add_one_gt [of a] unsigned_less [of a] unat_u64_max
  by (auto simp: sat_add_def word_less_nat_alt word_unat_eq_iff split: if_splits)

lemma sat_sub_le [u64_facts]: "sat_sub a b \<le> a"
  by (auto simp: sat_sub_def word_le_nat_alt unat_sub)

text \<open>Binary arithmetic for evaluation.\<close>

lemma unat_sum_less: "unat (a :: u64) + unat (b :: u64) < 2 ^ 64 \<longleftrightarrow> uint a + uint b < 18446744073709551616"
proof -
  have "uint a + uint b = int (unat a + unat b)" by (simp only: of_nat_add uint_nat)
  moreover have "(18446744073709551616 :: int) = int (2 ^ 64)" by simp
  ultimately show ?thesis by (simp only: of_nat_less_iff)
qed

lemma sat_add_code [code]:
  "sat_add a b = (if uint a + uint b < 18446744073709551616 then a + b else u64_max)"
  unfolding sat_add_def unat_sum_less ..

lemma checked_add_code [code]:
  "checked_add a b = (if uint a + uint b < 18446744073709551616 then Some (a + b) else None)"
  unfolding checked_add_def unat_sum_less ..

section \<open>Outcomes of fallible calls\<close>

text \<open>
  A Rust call returns \<open>Ok\<close>, returns \<open>Err\<close>, or panics (an index out of range, a failed
  \<open>expect\<close>). A method on \<open>&mut self\<close> returns its outcome beside the state it leaves
  behind: an early return with \<open>?\<close> keeps every mutation made before it.
\<close>

datatype ('e, 'a) outcome = Ok 'a | Err 'e | Panic

fun and_then :: "('e, 'a) outcome \<Rightarrow> ('a \<Rightarrow> ('e, 'b) outcome) \<Rightarrow> ('e, 'b) outcome" where
  "and_then (Ok a) f = f a"
| "and_then (Err e) f = Err e"
| "and_then Panic f = Panic"

fun sbind :: "'s \<times> ('e, 'a) outcome \<Rightarrow> ('s \<Rightarrow> 'a \<Rightarrow> 's \<times> ('e, 'b) outcome) \<Rightarrow> 's \<times> ('e, 'b) outcome"
where
  "sbind (s, Ok a) f = f s a"
| "sbind (s, Err e) f = (s, Err e)"
| "sbind (s, Panic) f = (s, Panic)"

definition ok_or :: "'a option \<Rightarrow> 'e \<Rightarrow> ('e, 'a) outcome" where
  "ok_or x e = (case x of Some a \<Rightarrow> Ok a | None \<Rightarrow> Err e)"

definition lift_res :: "'s \<Rightarrow> ('e, 'a) outcome \<Rightarrow> 's \<times> ('e, 'a) outcome" where
  "lift_res s r = (s, r)"

fun is_ok :: "('e, 'a) outcome \<Rightarrow> bool" where
  "is_ok (Ok _) = True"
| "is_ok (Err _) = False"
| "is_ok Panic = False"

declare and_then.simps [outcome_simps] sbind.simps [outcome_simps]

lemma is_ok_iff [outcome_simps]: "is_ok r \<longleftrightarrow> (\<exists>a. r = Ok a)"
  by (cases r) auto

lemma and_then_Ok_iff: "and_then r f = Ok b \<longleftrightarrow> (\<exists>a. r = Ok a \<and> f a = Ok b)"
  by (cases r) auto

lemma and_then_Panic_iff: "and_then r f = Panic \<longleftrightarrow> r = Panic \<or> (\<exists>a. r = Ok a \<and> f a = Panic)"
  by (cases r) auto

lemma ok_or_simps [simp, outcome_simps]:
  "ok_or (Some a) e = Ok a" "ok_or None e = Err e"
  by (simp_all add: ok_or_def)

lemma ok_or_Ok_iff [simp]: "ok_or x e = Ok a \<longleftrightarrow> x = Some a"
  by (cases x) (auto simp: ok_or_def)

lemma ok_or_not_Panic [simp]: "ok_or x e \<noteq> Panic"
  by (cases x) (auto simp: ok_or_def)

lemma lift_res_simps [simp, outcome_simps]:
  "fst (lift_res s r) = s" "snd (lift_res s r) = r"
  by (simp_all add: lift_res_def)

text \<open>
  A property of the state that holds after the first part of a sequence and is kept by its
  continuation holds after the whole, whichever way the call returns.
\<close>

lemma sbind_fst_inv:
  assumes "P (fst m)" and "\<And>a. snd m = Ok a \<Longrightarrow> P (fst (f (fst m) a))"
  shows "P (fst (sbind m f))"
proof -
  obtain s r where m: "m = (s, r)" by (cases m)
  show ?thesis using assms unfolding m by (cases r) auto
qed

lemma sbind_Ok:
  "sbind m f = (s', Ok b) \<longleftrightarrow> (\<exists>s a. m = (s, Ok a) \<and> f s a = (s', Ok b))"
proof -
  obtain s r where m: "m = (s, r)" by (cases m)
  show ?thesis unfolding m by (cases r) auto
qed

lemma sbind_cases:
  assumes "sbind m f = (s', r)"
  obtains (stop) "\<not> is_ok (snd m)" "s' = fst m" | (go) a where "snd m = Ok a" "f (fst m) a = (s', r)"
proof -
  obtain s x where m: "m = (s, x)" by (cases m)
  show thesis
  proof (cases x)
    case (Ok a)
    then show thesis using assms by (intro go [of a]) (simp_all add: m)
  qed (use assms in \<open>auto simp: m intro!: stop\<close>)
qed

lemma snd_sbind_Ok:
  "snd (sbind m f) = Ok b \<longleftrightarrow> (\<exists>a. snd m = Ok a \<and> snd (f (fst m) a) = Ok b)"
proof -
  obtain s r where m: "m = (s, r)" by (cases m)
  show ?thesis unfolding m by (cases r) auto
qed

lemma snd_sbind_Panic:
  "snd (sbind m f) = Panic \<longleftrightarrow> snd m = Panic \<or> (\<exists>a. snd m = Ok a \<and> snd (f (fst m) a) = Panic)"
proof -
  obtain s r where m: "m = (s, r)" by (cases m)
  show ?thesis unfolding m by (cases r) auto
qed

section \<open>Decimal rendering\<close>

fun show_nat :: "nat \<Rightarrow> string" where
  "show_nat n =
     (if n < 10 then [char_of (48 + n)] else show_nat (n div 10) @ [char_of (48 + n mod 10)])"

declare show_nat.simps [simp del]

definition show_u64 :: "u64 \<Rightarrow> string" where
  "show_u64 n = show_nat (unat n)"

lemma show_nat_nonempty [simp]: "show_nat n \<noteq> []"
  by (subst show_nat.simps) simp

section \<open>Vectors\<close>

text \<open>\<open>iter().position(p)\<close>: the least index that satisfies \<open>p\<close>.\<close>

fun position :: "('a \<Rightarrow> bool) \<Rightarrow> 'a list \<Rightarrow> nat option" where
  "position p [] = None"
| "position p (x # xs) = (if p x then Some 0 else map_option Suc (position p xs))"

lemma position_None_iff [vec_simps]: "position p xs = None \<longleftrightarrow> (\<forall>x \<in> set xs. \<not> p x)"
  by (induction xs) auto

lemma position_SomeD:
  "position p xs = Some i \<Longrightarrow> i < length xs \<and> p (xs ! i) \<and> (\<forall>j < i. \<not> p (xs ! j))"
proof (induction xs arbitrary: i)
  case Nil
  then show ?case by simp
next
  case (Cons x xs)
  show ?case
  proof (cases "p x")
    case True
    with Cons.prems show ?thesis by simp
  next
    case False
    with Cons.prems obtain k where "position p xs = Some k" and i: "i = Suc k" by auto
    from Cons.IH [OF this(1)] False show ?thesis
      unfolding i by (auto simp: less_Suc_eq_0_disj)
  qed
qed

lemma position_SomeI:
  "i < length xs \<Longrightarrow> p (xs ! i) \<Longrightarrow> \<forall>j < i. \<not> p (xs ! j) \<Longrightarrow> position p xs = Some i"
proof (induction xs arbitrary: i)
  case Nil
  then show ?case by simp
next
  case (Cons x xs)
  show ?case
  proof (cases i)
    case 0
    with Cons.prems show ?thesis by simp
  next
    case (Suc k)
    with Cons.prems(3) have "\<not> p x" and "\<forall>j < k. \<not> p (xs ! j)" by fastforce+
    with Cons Suc show ?thesis by simp
  qed
qed

lemma position_Some_iff:
  "position p xs = Some i \<longleftrightarrow> i < length xs \<and> p (xs ! i) \<and> (\<forall>j < i. \<not> p (xs ! j))"
  using position_SomeD position_SomeI by metis

lemma position_cong: "(\<And>x. x \<in> set xs \<Longrightarrow> p x = q x) \<Longrightarrow> position p xs = position q xs"
  by (induction xs) auto

lemma position_map [vec_simps]: "position p (map f xs) = position (p \<circ> f) xs"
  by (induction xs) auto

lemma position_append:
  "position p (xs @ ys) =
     (case position p xs of Some i \<Rightarrow> Some i | None \<Rightarrow> map_option (\<lambda>k. length xs + k) (position p ys))"
  by (induction xs; cases "position p ys") (auto split: option.splits)

lemma filter_update_length:
  assumes "i < length xs"
  shows "length (filter p (xs[i := y])) + (if p (xs ! i) then 1 else 0)
       = length (filter p xs) + (if p y then 1 else 0)"
proof -
  have "length (filter p xs) = length (filter p (take i xs @ xs ! i # drop (Suc i) xs))"
    using assms by (simp add: id_take_nth_drop [symmetric])
  moreover have "xs[i := y] = take i xs @ y # drop (Suc i) xs"
    using assms by (rule upd_conv_take_nth_drop)
  ultimately show ?thesis by simp
qed

text \<open>\<open>v.sort(); v.dedup()\<close>.\<close>

definition sort_dedup :: "'a::linorder list \<Rightarrow> 'a list" where
  "sort_dedup xs = remdups_adj (sort xs)"

lemma distinct_remdups_adj_sorted: "sorted xs \<Longrightarrow> distinct (remdups_adj xs)" for xs :: "'a::linorder list"
  by (induction xs rule: remdups_adj.induct) (auto simp: less_le)

lemma sort_dedup [simp, vec_simps]:
  "distinct (sort_dedup xs)" "set (sort_dedup xs) = set xs" "sorted (sort_dedup xs)"
  by (auto simp: sort_dedup_def distinct_remdups_adj_sorted)

lemma sort_dedup_Nil_iff [simp]: "sort_dedup xs = [] \<longleftrightarrow> xs = []"
  by (metis set_empty2 sort_dedup(2))

section \<open>Machines driven by a sequence of calls\<close>

text \<open>
  A component is driven by a sequence of calls. \<open>adm s e\<close> says which calls the
  surroundings make in state \<open>s\<close> (for example, that a generated token is fresh there);
  \<open>adm_run\<close> says that a whole sequence is made of such calls.
\<close>

fun adm_run :: "('s \<Rightarrow> 'e \<Rightarrow> bool) \<Rightarrow> ('s \<Rightarrow> 'e \<Rightarrow> 's) \<Rightarrow> 's \<Rightarrow> 'e list \<Rightarrow> bool" where
  "adm_run adm step s [] = True"
| "adm_run adm step s (e # es) = (adm s e \<and> adm_run adm step (step s e) es)"

lemma adm_run_True [simp]: "adm_run (\<lambda>_ _. True) step s es"
  by (induction es arbitrary: s) auto

lemma adm_run_append:
  "adm_run adm step s (es @ fs) \<longleftrightarrow> adm_run adm step s es \<and> adm_run adm step (foldl step s es) fs"
  by (induction es arbitrary: s) auto

locale invariant_machine =
  fixes step :: "'s \<Rightarrow> 'e \<Rightarrow> 's"
    and adm :: "'s \<Rightarrow> 'e \<Rightarrow> bool"
    and inv :: "'s \<Rightarrow> bool"
  assumes step_inv: "inv s \<Longrightarrow> adm s e \<Longrightarrow> inv (step s e)"
begin

lemma run_inv: "inv s \<Longrightarrow> adm_run adm step s es \<Longrightarrow> inv (foldl step s es)"
  by (induction es arbitrary: s) (auto intro: step_inv)

end

locale monotone_machine = invariant_machine +
  fixes lvl :: "'s \<Rightarrow> 'k \<Rightarrow> 'n::order"
  assumes step_mono: "inv s \<Longrightarrow> adm s e \<Longrightarrow> lvl s k \<le> lvl (step s e) k"
begin

lemma run_mono: "inv s \<Longrightarrow> adm_run adm step s es \<Longrightarrow> lvl s k \<le> lvl (foldl step s es) k"
proof (induction es arbitrary: s)
  case Nil
  then show ?case by simp
next
  case (Cons e es)
  then have "lvl s k \<le> lvl (step s e) k" by (auto intro: step_mono)
  also have "\<dots> \<le> lvl (foldl step (step s e) es) k"
    using Cons by (auto intro: step_inv)
  finally show ?case by simp
qed

text \<open>A level once passed is never seen again.\<close>

lemma run_passed:
  "inv s \<Longrightarrow> adm_run adm step s es \<Longrightarrow> n < lvl s k \<Longrightarrow> lvl (foldl step s es) k \<noteq> n"
  using run_mono [of s es k] by auto

end

text \<open>
  Components whose threads interleave are step relations; \<open>reach_inv\<close> carries an invariant
  along a run of any length.
\<close>

locale relation_machine =
  fixes step :: "'s \<Rightarrow> 's \<Rightarrow> bool"
    and inv :: "'s \<Rightarrow> bool"
  assumes step_keeps: "inv s \<Longrightarrow> step s s' \<Longrightarrow> inv s'"
begin

lemma reach_inv: "step\<^sup>*\<^sup>* s s' \<Longrightarrow> inv s \<Longrightarrow> inv s'"
  by (induction rule: rtranclp_induct) (auto intro: step_keeps)

end

end
