(* ===== verification/BTree_Map.thy ===== *)
theory BTree_Map
  imports Fabric_Prelude
begin

text \<open>
  The \<open>BTreeMap<String, V>\<close> of the standard library, as the code uses it: an association
  list in strictly increasing key order, so that \<open>values()\<close> and \<open>keys()\<close> iterate the way
  the program does. The locale \<open>ordered_map\<close> is the interface its clients rely on (the
  lease table, the task table, the fence files, JSON objects); it is interpreted on the
  sorted list below.
\<close>

type_synonym 'v btree = "(string \<times> 'v) list"

fun bt_get :: "'v btree \<Rightarrow> string \<Rightarrow> 'v option" where
  "bt_get [] k = None"
| "bt_get ((a, b) # m) k = (if k = a then Some b else bt_get m k)"

fun bt_insert :: "string \<Rightarrow> 'v \<Rightarrow> 'v btree \<Rightarrow> 'v btree" where
  "bt_insert k v [] = [(k, v)]"
| "bt_insert k v ((a, b) # m) =
     (if k < a then (k, v) # (a, b) # m
      else if k = a then (k, v) # m
      else (a, b) # bt_insert k v m)"

fun bt_remove :: "string \<Rightarrow> 'v btree \<Rightarrow> 'v btree" where
  "bt_remove k [] = []"
| "bt_remove k ((a, b) # m) = (if k = a then m else (a, b) # bt_remove k m)"

definition bt_keys :: "'v btree \<Rightarrow> string list" where
  "bt_keys m = map fst m"

definition bt_values :: "'v btree \<Rightarrow> 'v list" where
  "bt_values m = map snd m"

definition bt_wf :: "'v btree \<Rightarrow> bool" where
  "bt_wf m \<longleftrightarrow> sorted_wrt (<) (map fst m)"

definition bt_of_list :: "(string \<times> 'v) list \<Rightarrow> 'v btree" where
  "bt_of_list kvs = fold (\<lambda>(k, v). bt_insert k v) kvs []"

text \<open>\<open>values_mut()\<close> with an in-place update of every value.\<close>

definition bt_map :: "('v \<Rightarrow> 'w) \<Rightarrow> 'v btree \<Rightarrow> 'w btree" where
  "bt_map f m = map (\<lambda>(k, v). (k, f v)) m"

section \<open>The interface\<close>

locale ordered_map =
  fixes wf :: "'m \<Rightarrow> bool"
    and empty :: 'm
    and get :: "'m \<Rightarrow> 'k \<Rightarrow> 'v option"
    and put :: "'k \<Rightarrow> 'v \<Rightarrow> 'm \<Rightarrow> 'm"
    and del :: "'k \<Rightarrow> 'm \<Rightarrow> 'm"
    and entries :: "'m \<Rightarrow> ('k \<times> 'v) list"
  assumes wf_empty: "wf empty"
    and get_empty: "get empty k = None"
    and wf_put: "wf m \<Longrightarrow> wf (put k v m)"
    and get_put: "wf m \<Longrightarrow> get (put k v m) k' = (if k' = k then Some v else get m k')"
    and wf_del: "wf m \<Longrightarrow> wf (del k m)"
    and get_del: "wf m \<Longrightarrow> get (del k m) k' = (if k' = k then None else get m k')"
    and entries_get: "wf m \<Longrightarrow> (k, v) \<in> set (entries m) \<longleftrightarrow> get m k = Some v"
    and entries_distinct: "wf m \<Longrightarrow> distinct (map fst (entries m))"
    and get_ext: "wf m \<Longrightarrow> wf m' \<Longrightarrow> (\<And>k. get m k = get m' k) \<Longrightarrow> m = m'"
begin

lemma value_iff: "wf m \<Longrightarrow> v \<in> snd ` set (entries m) \<longleftrightarrow> (\<exists>k. get m k = Some v)"
  by (force simp: entries_get [symmetric])

lemma put_put: "wf m \<Longrightarrow> put k v (put k w m) = put k v m"
  by (rule get_ext) (simp_all add: wf_put get_put)

lemma put_commute: "wf m \<Longrightarrow> k \<noteq> k' \<Longrightarrow> put k v (put k' w m) = put k' w (put k v m)"
  by (rule get_ext) (simp_all add: wf_put get_put)

lemma put_same: "wf m \<Longrightarrow> get m k = Some v \<Longrightarrow> put k v m = m"
  by (rule get_ext) (auto simp: wf_put get_put)

lemma del_put: "wf m \<Longrightarrow> get m k = None \<Longrightarrow> del k (put k v m) = m"
  by (rule get_ext) (auto simp: wf_put get_put wf_del get_del)

lemma wf_fold_put: "wf m \<Longrightarrow> wf (fold (\<lambda>(k, v). put k v) kvs m)"
  by (induction kvs arbitrary: m) (auto simp: wf_put)

lemma get_fold_put:
  "wf m \<Longrightarrow> get (fold (\<lambda>(k, v). put k v) kvs m) k =
     (case map_of (rev kvs) k of Some v \<Rightarrow> Some v | None \<Rightarrow> get m k)"
proof (induction kvs arbitrary: m)
  case Nil
  then show ?case by simp
next
  case (Cons x kvs)
  obtain a b where x: "x = (a, b)" by (cases x)
  from Cons show ?case unfolding x
    by (auto simp: wf_put get_put map_add_def split: option.splits)
qed

text \<open>
  Storing the pairs of a map one by one, in any order and with repetitions, rebuilds it.
\<close>

lemma rebuild_from:
  assumes m: "wf m" and pairs: "\<And>k v. (k, v) \<in> set kvs \<longleftrightarrow> get m k = Some v"
  shows "fold (\<lambda>(k, v). put k v) kvs empty = m"
proof (rule get_ext)
  show "wf (fold (\<lambda>(k, v). put k v) kvs empty)"
    by (simp add: wf_fold_put wf_empty)
  show "wf m" by (rule m)
  fix k
  have "map_of (rev kvs) k = get m k"
  proof (cases "map_of (rev kvs) k")
    case None
    then have "(k, v) \<notin> set kvs" for v by (force simp: map_of_eq_None_iff)
    with None pairs show ?thesis by (cases "get m k") auto
  next
    case (Some v)
    then have "(k, v) \<in> set kvs" using map_of_SomeD by force
    with Some pairs show ?thesis by simp
  qed
  then show "get (fold (\<lambda>(k, v). put k v) kvs empty) k = get m k"
    by (simp add: get_fold_put wf_empty get_empty split: option.splits)
qed

lemma rebuild: "wf m \<Longrightarrow> fold (\<lambda>(k, v). put k v) (entries m) empty = m"
  by (rule rebuild_from) (simp_all add: entries_get)

end

section \<open>The sorted list implements it\<close>

lemma bt_wf_Nil [simp]: "bt_wf []"
  by (simp add: bt_wf_def)

lemma bt_wf_Cons [simp]: "bt_wf ((a, b) # m) \<longleftrightarrow> (\<forall>k \<in> fst ` set m. a < k) \<and> bt_wf m"
  by (simp add: bt_wf_def)

lemma keys_bt_insert: "fst ` set (bt_insert k v m) = insert k (fst ` set m)"
  by (induction k v m rule: bt_insert.induct) (simp_all add: insert_commute)

lemma keys_bt_remove: "fst ` set (bt_remove k m) \<subseteq> fst ` set m"
  by (induction k m rule: bt_remove.induct) (simp_all add: subset_insertI2 subset_insertI)

lemma bt_wf_insert: "bt_wf m \<Longrightarrow> bt_wf (bt_insert k v m)"
proof (induction m)
  case Nil
  then show ?case by simp
next
  case (Cons x m)
  obtain a b where x: "x = (a, b)" by (cases x)
  from Cons show ?case unfolding x by (auto simp: keys_bt_insert)
qed

lemma bt_wf_remove: "bt_wf m \<Longrightarrow> bt_wf (bt_remove k m)"
proof (induction m)
  case Nil
  then show ?case by simp
next
  case (Cons x m)
  obtain a b where x: "x = (a, b)" by (cases x)
  from Cons.prems have "\<forall>c \<in> fst ` set (bt_remove k m). a < c"
    unfolding x bt_wf_Cons using keys_bt_remove [of k m] by blast
  with Cons show ?case unfolding x by simp
qed

lemma bt_get_insert: "bt_get (bt_insert k v m) k' = (if k' = k then Some v else bt_get m k')"
  by (induction m) auto

lemma bt_get_None: "k \<notin> fst ` set m \<Longrightarrow> bt_get m k = None"
  by (induction m) auto

lemma bt_get_remove:
  "bt_wf m \<Longrightarrow> bt_get (bt_remove k m) k' = (if k' = k then None else bt_get m k')"
proof (induction m)
  case Nil
  then show ?case by simp
next
  case (Cons x m)
  obtain a b where x: "x = (a, b)" by (cases x)
  from Cons.prems have "a \<notin> fst ` set m" unfolding x by auto
  then have "bt_get m a = None" by (rule bt_get_None)
  with Cons show ?case unfolding x by auto
qed

lemma bt_get_in: "bt_wf m \<Longrightarrow> (k, v) \<in> set m \<longleftrightarrow> bt_get m k = Some v"
proof (induction m)
  case Nil
  then show ?case by simp
next
  case (Cons x m)
  obtain a b where x: "x = (a, b)" by (cases x)
  from Cons.prems have "a \<notin> fst ` set m" unfolding x by auto
  then have "(a, v) \<notin> set m" by force
  with Cons show ?case unfolding x by auto
qed

lemma bt_wf_distinct: "bt_wf m \<Longrightarrow> distinct (map fst m)"
  by (induction m) force+

lemma bt_get_ext:
  assumes "bt_wf m" "bt_wf m'" "\<And>k. bt_get m k = bt_get m' k"
  shows "m = m'"
proof (rule map_sorted_distinct_set_unique [where f = fst])
  have "set m = set m'" using assms by (auto simp: bt_get_in)
  then show "set m = set m'" .
  show "inj_on fst (set m \<union> set m')"
    using assms(1,2) \<open>set m = set m'\<close> bt_wf_distinct [of m] by (simp add: distinct_map)
qed (use assms bt_wf_distinct in \<open>auto simp: bt_wf_def strict_sorted_iff\<close>)

interpretation bt: ordered_map bt_wf "[]" bt_get bt_insert bt_remove "\<lambda>m. m"
proof (unfold_locales, goal_cases)
  case (9 m m')
  then show ?case by (rule bt_get_ext)
qed (simp_all add: bt_wf_insert bt_wf_remove bt_get_insert bt_get_remove bt_get_in bt_wf_distinct)

lemmas bt_simps = bt_wf_insert bt_wf_remove bt_get_insert bt_get_remove

lemma bt_wf_of_list [simp]: "bt_wf (bt_of_list kvs)"
  by (simp add: bt_of_list_def bt.wf_fold_put)

lemma bt_get_of_list: "bt_get (bt_of_list kvs) k = map_of (rev kvs) k"
  by (simp add: bt_of_list_def bt.get_fold_put split: option.splits)

lemma bt_of_list_id: "bt_wf m \<Longrightarrow> bt_of_list m = m"
  unfolding bt_of_list_def by (rule bt.rebuild)

lemma bt_wf_map [simp]: "bt_wf (bt_map f m) \<longleftrightarrow> bt_wf m"
  by (simp add: bt_wf_def bt_map_def comp_def case_prod_beta')

lemma bt_get_map [simp]: "bt_get (bt_map f m) k = map_option f (bt_get m k)"
  by (induction m) (auto simp: bt_map_def)

lemma bt_values_map [simp]: "bt_values (bt_map f m) = map f (bt_values m)"
  by (simp add: bt_values_def bt_map_def comp_def case_prod_beta')

lemma bt_values_iff: "bt_wf m \<Longrightarrow> v \<in> set (bt_values m) \<longleftrightarrow> (\<exists>k. bt_get m k = Some v)"
  by (simp add: bt_values_def bt.value_iff)

lemma bt_wf_filter: "bt_wf m \<Longrightarrow> bt_wf (filter p m)"
  by (auto simp: bt_wf_def sorted_wrt_map intro: sorted_wrt_filter)

lemma bt_get_filter:
  "bt_wf m \<Longrightarrow> bt_get (filter (\<lambda>(k, v). p v) m) k =
     (case bt_get m k of Some v \<Rightarrow> if p v then Some v else None | None \<Rightarrow> None)"
proof (induction m)
  case Nil
  then show ?case by simp
next
  case (Cons x m)
  obtain a b where x: "x = (a, b)" by (cases x)
  from Cons.prems have "a \<notin> fst ` set m" unfolding x by auto
  then have "bt_get m a = None" by (rule bt_get_None)
  with Cons show ?case unfolding x by (auto split: option.splits)
qed

text \<open>
  Removing, one by one, the values that satisfy \<open>p\<close> (each under its own key) leaves the
  others and hands the removed ones back in key order.
\<close>

lemma bt_remove_all:
  assumes "bt_wf m"
  shows "bt_wf (fold bt_remove ks m)"
    and "bt_get (fold bt_remove ks m) k = (if k \<in> set ks then None else bt_get m k)"
  using assms
  by (induction ks arbitrary: m) (auto simp: bt_simps)

lemma bt_remove_matching:
  assumes "bt_wf m" and keys: "\<And>k v. bt_get m k = Some v \<Longrightarrow> key v = k"
  shows "fold bt_remove (map key (filter p (bt_values m))) m = filter (\<lambda>(k, v). \<not> p v) m"
proof (rule bt_get_ext)
  fix k
  have "k \<in> set (map key (filter p (bt_values m))) \<longleftrightarrow> (\<exists>v. bt_get m k = Some v \<and> p v)"
    using assms by (force simp: bt_values_iff)
  then show "bt_get (fold bt_remove (map key (filter p (bt_values m))) m) k
      = bt_get (filter (\<lambda>(k, v). \<not> p v) m) k"
    using assms(1) by (auto simp: bt_remove_all bt_get_filter split: option.splits)
qed (simp_all add: assms(1) bt_remove_all bt_wf_filter)

end
