(* ===== verification/Json_Value.thy ===== *)
theory Json_Value
  imports BTree_Map Complex_Main
begin

text \<open>
  The JSON values the program receives, stores and returns (\<open>serde_json::Value\<close> in its
  default configuration: objects are \<open>BTreeMap\<close>s) with the accessors the code calls:
  \<open>get\<close>, indexing, \<open>pointer\<close>, the \<open>as_*\<close> conversions and comparison with Rust literals.
  A float is the rational its finite double denotes.
\<close>

datatype jnum = PosInt u64 | NegInt int | Float rat

datatype json =
    JNull
  | JBool bool
  | JNum jnum
  | JStr string
  | JArr "json list"
  | JObj "(string \<times> json) list"

type_synonym json_object = "json btree"

section \<open>Accessors\<close>

fun as_bool :: "json \<Rightarrow> bool option" where
  "as_bool (JBool b) = Some b"
| "as_bool _ = None"

fun as_u64 :: "json \<Rightarrow> u64 option" where
  "as_u64 (JNum (PosInt n)) = Some n"
| "as_u64 _ = None"

fun as_str :: "json \<Rightarrow> string option" where
  "as_str (JStr s) = Some s"
| "as_str _ = None"

fun as_array :: "json \<Rightarrow> json list option" where
  "as_array (JArr xs) = Some xs"
| "as_array _ = None"

fun as_object :: "json \<Rightarrow> json_object option" where
  "as_object (JObj m) = Some m"
| "as_object _ = None"

definition jget :: "json \<Rightarrow> string \<Rightarrow> json option" where
  "jget v k = (case v of JObj m \<Rightarrow> bt_get m k | _ \<Rightarrow> None)"

text \<open>\<open>v[k]\<close>: \<open>Null\<close> where the key or the object is missing.\<close>

definition jidx :: "json \<Rightarrow> string \<Rightarrow> json" where
  "jidx v k = (case jget v k of Some x \<Rightarrow> x | None \<Rightarrow> JNull)"

text \<open>\<open>v[k] = x\<close>: inserts into an object, turns \<open>Null\<close> into one, panics on anything else.\<close>

definition jset :: "json \<Rightarrow> string \<Rightarrow> json \<Rightarrow> json option" where
  "jset v k x = (case v of
     JObj m \<Rightarrow> Some (JObj (bt_insert k x m))
   | JNull \<Rightarrow> Some (JObj [(k, x)])
   | _ \<Rightarrow> None)"

text \<open>\<open>v.pointer("/a/b")\<close> with the path already split.\<close>

fun pointer :: "json \<Rightarrow> string list \<Rightarrow> json option" where
  "pointer v [] = Some v"
| "pointer v (k # ks) = (case jget v k of Some x \<Rightarrow> pointer x ks | None \<Rightarrow> None)"

text \<open>\<open>json!({...})\<close>.\<close>

definition jobj :: "(string \<times> json) list \<Rightarrow> json" where
  "jobj kvs = JObj (bt_of_list kvs)"

abbreviation ju64 :: "u64 \<Rightarrow> json" where
  "ju64 n \<equiv> JNum (PosInt n)"

abbreviation jnat :: "nat \<Rightarrow> json" where
  "jnat n \<equiv> JNum (PosInt (of_nat n))"

definition jopt :: "('a \<Rightarrow> json) \<Rightarrow> 'a option \<Rightarrow> json" where
  "jopt f x = (case x of Some a \<Rightarrow> f a | None \<Rightarrow> JNull)"

text \<open>Comparison of a value with a Rust literal (\<open>v == true\<close>, \<open>v == "s"\<close>, \<open>v == 1\<close>).\<close>

definition eq_bool :: "json \<Rightarrow> bool \<Rightarrow> bool" where
  "eq_bool v b \<longleftrightarrow> as_bool v = Some b"

definition eq_str :: "json \<Rightarrow> string \<Rightarrow> bool" where
  "eq_str v s \<longleftrightarrow> as_str v = Some s"

definition eq_u64 :: "json \<Rightarrow> u64 \<Rightarrow> bool" where
  "eq_u64 v n \<longleftrightarrow> as_u64 v = Some n"

section \<open>Laws\<close>

lemma as_u64_Some [simp]: "as_u64 v = Some n \<longleftrightarrow> v = ju64 n"
  by (cases v rule: as_u64.cases) auto

lemma as_str_Some [simp]: "as_str v = Some s \<longleftrightarrow> v = JStr s"
  by (cases v) auto

lemma as_bool_Some [simp]: "as_bool v = Some b \<longleftrightarrow> v = JBool b"
  by (cases v) auto

lemma jget_non_object [simp]:
  "jget JNull k = None" "jget (JBool b) k = None" "jget (JNum n) k = None"
  "jget (JStr s) k = None" "jget (JArr xs) k = None"
  by (simp_all add: jget_def)

lemma jget_obj [simp]: "jget (JObj m) k = bt_get m k"
  by (simp add: jget_def)

lemma jget_jobj [simp]: "jget (jobj kvs) k = map_of (rev kvs) k"
  by (simp add: jobj_def bt_get_of_list)

lemma jidx_jobj [simp]: "jidx (jobj kvs) k = (case map_of (rev kvs) k of Some x \<Rightarrow> x | None \<Rightarrow> JNull)"
  by (simp add: jidx_def)

lemma jidx_neq_Null: "jidx v k \<noteq> JNull \<Longrightarrow> \<exists>m. v = JObj m"
  by (cases v) (auto simp: jidx_def)

lemma jget_jset: "jset v k x = Some v' \<Longrightarrow> jget v' k' = (if k' = k then Some x else jget v k')"
  by (auto simp: jset_def bt_get_insert split: json.splits)

lemma jset_None_iff: "jset v k x = None \<longleftrightarrow> as_object v = None \<and> v \<noteq> JNull"
  by (cases v) (auto simp: jset_def)

end
