(* ===== verification/Schema_Types.thy ===== *)
theory Schema_Types
  imports Json_Value
begin

text \<open>
  The wire and storage types of \<open>machine-fabric-schema\<close> and the RPC envelope of
  \<open>machine-fabric-protocol\<close>: every struct is a record with the source's fields (prefixed,
  since Isabelle's field names are global), every enum a datatype with the source's
  variants. \<open>terminal\<close>, the request and response constructors and \<open>RpcError::new\<close> are
  the operations these crates define.
\<close>

section \<open>RPC envelope\<close>

record rpc_error =
  code :: string
  message :: string
  retryable :: bool
  details :: json

definition rpc_error_new :: "string \<Rightarrow> string \<Rightarrow> rpc_error" where
  "rpc_error_new c m = \<lparr>code = c, message = m, retryable = False, details = JNull\<rparr>"

type_synonym 'a rpc = "(rpc_error, 'a) outcome"

definition RPC_VERSION :: string where
  "RPC_VERSION = ''machine-fabric.dev/v1''"

record request =
  rq_api_version :: string
  rq_request_id :: string
  rq_correlation_id :: "string option"
  rq_parent_request_id :: "string option"
  rq_action :: string
  rq_params :: json

text \<open>The generated part of \<open>request_id\<close> (a random UUID) is the argument \<open>uuid\<close>.\<close>

definition request_new :: "string \<Rightarrow> string \<Rightarrow> json \<Rightarrow> request" where
  "request_new uuid action params =
     \<lparr>rq_api_version = RPC_VERSION, rq_request_id = ''req_'' @ uuid,
      rq_correlation_id = Some (''req_'' @ uuid), rq_parent_request_id = None,
      rq_action = action, rq_params = params\<rparr>"

definition request_child :: "string \<Rightarrow> request \<Rightarrow> string \<Rightarrow> json \<Rightarrow> request" where
  "request_child uuid parent action params =
     (request_new uuid action params)
       \<lparr>rq_correlation_id := Some (case rq_correlation_id parent of
            Some c \<Rightarrow> c | None \<Rightarrow> rq_request_id parent),
        rq_parent_request_id := Some (rq_request_id parent)\<rparr>"

record response =
  rs_ok :: bool
  rs_api_version :: string
  rs_request_id :: string
  rs_result :: "json option"
  rs_error :: "rpc_error option"

definition response_success :: "string \<Rightarrow> json \<Rightarrow> response" where
  "response_success rid v =
     \<lparr>rs_ok = True, rs_api_version = RPC_VERSION, rs_request_id = rid,
      rs_result = Some v, rs_error = None\<rparr>"

definition response_failure :: "string \<Rightarrow> rpc_error \<Rightarrow> response" where
  "response_failure rid e =
     \<lparr>rs_ok = False, rs_api_version = RPC_VERSION, rs_request_id = rid,
      rs_result = None, rs_error = Some e\<rparr>"

section \<open>Sessions, executors, controllers\<close>

record metadata =
  md_id :: string
  md_labels :: "string btree"
  md_created_at :: u64
  md_updated_at :: u64

datatype session_state = SessionActive | SessionCompleted | SessionArchived

record session_authority =
  sa_controller_id :: string
  sa_epoch :: u64
  sa_pending_controller_id :: "string option"

record workspace_session =
  ws_api_version :: string
  ws_metadata :: metadata
  ws_objective :: string
  ws_state :: session_state
  ws_authority :: "session_authority option"

datatype executor_endpoint =
    EpLocal (ep_socket: string)
  | EpSsh string string "string option"
  | EpCommand string "string list" "string option"

datatype health_status = HealthReady | HealthDegraded | HealthOffline | HealthUnknown

section \<open>Capability contracts\<close>

record retry_policy =
  rp_max_attempts :: u32
  rp_retryable_errors :: "string list"
  rp_backoff_ms :: u64

definition default_attempts :: u32 where
  "default_attempts = 1"

definition retry_policy_default :: retry_policy where
  "retry_policy_default = \<lparr>rp_max_attempts = 1, rp_retryable_errors = [], rp_backoff_ms = 0\<rparr>"

datatype lock_mode = LockShared | LockExclusive

record lock_template =
  lk_key :: string
  lk_mode :: lock_mode

record idempotency_contract =
  ic_key_fields :: "string list"
  ic_retention_ms :: u64

definition default_idempotency_ttl :: u64 where
  "default_idempotency_ttl = 86400000"

datatype rollback_strategy =
    RollbackNone | RollbackCompensate string | RetainPreviousGeneration

datatype health_check = HealthCheckNone | HealthCheckCapability string | HealthCheckProcess

datatype effect = ReadOnly | Mutating | Destructive

record capability_descriptor =
  cd_name :: string
  cd_version :: string
  cd_input_schema :: json
  cd_output_schema :: json
  cd_required_executor_features :: "string list"
  cd_locks :: "lock_template list"
  cd_idempotency :: idempotency_contract
  cd_timeout_ms :: u64
  cd_retry :: retry_policy
  cd_rollback :: rollback_strategy
  cd_health_check :: health_check
  cd_emitted_evidence :: "string list"
  cd_effect :: effect

record executor_entry =
  ex_api_version :: string
  ex_metadata :: metadata
  ex_endpoint :: executor_endpoint
  ex_capabilities :: "capability_descriptor list"
  ex_allowed_roots :: "string list"
  ex_health :: health_status

record controller_peer =
  cp_api_version :: string
  cp_metadata :: metadata
  cp_endpoint :: executor_endpoint
  cp_health :: health_status

section \<open>Leases and tasks\<close>

datatype lease_kind = Driver | Resource

record lease =
  l_id :: string
  l_kind :: lease_kind
  l_resource :: string
  l_owner :: string
  l_token :: string
  l_fence :: u64
  l_acquired_at :: u64
  l_updated_at :: u64
  l_expires_at :: u64
  l_handoff_to :: "string option"

datatype task_state =
    Queued | Running | Succeeded | Failed | Cancelled | TimedOut | OutcomeUnknown

fun terminal :: "task_state \<Rightarrow> bool" where
  "terminal Succeeded = True"
| "terminal Failed = True"
| "terminal Cancelled = True"
| "terminal TimedOut = True"
| "terminal OutcomeUnknown = True"
| "terminal _ = False"

text \<open>The name serde gives a variant (\<open>rename_all = "kebab-case"\<close>).\<close>

fun task_state_name :: "task_state \<Rightarrow> string" where
  "task_state_name Queued = ''queued''"
| "task_state_name Running = ''running''"
| "task_state_name Succeeded = ''succeeded''"
| "task_state_name Failed = ''failed''"
| "task_state_name Cancelled = ''cancelled''"
| "task_state_name TimedOut = ''timed-out''"
| "task_state_name OutcomeUnknown = ''outcome-unknown''"

record task_payload_ref =
  pr_digest :: string
  pr_bytes :: u64
  pr_locator :: string
  pr_chunk :: "string option"

record task_event =
  ev_sequence :: u64
  ev_timestamp :: u64
  ev_event_type :: string
  ev_details :: json

record task_failure =
  tf_code :: string
  tf_message :: string
  tf_retryable :: bool
  tf_details :: json

record task =
  t_id :: string
  t_correlation_id :: "string option"
  t_request_id :: "string option"
  t_workspace_session_id :: string
  t_executor_id :: string
  t_capability :: string
  t_input :: json
  t_input_ref :: "task_payload_ref option"
  t_output :: "json option"
  t_output_ref :: "task_payload_ref option"
  t_error :: "task_failure option"
  t_idempotency_key :: string
  t_state :: task_state
  t_attempt :: u32
  t_revision :: u64
  t_created_at :: u64
  t_updated_at :: u64
  t_events :: "task_event list"

section \<open>Artifacts, generations and activation transactions\<close>

datatype artifact_location = LocFile string string | LocUrl string

record provenance =
  pv_workspace_session_id :: string
  pv_task_id :: "string option"
  pv_source_digests :: "string list"
  pv_attributes :: "string btree"

record artifact =
  ar_digest :: string
  ar_artifact_type :: string
  ar_schema :: string
  ar_size :: u64
  ar_locations :: "artifact_location list"
  ar_provenance :: provenance
  ar_created_at :: u64

datatype generation_state =
    GenReserved | GenMaterializing | GenMaterialized | GenValidated | GenFinalized
  | GenSmokePassed | GenActive | GenSuperseded | GenFailed

record baseline_identity =
  bl_digest :: string
  bl_source :: string
  bl_identifier :: "string option"
  bl_version :: "string option"
  bl_attributes :: "string btree"

record evidence_result =
  er_passed :: bool
  er_checked_at :: u64
  er_summary :: string
  er_artifacts :: "string list"
  er_details :: json

record generation =
  g_id :: string
  g_workspace_session_id :: string
  g_application_type :: string
  g_root :: string
  g_state :: generation_state
  g_baseline :: baseline_identity
  g_applied_artifacts :: "string list"
  g_digest :: string
  g_created_at :: u64
  g_activated_at :: "u64 option"
  g_validation :: "evidence_result option"
  g_finalization :: "evidence_result option"
  g_smoke :: "evidence_result option"
  g_failure :: "task_failure option"

datatype transaction_state =
    TxPlanned | TxRunning | TxOutcomeUnknown | TxActivated | TxRolledBack | TxFailed

datatype transaction_step_state =
    StepPlanned | StepStarted | StepSucceeded | StepFailed | StepCompensated | StepOutcomeUnknown

record transaction_journal_entry =
  je_sequence :: u64
  je_step :: string
  je_state :: transaction_step_state
  je_attempt :: u32
  je_started_at :: u64
  je_finished_at :: "u64 option"
  je_input_digest :: "string option"
  je_output_digest :: "string option"
  je_executor_id :: "string option"
  je_fence :: "u64 option"
  je_details :: json

record activation_transaction =
  tx_id :: string
  tx_workspace_session_id :: string
  tx_idempotency_key :: string
  tx_target :: string
  tx_generation_id :: string
  tx_previous_generation_id :: "string option"
  tx_state :: transaction_state
  tx_created_at :: u64
  tx_updated_at :: u64
  tx_completed_steps :: "string list"
  tx_journal :: "transaction_journal_entry list"
  tx_lease_fence :: "u64 option"
  tx_evidence :: "string list"
  tx_error :: "task_failure option"

section \<open>Agents, handoffs and approvals\<close>

datatype agent_state = AgentStarting | AgentRunning | AgentStopped | AgentFailed

record agent_instance =
  ag_id :: string
  ag_workspace_session_id :: string
  ag_executor_id :: string
  ag_role :: string
  ag_provider :: string
  ag_state :: agent_state
  ag_metadata :: json

record agent_role_ref =
  ref_agent_id :: "string option"
  ref_role :: string

record pending_action =
  pa_capability :: string
  pa_input :: json

record handoff_artifact =
  ha_artifact_type :: string
  ha_digest :: string
  ha_generation :: "string option"
  ha_provenance :: json
  ha_location :: "artifact_location option"

record handoff =
  ho_id :: string
  ho_workspace_session_id :: string
  ho_objective :: string
  ho_from :: agent_role_ref
  ho_to :: agent_role_ref
  ho_artifacts :: "handoff_artifact list"
  ho_evidence :: "json list"
  ho_completed_actions :: "pending_action list"
  ho_pending_actions :: "pending_action list"
  ho_acceptance_criteria :: "string list"
  ho_constraints :: "string list"
  ho_blockers :: "string list"
  ho_created_at :: u64
  ho_acknowledged_at :: "u64 option"
  ho_completed_at :: "u64 option"

datatype approval_state =
    ApprovalPending | ApprovalApproved | ApprovalConsumed | ApprovalRevoked | ApprovalExpired

record approval =
  ap_id :: string
  ap_digest :: string
  ap_owner :: string
  ap_reason :: string
  ap_state :: approval_state
  ap_created_at :: u64
  ap_approved_at :: "u64 option"
  ap_consumed_at :: "u64 option"
  ap_expires_at :: "u64 option"

lemma terminal_iff: "terminal st \<longleftrightarrow> st \<noteq> Queued \<and> st \<noteq> Running"
  by (cases st) auto

lemma task_state_name_inject [simp]: "task_state_name a = task_state_name b \<longleftrightarrow> a = b"
  by (cases a; cases b) simp_all

lemma rpc_error_new_code [simp]: "code (rpc_error_new c m) = c"
  by (simp add: rpc_error_new_def)

end
