(* ===== verification/Lease_Table.thy ===== *)
theory Lease_Table
  imports Schema_Types
begin

text \<open>
  The lease table of \<open>machine-fabric-core\<close> (\<open>lease.rs\<close>): exclusive, expiring leases on
  named resources, each with a fencing number that outlives the lease. The clock reading
  of each \<open>now_ms()\<close> call and each generated UUID is an argument of the operation that
  makes it; nothing is assumed about successive readings.
\<close>

datatype lease_error =
    LeaseActive string u64
  | LeaseNotFound
  | LeaseOwnedByOther
  | LeaseInvalidHandoff

record lease_table =
  leases :: "lease btree"
  fences :: "u64 btree"

definition lease_table_default :: lease_table where
  "lease_table_default = \<lparr>leases = [], fences = []\<rparr>"

section \<open>Operations\<close>

definition restore_lease :: "lease_table \<Rightarrow> lease \<Rightarrow> lease_table" where
  "restore_lease t l =
     (let fence = (case bt_get (fences t) (l_resource l) of Some f \<Rightarrow> f | None \<Rightarrow> 0)
      in \<lparr>leases = bt_insert (l_resource l) l (leases t),
          fences = bt_insert (l_resource l) (max fence (l_fence l)) (fences t)\<rparr>)"

definition from_snapshot :: "lease list \<Rightarrow> u64 btree \<Rightarrow> lease_table" where
  "from_snapshot ls fs = foldl restore_lease \<lparr>leases = [], fences = fs\<rparr> ls"

definition from_leases :: "lease list \<Rightarrow> lease_table" where
  "from_leases ls = from_snapshot ls []"

definition fence_of :: "lease_table \<Rightarrow> string \<Rightarrow> u64" where
  "fence_of t r = (case bt_get (fences t) r of Some f \<Rightarrow> f | None \<Rightarrow> 0)"

text \<open>
  \<open>acquire\<close>: refused while the resource has an unexpired lease; otherwise the next fence
  is stored and a fresh lease with it replaces whatever was there.
\<close>

definition acquire ::
  "u64 \<Rightarrow> string \<Rightarrow> string \<Rightarrow> lease_kind \<Rightarrow> string \<Rightarrow> string \<Rightarrow> u64 \<Rightarrow> lease_table
     \<Rightarrow> lease_table \<times> (lease_error, lease) outcome" where
  "acquire now uid utok kind resource owner ttl_ms t =
     (let active = (case bt_get (leases t) resource of
            Some existing \<Rightarrow> if l_expires_at existing > now then Some existing else None
          | None \<Rightarrow> None)
      in case active of
           Some existing \<Rightarrow> (t, Err (LeaseActive (l_owner existing) (l_expires_at existing)))
         | None \<Rightarrow>
             let fence = fence_of t resource + 1;
                 lease = \<lparr>l_id = ''lease_'' @ uid, l_kind = kind, l_resource = resource,
                          l_owner = owner, l_token = ''token_'' @ utok, l_fence = fence,
                          l_acquired_at = now, l_updated_at = now,
                          l_expires_at = sat_add now ttl_ms, l_handoff_to = None\<rparr>
             in (\<lparr>leases = bt_insert resource lease (leases t),
                  fences = bt_insert resource fence (fences t)\<rparr>, Ok lease))"

definition get_lease :: "lease_table \<Rightarrow> string \<Rightarrow> lease option" where
  "get_lease t resource = bt_get (leases t) resource"

definition validate :: "u64 \<Rightarrow> string \<Rightarrow> string \<Rightarrow> string \<Rightarrow> lease_table \<Rightarrow> (lease_error, lease) outcome"
where
  "validate now resource owner token t =
     (case bt_get (leases t) resource of
        None \<Rightarrow> Err LeaseNotFound
      | Some l \<Rightarrow>
          if l_expires_at l \<le> now then Err LeaseNotFound
          else if l_owner l \<noteq> owner \<or> l_token l \<noteq> token then Err LeaseOwnedByOther
          else Ok l)"

text \<open>
  The operations that change a validated lease: \<open>get_mut(...).expect("validated lease")\<close>
  panics if the lease is gone, \<open>update_lease\<close> stores the changed one. \<open>now1\<close> is the
  reading inside \<open>validate\<close>, \<open>now2\<close> the caller's own.
\<close>

definition update_lease ::
  "string \<Rightarrow> (lease \<Rightarrow> lease) \<Rightarrow> lease_table \<Rightarrow> lease_table \<times> (lease_error, lease) outcome" where
  "update_lease resource f t =
     (case bt_get (leases t) resource of
        None \<Rightarrow> (t, Panic)
      | Some l \<Rightarrow> (t\<lparr>leases := bt_insert resource (f l) (leases t)\<rparr>, Ok (f l)))"

definition renew ::
  "u64 \<Rightarrow> u64 \<Rightarrow> string \<Rightarrow> string \<Rightarrow> string \<Rightarrow> u64 \<Rightarrow> lease_table
     \<Rightarrow> lease_table \<times> (lease_error, lease) outcome" where
  "renew now1 now2 resource owner token ttl_ms t =
     sbind (lift_res t (validate now1 resource owner token t))
       (\<lambda>t _. update_lease resource
          (\<lambda>l. l\<lparr>l_updated_at := now2, l_expires_at := sat_add now2 ttl_ms\<rparr>) t)"

definition handoff_lease ::
  "u64 \<Rightarrow> u64 \<Rightarrow> string \<Rightarrow> string \<Rightarrow> string \<Rightarrow> string \<Rightarrow> lease_table
     \<Rightarrow> lease_table \<times> (lease_error, lease) outcome" where
  "handoff_lease now1 now2 resource owner token target t =
     sbind (lift_res t (validate now1 resource owner token t))
       (\<lambda>t _. update_lease resource
          (\<lambda>l. l\<lparr>l_handoff_to := Some target, l_updated_at := now2\<rparr>) t)"

definition take_handoff ::
  "u64 \<Rightarrow> string \<Rightarrow> string \<Rightarrow> string \<Rightarrow> u64 \<Rightarrow> lease_table
     \<Rightarrow> lease_table \<times> (lease_error, lease) outcome" where
  "take_handoff now utok resource target ttl_ms t =
     (case bt_get (leases t) resource of
        None \<Rightarrow> (t, Err LeaseNotFound)
      | Some l \<Rightarrow>
          if l_handoff_to l \<noteq> Some target then (t, Err LeaseInvalidHandoff)
          else
            let fence = (case bt_get (fences t) resource of Some f \<Rightarrow> f | None \<Rightarrow> l_fence l) + 1;
                l' = l\<lparr>l_owner := target, l_token := ''token_'' @ utok, l_fence := fence,
                       l_acquired_at := now, l_updated_at := now,
                       l_expires_at := sat_add now ttl_ms, l_handoff_to := None\<rparr>
            in (\<lparr>leases = bt_insert resource l' (leases t),
                 fences = bt_insert resource fence (fences t)\<rparr>, Ok l'))"

definition release ::
  "u64 \<Rightarrow> string \<Rightarrow> string \<Rightarrow> string \<Rightarrow> lease_table \<Rightarrow> lease_table \<times> (lease_error, lease) outcome"
where
  "release now resource owner token t =
     sbind (lift_res t (validate now resource owner token t))
       (\<lambda>t _. (t\<lparr>leases := bt_remove resource (leases t)\<rparr>,
               ok_or (bt_get (leases t) resource) LeaseNotFound))"

definition lease_snapshot :: "lease_table \<Rightarrow> lease list" where
  "lease_snapshot t = bt_values (leases t)"

definition fence_snapshot :: "lease_table \<Rightarrow> u64 btree" where
  "fence_snapshot t = fences t"

definition expired_resources :: "u64 \<Rightarrow> lease_table \<Rightarrow> string list" where
  "expired_resources now t =
     map l_resource (filter (\<lambda>l. l_expires_at l \<le> now) (bt_values (leases t)))"

definition reap_expired :: "u64 \<Rightarrow> lease_table \<Rightarrow> lease_table \<times> lease list" where
  "reap_expired now t =
     foldl (\<lambda>(t, removed) r.
              case bt_get (leases t) r of
                None \<Rightarrow> (t, removed)
              | Some l \<Rightarrow> (t\<lparr>leases := bt_remove r (leases t)\<rparr>, removed @ [l]))
           (t, []) (expired_resources now t)"

text \<open>The calls a controller makes, as events of a machine.\<close>

datatype lease_op =
    OpAcquire u64 string string lease_kind string string u64
  | OpRenew u64 u64 string string string u64
  | OpHandoff u64 u64 string string string string
  | OpTakeHandoff u64 string string string u64
  | OpRelease u64 string string string
  | OpReap u64

fun lease_step :: "lease_table \<Rightarrow> lease_op \<Rightarrow> lease_table" where
  "lease_step t (OpAcquire now uid utok kind r own ttl) = fst (acquire now uid utok kind r own ttl t)"
| "lease_step t (OpRenew n1 n2 r own tok ttl) = fst (renew n1 n2 r own tok ttl t)"
| "lease_step t (OpHandoff n1 n2 r own tok tgt) = fst (handoff_lease n1 n2 r own tok tgt t)"
| "lease_step t (OpTakeHandoff now utok r tgt ttl) = fst (take_handoff now utok r tgt ttl t)"
| "lease_step t (OpRelease now r own tok) = fst (release now r own tok t)"
| "lease_step t (OpReap now) = fst (reap_expired now t)"

text \<open>
  Well-formedness: both maps are sorted, a lease is stored under its own resource, and the
  fence recorded for a resource is at least that of its lease.
\<close>

definition lease_inv :: "lease_table \<Rightarrow> bool" where
  "lease_inv t \<longleftrightarrow>
     bt_wf (leases t) \<and> bt_wf (fences t) \<and>
     (\<forall>r l. bt_get (leases t) r = Some l \<longrightarrow>
        l_resource l = r \<and> (\<exists>f. bt_get (fences t) r = Some f \<and> l_fence l \<le> f))"

text \<open>The 64-bit fence counters have not reached their maximum.\<close>

definition fences_unsaturated :: "lease_table \<Rightarrow> bool" where
  "fences_unsaturated t \<longleftrightarrow> list_all (\<lambda>f. f \<noteq> u64_max) (bt_values (fences t))"

section \<open>Lemmas\<close>

lemmas lease_op_defs = acquire_def validate_def update_lease_def renew_def handoff_lease_def
  take_handoff_def release_def lift_res_def fence_of_def

lemma lease_invD:
  assumes "lease_inv t" "bt_get (leases t) r = Some l"
  shows "l_resource l = r" "\<exists>f. bt_get (fences t) r = Some f \<and> l_fence l \<le> f"
    "l_fence l \<le> fence_of t r"
  using assms by (fastforce simp: lease_inv_def fence_of_def)+

lemma lease_inv_fence:
  "lease_inv t \<Longrightarrow> bt_get (leases t) r = Some l \<Longrightarrow> bt_get (fences t) r = Some (fence_of t r)"
  using lease_invD(2) [of t r l] by (auto simp: fence_of_def)

lemma lease_inv_wf: "lease_inv t \<Longrightarrow> bt_wf (leases t)" "lease_inv t \<Longrightarrow> bt_wf (fences t)"
  by (simp_all add: lease_inv_def)

text \<open>Storing a lease under its resource, with a fence that covers it, keeps the invariant.\<close>

lemma lease_inv_store:
  assumes "lease_inv t" "l_resource l = r" "l_fence l \<le> f"
  shows "lease_inv \<lparr>leases = bt_insert r l (leases t), fences = bt_insert r f (fences t)\<rparr>"
  using assms by (auto simp: lease_inv_def bt_simps)

lemma lease_inv_update:
  assumes "lease_inv t" "bt_get (leases t) r = Some l"
    and "l_resource l' = l_resource l" "l_fence l' = l_fence l"
  shows "lease_inv (t\<lparr>leases := bt_insert r l' (leases t)\<rparr>)"
  using assms by (auto simp: lease_inv_def bt_simps)

lemma lease_inv_remove: "lease_inv t \<Longrightarrow> lease_inv (t\<lparr>leases := bt_remove r (leases t)\<rparr>)"
  by (auto simp: lease_inv_def bt_simps)

lemma lease_inv_default: "lease_inv lease_table_default"
  by (simp add: lease_inv_def lease_table_default_def)

lemma acquire_inv: "lease_inv t \<Longrightarrow> lease_inv (fst (acquire now uid utok kind r own ttl t))"
  by (auto simp: acquire_def Let_def split: option.splits intro!: lease_inv_store)

lemma take_handoff_inv: "lease_inv t \<Longrightarrow> lease_inv (fst (take_handoff now utok r tgt ttl t))"
  by (auto simp: take_handoff_def Let_def lease_invD(1) split: option.splits
      intro!: lease_inv_store)

lemma renew_inv: "lease_inv t \<Longrightarrow> lease_inv (fst (renew n1 n2 r own tok ttl t))"
  by (auto simp: renew_def lift_res_def validate_def update_lease_def split: option.splits
      intro!: lease_inv_update)

lemma handoff_inv: "lease_inv t \<Longrightarrow> lease_inv (fst (handoff_lease n1 n2 r own tok tgt t))"
  by (auto simp: handoff_lease_def lift_res_def validate_def update_lease_def split: option.splits
      intro!: lease_inv_update)

lemma release_inv: "lease_inv t \<Longrightarrow> lease_inv (fst (release now r own tok t))"
  by (auto simp: release_def lift_res_def validate_def split: option.splits
      intro!: lease_inv_remove)

text \<open>
  Reaping in closed form: the leases that are left are those not yet expired, the ones
  handed back are the others, and no fence changes.
\<close>

definition reap_one :: "lease_table \<times> lease list \<Rightarrow> string \<Rightarrow> lease_table \<times> lease list" where
  "reap_one = (\<lambda>(t, removed) r.
      case bt_get (leases t) r of
        None \<Rightarrow> (t, removed)
      | Some l \<Rightarrow> (t\<lparr>leases := bt_remove r (leases t)\<rparr>, removed @ [l]))"

lemma reap_one_present:
  assumes "bt_wf (leases t)" "distinct rs" "\<And>r. r \<in> set rs \<Longrightarrow> bt_get (leases t) r \<noteq> None"
  shows "foldl reap_one (t, acc) rs =
     (t\<lparr>leases := fold bt_remove rs (leases t)\<rparr>, acc @ map (\<lambda>r. the (bt_get (leases t) r)) rs)"
  using assms
proof (induction rs arbitrary: t acc)
  case Nil
  then show ?case by simp
next
  case (Cons r rs)
  obtain l where l: "bt_get (leases t) r = Some l" using Cons.prems(3) [of r] by auto
  let ?t = "t\<lparr>leases := bt_remove r (leases t)\<rparr>"
  have same: "bt_get (leases ?t) q = bt_get (leases t) q" if "q \<in> set rs" for q
    using that Cons.prems by (auto simp: bt_simps)
  have "foldl reap_one (?t, acc @ [l]) rs =
     (?t\<lparr>leases := fold bt_remove rs (leases ?t)\<rparr>,
      (acc @ [l]) @ map (\<lambda>r. the (bt_get (leases ?t) r)) rs)"
    by (rule Cons.IH) (use Cons.prems same in \<open>auto simp: bt_simps\<close>)
  moreover have "map (\<lambda>r. the (bt_get (leases ?t) r)) rs = map (\<lambda>r. the (bt_get (leases t) r)) rs"
    using same by (intro map_cong) auto
  ultimately show ?case using l by (simp add: reap_one_def)
qed

lemma reap_expired_closed:
  assumes inv: "lease_inv t"
  shows "reap_expired now t =
     (t\<lparr>leases := filter (\<lambda>(r, l). \<not> l_expires_at l \<le> now) (leases t)\<rparr>,
      filter (\<lambda>l. l_expires_at l \<le> now) (lease_snapshot t))"
proof -
  let ?rs = "expired_resources now t"
  let ?ls = "filter (\<lambda>l. l_expires_at l \<le> now) (bt_values (leases t))"
  note wf = lease_inv_wf(1) [OF inv]
  have own: "bt_get (leases t) (l_resource l) = Some l" if "l \<in> set (bt_values (leases t))" for l
    using that lease_invD(1) [OF inv] by (auto simp: bt_values_iff [OF wf])
  then have keys: "map l_resource (bt_values (leases t)) = map fst (leases t)"
    using bt_get_in [OF wf] lease_invD(1) [OF inv] by (force simp: bt_values_def)
  have "distinct (map l_resource (bt_values (leases t)))"
    unfolding keys by (rule bt_wf_distinct [OF wf])
  then have dist: "distinct ?rs"
    unfolding expired_resources_def by (rule distinct_map_filter)
  have handed: "map (\<lambda>r. the (bt_get (leases t) r)) ?rs = ?ls"
    using own by (auto simp: expired_resources_def intro!: map_idI)
  have "reap_expired now t =
     (t\<lparr>leases := fold bt_remove ?rs (leases t)\<rparr>, map (\<lambda>r. the (bt_get (leases t) r)) ?rs)"
    unfolding reap_expired_def reap_one_def [symmetric]
    using reap_one_present [OF wf dist, of "[]"] own by (auto simp: expired_resources_def)
  moreover have "fold bt_remove ?rs (leases t) = filter (\<lambda>(r, l). \<not> l_expires_at l \<le> now) (leases t)"
    unfolding expired_resources_def
    using bt_remove_matching [OF wf, of l_resource] lease_invD(1) [OF inv] by simp
  ultimately show ?thesis using handed by (simp add: lease_snapshot_def)
qed

lemma reap_inv: "lease_inv t \<Longrightarrow> lease_inv (fst (reap_expired now t))"
  by (simp add: reap_expired_closed)
     (auto simp: lease_inv_def bt_wf_filter bt_get_filter split: option.splits if_splits)

lemma reap_fences [simp]: "lease_inv t \<Longrightarrow> fences (fst (reap_expired now t)) = fences t"
  by (simp add: reap_expired_closed)

text \<open>What \<open>validate\<close> admits, and that the operations behind it never panic.\<close>

lemma validate_Ok_iff:
  "validate now r own tok t = Ok l \<longleftrightarrow>
     bt_get (leases t) r = Some l \<and> now < l_expires_at l \<and> l_owner l = own \<and> l_token l = tok"
  by (auto simp: validate_def not_le split: option.splits)

lemma validate_not_Panic [simp]: "validate now r own tok t \<noteq> Panic"
  by (auto simp: validate_def split: option.splits)

lemma validated_ops_not_Panic:
  "snd (renew n1 n2 r own tok ttl t) \<noteq> Panic"
  "snd (handoff_lease n1 n2 r own tok tgt t) \<noteq> Panic"
  "snd (release n1 r own tok t) \<noteq> Panic"
  by (auto simp: renew_def handoff_lease_def release_def snd_sbind_Panic validate_Ok_iff
      update_lease_def)

section \<open>The table as a machine\<close>

lemma lease_step_inv: "lease_inv t \<Longrightarrow> lease_inv (lease_step t e)"
  by (cases e) (simp_all add: acquire_inv renew_inv handoff_inv take_handoff_inv release_inv reap_inv)

lemma fences_unsaturatedD:
  "lease_inv t \<Longrightarrow> fences_unsaturated t \<Longrightarrow> fence_of t r < fence_of t r + 1"
proof -
  assume "lease_inv t" "fences_unsaturated t"
  then have "fence_of t r \<noteq> u64_max"
    by (auto simp: fences_unsaturated_def list_all_iff bt_values_iff lease_inv_wf fence_of_def
        u64_max_def split: option.splits)
  then show ?thesis by (rule plus_one_gt)
qed

lemma fence_of_insert [simp]:
  "fence_of \<lparr>leases = m, fences = bt_insert r f (fences t)\<rparr> q = (if q = r then f else fence_of t q)"
  by (simp add: fence_of_def bt_get_insert)

lemma fence_of_leases [simp]: "fence_of (t\<lparr>leases := m\<rparr>) q = fence_of t q"
  by (simp add: fence_of_def)

lemma acquire_fence:
  "fence_of (fst (acquire now uid utok kind r own ttl t)) q =
     (if q = r \<and> is_ok (snd (acquire now uid utok kind r own ttl t)) then fence_of t r + 1
      else fence_of t q)"
  by (auto simp: acquire_def Let_def split: option.splits)

lemma take_handoff_fence:
  "lease_inv t \<Longrightarrow> fence_of (fst (take_handoff now utok r tgt ttl t)) q =
     (if q = r \<and> is_ok (snd (take_handoff now utok r tgt ttl t)) then fence_of t r + 1
      else fence_of t q)"
  by (auto simp: take_handoff_def Let_def lease_inv_fence split: option.split)

lemma validated_ops_fence [simp]:
  "fence_of (fst (renew n1 n2 r own tok ttl t)) q = fence_of t q"
  "fence_of (fst (handoff_lease n1 n2 r own tok tgt t)) q = fence_of t q"
  "fence_of (fst (release n1 r own tok t)) q = fence_of t q"
  by (auto simp: renew_def handoff_lease_def release_def lift_res_def validate_def
      update_lease_def split: option.splits)

lemma reap_fence_of [simp]: "lease_inv t \<Longrightarrow> fence_of (fst (reap_expired now t)) q = fence_of t q"
  by (simp add: fence_of_def)

lemma lease_step_fence_mono:
  assumes "lease_inv t" "fences_unsaturated t"
  shows "fence_of t r \<le> fence_of (lease_step t e) r"
  using assms fences_unsaturatedD [OF assms]
  by (cases e) (auto simp: acquire_fence take_handoff_fence intro: less_imp_le)

interpretation lt: invariant_machine lease_step "\<lambda>_ _. True" lease_inv
  by unfold_locales (rule lease_step_inv)

interpretation lt_fence: monotone_machine lease_step "\<lambda>t _. fences_unsaturated t" lease_inv fence_of
  by unfold_locales (simp_all add: lease_step_inv lease_step_fence_mono)

lemma acquire_Ok_fence:
  "acquire now uid utok kind r own ttl t = (t', Ok l) \<Longrightarrow> l_fence l = fence_of t r + 1"
  by (auto simp: acquire_def Let_def split: option.splits if_splits)

lemma take_handoff_Ok_fence:
  "lease_inv t \<Longrightarrow> take_handoff now utok r tgt ttl t = (t', Ok l) \<Longrightarrow> l_fence l = fence_of t r + 1"
  by (auto simp: take_handoff_def Let_def lease_inv_fence split: option.splits if_splits)

section \<open>Restoring a persisted table\<close>

lemma restore_lease_inv: "lease_inv t \<Longrightarrow> lease_inv (restore_lease t l)"
  by (auto simp: restore_lease_def Let_def intro!: lease_inv_store)

lemma from_snapshot_inv: "bt_wf fs \<Longrightarrow> lease_inv (from_snapshot ls fs)"
proof -
  assume "bt_wf fs"
  then have "lease_inv \<lparr>leases = [], fences = fs\<rparr>" by (simp add: lease_inv_def)
  then show ?thesis unfolding from_snapshot_def
    by (induction ls rule: rev_induct) (auto intro: restore_lease_inv)
qed

lemma restore_covered:
  assumes "bt_wf fs" "\<And>l. l \<in> set ls \<Longrightarrow> \<exists>f. bt_get fs (l_resource l) = Some f \<and> l_fence l \<le> f"
  shows "foldl restore_lease \<lparr>leases = m, fences = fs\<rparr> ls =
     \<lparr>leases = fold (\<lambda>l. bt_insert (l_resource l) l) ls m, fences = fs\<rparr>"
  using assms
proof (induction ls arbitrary: m)
  case Nil
  then show ?case by simp
next
  case (Cons l ls)
  obtain f where f: "bt_get fs (l_resource l) = Some f" "l_fence l \<le> f"
    using Cons.prems(2) [of l] by auto
  then have "bt_insert (l_resource l) (max f (l_fence l)) fs = fs"
    using bt.put_same [OF Cons.prems(1) f(1)] by (simp add: max_absorb1)
  with f Cons show ?case by (simp add: restore_lease_def)
qed

section \<open>Properties\<close>

text \<open>Every sequence of lease calls keeps the table well-formed: both maps sorted,
  each lease stored under its own resource, and the recorded fence of a resource never
  below the fence of the lease that holds it.\<close>

theorem lease_run_inv:
  assumes "lease_inv t"
  shows "lease_inv (foldl lease_step t ops)"
  using assms by (rule lt.run_inv) simp

text \<open>C7: Fencing. Whatever calls are made after a lease was held on a resource (renewals,
  handoffs, releases, reaping, other acquisitions), a later successful \<open>acquire\<close> or
  \<open>take_handoff\<close> of the resource carries a strictly greater fence, as long as no 64-bit
  fence counter has reached its maximum.\<close>

theorem lease_fencing:
  assumes inv: "lease_inv t" and held: "bt_get (leases t) r = Some old"
    and run: "adm_run (\<lambda>t _. fences_unsaturated t) lease_step t ops"
    and t1: "t1 = foldl lease_step t ops" and unsat: "fences_unsaturated t1"
    and grant: "acquire now uid utok kind r own ttl t1 = (t2, Ok new)
              \<or> take_handoff now utok r tgt ttl t1 = (t2, Ok new)"
  shows "l_fence old < l_fence new"
proof -
  have inv1: "lease_inv t1" unfolding t1 using inv by (rule lt.run_inv) simp
  have "l_fence old \<le> fence_of t r" using inv held by (rule lease_invD(3))
  also have "\<dots> \<le> fence_of t1 r" unfolding t1 using inv run by (rule lt_fence.run_mono)
  also have "\<dots> < fence_of t1 r + 1" using inv1 unsat by (rule fences_unsaturatedD)
  finally show ?thesis using grant inv1 acquire_Ok_fence take_handoff_Ok_fence by metis
qed

text \<open>C8: Exclusion. While a lease is unexpired, \<open>acquire\<close> of its resource is refused with
  the owner and expiry, and \<open>renew\<close>, \<open>handoff\<close> and \<open>release\<close> by anyone who does not
  present both the owner and the token are refused; none of these changes the table.\<close>

theorem lease_exclusive:
  assumes "bt_get (leases t) r = Some l" and "now < l_expires_at l"
  shows "acquire now uid utok kind r own ttl t
           = (t, Err (LeaseActive (l_owner l) (l_expires_at l)))
       \<and> (own \<noteq> l_owner l \<or> tok \<noteq> l_token l \<longrightarrow>
            renew now n2 r own tok ttl t = (t, Err LeaseOwnedByOther)
          \<and> handoff_lease now n2 r own tok tgt t = (t, Err LeaseOwnedByOther)
          \<and> release now r own tok t = (t, Err LeaseOwnedByOther))"
  using assms
  by (auto simp: acquire_def renew_def handoff_lease_def release_def lift_res_def validate_def)

text \<open>A completed handoff locks the previous holder out: after \<open>take_handoff\<close> by the
  named target with a newly generated token, the old owner's token is rejected at every
  later time, and the new lease belongs to the target with the handoff cleared.\<close>

theorem take_handoff_locks_out:
  assumes old: "bt_get (leases t) r = Some l" and inv: "lease_inv t"
    and fresh: "l_token l \<noteq> ''token_'' @ utok"
    and taken: "take_handoff now utok r tgt ttl t = (t', Ok new)"
  shows "\<not> is_ok (validate later r (l_owner l) (l_token l) t')
       \<and> get_lease t' r = Some new \<and> l_owner new = tgt \<and> l_handoff_to l = Some tgt
       \<and> l_handoff_to new = None \<and> lease_inv t'"
proof -
  have "lease_inv t'" using take_handoff_inv [OF inv, of now utok r tgt ttl] taken by simp
  then show ?thesis using old fresh taken
    by (auto simp: take_handoff_def Let_def get_lease_def is_ok_iff validate_Ok_iff bt_get_insert
        split: if_splits)
qed

text \<open>Persisting and restoring: rebuilding the table from its two snapshots gives the
  table back, so that fences of released resources survive a restart.\<close>

theorem lease_snapshot_roundtrip:
  assumes inv: "lease_inv t"
  shows "from_snapshot (lease_snapshot t) (fence_snapshot t) = t"
proof -
  note wf = lease_inv_wf [OF inv]
  have "foldl restore_lease \<lparr>leases = [], fences = fences t\<rparr> (lease_snapshot t) =
     \<lparr>leases = fold (\<lambda>l. bt_insert (l_resource l) l) (lease_snapshot t) [], fences = fences t\<rparr>"
    by (rule restore_covered)
       (use inv wf in \<open>auto simp: lease_snapshot_def bt_values_iff lease_inv_def\<close>)
  moreover have "fold (\<lambda>l. bt_insert (l_resource l) l) (lease_snapshot t) []
      = fold (\<lambda>(k, v). bt_insert k v) (leases t) []"
    unfolding lease_snapshot_def bt_values_def fold_map
    using lease_invD(1) [OF inv] bt_get_in [OF wf(1)] by (intro fold_cong) auto
  ultimately show ?thesis
    using bt.rebuild [OF wf(1)] by (simp add: from_snapshot_def fence_snapshot_def)
qed

text \<open>\<open>reap_expired\<close> removes exactly the leases whose expiry is not after the clock,
  returns them in resource order, and keeps every fence.\<close>

theorem reap_expired_exact:
  assumes "lease_inv t" and "reap_expired now t = (t', removed)"
  shows "get_lease t' r =
           (case get_lease t r of
              Some l \<Rightarrow> if l_expires_at l \<le> now then None else Some l
            | None \<Rightarrow> None)
       \<and> removed = filter (\<lambda>l. l_expires_at l \<le> now) (lease_snapshot t)
       \<and> fence_snapshot t' = fence_snapshot t"
  using assms
  by (auto simp: reap_expired_closed get_lease_def fence_snapshot_def bt_get_filter
      lease_inv_wf split: option.splits)

section \<open>Witnesses\<close>

definition sample_lease :: lease where
  "sample_lease =
     \<lparr>l_id = ''lease_1'', l_kind = Driver, l_resource = ''workspace:a'', l_owner = ''agent-a'',
      l_token = ''token_1'', l_fence = 1, l_acquired_at = 5, l_updated_at = 5,
      l_expires_at = 100, l_handoff_to = Some ''agent-b''\<rparr>"

definition sample_table :: lease_table where
  "sample_table = \<lparr>leases = [(''workspace:a'', sample_lease)], fences = [(''workspace:a'', 1)]\<rparr>"

lemma sample_table_inv: "lease_inv sample_table"
  by (auto simp: lease_inv_def sample_table_def sample_lease_def)

theorem lease_run_inv_witness:
  "lease_inv sample_table \<and> lease_inv (foldl lease_step sample_table [OpReap 200])"
  using sample_table_inv lease_run_inv [OF sample_table_inv, of "[OpReap 200]"] by blast

theorem lease_fencing_witness:
  "l_fence sample_lease < (2 :: u64)
   \<and> snd (acquire 200 ''x'' ''y'' Driver ''workspace:a'' ''agent-c'' 10 (lease_step sample_table (OpReap 150)))
       = Ok (\<lparr>l_id = ''lease_x'', l_kind = Driver, l_resource = ''workspace:a'', l_owner = ''agent-c'',
             l_token = ''token_y'', l_fence = 2, l_acquired_at = 200, l_updated_at = 200,
             l_expires_at = 210, l_handoff_to = None\<rparr>)"
proof -
  let ?new = "\<lparr>l_id = ''lease_x'', l_kind = Driver, l_resource = ''workspace:a'', l_owner = ''agent-c'',
      l_token = ''token_y'', l_fence = 2, l_acquired_at = 200, l_updated_at = 200,
      l_expires_at = 210, l_handoff_to = None\<rparr> :: lease"
  let ?t1 = "\<lparr>leases = [], fences = [(''workspace:a'', 1)]\<rparr>"
  have t1: "?t1 = foldl lease_step sample_table [OpReap 150]"
    using reap_expired_closed [OF sample_table_inv, of 150]
    by (simp add: sample_table_def sample_lease_def)
  have acq: "acquire 200 ''x'' ''y'' Driver ''workspace:a'' ''agent-c'' 10 ?t1 =
      (\<lparr>leases = [(''workspace:a'', ?new)], fences = [(''workspace:a'', 2)]\<rparr>, Ok ?new)"
    by (simp add: acquire_def fence_of_def sat_add_def Let_def)
  have "l_fence sample_lease < l_fence ?new"
    by (rule lease_fencing [OF sample_table_inv _ _ t1 _ disjI1 [OF acq]])
       (simp_all add: sample_table_def fences_unsaturated_def bt_values_def u64_max_def)
  then show ?thesis using acq t1 by simp
qed

theorem lease_exclusive_witness:
  "acquire 50 ''x'' ''y'' Driver ''workspace:a'' ''agent-c'' 10 sample_table
     = (sample_table, Err (LeaseActive ''agent-a'' 100))
   \<and> release 50 ''workspace:a'' ''agent-c'' ''token_1'' sample_table
     = (sample_table, Err LeaseOwnedByOther)"
  using lease_exclusive [of sample_table "''workspace:a''" sample_lease 50 "''x''" "''y''" Driver
      "''agent-c''" 10 "''token_1''" 50 "''agent-b''"]
  by (simp add: sample_table_def sample_lease_def)

theorem take_handoff_locks_out_witness:
  "\<exists>t' new. take_handoff 60 ''y'' ''workspace:a'' ''agent-b'' 10 sample_table = (t', Ok new)
     \<and> \<not> is_ok (validate 61 ''workspace:a'' ''agent-a'' ''token_1'' t')"
proof -
  obtain t' new where t: "take_handoff 60 ''y'' ''workspace:a'' ''agent-b'' 10 sample_table = (t', Ok new)"
    by (simp add: take_handoff_def sample_table_def sample_lease_def Let_def)
  have "\<not> is_ok (validate 61 ''workspace:a'' (l_owner sample_lease) (l_token sample_lease) t')"
    using take_handoff_locks_out [OF _ sample_table_inv _ t, of sample_lease 61]
    by (simp add: sample_table_def sample_lease_def)
  with t show ?thesis by (auto simp: sample_lease_def)
qed

theorem lease_snapshot_roundtrip_witness:
  "from_snapshot [sample_lease] [(''workspace:a'', 1)] = sample_table"
  using lease_snapshot_roundtrip [OF sample_table_inv]
  by (simp add: lease_snapshot_def fence_snapshot_def sample_table_def bt_values_def)

theorem reap_expired_exact_witness:
  "get_lease (fst (reap_expired 100 sample_table)) ''workspace:a'' = None
   \<and> snd (reap_expired 100 sample_table) = [sample_lease]"
  using reap_expired_exact [OF sample_table_inv, of 100 "fst (reap_expired 100 sample_table)"
      "snd (reap_expired 100 sample_table)" "''workspace:a''"]
  by (simp add: get_lease_def lease_snapshot_def sample_table_def bt_values_def sample_lease_def)

end
