(* ===== verification/Task_Table.thy ===== *)
theory Task_Table
  imports Schema_Types
begin

text \<open>
  The task table of \<open>machine-fabric-core\<close> (\<open>task.rs\<close>): task records by id with an
  idempotency index, the lifecycle of a task, retries, payload references guarded by a
  revision, pagination, pruning and recovery after a restart. Clock readings and the
  generated part of a task id are arguments; \<open>n1\<close>, \<open>n2\<close> are successive readings.
\<close>

datatype task_error = TaskNotFound | InvalidTransition task_state task_state

record task_table =
  tasks :: "task btree"
  idempotency :: "string btree"

definition task_table_default :: task_table where
  "task_table_default = \<lparr>tasks = [], idempotency = []\<rparr>"

definition NUL :: char where
  "NUL = CHR 0x00"

definition scoped_idempotency_key :: "string \<Rightarrow> string \<Rightarrow> string \<Rightarrow> string \<Rightarrow> string" where
  "scoped_idempotency_key workspace_session_id executor_id capability key =
     workspace_session_id @ [NUL] @ executor_id @ [NUL] @ capability @ [NUL] @ key"

definition task_key :: "task \<Rightarrow> string" where
  "task_key task = scoped_idempotency_key (t_workspace_session_id task) (t_executor_id task)
     (t_capability task) (t_idempotency_key task)"

section \<open>Operations\<close>

definition push_event :: "u64 \<Rightarrow> string \<Rightarrow> json \<Rightarrow> task \<Rightarrow> task" where
  "push_event now event_type dets task =
     task\<lparr>t_events := t_events task @
       [\<lparr>ev_sequence = of_nat (length (t_events task)) + 1, ev_timestamp = now,
         ev_event_type = event_type, ev_details = dets\<rparr>]\<rparr>"

definition from_task :: "task_table \<Rightarrow> task \<Rightarrow> task_table" where
  "from_task t task =
     \<lparr>tasks = bt_insert (t_id task) task (tasks t),
      idempotency = bt_insert (task_key task) (t_id task) (idempotency t)\<rparr>"

definition from_tasks :: "task list \<Rightarrow> task_table" where
  "from_tasks ts = foldl from_task task_table_default ts"

definition new_task ::
  "u64 \<Rightarrow> u64 \<Rightarrow> string \<Rightarrow> string \<Rightarrow> string \<Rightarrow> string \<Rightarrow> json \<Rightarrow> string \<Rightarrow> string option
     \<Rightarrow> string option \<Rightarrow> task" where
  "new_task n1 n2 uid ws ex cap inp key corr req =
     push_event n2 ''task.queued'' JNull
       \<lparr>t_id = ''task_'' @ uid, t_correlation_id = corr, t_request_id = req,
        t_workspace_session_id = ws, t_executor_id = ex, t_capability = cap,
        t_input = inp, t_input_ref = None, t_output = None, t_output_ref = None,
        t_error = None, t_idempotency_key = key, t_state = Queued, t_attempt = 0,
        t_revision = 1, t_created_at = n1, t_updated_at = n1, t_events = []\<rparr>"

text \<open>
  \<open>self.tasks[id]\<close> panics when the index names a task that is not stored.
\<close>

definition submit_traced ::
  "u64 \<Rightarrow> u64 \<Rightarrow> string \<Rightarrow> string \<Rightarrow> string \<Rightarrow> string \<Rightarrow> json \<Rightarrow> string \<Rightarrow> string option
     \<Rightarrow> string option \<Rightarrow> task_table \<Rightarrow> task_table \<times> (task_error, task \<times> bool) outcome" where
  "submit_traced n1 n2 uid ws ex cap inp key corr req t =
     (case bt_get (idempotency t) (scoped_idempotency_key ws ex cap key) of
        Some i \<Rightarrow> (case bt_get (tasks t) i of
            Some task \<Rightarrow> (t, Ok (task, True))
          | None \<Rightarrow> (t, Panic))
      | None \<Rightarrow>
          let task = new_task n1 n2 uid ws ex cap inp key corr req
          in (\<lparr>tasks = bt_insert (t_id task) task (tasks t),
               idempotency = bt_insert (scoped_idempotency_key ws ex cap key) (t_id task)
                 (idempotency t)\<rparr>, Ok (task, False)))"

definition submit ::
  "u64 \<Rightarrow> u64 \<Rightarrow> string \<Rightarrow> string \<Rightarrow> string \<Rightarrow> string \<Rightarrow> json \<Rightarrow> string \<Rightarrow> task_table
     \<Rightarrow> task_table \<times> (task_error, task \<times> bool) outcome" where
  "submit n1 n2 uid ws ex cap inp key t = submit_traced n1 n2 uid ws ex cap inp key None None t"

fun transition_allowed :: "task_state \<Rightarrow> task_state \<Rightarrow> bool" where
  "transition_allowed Queued Running = True"
| "transition_allowed Queued Cancelled = True"
| "transition_allowed Running Succeeded = True"
| "transition_allowed Running Failed = True"
| "transition_allowed Running Cancelled = True"
| "transition_allowed Running TimedOut = True"
| "transition_allowed Running OutcomeUnknown = True"
| "transition_allowed _ _ = False"

definition transitioned ::
  "u64 \<Rightarrow> u64 \<Rightarrow> task_state \<Rightarrow> json option \<Rightarrow> task_failure option \<Rightarrow> task \<Rightarrow> task" where
  "transitioned n1 n2 st out err task =
     push_event n2 (''task.'' @ task_state_name st) JNull
       (task\<lparr>t_attempt := (if st = Running then t_attempt task + 1 else t_attempt task),
             t_revision := sat_add (t_revision task) 1, t_state := st, t_output := out,
             t_output_ref := None, t_error := err, t_updated_at := n1\<rparr>)"

definition store_task :: "task_table \<Rightarrow> string \<Rightarrow> task \<Rightarrow> task_table" where
  "store_task t i task = t\<lparr>tasks := bt_insert i task (tasks t)\<rparr>"

definition transition ::
  "u64 \<Rightarrow> u64 \<Rightarrow> string \<Rightarrow> task_state \<Rightarrow> json option \<Rightarrow> task_failure option \<Rightarrow> task_table
     \<Rightarrow> task_table \<times> (task_error, task) outcome" where
  "transition n1 n2 i st out err t =
     (case bt_get (tasks t) i of
        None \<Rightarrow> (t, Err TaskNotFound)
      | Some task \<Rightarrow>
          if \<not> transition_allowed (t_state task) st
          then (t, Err (InvalidTransition (t_state task) st))
          else let task' = transitioned n1 n2 st out err task
               in (store_task t i task', Ok task'))"

definition get_task :: "task_table \<Rightarrow> string \<Rightarrow> task option" where
  "get_task t i = bt_get (tasks t) i"

fun retryable_state :: "task_state \<Rightarrow> bool" where
  "retryable_state Failed = True"
| "retryable_state TimedOut = True"
| "retryable_state OutcomeUnknown = True"
| "retryable_state _ = False"

definition retried :: "u64 \<Rightarrow> u64 \<Rightarrow> task \<Rightarrow> task" where
  "retried n1 n2 task =
     push_event n2 ''task.retried'' JNull
       (task\<lparr>t_state := Queued, t_revision := sat_add (t_revision task) 1, t_output := None,
             t_output_ref := None, t_error := None, t_updated_at := n1\<rparr>)"

definition retry ::
  "u64 \<Rightarrow> u64 \<Rightarrow> string \<Rightarrow> task_table \<Rightarrow> task_table \<times> (task_error, task) outcome" where
  "retry n1 n2 i t =
     (case bt_get (tasks t) i of
        None \<Rightarrow> (t, Err TaskNotFound)
      | Some task \<Rightarrow>
          if \<not> retryable_state (t_state task)
          then (t, Err (InvalidTransition (t_state task) Queued))
          else let task' = retried n1 n2 task in (store_task t i task', Ok task'))"

definition retry_with_input ::
  "u64 \<Rightarrow> u64 \<Rightarrow> string \<Rightarrow> json \<Rightarrow> task_table \<Rightarrow> task_table \<times> (task_error, task) outcome" where
  "retry_with_input n1 n2 i inp t =
     sbind (retry n1 n2 i t)
       (\<lambda>t _. case bt_get (tasks t) i of
          None \<Rightarrow> (t, Err TaskNotFound)
        | Some task \<Rightarrow>
            let task' = task\<lparr>t_input := inp, t_input_ref := None\<rparr>
            in (store_task t i task', Ok task'))"

definition task_snapshot :: "task_table \<Rightarrow> task list" where
  "task_snapshot t = bt_values (tasks t)"

text \<open>The pagination loop, with its two accumulators.\<close>

fun page_loop :: "nat \<Rightarrow> nat \<Rightarrow> nat \<Rightarrow> task list \<Rightarrow> task list \<Rightarrow> nat \<times> task list" where
  "page_loop cursor limit tot page [] = (tot, page)"
| "page_loop cursor limit tot page (task # rest) =
     page_loop cursor limit (Suc tot)
       (if tot \<ge> cursor \<and> length page < limit then page @ [task] else page) rest"

definition page_by :: "nat \<Rightarrow> nat \<Rightarrow> (task \<Rightarrow> bool) \<Rightarrow> task_table \<Rightarrow> nat \<times> task list" where
  "page_by cursor limit predicate t =
     page_loop cursor limit 0 [] (filter predicate (bt_values (tasks t)))"

definition replace_input_ref_if_unchanged ::
  "string \<Rightarrow> u64 \<Rightarrow> json \<Rightarrow> task_payload_ref \<Rightarrow> task_table \<Rightarrow> task_table \<times> bool" where
  "replace_input_ref_if_unchanged i revision marker rf t =
     (case bt_get (tasks t) i of
        None \<Rightarrow> (t, False)
      | Some task \<Rightarrow>
          if t_revision task \<noteq> revision \<or> t_input_ref task \<noteq> None then (t, False)
          else (store_task t i (task\<lparr>t_input := marker, t_input_ref := Some rf\<rparr>), True))"

definition replace_output_ref_if_unchanged ::
  "string \<Rightarrow> u64 \<Rightarrow> json \<Rightarrow> task_payload_ref \<Rightarrow> task_table \<Rightarrow> task_table \<times> bool" where
  "replace_output_ref_if_unchanged i revision marker rf t =
     (case bt_get (tasks t) i of
        None \<Rightarrow> (t, False)
      | Some task \<Rightarrow>
          if t_revision task \<noteq> revision \<or> t_output_ref task \<noteq> None then (t, False)
          else (store_task t i (task\<lparr>t_output := Some marker, t_output_ref := Some rf\<rparr>), True))"

definition prune_ids :: "u64 \<Rightarrow> task_table \<Rightarrow> string list" where
  "prune_ids cutoff t =
     map t_id (filter (\<lambda>task. terminal (t_state task) \<and> t_updated_at task < cutoff)
       (bt_values (tasks t)))"

definition prune_one :: "task_table \<times> task list \<Rightarrow> string \<Rightarrow> task_table \<times> task list" where
  "prune_one = (\<lambda>(t, removed) i.
     case bt_get (tasks t) i of
       None \<Rightarrow> (t, removed)
     | Some task \<Rightarrow>
         (\<lparr>tasks = bt_remove i (tasks t),
           idempotency = bt_remove (task_key task) (idempotency t)\<rparr>, removed @ [task]))"

definition prune_terminal_before :: "u64 \<Rightarrow> task_table \<Rightarrow> task_table \<times> task list" where
  "prune_terminal_before cutoff t = foldl prune_one (t, []) (prune_ids cutoff t)"

definition recovered :: "u64 \<Rightarrow> u64 \<Rightarrow> task \<Rightarrow> task" where
  "recovered n1 n2 task =
     push_event n2 ''task.outcome-unknown'' JNull
       (task\<lparr>t_state := OutcomeUnknown, t_revision := sat_add (t_revision task) 1,
             t_error := Some \<lparr>tf_code = ''CONTROLLER_RESTARTED'',
               tf_message = ''controller restarted before the task outcome was recorded'',
               tf_retryable = True, tf_details = JNull\<rparr>,
             t_updated_at := n1\<rparr>)"

text \<open>\<open>clk n\<close> is the n-th reading of the clock in the loop over \<open>values_mut()\<close>.\<close>

fun recover_entries :: "(nat \<Rightarrow> u64) \<Rightarrow> nat \<Rightarrow> task btree \<Rightarrow> task btree \<times> task list" where
  "recover_entries clk n [] = ([], [])"
| "recover_entries clk n ((i, task) # m) =
     (if t_state task = Queued \<or> t_state task = Running
      then let task' = recovered (clk n) (clk (Suc n)) task;
               (m', rs) = recover_entries clk (n + 2) m
           in ((i, task') # m', task' # rs)
      else let (m', rs) = recover_entries clk n m in ((i, task) # m', rs))"

definition recover_orphans :: "(nat \<Rightarrow> u64) \<Rightarrow> task_table \<Rightarrow> task_table \<times> task list" where
  "recover_orphans clk t =
     (let (m, rs) = recover_entries clk 0 (tasks t) in (t\<lparr>tasks := m\<rparr>, rs))"

section \<open>The table as a machine\<close>

datatype task_op =
    TSubmit u64 u64 string string string string json string "string option" "string option"
  | TTransition u64 u64 string task_state "json option" "task_failure option"
  | TRetry u64 u64 string
  | TRetryInput u64 u64 string json
  | TReplaceInput string u64 json task_payload_ref
  | TReplaceOutput string u64 json task_payload_ref
  | TPrune u64
  | TRecover "nat \<Rightarrow> u64"

fun task_step :: "task_table \<Rightarrow> task_op \<Rightarrow> task_table" where
  "task_step t (TSubmit n1 n2 uid ws ex cap inp key corr req) =
     fst (submit_traced n1 n2 uid ws ex cap inp key corr req t)"
| "task_step t (TTransition n1 n2 i st out err) = fst (transition n1 n2 i st out err t)"
| "task_step t (TRetry n1 n2 i) = fst (retry n1 n2 i t)"
| "task_step t (TRetryInput n1 n2 i inp) = fst (retry_with_input n1 n2 i inp t)"
| "task_step t (TReplaceInput i revision mk rf) = fst (replace_input_ref_if_unchanged i revision mk rf t)"
| "task_step t (TReplaceOutput i revision mk rf) = fst (replace_output_ref_if_unchanged i revision mk rf t)"
| "task_step t (TPrune cutoff) = fst (prune_terminal_before cutoff t)"
| "task_step t (TRecover clk) = fst (recover_orphans clk t)"

text \<open>A newly generated task id is not in use; \<open>task_keep\<close> also excludes pruning.\<close>

fun task_fresh :: "task_table \<Rightarrow> task_op \<Rightarrow> bool" where
  "task_fresh t (TSubmit n1 n2 uid ws ex cap inp key corr req) = (bt_get (tasks t) (''task_'' @ uid) = None)"
| "task_fresh t _ = True"

fun task_keep :: "task_table \<Rightarrow> task_op \<Rightarrow> bool" where
  "task_keep t (TPrune cutoff) = False"
| "task_keep t e = task_fresh t e"

text \<open>
  Well-formedness: tasks are stored under their ids, the index and the tasks agree in both
  directions, and the events of a task are numbered from 1 without gaps.
\<close>

definition events_numbered :: "task \<Rightarrow> bool" where
  "events_numbered task \<longleftrightarrow>
     map ev_sequence (t_events task) = map (\<lambda>n. of_nat n + 1) [0..<length (t_events task)]"

definition task_inv :: "task_table \<Rightarrow> bool" where
  "task_inv t \<longleftrightarrow>
     bt_wf (tasks t) \<and> bt_wf (idempotency t) \<and>
     (\<forall>i task. bt_get (tasks t) i = Some task \<longrightarrow>
        t_id task = i \<and> events_numbered task \<and> bt_get (idempotency t) (task_key task) = Some i) \<and>
     (\<forall>k i. bt_get (idempotency t) k = Some i \<longrightarrow>
        (\<exists>task. bt_get (tasks t) i = Some task \<and> task_key task = k))"

text \<open>The lifecycle the table promises, as a relation between the states of one task.\<close>

inductive lifecycle :: "task_state \<Rightarrow> task_state \<Rightarrow> bool" where
  stay: "lifecycle s s"
| start: "lifecycle Queued Running"
| withdraw: "lifecycle Queued Cancelled"
| finish: "terminal s \<Longrightarrow> lifecycle Running s"
| requeue: "s \<in> {Failed, TimedOut, OutcomeUnknown} \<Longrightarrow> lifecycle s Queued"
| orphan: "lifecycle Queued OutcomeUnknown"

inductive_simps lifecycle_succeeded [simp]: "lifecycle Succeeded s"
inductive_simps lifecycle_cancelled [simp]: "lifecycle Cancelled s"

section \<open>Lemmas\<close>

lemma push_event_simps [simp]:
  "t_id (push_event n e d task) = t_id task" "t_state (push_event n e d task) = t_state task"
  "t_revision (push_event n e d task) = t_revision task"
  "t_error (push_event n e d task) = t_error task"
  "t_output_ref (push_event n e d task) = t_output_ref task"
  "t_input_ref (push_event n e d task) = t_input_ref task"
  "t_updated_at (push_event n e d task) = t_updated_at task"
  "task_key (push_event n e d task) = task_key task"
  by (simp_all add: push_event_def task_key_def)

lemma events_numbered_push:
  "t_events task' = t_events task \<Longrightarrow> events_numbered task \<Longrightarrow> events_numbered (push_event n e d task')"
  by (simp add: events_numbered_def push_event_def)

lemma updated_task_simps [simp]:
  "t_id (transitioned n1 n2 st out err task) = t_id task"
  "task_key (transitioned n1 n2 st out err task) = task_key task"
  "t_state (transitioned n1 n2 st out err task) = st"
  "t_revision (transitioned n1 n2 st out err task) = sat_add (t_revision task) 1"
  "t_id (retried n1 n2 task) = t_id task" "task_key (retried n1 n2 task) = task_key task"
  "t_state (retried n1 n2 task) = Queued"
  "t_revision (retried n1 n2 task) = sat_add (t_revision task) 1"
  "t_id (recovered n1 n2 task) = t_id task" "task_key (recovered n1 n2 task) = task_key task"
  "t_state (recovered n1 n2 task) = OutcomeUnknown"
  "t_revision (recovered n1 n2 task) = sat_add (t_revision task) 1"
  by (simp_all add: transitioned_def retried_def recovered_def task_key_def push_event_def)

lemma updated_events [simp]:
  "events_numbered task \<Longrightarrow> events_numbered (transitioned n1 n2 st out err task)"
  "events_numbered task \<Longrightarrow> events_numbered (retried n1 n2 task)"
  "events_numbered task \<Longrightarrow> events_numbered (recovered n1 n2 task)"
  by (auto simp: transitioned_def retried_def recovered_def intro!: events_numbered_push [of _ task])

lemma new_task_simps [simp]:
  "t_id (new_task n1 n2 uid ws ex cap inp key corr req) = ''task_'' @ uid"
  "task_key (new_task n1 n2 uid ws ex cap inp key corr req) = scoped_idempotency_key ws ex cap key"
  "t_state (new_task n1 n2 uid ws ex cap inp key corr req) = Queued"
  "events_numbered (new_task n1 n2 uid ws ex cap inp key corr req)"
  by (simp_all add: new_task_def task_key_def events_numbered_def push_event_def)

lemma task_invD:
  assumes "task_inv t"
  shows "bt_wf (tasks t)" "bt_wf (idempotency t)"
    and "bt_get (tasks t) i = Some task \<Longrightarrow> t_id task = i"
    and "bt_get (tasks t) i = Some task \<Longrightarrow> events_numbered task"
    and "bt_get (tasks t) i = Some task \<Longrightarrow> bt_get (idempotency t) (task_key task) = Some i"
    and "bt_get (idempotency t) k = Some i \<Longrightarrow> \<exists>task. bt_get (tasks t) i = Some task \<and> task_key task = k"
  using assms by (simp_all add: task_inv_def)

lemma tasks_store [simp]: "tasks (store_task t i task) = bt_insert i task (tasks t)"
  "idempotency (store_task t i task) = idempotency t"
  by (simp_all add: store_task_def)

text \<open>Replacing a task by one with the same id and key keeps the invariant.\<close>

lemma task_inv_store:
  assumes "task_inv t" "bt_get (tasks t) i = Some task"
    and "t_id task' = t_id task" "task_key task' = task_key task" "events_numbered task'"
  shows "task_inv (store_task t i task')"
  using assms by (fastforce simp: task_inv_def bt_simps)

lemma task_inv_add:
  assumes "task_inv t" "bt_get (tasks t) (t_id task) = None"
    and "bt_get (idempotency t) (task_key task) = None" "events_numbered task"
  shows "task_inv (from_task t task)"
  using assms by (fastforce simp: task_inv_def from_task_def bt_simps)

lemma task_inv_default [simp]: "task_inv task_table_default"
  by (simp add: task_inv_def task_table_default_def)

lemma submit_cases:
  assumes "task_inv t"
  obtains (reused) i task where
      "bt_get (idempotency t) (scoped_idempotency_key ws ex cap key) = Some i"
      "bt_get (tasks t) i = Some task" "task_key task = scoped_idempotency_key ws ex cap key"
      "submit_traced n1 n2 uid ws ex cap inp key corr req t = (t, Ok (task, True))"
    | (created) "bt_get (idempotency t) (scoped_idempotency_key ws ex cap key) = None"
      "submit_traced n1 n2 uid ws ex cap inp key corr req t =
         (from_task t (new_task n1 n2 uid ws ex cap inp key corr req),
          Ok (new_task n1 n2 uid ws ex cap inp key corr req, False))"
proof (cases "bt_get (idempotency t) (scoped_idempotency_key ws ex cap key)")
  case None
  then show ?thesis
    by (intro created) (simp_all add: submit_traced_def from_task_def Let_def)
next
  case (Some i)
  then obtain task where "bt_get (tasks t) i = Some task"
    "task_key task = scoped_idempotency_key ws ex cap key"
    using task_invD(6) [OF assms] by blast
  with Some show ?thesis by (intro reused) (simp_all add: submit_traced_def)
qed

lemma submit_inv:
  assumes "task_inv t" "bt_get (tasks t) (''task_'' @ uid) = None"
  shows "task_inv (fst (submit_traced n1 n2 uid ws ex cap inp key corr req t))"
  using assms(1)
proof (cases rule: submit_cases [of t ws ex cap key n1 n2 uid inp corr req])
  case reused
  with assms show ?thesis by simp
next
  case created
  with assms show ?thesis by (simp add: task_inv_add)
qed

lemma transition_inv: "task_inv t \<Longrightarrow> task_inv (fst (transition n1 n2 i st out err t))"
  by (auto simp: transition_def Let_def task_invD(4) split: option.splits intro!: task_inv_store)

lemma retry_inv: "task_inv t \<Longrightarrow> task_inv (fst (retry n1 n2 i t))"
  by (auto simp: retry_def Let_def task_invD(4) split: option.splits intro!: task_inv_store)

lemma task_payload_updates [simp]:
  "t_id (task\<lparr>t_input := v, t_input_ref := r\<rparr>) = t_id task"
  "task_key (task\<lparr>t_input := v, t_input_ref := r\<rparr>) = task_key task"
  "events_numbered (task\<lparr>t_input := v, t_input_ref := r\<rparr>) = events_numbered task"
  "t_id (task\<lparr>t_output := w, t_output_ref := r\<rparr>) = t_id task"
  "task_key (task\<lparr>t_output := w, t_output_ref := r\<rparr>) = task_key task"
  "events_numbered (task\<lparr>t_output := w, t_output_ref := r\<rparr>) = events_numbered task"
  by (simp_all add: task_key_def events_numbered_def)

lemma retry_with_input_inv: "task_inv t \<Longrightarrow> task_inv (fst (retry_with_input n1 n2 i inp t))"
  unfolding retry_with_input_def
  by (rule sbind_fst_inv)
     (auto simp: Let_def retry_inv task_invD(4) [OF retry_inv] split: option.splits
       intro!: task_inv_store)

lemma replace_input_inv: "task_inv t \<Longrightarrow> task_inv (fst (replace_input_ref_if_unchanged i r mk rf t))"
  by (auto simp: replace_input_ref_if_unchanged_def task_invD(4) split: option.splits
      intro!: task_inv_store)

lemma replace_output_inv: "task_inv t \<Longrightarrow> task_inv (fst (replace_output_ref_if_unchanged i r mk rf t))"
  by (auto simp: replace_output_ref_if_unchanged_def task_invD(4) split: option.splits
      intro!: task_inv_store)

lemma task_inv_remove:
  assumes inv: "task_inv t" and task: "bt_get (tasks t) i = Some task"
  shows "task_inv \<lparr>tasks = bt_remove i (tasks t), idempotency = bt_remove (task_key task) (idempotency t)\<rparr>"
proof -
  have "task_key other \<noteq> task_key task" if "j \<noteq> i" "bt_get (tasks t) j = Some other" for j other
    using task_invD(5) [OF inv task] task_invD(5) [OF inv that(2)] that(1) by auto
  moreover have "j \<noteq> i" if "bt_get (idempotency t) k = Some j" "k \<noteq> task_key task" for j k
    using task_invD(6) [OF inv that(1)] task that(2) by auto
  ultimately show ?thesis
    using inv task_invD(1,2) [OF inv] by (auto simp: task_inv_def bt_simps)
qed

lemma prune_one_inv: "task_inv t \<Longrightarrow> task_inv (fst (prune_one (t, rs) i))"
  by (auto simp: prune_one_def task_inv_remove split: option.splits)

lemma prune_fold_inv: "task_inv t \<Longrightarrow> task_inv (fst (foldl prune_one (t, rs) ids))"
proof (induction ids arbitrary: t rs)
  case Nil
  then show ?case by simp
next
  case (Cons i ids)
  obtain t' rs' where "prune_one (t, rs) i = (t', rs')" by fastforce
  with Cons prune_one_inv [of t rs i] show ?case by simp
qed

lemma prune_inv: "task_inv t \<Longrightarrow> task_inv (fst (prune_terminal_before cutoff t))"
  by (simp add: prune_terminal_before_def prune_fold_inv)

text \<open>Recovery visits every entry once and changes only queued and running tasks.\<close>

lemma recover_keys: "map fst (fst (recover_entries clk n m)) = map fst m"
  by (induction clk n m rule: recover_entries.induct) (auto simp: Let_def split: prod.splits)

lemma recover_get:
  "\<exists>n1 n2. bt_get (fst (recover_entries clk n m)) i =
     map_option (\<lambda>task. if terminal (t_state task) then task else recovered n1 n2 task) (bt_get m i)"
proof (induction clk n m rule: recover_entries.induct)
  case (1 clk n)
  then show ?case by simp
next
  case (2 clk n j task m)
  then show ?case by (auto simp: terminal_iff Let_def split: prod.splits)
qed

lemma recover_ids:
  "map t_id (snd (recover_entries clk n m)) =
     map t_id (filter (\<lambda>task. \<not> terminal (t_state task)) (map snd m))"
  by (induction clk n m rule: recover_entries.induct)
     (auto simp: terminal_iff Let_def split: prod.splits)

lemma recover_mem:
  "task \<in> set (snd (recover_entries clk n m)) \<Longrightarrow>
     task \<in> snd ` set (fst (recover_entries clk n m)) \<and> (\<exists>n1 n2 old. task = recovered n1 n2 old)"
proof (induction clk n m rule: recover_entries.induct)
  case (1 clk n)
  then show ?case by simp
next
  case (2 clk n j old m)
  then show ?case by (auto simp: Let_def split: prod.splits if_splits)
qed

lemma recover_inv: "task_inv t \<Longrightarrow> task_inv (fst (recover_orphans clk t))"
proof -
  assume inv: "task_inv t"
  let ?m = "fst (recover_entries clk 0 (tasks t))"
  have wf: "bt_wf ?m" using task_invD(1) [OF inv] by (simp add: bt_wf_def recover_keys)
  have old: "\<exists>old. bt_get (tasks t) i = Some old \<and> t_id new = t_id old \<and> task_key new = task_key old
      \<and> (events_numbered old \<longrightarrow> events_numbered new)" if "bt_get ?m i = Some new" for i new
    using recover_get [of clk 0 "tasks t" i] that
    by (cases "bt_get (tasks t) i") (auto split: if_splits)
  have new: "\<exists>new. bt_get ?m i = Some new \<and> task_key new = task_key old"
    if "bt_get (tasks t) i = Some old" for i old
    using recover_get [of clk 0 "tasks t" i] that by (auto split: if_splits)
  have "t_id task = i \<and> events_numbered task \<and> bt_get (idempotency t) (task_key task) = Some i"
    if "bt_get ?m i = Some task" for i task
    using old [OF that] task_invD(3-5) [OF inv, of i] by auto
  moreover have "\<exists>task. bt_get ?m i = Some task \<and> task_key task = k"
    if "bt_get (idempotency t) k = Some i" for i k
    using task_invD(6) [OF inv that] new [of i] by auto
  ultimately have "task_inv (t\<lparr>tasks := ?m\<rparr>)"
    using wf task_invD(2) [OF inv] by (simp add: task_inv_def)
  then show ?thesis by (simp add: recover_orphans_def case_prod_beta' Let_def)
qed

text \<open>Pruning in closed form.\<close>

lemma prune_present:
  assumes "bt_wf (tasks t)" "distinct ids" "\<And>i. i \<in> set ids \<Longrightarrow> bt_get (tasks t) i \<noteq> None"
  shows "foldl prune_one (t, acc) ids =
     (\<lparr>tasks = fold bt_remove ids (tasks t),
       idempotency = fold bt_remove (map (\<lambda>i. task_key (the (bt_get (tasks t) i))) ids) (idempotency t)\<rparr>,
      acc @ map (\<lambda>i. the (bt_get (tasks t) i)) ids)"
  using assms
proof (induction ids arbitrary: t acc)
  case Nil
  then show ?case by simp
next
  case (Cons i ids)
  obtain task where task: "bt_get (tasks t) i = Some task" using Cons.prems(3) [of i] by auto
  let ?t = "\<lparr>tasks = bt_remove i (tasks t), idempotency = bt_remove (task_key task) (idempotency t)\<rparr>"
  have same: "bt_get (tasks ?t) j = bt_get (tasks t) j" if "j \<in> set ids" for j
    using that Cons.prems by (auto simp: bt_simps)
  have "prune_one (t, acc) i = (?t, acc @ [task])"
    using task by (simp add: prune_one_def)
  moreover have "foldl prune_one (?t, acc @ [task]) ids =
     (\<lparr>tasks = fold bt_remove ids (tasks ?t),
       idempotency = fold bt_remove (map (\<lambda>i. task_key (the (bt_get (tasks ?t) i))) ids) (idempotency ?t)\<rparr>,
      (acc @ [task]) @ map (\<lambda>i. the (bt_get (tasks ?t) i)) ids)"
    by (rule Cons.IH) (use Cons.prems same in \<open>auto simp: bt_simps\<close>)
  moreover have "map (\<lambda>i. the (bt_get (tasks ?t) i)) ids = map (\<lambda>i. the (bt_get (tasks t) i)) ids"
    "map (\<lambda>i. task_key (the (bt_get (tasks ?t) i))) ids = map (\<lambda>i. task_key (the (bt_get (tasks t) i))) ids"
    using same by (intro map_cong; simp)+
  ultimately show ?case using task by (simp del: map_eq_conv)
qed

lemma prune_closed:
  fixes cutoff :: u64
  assumes inv: "task_inv t"
  defines "old \<equiv> \<lambda>task. terminal (t_state task) \<and> t_updated_at task < cutoff"
  shows "tasks (fst (prune_terminal_before cutoff t)) = filter (\<lambda>(i, task). \<not> old task) (tasks t)"
    and "snd (prune_terminal_before cutoff t) = filter old (task_snapshot t)"
proof -
  let ?ids = "prune_ids cutoff t"
  note wf = task_invD(1) [OF inv]
  have own: "bt_get (tasks t) (t_id task) = Some task" if "task \<in> set (bt_values (tasks t))" for task
    using that task_invD(3) [OF inv] by (auto simp: bt_values_iff [OF wf])
  have keys: "map t_id (bt_values (tasks t)) = map fst (tasks t)"
    using bt_get_in [OF wf] task_invD(3) [OF inv] by (force simp: bt_values_def)
  have "distinct (map t_id (bt_values (tasks t)))"
    unfolding keys by (rule bt_wf_distinct [OF wf])
  then have dist: "distinct ?ids"
    unfolding prune_ids_def by (rule distinct_map_filter)
  have closed: "prune_terminal_before cutoff t =
     (\<lparr>tasks = fold bt_remove ?ids (tasks t),
       idempotency = fold bt_remove (map (\<lambda>i. task_key (the (bt_get (tasks t) i))) ?ids) (idempotency t)\<rparr>,
      [] @ map (\<lambda>i. the (bt_get (tasks t) i)) ?ids)"
    unfolding prune_terminal_before_def
    by (rule prune_present [OF wf dist]) (use own in \<open>auto simp: prune_ids_def\<close>)
  show "tasks (fst (prune_terminal_before cutoff t)) = filter (\<lambda>(i, task). \<not> old task) (tasks t)"
    using bt_remove_matching [OF wf, of t_id old] task_invD(3) [OF inv]
    by (simp add: closed prune_ids_def old_def)
  show "snd (prune_terminal_before cutoff t) = filter old (task_snapshot t)"
    using own by (auto simp: closed prune_ids_def old_def task_snapshot_def intro!: map_idI)
qed

section \<open>How one task evolves\<close>

text \<open>
  Between two states of the table a task keeps its id and key, moves along the lifecycle,
  and never loses revisions; a change of state raises the revision.
\<close>

definition evolves :: "task \<Rightarrow> task \<Rightarrow> bool" where
  "evolves old new \<longleftrightarrow>
     t_id new = t_id old \<and> task_key new = task_key old \<and> lifecycle (t_state old) (t_state new) \<and>
     t_revision old \<le> t_revision new \<and>
     (t_state new \<noteq> t_state old \<longrightarrow> t_revision new = sat_add (t_revision old) 1)"

lemma evolves_refl [simp]: "evolves task task"
  by (simp add: evolves_def lifecycle.stay)

lemma evolves_updates:
  "transition_allowed (t_state task) st \<Longrightarrow> evolves task (transitioned n1 n2 st out err task)"
  "retryable_state (t_state task) \<Longrightarrow> evolves task (retried n1 n2 task)"
  "\<not> terminal (t_state task) \<Longrightarrow> evolves task (recovered n1 n2 task)"
  "evolves task (task\<lparr>t_input := v, t_input_ref := r\<rparr>)"
  "evolves task (task\<lparr>t_output := w, t_output_ref := r\<rparr>)"
  unfolding evolves_def
  by (auto simp: sat_add_ge lifecycle.simps terminal_iff
      elim!: transition_allowed.elims retryable_state.elims)

lemma evolves_retried_input:
  "retryable_state (t_state task) \<Longrightarrow>
     evolves task ((retried n1 n2 task)\<lparr>t_input := v, t_input_ref := r\<rparr>)"
  using evolves_updates(2) [of task n1 n2] by (simp add: evolves_def)

lemma submit_get_old:
  assumes "task_inv t" "bt_get (tasks t) (''task_'' @ uid) = None" "bt_get (tasks t) i = Some task"
  shows "bt_get (tasks (fst (submit_traced n1 n2 uid ws ex cap inp key corr req t))) i = Some task"
  using assms(1)
  by (cases rule: submit_cases [of t ws ex cap key n1 n2 uid inp corr req])
     (use assms in \<open>auto simp: from_task_def bt_get_insert\<close>)

lemma task_step_evolves:
  assumes inv: "task_inv t" and fresh: "task_fresh t e" and old: "bt_get (tasks t) i = Some old"
  shows "case bt_get (tasks (task_step t e)) i of
           Some new \<Rightarrow> evolves old new
         | None \<Rightarrow> terminal (t_state old) \<and> (\<exists>cutoff. e = TPrune cutoff \<and> t_updated_at old < cutoff)"
proof (cases e)
  case (TSubmit n1 n2 uid ws ex cap inp key corr req)
  with submit_get_old [OF inv _ old] fresh show ?thesis by simp
next
  case (TTransition n1 n2 j st out err)
  with old show ?thesis
    by (auto simp: transition_def Let_def bt_get_insert evolves_updates split: option.splits)
next
  case (TRetry n1 n2 j)
  with old show ?thesis
    by (auto simp: retry_def Let_def bt_get_insert evolves_updates split: option.splits)
next
  case (TRetryInput n1 n2 j inp)
  with old show ?thesis
    by (auto simp: retry_with_input_def retry_def Let_def bt_get_insert evolves_retried_input
        split: option.splits)
next
  case (TReplaceInput j r mk rf)
  with old show ?thesis
    by (auto simp: replace_input_ref_if_unchanged_def bt_get_insert evolves_updates
        split: option.splits)
next
  case (TReplaceOutput j r mk rf)
  with old show ?thesis
    by (auto simp: replace_output_ref_if_unchanged_def bt_get_insert evolves_updates
        split: option.splits)
next
  case (TPrune cutoff)
  with old show ?thesis
    using bt_get_filter [OF task_invD(1) [OF inv],
        of "\<lambda>task. \<not> (terminal (t_state task) \<and> t_updated_at task < cutoff)" i]
    by (auto simp: prune_closed [OF inv])
next
  case (TRecover clk)
  then show ?thesis
    using recover_get [of clk 0 "tasks t" i] old
    by (auto simp: recover_orphans_def case_prod_beta' Let_def evolves_updates)
qed

lemma task_step_inv: "task_inv t \<Longrightarrow> task_fresh t e \<Longrightarrow> task_inv (task_step t e)"
  by (cases e) (simp_all add: submit_inv transition_inv retry_inv retry_with_input_inv
      replace_input_inv replace_output_inv prune_inv recover_inv)

lemma task_keep_fresh: "task_keep t e \<Longrightarrow> task_fresh t e"
  by (cases e) auto

lemma task_step_keeps:
  assumes "task_inv t" "task_keep t e" "bt_get (tasks t) i = Some old"
  shows "\<exists>new. bt_get (tasks (task_step t e)) i = Some new \<and> evolves old new"
  using task_step_evolves [OF assms(1) task_keep_fresh [OF assms(2)] assms(3)] assms(2)
  by (auto split: option.splits)

definition revision_of :: "task_table \<Rightarrow> string \<Rightarrow> u64" where
  "revision_of t i = (case bt_get (tasks t) i of Some task \<Rightarrow> t_revision task | None \<Rightarrow> 0)"

lemma task_step_revision_mono:
  assumes "task_inv t" "task_keep t e"
  shows "revision_of t i \<le> revision_of (task_step t e) i"
proof (cases "bt_get (tasks t) i")
  case None
  then show ?thesis by (simp add: revision_of_def)
next
  case (Some old)
  with task_step_keeps [OF assms Some] show ?thesis
    by (auto simp: revision_of_def evolves_def)
qed

lemma task_step_index:
  assumes inv: "task_inv t" and keep: "task_keep t e" and k: "bt_get (idempotency t) k = Some i"
  shows "bt_get (idempotency (task_step t e)) k = Some i"
proof -
  obtain old where old: "bt_get (tasks t) i = Some old" "task_key old = k"
    using task_invD(6) [OF inv k] by blast
  obtain new where new: "bt_get (tasks (task_step t e)) i = Some new" "evolves old new"
    using task_step_keeps [OF inv keep old(1)] by blast
  have "task_inv (task_step t e)" by (rule task_step_inv [OF inv task_keep_fresh [OF keep]])
  from task_invD(5) [OF this new(1)] new(2) old(2) show ?thesis by (simp add: evolves_def)
qed

interpretation tm: invariant_machine task_step task_fresh task_inv
  by unfold_locales (rule task_step_inv)

interpretation tm_index: invariant_machine task_step task_keep
    "\<lambda>t. task_inv t \<and> bt_get (idempotency t) k = Some i" for k i
  by unfold_locales (auto intro: task_step_inv task_keep_fresh task_step_index)

interpretation tm_revision: monotone_machine task_step task_keep task_inv revision_of
  by unfold_locales (auto intro: task_step_inv task_keep_fresh task_step_revision_mono)

text \<open>A task that reached a final state keeps it until it is pruned.\<close>

definition settled :: "string \<Rightarrow> task_state \<Rightarrow> task_table \<Rightarrow> bool" where
  "settled i st t \<longleftrightarrow> (case bt_get (tasks t) i of Some task \<Rightarrow> t_state task = st | None \<Rightarrow> False)"

interpretation tm_final: invariant_machine task_step task_keep
    "\<lambda>t. task_inv t \<and> settled i st t \<and> st \<in> {Succeeded, Cancelled}" for i st
proof (unfold_locales, elim conjE, intro conjI)
  fix t e
  assume t: "task_inv t" "task_keep t e" "settled i st t" "st \<in> {Succeeded, Cancelled}"
  show "task_inv (task_step t e)" using t by (auto intro: task_step_inv task_keep_fresh)
  obtain old where old: "bt_get (tasks t) i = Some old" "t_state old = st"
    using t(3) by (auto simp: settled_def split: option.splits)
  from task_step_keeps [OF t(1,2) old(1)] obtain new
    where "bt_get (tasks (task_step t e)) i = Some new" "evolves old new" by blast
  with old t(4) show "settled i st (task_step t e)"
    by (auto simp: settled_def evolves_def)
qed

text \<open>The pagination loop is a slice of the filtered list.\<close>

lemma page_loop_slice:
  "length page = min limit (seen - cursor) \<Longrightarrow>
     page_loop cursor limit seen page xs =
       (seen + length xs, page @ take (limit - length page) (drop (cursor - seen) xs))"
proof (induction cursor limit seen page xs rule: page_loop.induct)
  case (1 cursor limit seen page)
  then show ?case by simp
next
  case (2 cursor limit seen page x xs)
  show ?case
  proof (cases "cursor \<le> seen \<and> length page < limit")
    case True
    then have "limit - length page = Suc (limit - Suc (length page))"
      by (simp add: Suc_diff_Suc)
    with True 2 show ?thesis by (simp add: Suc_diff_le)
  next
    case False
    then have "limit \<le> length page \<or> cursor - seen = Suc (cursor - Suc seen)" by arith
    with False 2 show ?thesis by auto
  qed
qed

text \<open>A separator splits a string uniquely when the part before it does not contain it.\<close>

lemma sep_inject:
  "c \<notin> set xs \<Longrightarrow> c \<notin> set ys \<Longrightarrow> xs @ c # us = ys @ c # vs \<longleftrightarrow> xs = ys \<and> us = vs"
proof (induction xs arbitrary: ys)
  case Nil
  then show ?case by (cases ys) auto
next
  case (Cons x xs)
  then show ?case by (cases ys) auto
qed

lemma from_tasks_tasks:
  "tasks (foldl from_task t ts) = fold (\<lambda>task. bt_insert (t_id task) task) ts (tasks t)"
  "idempotency (foldl from_task t ts) =
     fold (\<lambda>task. bt_insert (task_key task) (t_id task)) ts (idempotency t)"
  by (induction ts arbitrary: t) (simp_all add: from_task_def)

lemma snapshot_ids:
  assumes "task_inv t"
  shows "task \<in> set (task_snapshot t) \<longleftrightarrow> bt_get (tasks t) (t_id task) = Some task"
  using task_invD(3) [OF assms] by (auto simp: task_snapshot_def bt_values_iff [OF task_invD(1) [OF assms]])

lemma snapshot_pairs:
  assumes inv: "task_inv t"
  shows "(i, task) \<in> set (map (\<lambda>task. (t_id task, task)) (task_snapshot t))
     \<longleftrightarrow> bt_get (tasks t) i = Some task"
proof -
  have "(i, task) \<in> set (map (\<lambda>task. (t_id task, task)) (task_snapshot t))
      \<longleftrightarrow> task \<in> set (task_snapshot t) \<and> t_id task = i" by auto
  then show ?thesis using snapshot_ids [OF inv, of task] task_invD(3) [OF inv, of i task] by auto
qed

lemma snapshot_keys:
  assumes inv: "task_inv t"
  shows "(k, i) \<in> set (map (\<lambda>task. (task_key task, t_id task)) (task_snapshot t))
     \<longleftrightarrow> bt_get (idempotency t) k = Some i"
proof
  assume "(k, i) \<in> set (map (\<lambda>task. (task_key task, t_id task)) (task_snapshot t))"
  then obtain task where "task \<in> set (task_snapshot t)" "k = task_key task" "i = t_id task" by auto
  then show "bt_get (idempotency t) k = Some i"
    using task_invD(5) [OF inv] by (simp add: snapshot_ids [OF inv])
next
  assume "bt_get (idempotency t) k = Some i"
  then obtain task where task: "bt_get (tasks t) i = Some task" "task_key task = k"
    using task_invD(6) [OF inv] by blast
  then have "t_id task = i" using task_invD(3) [OF inv] by simp
  with task show "(k, i) \<in> set (map (\<lambda>task. (task_key task, t_id task)) (task_snapshot t))"
    by (auto simp: snapshot_ids [OF inv] intro!: image_eqI [of _ _ task])
qed

section \<open>Properties\<close>

text \<open>C38: Every sequence of task calls keeps the table well-formed: tasks under their ids,
  the idempotency index and the tasks in agreement in both directions (so that the lookup
  in \<open>submit\<close> never panics), and the events of each task numbered 1, 2, 3 and so on.\<close>

theorem task_run_inv:
  assumes "task_inv t" and "adm_run task_fresh task_step t ops"
  shows "task_inv (foldl task_step t ops)
    \<and> snd (submit_traced n1 n2 uid ws ex cap inp key corr req (foldl task_step t ops)) \<noteq> Panic"
proof -
  have inv: "task_inv (foldl task_step t ops)" using assms by (rule tm.run_inv)
  then show ?thesis
    by (cases rule: submit_cases [of _ ws ex cap key n1 n2 uid inp corr req]) (simp_all add: inv)
qed

text \<open>C26: Submission is idempotent. After a submission, and after any later calls other than
  pruning, submitting the same session, executor, capability and key again returns the task
  of the first submission, reports it as reused and changes nothing.\<close>

theorem submit_idempotent:
  assumes inv: "task_inv t"
    and first: "submit_traced n1 n2 uid ws ex cap inp key corr req t = (t1, Ok (task, reused))"
    and fresh: "bt_get (tasks t) (''task_'' @ uid) = None"
    and run: "adm_run task_keep task_step t1 ops"
  shows "\<exists>task'. submit_traced m1 m2 uid' ws ex cap inp' key corr' req' (foldl task_step t1 ops)
             = (foldl task_step t1 ops, Ok (task', True)) \<and> t_id task' = t_id task"
proof -
  let ?k = "scoped_idempotency_key ws ex cap key" and ?t = "foldl task_step t1 ops"
  have inv1: "task_inv t1" using submit_inv [OF inv fresh, of n1 n2 ws ex cap inp key corr req] first by simp
  have "bt_get (idempotency t1) ?k = Some (t_id task)"
    using inv
    by (cases rule: submit_cases [of t ws ex cap key n1 n2 uid inp corr req])
       (use first task_invD(3) [OF inv] in \<open>auto simp: from_task_def bt_get_insert\<close>)
  with inv1 run have t: "task_inv ?t" "bt_get (idempotency ?t) ?k = Some (t_id task)"
    using tm_index.run_inv [of t1 ?k "t_id task" ops] by auto
  from t(1) show ?thesis
    by (cases rule: submit_cases [of ?t ws ex cap key m1 m2 uid' inp' corr' req'])
       (use t task_invD(3) [OF t(1)] in auto)
qed

text \<open>C21: Every call moves a task only along its lifecycle (queued, running, one of the five
  outcomes; failed, timed-out and unknown tasks may be queued again; a restart turns queued
  and running into unknown), raises its revision whenever its state changes, and removes a
  task only by pruning, when it is terminal and older than the cutoff.\<close>

theorem task_lifecycle_refined:
  assumes "task_inv t" and "task_fresh t e" and "bt_get (tasks t) i = Some old"
  shows "case bt_get (tasks (task_step t e)) i of
           Some new \<Rightarrow> lifecycle (t_state old) (t_state new) \<and> t_revision old \<le> t_revision new
             \<and> (t_state new \<noteq> t_state old \<longrightarrow> t_revision new = sat_add (t_revision old) 1)
         | None \<Rightarrow> terminal (t_state old) \<and> (\<exists>cutoff. e = TPrune cutoff \<and> t_updated_at old < cutoff)"
  using task_step_evolves [OF assms] by (auto simp: evolves_def split: option.splits)

text \<open>A succeeded or cancelled task stays so under every later sequence of calls other
  than pruning: no transition, retry or recovery reopens it.\<close>

theorem final_states_are_final:
  assumes "task_inv t" and "settled i st t" and "st = Succeeded \<or> st = Cancelled"
    and "adm_run task_keep task_step t ops"
  shows "settled i st (foldl task_step t ops)"
  using tm_final.run_inv [of t i st ops] assms by auto

text \<open>The revision guard. Once a task has changed state after its payload was read at a
  revision, storing a payload reference for that revision is refused and changes nothing,
  whatever calls (other than pruning) happened in between.\<close>

theorem stale_payload_rejected:
  assumes inv: "task_inv t" and old: "bt_get (tasks t) i = Some old"
    and unsat: "t_revision old \<noteq> u64_max"
    and step: "transition n1 n2 i st out err t = (t1, Ok new) \<or> retry n1 n2 i t = (t1, Ok new)"
    and run: "adm_run task_keep task_step t1 ops"
  shows "replace_output_ref_if_unchanged i (t_revision old) mk rf (foldl task_step t1 ops)
           = (foldl task_step t1 ops, False)
       \<and> replace_input_ref_if_unchanged i (t_revision old) mk rf (foldl task_step t1 ops)
           = (foldl task_step t1 ops, False)"
proof -
  let ?t = "foldl task_step t1 ops"
  have inv1: "task_inv t1" using step transition_inv [OF inv] retry_inv [OF inv] by (metis fst_conv)
  have "revision_of t1 i = sat_add (t_revision old) 1"
    using step old
    by (auto simp: transition_def retry_def Let_def revision_of_def bt_get_insert split: if_splits)
  then have "t_revision old < revision_of t1 i" using unsat by (simp add: sat_add_one_gt)
  then have "revision_of ?t i \<noteq> t_revision old"
    using tm_revision.run_passed [OF inv1 run] by blast
  then show ?thesis
    by (auto simp: revision_of_def replace_output_ref_if_unchanged_def
        replace_input_ref_if_unchanged_def split: option.splits)
qed

text \<open>\<open>page_by\<close> returns the number of tasks that match and the slice of at most \<open>limit\<close>
  of them from position \<open>cursor\<close> in id order; consecutive pages cover the matches without
  gap or overlap.\<close>

theorem page_by_slice:
  "page_by cursor limit p t =
     (length (filter p (task_snapshot t)), take limit (drop cursor (filter p (task_snapshot t))))
   \<and> snd (page_by cursor limit p t) @ snd (page_by (cursor + limit) rest p t)
       = snd (page_by cursor (limit + rest) p t)"
  by (simp add: page_by_def page_loop_slice task_snapshot_def take_add add.commute)

text \<open>Recovery after a restart leaves no task queued or running: it returns exactly the
  tasks that were (in id order), each now of unknown outcome with the retryable error
  \<open>CONTROLLER_RESTARTED\<close>, and leaves every other task as it was.\<close>

theorem recover_orphans_complete:
  assumes "task_inv t" and "recover_orphans clk t = (t', rs)"
  shows "list_all (\<lambda>task. terminal (t_state task)) (task_snapshot t')
       \<and> map t_id rs = map t_id (filter (\<lambda>task. \<not> terminal (t_state task)) (task_snapshot t))
       \<and> list_all (\<lambda>task. task \<in> set (task_snapshot t') \<and> t_state task = OutcomeUnknown
            \<and> map_option (\<lambda>e. (tf_code e, tf_retryable e)) (t_error task)
                = Some (''CONTROLLER_RESTARTED'', True)) rs
       \<and> (\<forall>i task. get_task t i = Some task \<and> terminal (t_state task) \<longrightarrow> get_task t' i = Some task)"
proof -
  let ?r = "recover_entries clk 0 (tasks t)"
  have t': "t' = t\<lparr>tasks := fst ?r\<rparr>" and rs: "rs = snd ?r"
    using assms(2) by (auto simp: recover_orphans_def case_prod_beta' Let_def)
  have wf: "bt_wf (fst ?r)" using task_invD(1) [OF assms(1)] by (simp add: bt_wf_def recover_keys)
  have "terminal (t_state task)" if "task \<in> set (bt_values (fst ?r))" for task
  proof -
    from that obtain i where i: "bt_get (fst ?r) i = Some task" by (auto simp: bt_values_iff [OF wf])
    with recover_get [of clk 0 "tasks t" i] show ?thesis
      by (cases "bt_get (tasks t) i")
         (auto split: if_splits, metis updated_task_simps(11) terminal.simps(5))
  qed
  moreover have "get_task t' i = Some task" if "get_task t i = Some task" "terminal (t_state task)" for i task
    using recover_get [of clk 0 "tasks t" i] that unfolding t' by (auto simp: get_task_def)
  moreover have "task \<in> set (bt_values (fst ?r)) \<and> t_state task = OutcomeUnknown
      \<and> map_option (\<lambda>e. (tf_code e, tf_retryable e)) (t_error task)
          = Some (''CONTROLLER_RESTARTED'', True)" if "task \<in> set (snd ?r)" for task
  proof -
    from recover_mem [OF that] obtain n1 n2 old
      where "task = recovered n1 n2 old" "task \<in> set (bt_values (fst ?r))"
      unfolding bt_values_def set_map by blast
    then show ?thesis by (simp add: recovered_def)
  qed
  ultimately show ?thesis
    using recover_ids [of clk 0 "tasks t"]
    unfolding t' rs list_all_iff task_snapshot_def by (simp add: bt_values_def)
qed

text \<open>Persisting and restoring: rebuilding the table from its snapshot gives the same
  tasks and the same idempotency index.\<close>

theorem task_snapshot_roundtrip:
  assumes inv: "task_inv t"
  shows "from_tasks (task_snapshot t) = t"
proof -
  note wf = task_invD(1,2) [OF inv]
  let ?t = "from_tasks (task_snapshot t)"
  have "tasks ?t = fold (\<lambda>(k, v). bt_insert k v) (map (\<lambda>task. (t_id task, task)) (task_snapshot t)) []"
    by (simp add: from_tasks_def from_tasks_tasks task_table_default_def fold_map comp_def)
  also have "\<dots> = tasks t"
    by (rule bt.rebuild_from [OF wf(1)]) (rule snapshot_pairs [OF inv])
  finally have tasks: "tasks ?t = tasks t" .
  have "idempotency ?t =
      fold (\<lambda>(k, v). bt_insert k v) (map (\<lambda>task. (task_key task, t_id task)) (task_snapshot t)) []"
    by (simp add: from_tasks_def from_tasks_tasks task_table_default_def fold_map comp_def)
  also have "\<dots> = idempotency t"
    by (rule bt.rebuild_from [OF wf(2)]) (rule snapshot_keys [OF inv])
  finally show ?thesis using tasks by (cases ?t, cases t) simp
qed

text \<open>Idempotency keys of different sessions, executors, capabilities or client keys never
  collide, provided the three scoping names contain no NUL character.\<close>

theorem scoped_key_inject:
  assumes "NUL \<notin> set ws" "NUL \<notin> set ex" "NUL \<notin> set cap"
    and "NUL \<notin> set ws'" "NUL \<notin> set ex'" "NUL \<notin> set cap'"
  shows "scoped_idempotency_key ws ex cap key = scoped_idempotency_key ws' ex' cap' key'
     \<longleftrightarrow> ws = ws' \<and> ex = ex' \<and> cap = cap' \<and> key = key'"
  using assms by (simp add: scoped_idempotency_key_def sep_inject)

text \<open>With a NUL in a scoping name two different scopes can share a key.\<close>

lemma scoped_key_collision:
  "scoped_idempotency_key (''a'' @ [NUL] @ ''b'') ''c'' ''d'' ''k''
     = scoped_idempotency_key ''a'' ''b'' (''c'' @ [NUL] @ ''d'') ''k''"
  by (simp add: scoped_idempotency_key_def)

section \<open>Witnesses\<close>

definition sample_task :: task where
  "sample_task = new_task 10 11 ''1'' ''s'' ''e'' ''artifact.build'' JNull ''same'' None None"

definition sample_tasks :: task_table where
  "sample_tasks = from_task task_table_default sample_task"

lemma sample_tasks_inv: "task_inv sample_tasks"
  unfolding sample_tasks_def
  by (rule task_inv_add [OF task_inv_default]) (simp_all add: task_table_default_def sample_task_def)

lemma sample_submit:
  "submit_traced 10 11 ''1'' ''s'' ''e'' ''artifact.build'' JNull ''same'' None None task_table_default
     = (sample_tasks, Ok (sample_task, False))"
  by (simp add: submit_traced_def task_table_default_def sample_tasks_def sample_task_def
      from_task_def Let_def)

lemma sample_get: "bt_get (tasks sample_tasks) ''task_1'' = Some sample_task"
  by (simp add: sample_tasks_def from_task_def task_table_default_def sample_task_def)

theorem task_run_inv_witness:
  "task_inv (foldl task_step sample_tasks [TRetry 1 2 ''task_1''])
   \<and> snd (submit_traced 1 2 ''7'' ''s'' ''e'' ''c'' JNull ''k'' None None
        (foldl task_step sample_tasks [TRetry 1 2 ''task_1''])) \<noteq> Panic"
  by (rule task_run_inv [OF sample_tasks_inv]) simp

theorem submit_idempotent_witness:
  "\<exists>task'. submit_traced 90 91 ''2'' ''s'' ''e'' ''artifact.build'' (JBool True) ''same'' None None
             (foldl task_step sample_tasks [TTransition 20 21 ''task_1'' Running None None])
           = (foldl task_step sample_tasks [TTransition 20 21 ''task_1'' Running None None],
              Ok (task', True)) \<and> t_id task' = t_id sample_task"
  by (rule submit_idempotent [OF task_inv_default sample_submit]) (simp_all add: task_table_default_def)

theorem task_lifecycle_refined_witness:
  "case bt_get (tasks (task_step sample_tasks (TTransition 20 21 ''task_1'' Running None None))) ''task_1'' of
     Some new \<Rightarrow> lifecycle (t_state sample_task) (t_state new)
   | None \<Rightarrow> False"
  using task_lifecycle_refined [OF sample_tasks_inv _ sample_get,
      of "TTransition 20 21 ''task_1'' Running None None"]
  by (auto split: option.splits)

definition done_tasks :: task_table where
  "done_tasks = store_task sample_tasks ''task_1'' (sample_task\<lparr>t_state := Succeeded\<rparr>)"

lemma done_tasks_inv: "task_inv done_tasks"
  unfolding done_tasks_def
  by (rule task_inv_store [OF sample_tasks_inv sample_get])
     (use task_invD(4) [OF sample_tasks_inv sample_get] in \<open>simp_all add: task_key_def events_numbered_def\<close>)

theorem final_states_are_final_witness:
  "settled ''task_1'' Succeeded (foldl task_step done_tasks
     [TTransition 1 2 ''task_1'' Running None None, TRetry 3 4 ''task_1'', TRecover (\<lambda>_. 5)])"
  by (rule final_states_are_final [OF done_tasks_inv])
     (simp_all add: settled_def done_tasks_def bt_get_insert)

theorem stale_payload_rejected_witness:
  "snd (replace_output_ref_if_unchanged ''task_1'' 1 JNull
     \<lparr>pr_digest = ''d'', pr_bytes = 5, pr_locator = ''l'', pr_chunk = None\<rparr>
     (foldl task_step (fst (transition 20 21 ''task_1'' Running None None sample_tasks)) [])) = False"
proof -
  have step: "transition 20 21 ''task_1'' Running None None sample_tasks =
      (store_task sample_tasks ''task_1'' (transitioned 20 21 Running None None sample_task),
       Ok (transitioned 20 21 Running None None sample_task))"
    using sample_get by (simp add: transition_def sample_task_def Let_def)
  have rev: "t_revision sample_task = 1" by (simp add: sample_task_def new_task_def)
  show ?thesis
    using stale_payload_rejected [OF sample_tasks_inv sample_get _ disjI1 [OF step], of "[]" JNull
        "\<lparr>pr_digest = ''d'', pr_bytes = 5, pr_locator = ''l'', pr_chunk = None\<rparr>"]
    by (simp add: step rev u64_max_def)
qed

theorem recover_orphans_complete_witness:
  "list_all (\<lambda>task. terminal (t_state task)) (task_snapshot (fst (recover_orphans (\<lambda>_. 5) sample_tasks)))
   \<and> map t_id (snd (recover_orphans (\<lambda>_. 5) sample_tasks)) = [''task_1'']"
  using recover_orphans_complete [OF sample_tasks_inv, of "\<lambda>_. 5"
      "fst (recover_orphans (\<lambda>_. 5) sample_tasks)" "snd (recover_orphans (\<lambda>_. 5) sample_tasks)"]
  by (simp add: task_snapshot_def sample_tasks_def from_task_def task_table_default_def
      bt_values_def sample_task_def)

theorem task_snapshot_roundtrip_witness: "from_tasks [sample_task] = sample_tasks"
  using task_snapshot_roundtrip [OF sample_tasks_inv]
  by (simp add: task_snapshot_def sample_tasks_def from_task_def task_table_default_def bt_values_def)

theorem scoped_key_inject_witness:
  "scoped_idempotency_key ''s'' ''e'' ''c'' ''k'' \<noteq> scoped_idempotency_key ''s'' ''e'' ''c2'' ''k''"
  using scoped_key_inject [of "''s''" "''e''" "''c''" "''s''" "''e''" "''c2''" "''k''" "''k''"]
  by (simp add: NUL_def)

end
