(* ===== verification/Desktop_Queue.thy ===== *)
theory Desktop_Queue
  imports Schema_Types
begin

text \<open>
  The durable desktop queue of one executor (\<open>desktop.rs\<close>): jobs wait in submission order
  for the one interactive desktop, a granted job may dispatch one desktop action at a time,
  and uncertainty about an action quarantines the desktop. This theory holds the state and
  the operations; \<open>Desktop_Laws\<close> and \<open>Desktop_Properties\<close> reason about them.

  What an operation observes of its surroundings is a \<open>moment\<close>: the clock, the two
  operator files beside the queue file, the outcome of writing the queue file, and the
  third-party functions it calls (SHA-256 in hex, UUID syntax). An operation takes a
  sequence \<open>w\<close> of moments, one per observation in program order; nothing is assumed about
  successive moments. The content of the queue file is the field \<open>disk\<close>: \<open>save\<close> replaces
  it as a whole or leaves it (\<open>atomic_replace\<close>).
\<close>

record job =
  j_id :: string
  j_owner :: string
  j_request_key :: string
  j_token :: string
  j_state :: string
  j_epoch :: u64
  j_ttl_ms :: u64
  j_submitted_at :: u64
  j_expires_at :: u64
  j_requires_availability :: bool
  j_deadline_at :: "u64 option"
  j_claimed_by :: "string option"

text \<open>The fields of the queue that are not marked \<open>serde(skip)\<close>.\<close>

record desktop_file =
  f_epoch :: u64
  f_jobs :: "job list"
  f_in_flight :: bool
  f_blocked :: bool
  f_boot_id :: "string option"
  f_last_recovery :: "json option"
  f_maintenance_owner :: "string option"
  f_availability_required :: bool

record desktop_queue =
  path :: "string option"
  epoch :: u64
  jobs :: "job list"
  in_flight :: bool
  blocked :: bool
  boot_id :: "string option"
  last_recovery :: "json option"
  maintenance_owner :: "string option"
  availability_required :: bool
  recovery_inspection_active :: bool
  notification_wakes :: u64
  polling_wakes :: u64
  disk :: "desktop_file option"

record availability_file =
  af_len :: nat
  af_json :: "json option"

record authorization_file =
  au_is_file :: bool
  au_len :: u64
  au_mode :: u32
  au_uid :: u32
  au_json :: "json option"

record moment =
  m_now :: u64
  m_provider :: bool
  m_availability :: "availability_file option"
  m_authorization :: "authorization_file option"
  m_euid :: u32
  m_save :: "string option"
  m_sha256 :: "string \<Rightarrow> string"
  m_is_uuid :: "string \<Rightarrow> bool"

definition error :: "string \<Rightarrow> string \<Rightarrow> rpc_error" where
  "error = rpc_error_new"

section \<open>Parameters and protected actions\<close>

definition starts_with :: "string \<Rightarrow> string \<Rightarrow> bool" where
  "starts_with p s \<longleftrightarrow> take (length p) s = p"

definition field :: "json \<Rightarrow> string \<Rightarrow> string rpc" where
  "field v name =
     (case as_str (jidx v name) of
        Some s \<Rightarrow> if s \<noteq> [] \<and> length s \<le> 256 then Ok s
                  else Err (error ''INVALID_PARAMS'' (name @ '' must be 1..256 bytes''))
      | None \<Rightarrow> Err (error ''INVALID_PARAMS'' (name @ '' must be 1..256 bytes'')))"

definition validate_recovery_inspection_params :: "string \<Rightarrow> json \<Rightarrow> unit rpc" where
  "validate_recovery_inspection_params action params =
     (if action \<noteq> ''ui.native-inspect''
      then Err (error ''RECOVERY_INSPECT_ACTION_INVALID''
             ''recovery inspection only admits ui.native-inspect'')
      else case as_object params of
        None \<Rightarrow> Err (error ''INVALID_PARAMS'' ''input must be an object'')
      | Some ob \<Rightarrow>
          if list_ex (\<lambda>key. key \<notin> {''applicationPath'', ''requestPermission'', ''recoveryInspection''})
               (bt_keys ob)
             \<or> \<not> eq_bool (jidx params ''recoveryInspection'') True
             \<or> \<not> eq_bool (jidx params ''requestPermission'') False
             \<or> (case as_str (jidx params ''applicationPath'') of Some s \<Rightarrow> s = [] | None \<Rightarrow> True)
          then Err (error ''RECOVERY_INSPECT_PARAMS_INVALID''
                 ''only applicationPath, recoveryInspection=true, and requestPermission=false are allowed'')
          else Ok ())"

definition protected :: "string \<Rightarrow> bool" where
  "protected action \<longleftrightarrow>
     action = ''computer-use.call'' \<or> action = ''computer-use.tools''
     \<or> starts_with ''application.'' action \<or> starts_with ''ui.'' action
     \<or> action = ''clipboard.write''"

section \<open>Availability and operator authorization\<close>

definition AVAILABILITY_MAX_AGE_MS :: u64 where
  "AVAILABILITY_MAX_AGE_MS = 10000"

definition AVAILABILITY_MAX_LIFETIME_MS :: u64 where
  "AVAILABILITY_MAX_LIFETIME_MS = 10000"

definition snapshot_allows_input :: "json \<Rightarrow> u64 \<Rightarrow> bool" where
  "snapshot_allows_input v now =
     (case (as_u64 (jidx v ''observedAtMs''), as_u64 (jidx v ''expiresAtMs'')) of
        (Some observed, Some expires) \<Rightarrow>
          eq_u64 (jidx v ''schemaVersion'') 1
          \<and> eq_str (jidx v ''provider'') ''away-guard''
          \<and> eq_str (jidx v ''state'') ''armed''
          \<and> (case as_str (jidx v ''generation'') of Some s \<Rightarrow> s \<noteq> [] \<and> length s \<le> 256 | None \<Rightarrow> False)
          \<and> (case as_u64 (jidx v ''sequence'') of Some n \<Rightarrow> n > 0 | None \<Rightarrow> False)
          \<and> eq_bool (jidx v ''available'') True
          \<and> observed \<le> now
          \<and> now - observed \<le> AVAILABILITY_MAX_AGE_MS
          \<and> expires > now
          \<and> expires - observed \<le> AVAILABILITY_MAX_LIFETIME_MS
      | _ \<Rightarrow> False)"

definition availability_snapshot :: "moment \<Rightarrow> desktop_queue \<Rightarrow> json option" where
  "availability_snapshot m q =
     (case path q of
        None \<Rightarrow> None
      | Some _ \<Rightarrow> (case m_availability m of
          Some f \<Rightarrow> if af_len f \<le> 4096 then af_json f else None
        | None \<Rightarrow> None))"

definition availability :: "moment \<Rightarrow> desktop_queue \<Rightarrow> json" where
  "availability m q =
     (let snapshot = availability_snapshot m q;
          available = (case snapshot of Some v \<Rightarrow> snapshot_allows_input v (m_now m) | None \<Rightarrow> False)
      in jobj [(''available'', JBool available), (''snapshot'', jopt (\<lambda>v. v) snapshot),
               (''policy'', jobj [(''maxAgeMs'', ju64 AVAILABILITY_MAX_AGE_MS),
                                  (''maxLifetimeMs'', ju64 AVAILABILITY_MAX_LIFETIME_MS)])])"

definition is_available :: "moment \<Rightarrow> desktop_queue \<Rightarrow> bool" where
  "is_available m q \<longleftrightarrow> eq_bool (jidx (availability m q) ''available'') True"

text \<open>
  The receipt of an operator, accepted for one job only. Without Unix file metadata there
  is no authorization; that build is the case in which the file is never there.
\<close>

definition user_authorization :: "moment \<Rightarrow> desktop_queue \<Rightarrow> job \<Rightarrow> json option" where
  "user_authorization m q job =
     (if j_state job \<notin> {''queued'', ''active''} then None
      else case path q of None \<Rightarrow> None | Some _ \<Rightarrow>
        case m_authorization m of None \<Rightarrow> None | Some f \<Rightarrow>
          if \<not> au_is_file f \<or> au_len f > 4096 \<or> and (au_mode f) 0x1FF \<noteq> 0x180 \<or> au_uid f \<noteq> m_euid m
          then None
          else case au_json f of None \<Rightarrow> None | Some value \<Rightarrow>
            case as_u64 (jidx value ''grantedAtMs'') of None \<Rightarrow> None | Some granted \<Rightarrow>
              case as_u64 (jidx value ''expiresAtMs'') of None \<Rightarrow> None | Some expires \<Rightarrow>
                if \<not> eq_u64 (jidx value ''schemaVersion'') 1
                   \<or> \<not> eq_str (jidx value ''source'') ''explicit-user''
                   \<or> \<not> eq_str (jidx value ''jobId'') (j_id job)
                   \<or> \<not> eq_str (jidx value ''owner'') (j_owner job)
                   \<or> \<not> eq_str (jidx value ''requestKey'') (j_request_key job)
                   \<or> \<not> eq_str (jidx value ''tokenSha256'') (m_sha256 m (j_token job))
                   \<or> as_str (jidx value ''bootId'') \<noteq> boot_id q
                   \<or> boot_id q = None
                   \<or> granted > m_now m
                   \<or> expires \<le> m_now m
                   \<or> sat_sub expires granted > 900000
                   \<or> (case as_str (jidx value ''authorizationId'') of
                        Some s \<Rightarrow> \<not> m_is_uuid m s | None \<Rightarrow> True)
                   \<or> \<not> (case as_str (jidx value ''reason'') of
                        Some s \<Rightarrow> s \<noteq> [] \<and> length s \<le> 512 | None \<Rightarrow> False)
                then None
                else Some (jobj [(''source'', JStr ''explicit-user''),
                       (''authorizationId'', jidx value ''authorizationId''),
                       (''grantedAtMs'', ju64 granted), (''expiresAtMs'', ju64 expires)]))"

section \<open>Persistence\<close>

definition persisted :: "desktop_queue \<Rightarrow> desktop_file" where
  "persisted q =
     \<lparr>f_epoch = epoch q, f_jobs = jobs q, f_in_flight = in_flight q, f_blocked = blocked q,
      f_boot_id = boot_id q, f_last_recovery = last_recovery q,
      f_maintenance_owner = maintenance_owner q,
      f_availability_required = availability_required q\<rparr>"

definition save :: "moment \<Rightarrow> desktop_queue \<Rightarrow> desktop_queue \<times> unit rpc" where
  "save m q =
     (case path q of
        None \<Rightarrow> (q, Ok ())
      | Some _ \<Rightarrow> (case m_save m of
          None \<Rightarrow> (q\<lparr>disk := Some (persisted q)\<rparr>, Ok ())
        | Some e \<Rightarrow> (q, Err (error ''DESKTOP_STATE_FAILED'' e))))"

definition queue_default :: desktop_queue where
  "queue_default =
     \<lparr>path = None, epoch = 0, jobs = [], in_flight = False, blocked = False, boot_id = None,
      last_recovery = None, maintenance_owner = None, availability_required = False,
      recovery_inspection_active = False, notification_wakes = 0, polling_wakes = 0,
      disk = None\<rparr>"

definition queue_of_file :: "desktop_file \<Rightarrow> desktop_queue" where
  "queue_of_file f =
     queue_default\<lparr>epoch := f_epoch f, jobs := f_jobs f, in_flight := f_in_flight f,
       blocked := f_blocked f, boot_id := f_boot_id f, last_recovery := f_last_recovery f,
       maintenance_owner := f_maintenance_owner f,
       availability_required := f_availability_required f, disk := Some f\<rparr>"

definition is_live :: "job \<Rightarrow> bool" where
  "is_live j \<longleftrightarrow> j_state j = ''active'' \<or> j_state j = ''draining''"

definition active :: "desktop_queue \<Rightarrow> nat option" where
  "active q = position is_live (jobs q)"

definition set_job :: "nat \<Rightarrow> job \<Rightarrow> desktop_queue \<Rightarrow> desktop_queue" where
  "set_job i j q = q\<lparr>jobs := (jobs q)[i := j]\<rparr>"

definition retire_job :: "job \<Rightarrow> job" where
  "retire_job j = (if is_live j then j\<lparr>j_state := ''interrupted''\<rparr> else j)"

text \<open>What opening does to the queue it has read: \<open>boot\<close> is the kernel's boot id.\<close>

definition os_restarted :: "string option \<Rightarrow> string option \<Rightarrow> bool" where
  "os_restarted old current =
     (case (old, current) of (Some a, Some b) \<Rightarrow> a \<noteq> b | _ \<Rightarrow> False)"

definition reopened :: "moment \<Rightarrow> string option \<Rightarrow> desktop_queue \<Rightarrow> desktop_queue" where
  "reopened m boot q =
     (let interrupted = (in_flight q \<or> list_ex is_live (jobs q));
          q1 = (if os_restarted (boot_id q) boot then
                  let retired = length (filter is_live (jobs q));
                      q' = q\<lparr>jobs := map retire_job (jobs q)\<rparr>;
                      q'' = (if blocked q' \<or> interrupted
                             then q'\<lparr>last_recovery := Some (jobj
                               [(''reason'', JStr ''os_restart''), (''observedAt'', ju64 (m_now m)),
                                (''interruptedSessions'', jnat retired),
                                (''inputReplayed'', JBool False)])\<rparr>
                             else q')
                  in q''\<lparr>blocked := False, in_flight := False\<rparr>
                else if interrupted then q\<lparr>blocked := True, in_flight := False\<rparr>
                else q)
      in if boot \<noteq> None then q1\<lparr>boot_id := boot\<rparr> else q1)"

text \<open>
  \<open>file\<close> is what reading the queue file gave: \<open>None\<close> when it does not exist, an error when
  it cannot be read or parsed, otherwise its content.
\<close>

definition open_with_boot_id ::
  "(nat \<Rightarrow> moment) \<Rightarrow> string \<Rightarrow> (string, desktop_file) outcome option \<Rightarrow> string option
     \<Rightarrow> desktop_queue rpc" where
  "open_with_boot_id w p file boot =
     and_then
       (case file of
          None \<Rightarrow> Ok queue_default
        | Some (Ok f) \<Rightarrow> Ok (queue_of_file f)
        | Some (Err e) \<Rightarrow> Err (error ''DESKTOP_STATE_FAILED'' e)
        | Some Panic \<Rightarrow> Panic)
       (\<lambda>q.
          case save (w 1) (reopened (w 0) boot (q\<lparr>path := Some p\<rparr>)) of
            (q', Ok _) \<Rightarrow> Ok q'
          | (q', Err e) \<Rightarrow> Err e
          | (q', Panic) \<Rightarrow> Panic)"

section \<open>Promotion\<close>

definition refresh_availability_policy :: "moment \<Rightarrow> desktop_queue \<Rightarrow> desktop_queue \<times> unit rpc" where
  "refresh_availability_policy m q =
     (if \<not> availability_required q \<and> path q \<noteq> None \<and> m_provider m
      then save m (q\<lparr>availability_required := True\<rparr>)
      else (q, Ok ()))"

definition past :: "u64 option \<Rightarrow> u64 \<Rightarrow> bool" where
  "past deadline now = (case deadline of Some t \<Rightarrow> t \<le> now | None \<Rightarrow> False)"

definition expire_job :: "u64 \<Rightarrow> job \<Rightarrow> job" where
  "expire_job now j =
     (if j_state j = ''queued'' \<and> past (j_deadline_at j) now then j\<lparr>j_state := ''expired''\<rparr> else j)"

definition candidate :: "(nat \<Rightarrow> moment) \<Rightarrow> bool \<Rightarrow> desktop_queue \<Rightarrow> nat option" where
  "candidate w available q =
     (let head = (case position (\<lambda>j. j_state j = ''queued'') (jobs q) of
            Some i \<Rightarrow>
              if \<not> (j_requires_availability (jobs q ! i) \<or> availability_required q) \<or> available
              then Some i else None
          | None \<Rightarrow> None)
      in case head of
           Some i \<Rightarrow> Some i
         | None \<Rightarrow> List.find (\<lambda>i. j_state (jobs q ! i) = ''queued''
                      \<and> user_authorization (w i) q (jobs q ! i) \<noteq> None) [0..<length (jobs q)])"

definition grant_job :: "u64 \<Rightarrow> u64 \<Rightarrow> job \<Rightarrow> job" where
  "grant_job ep now j =
     j\<lparr>j_epoch := ep, j_state := ''active'', j_expires_at := sat_add now (j_ttl_ms j)\<rparr>"

definition granted :: "u64 \<Rightarrow> nat \<Rightarrow> desktop_queue \<Rightarrow> desktop_queue" where
  "granted now i q =
     q\<lparr>epoch := epoch q + 1, jobs := (jobs q)[i := grant_job (epoch q + 1) now (jobs q ! i)]\<rparr>"

text \<open>The rollback when a grant cannot be written: the first job with the id is restored.\<close>

definition ungrant :: "job \<Rightarrow> desktop_queue \<Rightarrow> desktop_queue" where
  "ungrant old q =
     (let q' = q\<lparr>epoch := epoch q - 1\<rparr>
      in case position (\<lambda>j. j_id j = j_id old) (jobs q') of
           Some k \<Rightarrow> set_job k old q'
         | None \<Rightarrow> q')"

definition grant :: "moment \<Rightarrow> nat \<Rightarrow> desktop_queue \<Rightarrow> desktop_queue \<times> unit rpc" where
  "grant m i q =
     (case save m (granted (m_now m) i q) of
        (q', Err e) \<Rightarrow> (ungrant (jobs q ! i) q', Err e)
      | r \<Rightarrow> r)"

definition expire_due :: "moment \<Rightarrow> desktop_queue \<Rightarrow> desktop_queue \<times> unit rpc" where
  "expire_due m q =
     (let expired = list_ex (\<lambda>j. j_state j = ''queued'' \<and> past (j_deadline_at j) (m_now m)) (jobs q);
          q' = q\<lparr>jobs := map (expire_job (m_now m)) (jobs q)\<rparr>
      in if expired then save m q' else (q', Ok ()))"

definition offer :: "(nat \<Rightarrow> moment) \<Rightarrow> desktop_queue \<Rightarrow> desktop_queue \<times> unit rpc" where
  "offer w q =
     (case candidate (\<lambda>i. w (2 + i)) (is_available (w 0) q) q of
        Some i \<Rightarrow>
          if maintenance_owner q = None \<and> \<not> blocked q \<and> \<not> in_flight q \<and> active q = None
          then grant (w 1) i q
          else (q, Ok ())
      | None \<Rightarrow> (q, Ok ()))"

definition promote :: "(nat \<Rightarrow> moment) \<Rightarrow> desktop_queue \<Rightarrow> desktop_queue \<times> unit rpc" where
  "promote w q =
     (if recovery_inspection_active q then (q, Ok ())
      else sbind (refresh_availability_policy (w 0) q) (\<lambda>q _.
           sbind (expire_due (w 1) q) (\<lambda>q _. offer (\<lambda>n. w (2 + n)) q)))"

section \<open>Cleanup and the worker\<close>

definition needs_cleanup :: "(nat \<Rightarrow> moment) \<Rightarrow> desktop_queue \<Rightarrow> desktop_queue \<times> bool" where
  "needs_cleanup w q =
     (if in_flight q then (q, False)
      else case active q of
        None \<Rightarrow> (q, False)
      | Some i \<Rightarrow>
          let j = jobs q ! i;
              j' = (if j_expires_at j \<le> m_now (w 0) \<or> past (j_deadline_at j) (m_now (w 1))
                    then j\<lparr>j_state := ''draining''\<rparr> else j)
          in (set_job i j' q, j_state j' = ''draining''))"

definition cleanup_done :: "(nat \<Rightarrow> moment) \<Rightarrow> bool \<Rightarrow> desktop_queue \<Rightarrow> desktop_queue \<times> unit rpc" where
  "cleanup_done w success q =
     (let q = (if success then
                 (case active q of
                    None \<Rightarrow> q
                  | Some i \<Rightarrow>
                      let j = jobs q ! i
                      in set_job i (j\<lparr>j_state :=
                           (if blocked q then ''interrupted''
                            else if j_expires_at j \<le> m_now (w 0) then ''expired''
                            else ''completed'')\<rparr>) q)
               else q\<lparr>blocked := True\<rparr>)
      in sbind (save (w 1) q) (\<lambda>q _. promote (\<lambda>n. w (2 + n)) q))"

definition worker_reconcile :: "(nat \<Rightarrow> moment) \<Rightarrow> bool \<Rightarrow> desktop_queue \<Rightarrow> desktop_queue \<times> unit rpc" where
  "worker_reconcile w notification q =
     promote w (if notification
                then q\<lparr>notification_wakes := sat_add (notification_wakes q) 1\<rparr>
                else q\<lparr>polling_wakes := sat_add (polling_wakes q) 1\<rparr>)"

section \<open>Commands\<close>

definition job_object :: "job \<Rightarrow> json_object" where
  "job_object j =
     bt_of_list [(''id'', JStr (j_id j)), (''owner'', JStr (j_owner j)),
       (''requestKey'', JStr (j_request_key j)), (''token'', JStr (j_token j)),
       (''state'', JStr (j_state j)), (''epoch'', ju64 (j_epoch j)), (''ttlMs'', ju64 (j_ttl_ms j)),
       (''submittedAt'', ju64 (j_submitted_at j)), (''expiresAt'', ju64 (j_expires_at j)),
       (''requiresAvailability'', JBool (j_requires_availability j)),
       (''deadlineAt'', jopt ju64 (j_deadline_at j)), (''claimedBy'', jopt JStr (j_claimed_by j))]"

definition job_value :: "(nat \<Rightarrow> moment) \<Rightarrow> desktop_queue \<Rightarrow> job \<Rightarrow> json_object" where
  "job_value w q j =
     (let value = job_object j;
          receipt = user_authorization (w 0) q j;
          value = (case receipt of Some r \<Rightarrow> bt_insert ''userAuthorization'' r value | None \<Rightarrow> value)
      in if j_requires_availability j \<or> availability_required q
         then bt_insert ''inputAllowed''
                (JBool (j_state j = ''active'' \<and> \<not> blocked q
                        \<and> j_expires_at j > m_now (w 1)
                        \<and> \<not> past (j_deadline_at j) (m_now (w 2))
                        \<and> (is_available (w 3) q \<or> receipt \<noteq> None)))
                (bt_insert ''requiresAvailability'' (JBool True) value)
         else value)"

definition job_terminal :: "job \<Rightarrow> bool" where
  "job_terminal j \<longleftrightarrow> j_state j \<in> {''completed'', ''cancelled'', ''expired'', ''interrupted''}"

definition bool_param :: "json \<Rightarrow> string \<Rightarrow> bool \<Rightarrow> string \<Rightarrow> bool rpc" where
  "bool_param params name dflt msg =
     (case jget params name of
        None \<Rightarrow> Ok dflt
      | Some (JBool b) \<Rightarrow> Ok b
      | Some _ \<Rightarrow> Err (error ''INVALID_PARAMS'' msg))"

definition desktop_list :: "(nat \<Rightarrow> nat \<Rightarrow> moment) \<Rightarrow> json \<Rightarrow> desktop_queue \<Rightarrow> json rpc" where
  "desktop_list w params q =
     and_then (bool_param params ''includeTerminal'' True ''includeTerminal must be a boolean'')
       (\<lambda>include_terminal.
          let history_count = length (filter job_terminal (jobs q));
              shown = filter (\<lambda>(i, j). include_terminal \<or> \<not> job_terminal j) (enumerate 0 (jobs q));
              values = map (\<lambda>(i, j). JObj (bt_remove ''token'' (job_value (w (1 + i)) q j))) shown
          in Ok (jobj [(''jobs'', JArr values), (''historyCount'', jnat history_count),
               (''totalCount'', jnat (length (jobs q))), (''historyIncluded'', JBool include_terminal),
               (''availabilityRequired'', JBool (availability_required q)),
               (''worker'', jobj [(''notificationWakes'', ju64 (notification_wakes q)),
                                  (''pollingWakes'', ju64 (polling_wakes q))]),
               (''availability'', availability (w 0 0) q), (''blocked'', JBool (blocked q)),
               (''inFlight'', JBool (in_flight q)),
               (''lastRecovery'', jopt (\<lambda>v. v) (last_recovery q)),
               (''recoveryPolicy'', JStr ''verified-os-restart-or-explicit-desktop-reset''),
               (''maintenanceOwner'', jopt JStr (maintenance_owner q)),
               (''safePoint'', JBool (maintenance_owner q \<noteq> None \<and> \<not> blocked q
                                      \<and> \<not> in_flight q \<and> active q = None))]))"

text \<open>
  \<open>desktop.maintenance\<close> ends in \<open>self.command("desktop.list", ...)\<close>, which the guard of
  \<open>command\<close> always admits: a promotion, then the listing.
\<close>

definition desktop_maintenance ::
  "(nat \<Rightarrow> nat \<Rightarrow> moment) \<Rightarrow> json \<Rightarrow> desktop_queue \<Rightarrow> desktop_queue \<times> json rpc" where
  "desktop_maintenance w params q =
     sbind (lift_res q (field params ''owner'')) (\<lambda>q owner.
     sbind (lift_res q (ok_or (as_bool (jidx params ''enabled''))
              (error ''INVALID_PARAMS'' ''enabled is required''))) (\<lambda>q enabled.
       if maintenance_owner q \<noteq> None \<and> maintenance_owner q \<noteq> Some owner
       then (q, Err (error ''MAINTENANCE_OWNED'' ''another operator owns desktop maintenance''))
       else
         sbind (save (w 0 0) (q\<lparr>maintenance_owner := (if enabled then Some owner else None)\<rparr>)) (\<lambda>q _.
         sbind (promote (w 1) q) (\<lambda>q _.
         sbind (promote (w 2) q) (\<lambda>q _.
           lift_res q (desktop_list (\<lambda>i. w (3 + i))
             (jobj [(''includeTerminal'', JBool False)]) q))))))"

definition deadline_param :: "moment \<Rightarrow> json \<Rightarrow> u64 option rpc" where
  "deadline_param m params =
     (case jget params ''deadlineAt'' of
        None \<Rightarrow> Ok None
      | Some v \<Rightarrow> (case as_u64 v of
          Some t \<Rightarrow> if t > m_now m then Ok (Some t)
                    else Err (error ''INVALID_PARAMS'' ''deadlineAt must be a future epoch millisecond'')
        | None \<Rightarrow> Err (error ''INVALID_PARAMS'' ''deadlineAt must be a future epoch millisecond'')))"

definition new_job ::
  "string \<Rightarrow> string \<Rightarrow> string \<Rightarrow> string \<Rightarrow> u64 \<Rightarrow> u64 \<Rightarrow> bool \<Rightarrow> u64 option \<Rightarrow> job" where
  "new_job uid utok owner key ttl now req deadline =
     \<lparr>j_id = uid, j_owner = owner, j_request_key = key, j_token = utok, j_state = ''queued'',
      j_epoch = 0, j_ttl_ms = ttl, j_submitted_at = now, j_expires_at = 0,
      j_requires_availability = req, j_deadline_at = deadline, j_claimed_by = None\<rparr>"

definition push_job :: "(nat \<Rightarrow> nat \<Rightarrow> moment) \<Rightarrow> job \<Rightarrow> desktop_queue \<Rightarrow> desktop_queue \<times> json rpc" where
  "push_job w job q =
     sbind (save (w 1 2) (q\<lparr>jobs := jobs q @ [job]\<rparr>)) (\<lambda>q _.
     sbind (promote (w 2) q) (\<lambda>q _.
       if jobs q = [] then (q, Panic)
       else (q, Ok (JObj (job_value (w 3) q (last (jobs q)))))))"

definition desktop_submit ::
  "(nat \<Rightarrow> nat \<Rightarrow> moment) \<Rightarrow> string \<Rightarrow> string \<Rightarrow> json \<Rightarrow> desktop_queue \<Rightarrow> desktop_queue \<times> json rpc" where
  "desktop_submit w uid utok params q =
     sbind (lift_res q (field params ''owner'')) (\<lambda>q owner.
     sbind (lift_res q (field params ''requestKey'')) (\<lambda>q key.
       case position (\<lambda>j. j_owner j = owner \<and> j_request_key j = key) (jobs q) of
         Some i \<Rightarrow> (q, Ok (JObj (job_value (w 0) q (jobs q ! i))))
       | None \<Rightarrow>
           if length (jobs q) \<ge> 10000
           then (q, Err (error ''DESKTOP_QUEUE_FULL''
                          ''archive completed sessions before submitting more''))
           else
             let ttl = (case as_u64 (jidx params ''ttlMs'') of Some n \<Rightarrow> n | None \<Rightarrow> 900000)
             in if \<not> (1000 \<le> ttl \<and> ttl \<le> 3600000)
                then (q, Err (error ''INVALID_PARAMS'' ''ttlMs must be 1000..3600000''))
                else
                  sbind (lift_res q (bool_param params ''requiresAvailability'' False
                           ''requiresAvailability must be boolean'')) (\<lambda>q req.
                  sbind (lift_res q (deadline_param (w 1 0) params)) (\<lambda>q deadline.
                    push_job w (new_job uid utok owner key ttl (m_now (w 1 1))
                      (req \<or> availability_required q) deadline) q))))"

definition claim_job :: "moment \<Rightarrow> nat \<Rightarrow> string \<Rightarrow> desktop_queue \<Rightarrow> desktop_queue \<times> json rpc" where
  "claim_job m i consumer q =
     (case save m (set_job i ((jobs q ! i)\<lparr>j_claimed_by := Some consumer\<rparr>) q) of
        (q', Err e) \<Rightarrow>
          (set_job i ((jobs q' ! i)\<lparr>j_claimed_by := j_claimed_by (jobs q ! i)\<rparr>) q', Err e)
      | (q', Panic) \<Rightarrow> (q', Panic)
      | (q', Ok _) \<Rightarrow>
          (q', Ok (jobj [(''claimed'', JBool True), (''id'', JStr (j_id (jobs q' ! i)))])))"

definition desktop_claim ::
  "(nat \<Rightarrow> nat \<Rightarrow> moment) \<Rightarrow> json \<Rightarrow> desktop_queue \<Rightarrow> desktop_queue \<times> json rpc" where
  "desktop_claim w params q =
     sbind (lift_res q (field params ''owner'')) (\<lambda>q owner.
     sbind (lift_res q (field params ''token'')) (\<lambda>q token.
     sbind (lift_res q (field params ''consumerId'')) (\<lambda>q consumer.
     sbind (lift_res q (ok_or (position (\<lambda>j. j_owner j = owner \<and> j_token j = token) (jobs q))
              (error ''DESKTOP_SESSION_INVALID'' ''unknown session credentials''))) (\<lambda>q i.
       let job = jobs q ! i;
           available = (is_available (w 0 0) q \<or> user_authorization (w 0 1) q job \<noteq> None)
       in if blocked q \<or> j_state job \<noteq> ''active'' \<or> j_expires_at job \<le> m_now (w 0 2)
             \<or> past (j_deadline_at job) (m_now (w 0 3))
          then (q, Err (error ''DESKTOP_SESSION_INACTIVE'' ''consumer requires a live active session''))
          else if (j_requires_availability job \<or> availability_required q) \<and> \<not> available
          then (q, Err (error ''DESKTOP_UNAVAILABLE''
                         ''local availability permission is absent or expired''))
          else if j_claimed_by job \<noteq> None \<and> j_claimed_by job \<noteq> Some consumer
          then (q, Err (error ''DESKTOP_ALREADY_CLAIMED''
                         ''another consumer has claimed this request; no replay''))
          else
            claim_job (w 0 4) i consumer q))))"

definition finish_job :: "job \<Rightarrow> job" where
  "finish_job j =
     (if j_state j = ''queued'' then j\<lparr>j_state := ''cancelled''\<rparr>
      else if j_state j = ''active'' then j\<lparr>j_state := ''draining''\<rparr>
      else j)"

text \<open>\<open>desktop.get\<close>, \<open>desktop.renew\<close>, \<open>desktop.finish\<close> and \<open>desktop.cancel\<close>.\<close>

definition desktop_session ::
  "(nat \<Rightarrow> nat \<Rightarrow> moment) \<Rightarrow> string \<Rightarrow> json \<Rightarrow> desktop_queue \<Rightarrow> desktop_queue \<times> json rpc" where
  "desktop_session w action params q =
     sbind (lift_res q (field params ''token'')) (\<lambda>q token.
     sbind (lift_res q (field params ''owner'')) (\<lambda>q owner.
     sbind (lift_res q (ok_or (position (\<lambda>j. j_token j = token \<and> j_owner j = owner) (jobs q))
              (error ''DESKTOP_SESSION_INVALID'' ''unknown session credentials''))) (\<lambda>q i.
       let job = jobs q ! i
       in sbind
            (if action = ''desktop.renew'' then
               if j_state job \<noteq> ''active'' \<or> j_expires_at job \<le> m_now (w 0 0)
                  \<or> past (j_deadline_at job) (m_now (w 0 1)) \<or> blocked q
               then (q, Err (error ''DESKTOP_SESSION_INACTIVE'' ''only a live active session can renew''))
               else (set_job i (job\<lparr>j_expires_at := sat_add (m_now (w 0 2)) (j_ttl_ms job)\<rparr>) q, Ok ())
             else if action = ''desktop.finish'' \<or> action = ''desktop.cancel''
             then (set_job i (finish_job job) q, Ok ())
             else (q, Ok ()))
            (\<lambda>q _.
               let value = JObj (job_value (w 1) q (jobs q ! i))
               in sbind (if action \<noteq> ''desktop.get'' then save (w 0 3) q else (q, Ok ()))
                    (\<lambda>q _. (q, Ok value))))))"

definition desktop_recover ::
  "(nat \<Rightarrow> nat \<Rightarrow> moment) \<Rightarrow> json \<Rightarrow> desktop_queue \<Rightarrow> desktop_queue \<times> json rpc" where
  "desktop_recover w params q =
     (if \<not> blocked q \<or> in_flight q \<or> \<not> eq_bool (jidx params ''confirmDesktopReset'') True
      then (q, Err (error ''DESKTOP_RECOVERY_REQUIRED''
                     ''reset native helpers/desktop first, then confirmDesktopReset''))
      else
        let q1 = (case active q of
                    Some i \<Rightarrow> set_job i ((jobs q ! i)\<lparr>j_state := ''interrupted''\<rparr>) q
                  | None \<Rightarrow> q)
        in sbind (save (w 0 0) (q1\<lparr>blocked := False\<rparr>)) (\<lambda>q _.
           sbind (promote (w 1) q) (\<lambda>q _.
             (q, Ok (jobj [(''recovered'', JBool True)])))))"

definition command_match ::
  "(nat \<Rightarrow> nat \<Rightarrow> moment) \<Rightarrow> string \<Rightarrow> string \<Rightarrow> string \<Rightarrow> json \<Rightarrow> desktop_queue
     \<Rightarrow> desktop_queue \<times> json rpc" where
  "command_match w uid utok action params q =
     (if action = ''desktop.maintenance'' then desktop_maintenance w params q
      else if action = ''desktop.submit'' then desktop_submit w uid utok params q
      else if action = ''desktop.list'' then lift_res q (desktop_list w params q)
      else if action = ''desktop.claim'' then desktop_claim w params q
      else if action \<in> {''desktop.get'', ''desktop.renew'', ''desktop.finish'', ''desktop.cancel''}
      then desktop_session w action params q
      else if action = ''desktop.recover'' then desktop_recover w params q
      else (q, Err (error ''UNKNOWN_ACTION'' action)))"

definition command ::
  "(nat \<Rightarrow> nat \<Rightarrow> moment) \<Rightarrow> string \<Rightarrow> string \<Rightarrow> string \<Rightarrow> json \<Rightarrow> desktop_queue
     \<Rightarrow> desktop_queue \<times> json rpc" where
  "command w uid utok action params q =
     (if recovery_inspection_active q \<and> action \<notin> {''desktop.list'', ''desktop.get''}
      then (q, Err (error ''DESKTOP_RECOVERY_INSPECT_BUSY''
                     ''queue mutation is unavailable during recovery inspection''))
      else sbind (promote (w 0) q) (\<lambda>q _. command_match (\<lambda>i. w (1 + i)) uid utok action params q))"

section \<open>Recovery inspection and dispatch\<close>

definition begin_recovery_inspection ::
  "string \<Rightarrow> json \<Rightarrow> desktop_queue \<Rightarrow> desktop_queue \<times> unit rpc" where
  "begin_recovery_inspection action params q =
     sbind (lift_res q (validate_recovery_inspection_params action params)) (\<lambda>q _.
       if recovery_inspection_active q
       then (q, Err (error ''DESKTOP_RECOVERY_INSPECT_BUSY'' ''another recovery inspection is active''))
       else if \<not> blocked q \<or> in_flight q
       then (q, Err (error ''DESKTOP_RECOVERY_REQUIRED''
                      ''recovery inspection requires a blocked queue with no in-flight action''))
       else (q\<lparr>recovery_inspection_active := True\<rparr>, Ok ()))"

definition end_recovery_inspection :: "desktop_queue \<Rightarrow> desktop_queue" where
  "end_recovery_inspection q = q\<lparr>recovery_inspection_active := False\<rparr>"

text \<open>\<open>format!("{}:{}", job.id, job.epoch)\<close>.\<close>

definition job_session_id :: "job \<Rightarrow> string" where
  "job_session_id j = j_id j @ '':'' @ show_u64 (j_epoch j)"

text \<open>The admission of one desktop action; the result is the parameters it goes on with.\<close>

definition begin_admit ::
  "(nat \<Rightarrow> moment) \<Rightarrow> string \<Rightarrow> json \<Rightarrow> desktop_queue \<Rightarrow> json rpc" where
  "begin_admit w action params q =
     (case active q of
        Some i \<Rightarrow>
          let job = jobs q ! i
          in if j_state job \<noteq> ''active'' \<or> j_expires_at job \<le> m_now (w 1)
                \<or> past (j_deadline_at job) (m_now (w 2))
             then Err (error ''DESKTOP_DRAINING'' ''previous session is draining'')
             else if \<not> eq_str (jidx (jidx params ''_desktop'') ''token'') (j_token job)
                     \<or> \<not> eq_str (jidx (jidx params ''_desktop'') ''owner'') (j_owner job)
             then Err (error ''DESKTOP_BUSY'' ''desktop belongs to another acceptance session'')
             else if (j_requires_availability job \<or> availability_required q)
                     \<and> \<not> is_available (w 3) q \<and> user_authorization (w 4) q job = None
             then Err (error ''DESKTOP_UNAVAILABLE''
               ''local availability permission is absent or expired; no desktop action dispatched'')
             else if action = ''computer-use.call''
             then (case jset params ''sessionId'' (JStr (job_session_id job)) of
                     Some p \<Rightarrow> Ok p | None \<Rightarrow> Panic)
             else Ok params
      | None \<Rightarrow>
          if maintenance_owner q \<noteq> None
          then Err (error ''DESKTOP_MAINTENANCE'' ''desktop admission is paused for maintenance'')
          else if availability_required q \<or> action = ''computer-use.call''
                  \<or> jget params ''_desktop'' \<noteq> None
          then Err (error ''DESKTOP_SESSION_REQUIRED'' ''submit and await a desktop session first'')
          else Ok params)"

definition desktop_begin ::
  "(nat \<Rightarrow> moment) \<Rightarrow> string \<Rightarrow> json \<Rightarrow> desktop_queue \<Rightarrow> desktop_queue \<times> json rpc" where
  "desktop_begin w action params q =
     (if blocked q
      then (q, Err (error ''DESKTOP_RECOVERY_REQUIRED''
                     ''desktop outcome is uncertain; explicit reset required''))
      else if in_flight q then (q, Err (error ''DESKTOP_BUSY'' ''desktop action is already in flight''))
      else sbind (refresh_availability_policy (w 0) q) (\<lambda>q _.
           sbind (lift_res q (begin_admit w action params q)) (\<lambda>q params'.
           sbind (save (w 5) (q\<lparr>in_flight := True\<rparr>)) (\<lambda>q _. (q, Ok params')))))"

definition desktop_end :: "moment \<Rightarrow> bool \<Rightarrow> desktop_queue \<Rightarrow> desktop_queue \<times> unit rpc" where
  "desktop_end m uncertain q =
     save m (q\<lparr>in_flight := False, blocked := (blocked q \<or> uncertain)\<rparr>)"

end
