(* ===== verification/Desktop_Laws.thy ===== *)
theory Desktop_Laws
  imports Desktop_Queue
begin

text \<open>
  Reasoning about the desktop queue. Every call on the queue is made of a few elementary
  changes: writing the file, closing the availability policy, moving jobs along their life
  cycle, granting one job, appending a job, and setting the flags. The locales
  \<open>desk_base\<close>, \<open>desk_closed\<close>, \<open>desk_begin_closed\<close>, \<open>desk_end_closed\<close> and
  \<open>desk_recover_closed\<close> state that a property of the queue survives the elementary changes;
  inside them it is proved once that it survives every call. Each property of
  \<open>Desktop_Properties\<close> about sequences of calls is an interpretation.
\<close>

section \<open>Elementary changes\<close>

definition job_ident :: "job \<Rightarrow> string \<times> string \<times> string \<times> string \<times> u64 \<times> u64 \<times> bool \<times> u64 option" where
  "job_ident j = (j_id j, j_owner j, j_request_key j, j_token j, j_ttl_ms j, j_submitted_at j,
                  j_requires_availability j, j_deadline_at j)"

text \<open>The life cycle of a job, the grant of a queued job apart.\<close>

definition job_next :: "string \<Rightarrow> string \<Rightarrow> bool" where
  "job_next s s' \<longleftrightarrow>
     s' = s
     \<or> s = ''queued'' \<and> s' \<in> {''cancelled'', ''expired''}
     \<or> s = ''active'' \<and> s' = ''draining''
     \<or> s \<in> {''active'', ''draining''} \<and> s' \<in> {''completed'', ''expired'', ''interrupted''}"

definition job_moves :: "job \<Rightarrow> job \<Rightarrow> bool" where
  "job_moves j j' \<longleftrightarrow>
     job_ident j' = job_ident j \<and> j_epoch j' = j_epoch j \<and> job_next (j_state j) (j_state j')
     \<and> (j_claimed_by j = None \<or> j_claimed_by j' = j_claimed_by j)"

definition may_grant :: "nat \<Rightarrow> desktop_queue \<Rightarrow> bool" where
  "may_grant i q \<longleftrightarrow>
     i < length (jobs q) \<and> j_state (jobs q ! i) = ''queued'' \<and> maintenance_owner q = None
     \<and> \<not> blocked q \<and> \<not> in_flight q \<and> active q = None"

definition fresh_job :: "desktop_queue \<Rightarrow> job \<Rightarrow> bool" where
  "fresh_job q j \<longleftrightarrow>
     j_id j \<notin> j_id ` set (jobs q) \<and> j_token j \<notin> j_token ` set (jobs q)
     \<and> (\<forall>j' \<in> set (jobs q). \<not> (j_owner j' = j_owner j \<and> j_request_key j' = j_request_key j))
     \<and> j_state j = ''queued'' \<and> j_claimed_by j = None"

section \<open>Sequences of calls\<close>

text \<open>
  Every call runs under the executor's mutex around the queue, so a concurrent execution is
  a sequence of these.
\<close>

datatype desk_op =
    Command "nat \<Rightarrow> nat \<Rightarrow> moment" string string string json
  | Begin "nat \<Rightarrow> moment" string json
  | End moment bool
  | NeedsCleanup "nat \<Rightarrow> moment"
  | CleanupDone "nat \<Rightarrow> moment" bool
  | WorkerReconcile "nat \<Rightarrow> moment" bool
  | BeginInspection string json
  | EndInspection

fun desk_step :: "desktop_queue \<Rightarrow> desk_op \<Rightarrow> desktop_queue" where
  "desk_step q (Command w uid utok action params) = fst (command w uid utok action params q)"
| "desk_step q (Begin w action params) = fst (desktop_begin w action params q)"
| "desk_step q (End m uncertain) = fst (desktop_end m uncertain q)"
| "desk_step q (NeedsCleanup w) = fst (needs_cleanup w q)"
| "desk_step q (CleanupDone w success) = fst (cleanup_done w success q)"
| "desk_step q (WorkerReconcile w notification) = fst (worker_reconcile w notification q)"
| "desk_step q (BeginInspection action params) = fst (begin_recovery_inspection action params q)"
| "desk_step q EndInspection = end_recovery_inspection q"

text \<open>A generated UUID has not been used before.\<close>

fun desk_fresh :: "desktop_queue \<Rightarrow> desk_op \<Rightarrow> bool" where
  "desk_fresh q (Command w uid utok action params) \<longleftrightarrow>
     uid \<notin> j_id ` set (jobs q) \<and> utok \<notin> j_token ` set (jobs q)"
| "desk_fresh q _ \<longleftrightarrow> True"

section \<open>Laws of the elementary changes\<close>

lemma job_next_refl [simp]: "job_next s s"
  by (simp add: job_next_def)

lemma job_moves_refl [simp]: "job_moves j j"
  by (simp add: job_moves_def)

lemma job_moves_state:
  "job_next (j_state j) s \<Longrightarrow> job_moves j (j\<lparr>j_state := s\<rparr>)"
  by (simp add: job_moves_def job_ident_def)

lemma job_moves_expires [simp]: "job_moves j (j\<lparr>j_expires_at := t\<rparr>)"
  by (simp add: job_moves_def job_ident_def)

lemma job_moves_claim: "j_claimed_by j = None \<or> j_claimed_by j = Some c \<Longrightarrow> job_moves j (j\<lparr>j_claimed_by := Some c\<rparr>)"
  by (auto simp: job_moves_def job_ident_def)

lemma job_moves_expire [simp]: "job_moves j (expire_job now j)"
  by (auto simp: expire_job_def job_next_def intro!: job_moves_state)

lemma job_moves_finish [simp]: "job_moves j (finish_job j)"
  by (auto simp: finish_job_def job_next_def intro!: job_moves_state)

lemma job_moves_live: "is_live j \<Longrightarrow> s \<in> {''completed'', ''expired'', ''interrupted''} \<Longrightarrow> job_moves j (j\<lparr>j_state := s\<rparr>)"
  by (rule job_moves_state) (auto simp: is_live_def job_next_def)

lemma job_moves_drain: "is_live j \<Longrightarrow> job_moves j (j\<lparr>j_state := ''draining''\<rparr>)"
  by (rule job_moves_state) (auto simp: is_live_def job_next_def)

lemma job_moves_all_expire: "list_all2 job_moves xs (map (expire_job now) xs)"
  by (simp add: list_all2_conv_all_nth)

lemma job_moves_update: "i < length xs \<Longrightarrow> job_moves (xs ! i) j \<Longrightarrow> list_all2 job_moves xs (xs[i := j])"
  by (simp add: list_all2_conv_all_nth nth_list_update)

lemma activeD: "active q = Some i \<Longrightarrow> i < length (jobs q) \<and> is_live (jobs q ! i)"
  unfolding active_def by (blast dest: position_SomeD)

lemma active_None: "active q = None \<longleftrightarrow> filter is_live (jobs q) = []"
  by (simp add: active_def position_None_iff filter_empty_conv)

lemma find_index_SomeD: "List.find p [0..<n] = Some i \<Longrightarrow> i < n \<and> p i"
  by (auto simp: find_Some_iff)

lemma candidateD:
  "candidate w available q = Some i \<Longrightarrow> i < length (jobs q) \<and> j_state (jobs q ! i) = ''queued''"
  by (auto simp: candidate_def Let_def split: option.splits if_splits
           dest!: find_index_SomeD position_SomeD)

lemma ungrant_granted:
  assumes ids: "distinct (map j_id (jobs q))" and i: "i < length (jobs q)"
  shows "ungrant (jobs q ! i) (granted now i q) = q"
proof -
  let ?js = "(jobs q)[i := grant_job (epoch q + 1) now (jobs q ! i)]"
  have id: "j_id (grant_job (epoch q + 1) now (jobs q ! i)) = j_id (jobs q ! i)"
    by (simp add: grant_job_def)
  have "position (\<lambda>j. j_id j = j_id (jobs q ! i)) ?js = Some i"
  proof (rule position_SomeI)
    show "\<forall>k<i. j_id (?js ! k) \<noteq> j_id (jobs q ! i)"
      using ids i nth_eq_iff_index_eq [of "map j_id (jobs q)"] by auto
  qed (use i id in simp_all)
  then show ?thesis by (simp add: ungrant_def granted_def set_job_def Let_def)
qed

section \<open>Properties that survive a promotion\<close>

locale desk_base =
  fixes P :: "desktop_queue \<Rightarrow> bool"
  assumes ids: "P q \<Longrightarrow> distinct (map j_id (jobs q))"
    and disk_closed: "P q \<Longrightarrow> P (q\<lparr>disk := Some (persisted q)\<rparr>)"
    and policy_closed: "P q \<Longrightarrow> P (q\<lparr>availability_required := True\<rparr>)"
    and moves_closed: "P q \<Longrightarrow> list_all2 job_moves (jobs q) js \<Longrightarrow> P (q\<lparr>jobs := js\<rparr>)"
    and grant_closed: "P q \<Longrightarrow> may_grant i q \<Longrightarrow> P (granted now i q)"
begin

lemma save_P: "P q \<Longrightarrow> P (fst (save m q))"
  by (auto simp: save_def disk_closed split: option.splits)

lemma refresh_P: "P q \<Longrightarrow> P (fst (refresh_availability_policy m q))"
  by (auto simp: refresh_availability_policy_def intro!: save_P policy_closed)

lemma set_job_P: "P q \<Longrightarrow> i < length (jobs q) \<Longrightarrow> job_moves (jobs q ! i) j \<Longrightarrow> P (set_job i j q)"
  unfolding set_job_def by (blast intro: moves_closed job_moves_update)

lemma grant_P: "P q \<Longrightarrow> may_grant i q \<Longrightarrow> P (fst (grant m i q))"
  using ungrant_granted [OF ids] grant_closed disk_closed [OF grant_closed]
  by (auto simp: grant_def save_def may_grant_def split: option.splits)

lemma expire_due_P: "P q \<Longrightarrow> P (fst (expire_due m q))"
  by (auto simp: expire_due_def Let_def intro!: save_P moves_closed job_moves_all_expire)

lemma offer_P: "P q \<Longrightarrow> P (fst (offer w q))"
  by (auto simp: offer_def may_grant_def split: option.splits intro!: grant_P dest!: candidateD)

lemma promote_P: "P q \<Longrightarrow> P (fst (promote w q))"
  unfolding promote_def
  by (auto intro!: sbind_fst_inv [where P = P] refresh_P expire_due_P offer_P)

lemma needs_cleanup_P: "P q \<Longrightarrow> P (fst (needs_cleanup w q))"
  by (auto simp: needs_cleanup_def Let_def split: option.splits
           intro!: set_job_P job_moves_drain dest!: activeD)

end

text \<open>A promotion changes neither the number of jobs nor who they are.\<close>

lemma job_moves_ident: "list_all2 job_moves xs ys \<Longrightarrow> map job_ident ys = map job_ident xs"
  by (induction rule: list_all2_induct) (auto simp: job_moves_def)

lemma ids_of_ident:
  "map job_ident xs = map job_ident ys \<Longrightarrow> map j_id xs = map j_id ys"
  "map job_ident xs = map job_ident ys \<Longrightarrow> map j_token xs = map j_token ys"
  "map job_ident xs = map job_ident ys \<Longrightarrow>
     map (\<lambda>j. (j_owner j, j_request_key j)) xs = map (\<lambda>j. (j_owner j, j_request_key j)) ys"
  by (auto simp: list_eq_iff_nth_eq job_ident_def)

lemma granted_ident: "i < length (jobs q) \<Longrightarrow> map job_ident (jobs (granted now i q)) = map job_ident (jobs q)"
  by (auto simp: granted_def grant_job_def job_ident_def list_eq_iff_nth_eq nth_list_update)

interpretation idents: desk_base "\<lambda>q. distinct (map j_id (jobs q)) \<and> map job_ident (jobs q) = c" for c
proof unfold_locales
  fix q :: desktop_queue and js
  assume P: "distinct (map j_id (jobs q)) \<and> map job_ident (jobs q) = c"
    and "list_all2 job_moves (jobs q) js"
  then have "map job_ident js = map job_ident (jobs q)" by (simp add: job_moves_ident)
  with P ids_of_ident(1) [OF this]
  show "distinct (map j_id (jobs (q\<lparr>jobs := js\<rparr>))) \<and> map job_ident (jobs (q\<lparr>jobs := js\<rparr>)) = c"
    by simp
next
  fix q :: desktop_queue and i now
  assume P: "distinct (map j_id (jobs q)) \<and> map job_ident (jobs q) = c" and "may_grant i q"
  then have "map job_ident (jobs (granted now i q)) = map job_ident (jobs q)"
    by (simp add: granted_ident may_grant_def)
  with P ids_of_ident(1) [OF this]
  show "distinct (map j_id (jobs (granted now i q))) \<and> map job_ident (jobs (granted now i q)) = c"
    by simp
qed simp_all

lemma promote_idents:
  "distinct (map j_id (jobs q)) \<Longrightarrow> map job_ident (jobs (fst (promote w q))) = map job_ident (jobs q)"
  using idents.promote_P [of q "map job_ident (jobs q)" w] by simp

lemma fresh_after_promote:
  assumes "distinct (map j_id (jobs q))"
    and "uid \<notin> j_id ` set (jobs q)" and "utok \<notin> j_token ` set (jobs q)"
  shows "uid \<notin> j_id ` set (jobs (fst (promote w q)))" "utok \<notin> j_token ` set (jobs (fst (promote w q)))"
  using assms ids_of_ident(1,2) [OF promote_idents [OF assms(1)], of w] set_map
  by (metis list.set_map)+

section \<open>Properties that survive the commands\<close>

locale desk_closed = desk_base +
  assumes wakes_closed: "P q \<Longrightarrow> P (q\<lparr>notification_wakes := n\<rparr>)" "P q \<Longrightarrow> P (q\<lparr>polling_wakes := n\<rparr>)"
    and inspection_closed: "P q \<Longrightarrow> P (q\<lparr>recovery_inspection_active := b\<rparr>)"
    and block_closed: "P q \<Longrightarrow> P (q\<lparr>blocked := True\<rparr>)"
    and submit_closed: "P q \<Longrightarrow> fresh_job q j \<Longrightarrow> P (q\<lparr>jobs := jobs q @ [j]\<rparr>)"
begin

lemma push_job_P: "P q \<Longrightarrow> fresh_job q j \<Longrightarrow> P (fst (push_job w j q))"
  unfolding push_job_def
  by (auto intro!: sbind_fst_inv [where P = P] save_P promote_P submit_closed)

lemma submit_P:
  assumes "P q" and "uid \<notin> j_id ` set (jobs q)" and "utok \<notin> j_token ` set (jobs q)"
  shows "P (fst (desktop_submit w uid utok params q))"
proof -
  have "P (fst (push_job v (new_job uid utok owner key ttl now req deadline) q))"
    if "position (\<lambda>j. j_owner j = owner \<and> j_request_key j = key) (jobs q) = None"
    for v owner key ttl now req deadline
    using that assms by (auto simp: fresh_job_def new_job_def position_None_iff intro!: push_job_P)
  then have tail: "P (fst (case position (\<lambda>j. j_owner j = owner \<and> j_request_key j = key) (jobs q) of
      Some i \<Rightarrow> (q, f i)
    | None \<Rightarrow> if c1 then (q, e1) else if c2 then (q, e2)
        else sbind (lift_res q r1) (\<lambda>q req. sbind (lift_res q r2) (\<lambda>q deadline.
          push_job v (new_job uid utok owner key ttl now (req \<or> availability_required q) deadline) q))))"
    for owner key f c1 e1 c2 e2 r1 r2 v ttl now
    using assms(1) by (cases r1; cases r2) (simp_all add: lift_res_def split: option.split)
  show ?thesis
    unfolding desktop_submit_def Let_def
    by (rule sbind_fst_inv [where P = P], simp add: assms(1))
       (rule sbind_fst_inv [where P = P], simp_all only: lift_res_simps assms(1) tail)
qed

lemma claim_job_P:
  assumes "P q" and "i < length (jobs q)"
    and "j_claimed_by (jobs q ! i) = None \<or> j_claimed_by (jobs q ! i) = Some c"
  shows "P (fst (claim_job m i c q))"
proof -
  let ?q = "set_job i ((jobs q ! i)\<lparr>j_claimed_by := Some c\<rparr>) q"
  have "P ?q" using assms(1,2) job_moves_claim [OF assms(3)] by (rule set_job_P)
  moreover have "set_job i ((jobs ?q ! i)\<lparr>j_claimed_by := j_claimed_by (jobs q ! i)\<rparr>) ?q = q"
    using assms(2) by (simp add: set_job_def)
  ultimately show ?thesis
    using assms(1) by (auto simp: claim_job_def save_def disk_closed split: option.splits)
qed

lemma claim_P:
  assumes "P q"
  shows "P (fst (desktop_claim w params q))"
proof -
  have tail: "P (fst (if c1 then (q, e1) else if c2 then (q, e2)
      else if j_claimed_by (jobs q ! i) \<noteq> None \<and> j_claimed_by (jobs q ! i) \<noteq> Some c then (q, e3)
      else claim_job m i c q))" if "i < length (jobs q)" for c1 c2 e1 e2 e3 i c m
    using claim_job_P [OF assms that, of c m] assms by auto
  show ?thesis
    unfolding desktop_claim_def Let_def
    by (intro sbind_fst_inv [where P = P])
       (simp_all only: lift_res_simps assms tail ok_or_Ok_iff position_SomeD)
qed

lemma session_P:
  assumes "P q"
  shows "P (fst (desktop_session w action params q))"
proof -
  have head: "P (fst (if a1 then if c1 then (q, Err e1)
         else (set_job i ((jobs q ! i)\<lparr>j_expires_at := t\<rparr>) q, Ok ())
       else if a2 then (set_job i (finish_job (jobs q ! i)) q, Ok ()) else (q, Ok ())))"
    if "i < length (jobs q)" for a1 a2 c1 e1 i t
    using that assms by (auto intro!: set_job_P)
  have tail: "P (fst (if a3 then save m q' else (q', Ok ())))" if "P q'" for a3 m q'
    using that by (auto intro!: save_P)
  show ?thesis
    unfolding desktop_session_def Let_def
    by (intro sbind_fst_inv [where P = P])
       (simp_all only: lift_res_simps assms head tail fst_conv ok_or_Ok_iff position_SomeD)
qed

lemma cleanup_done_P: "P q \<Longrightarrow> P (fst (cleanup_done w success q))"
  unfolding cleanup_done_def Let_def
  by (auto intro!: sbind_fst_inv [where P = P] save_P promote_P block_closed set_job_P job_moves_live
           split: option.splits dest!: activeD)

lemma worker_reconcile_P: "P q \<Longrightarrow> P (fst (worker_reconcile w notification q))"
  by (auto simp: worker_reconcile_def intro!: promote_P wakes_closed)

lemma inspection_P:
  "P q \<Longrightarrow> P (fst (begin_recovery_inspection action params q))"
  "P q \<Longrightarrow> P (end_recovery_inspection q)"
  unfolding begin_recovery_inspection_def end_recovery_inspection_def
  by (auto intro!: sbind_fst_inv [where P = P] inspection_closed)

lemma command_match_P:
  assumes "P q" and "uid \<notin> j_id ` set (jobs q)" and "utok \<notin> j_token ` set (jobs q)"
    and "action = ''desktop.recover'' \<Longrightarrow> P (fst (desktop_recover w params q))"
    and "action = ''desktop.maintenance'' \<Longrightarrow> P (fst (desktop_maintenance w params q))"
  shows "P (fst (command_match w uid utok action params q))"
proof -
  have arms: "P (fst (if action = ''desktop.maintenance'' then desktop_maintenance w params q
      else if a2 then desktop_submit w uid utok params q
      else if a3 then lift_res q r
      else if a4 then desktop_claim w params q
      else if a5 then desktop_session w action params q
      else if action = ''desktop.recover'' then desktop_recover w params q
      else (q, e)))" for a2 a3 a4 a5 r e
    using assms by (simp add: submit_P claim_P session_P)
  show ?thesis unfolding command_match_def by (rule arms)
qed

lemma command_P:
  assumes "P q" and "uid \<notin> j_id ` set (jobs q)" and "utok \<notin> j_token ` set (jobs q)"
    and recovers: "\<And>w q. P q \<Longrightarrow> action = ''desktop.recover'' \<Longrightarrow> P (fst (desktop_recover w params q))"
    and maintains: "\<And>w q. P q \<Longrightarrow> action = ''desktop.maintenance'' \<Longrightarrow> P (fst (desktop_maintenance w params q))"
  shows "P (fst (command w uid utok action params q))"
proof -
  have "P (fst (promote (w 0) q))" using assms(1) by (rule promote_P)
  then show ?thesis
    using assms(1) fresh_after_promote [OF ids [OF assms(1)] assms(2,3)]
    by (auto simp: command_def intro!: sbind_fst_inv [where P = P] command_match_P recovers maintains)
qed

text \<open>What is left to show of a call: the actions that set or clear the protective flags.\<close>

lemma step_P:
  assumes "P q" and "desk_fresh q e"
    and "\<And>w action params. e = Begin w action params \<Longrightarrow> P (fst (desktop_begin w action params q))"
    and "\<And>m uncertain. e = End m uncertain \<Longrightarrow> P (fst (desktop_end m uncertain q))"
    and "\<And>v uid utok params w q. e = Command v uid utok ''desktop.recover'' params \<Longrightarrow> P q \<Longrightarrow>
           P (fst (desktop_recover w params q))"
    and "\<And>v uid utok params w q. e = Command v uid utok ''desktop.maintenance'' params \<Longrightarrow> P q \<Longrightarrow>
           P (fst (desktop_maintenance w params q))"
  shows "P (desk_step q e)"
proof (cases e)
  case (Command w uid utok action params)
  have "P (fst (command w uid utok action params q))"
    using assms(1,2,5,6) Command by (intro command_P) auto
  with Command show ?thesis by simp
qed (use assms in \<open>simp_all add: needs_cleanup_P cleanup_done_P worker_reconcile_P inspection_P\<close>)

end

locale desk_begin_closed = desk_closed +
  assumes begin_closed: "P q \<Longrightarrow> \<not> blocked q \<Longrightarrow> \<not> in_flight q \<Longrightarrow> P (q\<lparr>in_flight := True\<rparr>)"
begin

lemma refresh_flags:
  "blocked (fst (refresh_availability_policy m q)) = blocked q"
  "in_flight (fst (refresh_availability_policy m q)) = in_flight q"
  by (auto simp: refresh_availability_policy_def save_def split: option.splits)

lemma begin_P: "P q \<Longrightarrow> P (fst (desktop_begin w action params q))"
  unfolding desktop_begin_def
  by (auto intro!: sbind_fst_inv [where P = P] refresh_P save_P begin_closed simp: refresh_flags)

end

locale desk_end_closed = desk_closed +
  assumes end_closed: "P q \<Longrightarrow> P (q\<lparr>in_flight := False\<rparr>)"
begin

lemma end_P: "P q \<Longrightarrow> P (fst (desktop_end m uncertain q))"
proof -
  assume "P q"
  then have "P (q\<lparr>in_flight := False, blocked := True\<rparr>)" "P (q\<lparr>in_flight := False\<rparr>)"
    using end_closed [of q] block_closed by auto
  then show ?thesis unfolding desktop_end_def by (cases uncertain) (auto intro!: save_P)
qed

end

locale desk_recover_closed = desk_closed +
  assumes recover_closed: "P q \<Longrightarrow> blocked q \<Longrightarrow> \<not> in_flight q \<Longrightarrow> P (q\<lparr>blocked := False\<rparr>)"
begin

lemma recover_P:
  assumes P: "P q"
  shows "P (fst (desktop_recover w params q))"
proof -
  let ?q = "(case active q of
      Some i \<Rightarrow> set_job i ((jobs q ! i)\<lparr>j_state := ''interrupted''\<rparr>) q | None \<Rightarrow> q)"
  have flags: "blocked ?q = blocked q" "in_flight ?q = in_flight q"
    by (auto simp: set_job_def split: option.split)
  have "P ?q"
    using P by (auto split: option.split intro!: set_job_P job_moves_live dest!: activeD)
  then have "P (?q\<lparr>blocked := False\<rparr>)" if "blocked q" "\<not> in_flight q"
    using that recover_closed [of ?q] flags by simp
  then have "P (fst (sbind (save (w 0 0) (?q\<lparr>blocked := False\<rparr>)) (\<lambda>q _.
      sbind (promote (w 1) q) (\<lambda>q _. (q, r)))))" if "blocked q" "\<not> in_flight q" for r :: "json rpc"
    using that by (auto intro!: sbind_fst_inv [where P = P] save_P promote_P)
  with P show ?thesis unfolding desktop_recover_def Let_def by simp
qed

end

locale desk_maintenance_closed = desk_closed +
  assumes maintenance_closed: "P q \<Longrightarrow> P (q\<lparr>maintenance_owner := x\<rparr>)"
begin

lemma maintenance_P: "P q \<Longrightarrow> P (fst (desktop_maintenance w params q))"
  unfolding desktop_maintenance_def
  by (auto intro!: sbind_fst_inv [where P = P] save_P promote_P maintenance_closed)

end

locale desk_stable =
  desk_begin_closed + desk_end_closed + desk_recover_closed + desk_maintenance_closed
begin

lemma desk_step_P: "P q \<Longrightarrow> desk_fresh q e \<Longrightarrow> P (desk_step q e)"
  by (rule step_P) (auto intro: begin_P end_P recover_P maintenance_P)

end

end
