(* ===== verification/Desktop_Properties.thy ===== *)
theory Desktop_Properties
  imports Desktop_Laws
begin

text \<open>
  What the desktop queue guarantees over every sequence of calls and across restarts of the
  executor: one holder at a time, grants in submission order, admission of an action only
  for the holder, and quarantine after an action whose outcome is not known.
\<close>

section \<open>Invariants and histories\<close>

definition desk_inv :: "desktop_queue \<Rightarrow> bool" where
  "desk_inv q \<longleftrightarrow>
     distinct (map j_id (jobs q)) \<and> distinct (map j_token (jobs q))
     \<and> distinct (map (\<lambda>j. (j_owner j, j_request_key j)) (jobs q))
     \<and> length (filter is_live (jobs q)) \<le> 1"

text \<open>The life cycle of a job as its submitter sees it, with the grant.\<close>

definition job_reaches :: "string \<Rightarrow> string \<Rightarrow> bool" where
  "job_reaches s s' \<longleftrightarrow>
     s' = s
     \<or> s = ''queued'' \<and> s' \<in> {''active'', ''draining'', ''cancelled'', ''completed'', ''expired'', ''interrupted''}
     \<or> s = ''active'' \<and> s' \<in> {''draining'', ''completed'', ''expired'', ''interrupted''}
     \<or> s = ''draining'' \<and> s' \<in> {''completed'', ''expired'', ''interrupted''}"

definition job_history :: "job \<Rightarrow> job \<Rightarrow> bool" where
  "job_history j j' \<longleftrightarrow>
     job_ident j' = job_ident j \<and> job_reaches (j_state j) (j_state j')
     \<and> (j_claimed_by j = None \<or> j_claimed_by j' = j_claimed_by j)
     \<and> (j_state j = ''queued'' \<or> j_epoch j' = j_epoch j)"

definition queue_history :: "desktop_queue \<Rightarrow> desktop_queue \<Rightarrow> bool" where
  "queue_history q q' \<longleftrightarrow>
     length (jobs q) \<le> length (jobs q')
     \<and> (\<forall>i < length (jobs q). job_history (jobs q ! i) (jobs q' ! i))"

text \<open>Jobs that are active in \<open>q'\<close> were active in \<open>q\<close>: nothing has been granted in between.\<close>

definition no_grant :: "desktop_queue \<Rightarrow> desktop_queue \<Rightarrow> bool" where
  "no_grant q q' \<longleftrightarrow>
     (\<forall>i < length (jobs q'). j_state (jobs q' ! i) = ''active'' \<longrightarrow>
        i < length (jobs q) \<and> j_state (jobs q ! i) = ''active'')"

definition quarantined :: "desktop_queue \<Rightarrow> desktop_queue \<Rightarrow> bool" where
  "quarantined q0 q \<longleftrightarrow> desk_inv q \<and> blocked q \<and> no_grant q0 q"

text \<open>
  An action is in flight. With \<open>durable\<close>, the queue file says so as well, with the boot id of
  the kernel the queue was opened under.
\<close>

definition disk_in_flight :: "string option \<Rightarrow> desktop_queue \<Rightarrow> bool" where
  "disk_in_flight boot q \<longleftrightarrow>
     (case disk q of Some f \<Rightarrow> f_in_flight f \<and> f_boot_id f = boot | None \<Rightarrow> False)"

definition dispatching :: "bool \<Rightarrow> desktop_queue \<Rightarrow> desktop_queue \<Rightarrow> bool" where
  "dispatching durable q0 q \<longleftrightarrow>
     desk_inv q \<and> in_flight q \<and> boot_id q = boot_id q0 \<and> no_grant q0 q
     \<and> (durable \<longrightarrow> disk_in_flight (boot_id q0) q)"

definition maintained :: "string \<Rightarrow> desktop_queue \<Rightarrow> desktop_queue \<Rightarrow> bool" where
  "maintained operator q0 q \<longleftrightarrow>
     desk_inv q \<and> maintenance_owner q = Some operator \<and> no_grant q0 q"

fun confirmed_recovery :: "desk_op \<Rightarrow> bool" where
  "confirmed_recovery (Command w uid utok action params) \<longleftrightarrow>
     action = ''desktop.recover'' \<and> eq_bool (jidx params ''confirmDesktopReset'') True"
| "confirmed_recovery _ \<longleftrightarrow> False"

fun ends_action :: "desk_op \<Rightarrow> bool" where
  "ends_action (End m uncertain) \<longleftrightarrow> True"
| "ends_action _ \<longleftrightarrow> False"

fun maintenance_by :: "string \<Rightarrow> desk_op \<Rightarrow> bool" where
  "maintenance_by operator (Command w uid utok action params) \<longleftrightarrow>
     action = ''desktop.maintenance'' \<and> jidx params ''owner'' = JStr operator"
| "maintenance_by operator _ \<longleftrightarrow> False"

section \<open>The invariant survives every call\<close>

lemma live_moves: "job_moves j j' \<Longrightarrow> is_live j' \<Longrightarrow> is_live j"
  by (auto simp: job_moves_def job_next_def is_live_def)

lemma live_count_moves:
  "list_all2 job_moves xs ys \<Longrightarrow> length (filter is_live ys) \<le> length (filter is_live xs)"
  by (induction rule: list_all2_induct) (auto dest: live_moves)

lemma inv_moves: "desk_inv q \<Longrightarrow> list_all2 job_moves (jobs q) js \<Longrightarrow> desk_inv (q\<lparr>jobs := js\<rparr>)"
  using job_moves_ident [of "jobs q" js] live_count_moves [of "jobs q" js] ids_of_ident [of js "jobs q"]
  by (simp add: desk_inv_def)

lemma inv_grant: "desk_inv q \<Longrightarrow> may_grant i q \<Longrightarrow> desk_inv (granted now i q)"
proof -
  assume inv: "desk_inv q" and g: "may_grant i q"
  then have i: "i < length (jobs q)" by (simp add: may_grant_def)
  have "length (filter is_live (jobs (granted now i q))) \<le> 1"
    using g filter_update_length [OF i, of is_live "grant_job (epoch q + 1) now (jobs q ! i)"]
    by (auto simp: granted_def may_grant_def active_None split: if_splits)
  with inv granted_ident [OF i, of now] ids_of_ident [of "jobs (granted now i q)" "jobs q"]
  show ?thesis by (simp add: desk_inv_def)
qed

lemma inv_submit: "desk_inv q \<Longrightarrow> fresh_job q j \<Longrightarrow> desk_inv (q\<lparr>jobs := jobs q @ [j]\<rparr>)"
  by (auto simp: desk_inv_def fresh_job_def is_live_def)

interpretation dinv: desk_stable desk_inv
proof unfold_locales
  show "distinct (map j_id (jobs q))" if "desk_inv q" for q
    using that by (simp add: desk_inv_def)
  show "desk_inv (q\<lparr>jobs := js\<rparr>)" if "desk_inv q" "list_all2 job_moves (jobs q) js" for q js
    using that by (rule inv_moves)
  show "desk_inv (granted now i q)" if "desk_inv q" "may_grant i q" for q i now
    using that by (rule inv_grant)
  show "desk_inv (q\<lparr>jobs := jobs q @ [j]\<rparr>)" if "desk_inv q" "fresh_job q j" for q j
    using that by (rule inv_submit)
qed (simp_all add: desk_inv_def)

interpretation desk: invariant_machine desk_step desk_fresh desk_inv
  by unfold_locales (rule dinv.desk_step_P)

section \<open>Histories\<close>

lemma job_history_refl [simp]: "job_history j j"
  by (simp add: job_history_def job_reaches_def)

lemma job_reaches_next: "job_reaches s t \<Longrightarrow> job_next t u \<Longrightarrow> job_reaches s u"
  unfolding job_reaches_def job_next_def by (elim disjE conjE insertE emptyE) simp_all

lemma job_next_queued: "job_next s ''queued'' \<longleftrightarrow> s = ''queued''"
  by (auto simp: job_next_def)

lemma job_reaches_queued: "job_reaches s ''queued'' \<longleftrightarrow> s = ''queued''"
  by (auto simp: job_reaches_def)

lemma job_history_moves: "job_history j j' \<Longrightarrow> job_moves j' j'' \<Longrightarrow> job_history j j''"
  unfolding job_history_def job_moves_def by (auto intro: job_reaches_next)

lemma job_history_grant:
  "job_history j j' \<Longrightarrow> j_state j' = ''queued'' \<Longrightarrow> job_history j (grant_job ep now j')"
  unfolding job_history_def
  by (simp add: job_reaches_queued) (simp add: job_reaches_def grant_job_def job_ident_def)

lemma history_moves:
  "queue_history q0 q \<Longrightarrow> list_all2 job_moves (jobs q) js \<Longrightarrow> queue_history q0 (q\<lparr>jobs := js\<rparr>)"
  by (auto simp: queue_history_def list_all2_conv_all_nth intro: job_history_moves)

lemma history_grant: "queue_history q0 q \<Longrightarrow> may_grant i q \<Longrightarrow> queue_history q0 (granted now i q)"
  by (auto simp: queue_history_def granted_def may_grant_def nth_list_update intro!: job_history_grant)

lemma history_submit: "queue_history q0 q \<Longrightarrow> queue_history q0 (q\<lparr>jobs := jobs q @ [j]\<rparr>)"
  by (auto simp: queue_history_def nth_append)

interpretation hist: desk_stable "\<lambda>q. desk_inv q \<and> queue_history q0 q" for q0
proof unfold_locales
  show "desk_inv (q\<lparr>jobs := js\<rparr>) \<and> queue_history q0 (q\<lparr>jobs := js\<rparr>)"
    if "desk_inv q \<and> queue_history q0 q" "list_all2 job_moves (jobs q) js" for q js
    using that by (simp add: inv_moves history_moves)
  show "desk_inv (granted now i q) \<and> queue_history q0 (granted now i q)"
    if "desk_inv q \<and> queue_history q0 q" "may_grant i q" for q i now
    using that by (simp add: inv_grant history_grant)
  show "desk_inv (q\<lparr>jobs := jobs q @ [j]\<rparr>) \<and> queue_history q0 (q\<lparr>jobs := jobs q @ [j]\<rparr>)"
    if "desk_inv q \<and> queue_history q0 q" "fresh_job q j" for q j
    using that by (simp add: inv_submit history_submit)
qed (simp_all add: desk_inv_def queue_history_def)

interpretation desk_hist: invariant_machine desk_step desk_fresh "\<lambda>q. desk_inv q \<and> queue_history q0 q" for q0
  by unfold_locales (rule hist.desk_step_P)

lemma queue_history_refl [simp]: "queue_history q q"
  by (simp add: queue_history_def)

lemma run_history:
  "desk_inv q \<Longrightarrow> adm_run desk_fresh desk_step q es \<Longrightarrow> queue_history q (foldl desk_step q es)"
  using desk_hist.run_inv [of q q es] by simp

section \<open>Quarantine, dispatch and maintenance\<close>

lemma job_next_active: "job_next s ''active'' \<longleftrightarrow> s = ''active''"
  by (auto simp: job_next_def)

lemma no_grant_refl [simp]: "no_grant q q"
  by (simp add: no_grant_def)

lemma no_grant_moves:
  "no_grant q0 q \<Longrightarrow> list_all2 job_moves (jobs q) js \<Longrightarrow> no_grant q0 (q\<lparr>jobs := js\<rparr>)"
  by (auto simp: no_grant_def list_all2_conv_all_nth job_moves_def job_next_active)

lemma no_grant_submit: "no_grant q0 q \<Longrightarrow> fresh_job q j \<Longrightarrow> no_grant q0 (q\<lparr>jobs := jobs q @ [j]\<rparr>)"
  by (auto simp: no_grant_def nth_append fresh_job_def)

lemma no_grant_jobs: "jobs q' = jobs q \<Longrightarrow> no_grant q0 q' = no_grant q0 q"
  by (simp add: no_grant_def)

lemma desk_inv_jobs: "jobs q' = jobs q \<Longrightarrow> desk_inv q' = desk_inv q"
  by (simp add: desk_inv_def)

lemmas same_jobs = no_grant_jobs desk_inv_jobs

interpretation quar: desk_closed "quarantined q0" for q0
proof unfold_locales
  show "quarantined q0 (q\<lparr>jobs := js\<rparr>)"
    if "quarantined q0 q" "list_all2 job_moves (jobs q) js" for q js
    using that by (simp add: quarantined_def inv_moves no_grant_moves)
  show "quarantined q0 (q\<lparr>jobs := jobs q @ [j]\<rparr>)" if "quarantined q0 q" "fresh_job q j" for q j
    using that by (simp add: quarantined_def inv_submit no_grant_submit)
qed (auto simp: quarantined_def may_grant_def desk_inv_def no_grant_def)

interpretation quar_begin: desk_begin_closed "quarantined q0" for q0
  by unfold_locales (simp add: quarantined_def)

interpretation quar_end: desk_end_closed "quarantined q0" for q0
  by unfold_locales (simp add: quarantined_def desk_inv_def no_grant_def)

interpretation quar_maintenance: desk_maintenance_closed "quarantined q0" for q0
  by unfold_locales (simp add: quarantined_def desk_inv_def no_grant_def)

lemma unconfirmed_recover:
  "\<not> eq_bool (jidx params ''confirmDesktopReset'') True \<Longrightarrow> fst (desktop_recover w params q) = q"
  by (simp add: desktop_recover_def)

interpretation desk_quar:
  invariant_machine desk_step "\<lambda>q e. desk_fresh q e \<and> \<not> confirmed_recovery e" "quarantined q0" for q0
  by unfold_locales
     (rule quar.step_P; auto simp: quar_begin.begin_P quar_end.end_P quar_maintenance.maintenance_P
        unconfirmed_recover)

interpretation disp: desk_closed "dispatching durable q0" for durable q0
proof unfold_locales
  show "dispatching durable q0 (q\<lparr>jobs := js\<rparr>)"
    if "dispatching durable q0 q" "list_all2 job_moves (jobs q) js" for q js
    using that by (simp add: dispatching_def inv_moves no_grant_moves disk_in_flight_def)
  show "dispatching durable q0 (q\<lparr>jobs := jobs q @ [j]\<rparr>)"
    if "dispatching durable q0 q" "fresh_job q j" for q j
    using that by (simp add: dispatching_def inv_submit no_grant_submit disk_in_flight_def)
qed (auto simp: dispatching_def may_grant_def desk_inv_def no_grant_def disk_in_flight_def persisted_def)

interpretation disp_begin: desk_begin_closed "dispatching durable q0" for durable q0
  by unfold_locales (simp add: dispatching_def)

interpretation disp_recover: desk_recover_closed "dispatching durable q0" for durable q0
  by unfold_locales (simp add: dispatching_def)

interpretation disp_maintenance: desk_maintenance_closed "dispatching durable q0" for durable q0
  by unfold_locales (simp add: dispatching_def desk_inv_def no_grant_def disk_in_flight_def)

interpretation desk_disp:
  invariant_machine desk_step "\<lambda>q e. desk_fresh q e \<and> \<not> ends_action e" "dispatching durable q0"
    for durable q0
  by unfold_locales
     (rule disp.step_P; auto simp: disp_begin.begin_P disp_recover.recover_P disp_maintenance.maintenance_P)

interpretation maint: desk_closed "maintained operator q0" for operator q0
proof unfold_locales
  show "maintained operator q0 (q\<lparr>jobs := js\<rparr>)"
    if "maintained operator q0 q" "list_all2 job_moves (jobs q) js" for q js
    using that by (simp add: maintained_def inv_moves no_grant_moves)
  show "maintained operator q0 (q\<lparr>jobs := jobs q @ [j]\<rparr>)"
    if "maintained operator q0 q" "fresh_job q j" for q j
    using that by (simp add: maintained_def inv_submit no_grant_submit)
qed (auto simp: maintained_def may_grant_def desk_inv_def no_grant_def)

interpretation maint_begin: desk_begin_closed "maintained operator q0" for operator q0
  by unfold_locales (simp add: maintained_def desk_inv_def no_grant_def)

interpretation maint_end: desk_end_closed "maintained operator q0" for operator q0
  by unfold_locales (simp add: maintained_def desk_inv_def no_grant_def)

interpretation maint_recover: desk_recover_closed "maintained operator q0" for operator q0
  by unfold_locales (simp add: maintained_def desk_inv_def no_grant_def)

lemma field_Ok: "field v name = Ok s \<longleftrightarrow> jidx v name = JStr s \<and> s \<noteq> [] \<and> length s \<le> 256"
  by (auto simp: field_def split: option.splits if_splits)

lemma field_not_Panic [simp]: "field v name \<noteq> Panic"
  by (auto simp: field_def split: option.splits)

lemma foreign_maintenance:
  assumes "maintenance_owner q = Some operator" and "jidx params ''owner'' \<noteq> JStr operator"
  shows "fst (desktop_maintenance w params q) = q"
proof (cases "field params ''owner''")
  case (Ok owner)
  then have "owner \<noteq> operator" using assms(2) by (auto simp: field_Ok)
  with Ok assms(1) show ?thesis
    by (cases "as_bool (jidx params ''enabled'')") (simp_all add: desktop_maintenance_def lift_res_def)
qed (simp_all add: desktop_maintenance_def lift_res_def)

lemma maintained_foreign:
  "maintained operator q0 q \<Longrightarrow> jidx params ''owner'' \<noteq> JStr operator \<Longrightarrow>
     maintained operator q0 (fst (desktop_maintenance w params q))"
  by (simp add: maintained_def foreign_maintenance)

interpretation desk_maint:
  invariant_machine desk_step "\<lambda>q e. desk_fresh q e \<and> \<not> maintenance_by operator e"
    "maintained operator q0" for operator q0
  by unfold_locales
     (rule maint.step_P; auto simp: maint_begin.begin_P maint_end.end_P maint_recover.recover_P
        maintained_foreign)

section \<open>Outcomes of single calls\<close>

lemma save_fields [simp]:
  "path (fst (save m q)) = path q" "jobs (fst (save m q)) = jobs q"
  "epoch (fst (save m q)) = epoch q" "blocked (fst (save m q)) = blocked q"
  "in_flight (fst (save m q)) = in_flight q" "boot_id (fst (save m q)) = boot_id q"
  "maintenance_owner (fst (save m q)) = maintenance_owner q"
  "availability_required (fst (save m q)) = availability_required q"
  "last_recovery (fst (save m q)) = last_recovery q"
  by (auto simp: save_def split: option.splits)

lemma save_Ok: "snd (save m q) = Ok u \<Longrightarrow> path q \<noteq> None \<Longrightarrow> disk (fst (save m q)) = Some (persisted q)"
  by (auto simp: save_def split: option.splits)

lemma persisted_save [simp]: "persisted (fst (save m q)) = persisted q"
  by (simp add: persisted_def)

lemma save_not_Panic [simp]: "snd (save m q) \<noteq> Panic"
  by (auto simp: save_def split: option.splits)

lemma refresh_fields [simp]:
  "path (fst (refresh_availability_policy m q)) = path q"
  "jobs (fst (refresh_availability_policy m q)) = jobs q"
  "epoch (fst (refresh_availability_policy m q)) = epoch q"
  "blocked (fst (refresh_availability_policy m q)) = blocked q"
  "in_flight (fst (refresh_availability_policy m q)) = in_flight q"
  "boot_id (fst (refresh_availability_policy m q)) = boot_id q"
  "maintenance_owner (fst (refresh_availability_policy m q)) = maintenance_owner q"
  by (simp_all add: refresh_availability_policy_def)

lemma refresh_policy:
  "availability_required (fst (refresh_availability_policy m q))
     \<longleftrightarrow> availability_required q \<or> path q \<noteq> None \<and> m_provider m"
  by (auto simp: refresh_availability_policy_def)

lemma active_cong: "jobs q' = jobs q \<Longrightarrow> active q' = active q"
  by (simp add: active_def)

lemma is_available_iff:
  "is_available m q \<longleftrightarrow> (\<exists>v. availability_snapshot m q = Some v \<and> snapshot_allows_input v (m_now m))"
  by (auto simp: is_available_def availability_def Let_def eq_bool_def split: option.splits)

lemma is_available_cong: "path q' = path q \<Longrightarrow> is_available m q' = is_available m q"
  by (simp add: is_available_iff availability_snapshot_def)

lemma user_authorization_cong:
  assumes "path q' = path q" and "boot_id q' = boot_id q"
  shows "user_authorization m q' j = user_authorization m q j"
  unfolding user_authorization_def assms ..

lemma candidate_spec:
  assumes "candidate w available q = Some i"
  shows "(\<forall>k<i. j_state (jobs q ! k) \<noteq> ''queued'')
           \<and> (j_requires_availability (jobs q ! i) \<or> availability_required q \<longrightarrow> available)
         \<or> user_authorization (w i) q (jobs q ! i) \<noteq> None"
  using assms
  by (auto simp: candidate_def Let_def split: option.splits if_splits
           dest!: find_index_SomeD position_SomeD)

text \<open>A promotion either moves jobs along without a grant or grants the candidate durably.\<close>

lemma grant_cases:
  assumes "distinct (map j_id (jobs q))" and "may_grant i q" and "grant m i q = (q', r)"
  shows "q' = q \<and> r \<noteq> Ok ()
       \<or> r = Ok () \<and> q' = fst (save m (granted (m_now m) i q))
         \<and> (path q \<noteq> None \<longrightarrow> disk q' = Some (persisted q'))"
  using assms ungrant_granted [OF assms(1), of i]
  by (auto simp: grant_def save_def may_grant_def granted_def persisted_def split: option.splits)

lemma expire_due_fields [simp]:
  "jobs (fst (expire_due m q)) = map (expire_job (m_now m)) (jobs q)"
  "path (fst (expire_due m q)) = path q" "epoch (fst (expire_due m q)) = epoch q"
  "boot_id (fst (expire_due m q)) = boot_id q"
  by (simp_all add: expire_due_def Let_def)

lemma offer_cases:
  assumes "distinct (map j_id (jobs q))" and "offer w q = (q', r)" and "q' \<noteq> q"
  obtains i where "r = Ok ()" "may_grant i q"
    "candidate (\<lambda>i. w (2 + i)) (is_available (w 0) q) q = Some i"
    "q' = fst (save (w 1) (granted (m_now (w 1)) i q))"
    "path q \<noteq> None \<longrightarrow> disk q' = Some (persisted q')"
proof -
  from assms(2,3) obtain i where i: "candidate (\<lambda>i. w (2 + i)) (is_available (w 0) q) q = Some i"
    and g: "may_grant i q" and run: "grant (w 1) i q = (q', r)"
    by (auto simp: offer_def may_grant_def split: option.splits if_splits dest: candidateD)
  from grant_cases [OF assms(1) g run] assms(3) i g show thesis by (intro that) auto
qed

lemma promote_cases:
  assumes inv: "desk_inv q" and run: "promote w q = (q', r)"
  obtains (kept) "list_all2 job_moves (jobs q) (jobs q')" "epoch q' = epoch q"
  | (granted) i q1 where "r = Ok ()" "may_grant i q1"
      "candidate (\<lambda>i. w (4 + i)) (is_available (w 2) q1) q1 = Some i"
      "jobs q1 = map (expire_job (m_now (w 1))) (jobs q)" "path q1 = path q" "boot_id q1 = boot_id q"
      "epoch q1 = epoch q" "availability_required q' = availability_required q1"
      "q' = fst (save (w 3) (granted (m_now (w 3)) i q1))"
      "path q \<noteq> None \<longrightarrow> disk q' = Some (persisted q')"
proof -
  let ?a = "refresh_availability_policy (w 0) q"
  let ?b = "expire_due (w 1) (fst ?a)"
  have moved: "list_all2 job_moves (jobs q) (jobs (fst ?b))" by (simp add: job_moves_all_expire)
  have ids: "distinct (map j_id (jobs (fst ?b)))"
    unfolding ids_of_ident(1) [OF job_moves_ident [OF moved]] using inv by (simp add: desk_inv_def)
  have same: "list_all2 job_moves (jobs q) (jobs q)" by (simp add: list_all2_conv_all_nth)
  have tail: "q' = fst ?b \<or> offer (\<lambda>n. w (2 + n)) (fst ?b) = (q', r)"
    if "sbind ?b (\<lambda>q _. offer (\<lambda>n. w (2 + n)) q) = (q', r)"
    using that by (rule sbind_cases) auto
  have "q' = q \<or> q' = fst ?a \<or> q' = fst ?b \<or> offer (\<lambda>n. w (2 + n)) (fst ?b) = (q', r)"
  proof (cases "recovery_inspection_active q")
    case True
    with run show ?thesis by (simp add: promote_def)
  next
    case False
    with run have "sbind ?a (\<lambda>q _. sbind (expire_due (w 1) q) (\<lambda>q _. offer (\<lambda>n. w (2 + n)) q)) = (q', r)"
      by (simp add: promote_def)
    then show ?thesis by (rule sbind_cases) (use tail in blast)+
  qed
  then consider "q' = q" | "q' = fst ?a" | "q' = fst ?b"
    | "offer (\<lambda>n. w (2 + n)) (fst ?b) = (q', r)" "q' \<noteq> fst ?b" by blast
  then show thesis
  proof cases
    case 4
    from offer_cases [OF ids this] obtain i where "r = Ok ()" "may_grant i (fst ?b)"
      "candidate (\<lambda>i. w (4 + i)) (is_available (w 2) (fst ?b)) (fst ?b) = Some i"
      "q' = fst (save (w 3) (granted (m_now (w 3)) i (fst ?b)))"
      "path (fst ?b) \<noteq> None \<longrightarrow> disk q' = Some (persisted q')"
      by (auto simp: add.commute eval_nat_numeral)
    then show thesis by (intro granted [of i "fst ?b"]) (simp_all add: granted_def)
  qed (use moved same in \<open>auto intro!: kept\<close>)
qed

lemma begin_Ok:
  assumes "desktop_begin w action params q = (q', Ok params')"
  shows "\<not> blocked q" "\<not> in_flight q"
    and "begin_admit w action params (fst (refresh_availability_policy (w 0) q)) = Ok params'"
    and "q' = fst (save (w 5) ((fst (refresh_availability_policy (w 0) q))\<lparr>in_flight := True\<rparr>))"
    and "path q \<noteq> None \<longrightarrow> disk q' = Some (persisted q')"
proof -
  let ?q = "fst (refresh_availability_policy (w 0) q)"
  from assms show "\<not> blocked q" "\<not> in_flight q"
    by (auto simp: desktop_begin_def split: if_splits)
  with assms have admitted: "begin_admit w action params ?q = Ok params'"
    and saved: "save (w 5) (?q\<lparr>in_flight := True\<rparr>) = (q', Ok ())"
    by (auto simp: desktop_begin_def sbind_Ok lift_res_def)
  from admitted show "begin_admit w action params ?q = Ok params'" .
  from saved show "q' = fst (save (w 5) (?q\<lparr>in_flight := True\<rparr>))" by simp
  have "persisted q' = persisted (?q\<lparr>in_flight := True\<rparr>)"
    using persisted_save [of "w 5" "?q\<lparr>in_flight := True\<rparr>"] saved by simp
  with save_Ok [of "w 5" "?q\<lparr>in_flight := True\<rparr>" "()"] saved
  show "path q \<noteq> None \<longrightarrow> disk q' = Some (persisted q')" by simp
qed

lemma begin_busy: "in_flight q \<Longrightarrow> fst (desktop_begin w action params q) = q \<and> \<not> is_ok (snd (desktop_begin w action params q))"
  by (simp add: desktop_begin_def)

lemma begin_dispatching:
  assumes "desk_inv q" and "path q \<noteq> None" and begun: "desktop_begin w action params q = (q', Ok params')"
  shows "dispatching True q q'"
proof -
  have "disk q' = Some (persisted q')" using begin_Ok(5) [OF begun] assms(2) by simp
  moreover have fields: "jobs q' = jobs q" "in_flight q'" "boot_id q' = boot_id q"
    by (simp_all add: begin_Ok(4) [OF begun])
  ultimately have "disk_in_flight (boot_id q) q'" by (simp add: disk_in_flight_def persisted_def)
  with fields assms(1) show ?thesis by (simp add: dispatching_def same_jobs [of q' q])
qed

lemma live_retired: "filter is_live (map retire_job js) = []"
  by (induction js) (auto simp: retire_job_def is_live_def)

lemma reopened_in_flight:
  assumes "in_flight q"
  shows "\<not> in_flight (reopened m boot q)"
    and "os_restarted (boot_id q) boot \<Longrightarrow>
           \<not> blocked (reopened m boot q) \<and> filter is_live (jobs (reopened m boot q)) = []"
    and "\<not> os_restarted (boot_id q) boot \<Longrightarrow> blocked (reopened m boot q)"
  using assms by (simp_all add: reopened_def Let_def live_retired)

lemma open_Ok:
  assumes "open_with_boot_id w p (Some (Ok f)) boot = Ok q"
  shows "q = fst (save (w 1) (reopened (w 0) boot ((queue_of_file f)\<lparr>path := Some p\<rparr>)))"
    and "disk q = Some (persisted q)"
proof -
  let ?q = "reopened (w 0) boot ((queue_of_file f)\<lparr>path := Some p\<rparr>)"
  have p: "path ?q = Some p" by (simp add: reopened_def Let_def)
  from assms have "save (w 1) ?q = (q, Ok ())"
    unfolding open_with_boot_id_def by (cases "save (w 1) ?q") (simp split: outcome.splits)
  then show "q = fst (save (w 1) ?q)" "disk q = Some (persisted q)"
    using save_Ok [of "w 1" ?q "()"] persisted_save [of "w 1" ?q] p by simp_all
qed

end
