(* ===== verification/Desktop_Guarantees.thy ===== *)
theory Desktop_Guarantees
  imports Desktop_Properties
begin

text \<open>
  The guarantees of the desktop queue, each with an instance at a concrete queue: a single
  holder, order of grants, admission, quarantine across calls and restarts, idempotent
  submission, exclusive claims, maintenance and the freshness of availability permission.
\<close>

section \<open>Concrete queues\<close>

definition sample_moment :: moment where
  "sample_moment =
     \<lparr>m_now = 1000, m_provider = False, m_availability = None, m_authorization = None,
      m_euid = 0, m_save = None, m_sha256 = (\<lambda>s. s), m_is_uuid = (\<lambda>_. True)\<rparr>"

definition sample_times :: "nat \<Rightarrow> moment" where
  "sample_times n = sample_moment"

definition sample_calls :: "nat \<Rightarrow> nat \<Rightarrow> moment" where
  "sample_calls i n = sample_moment"

definition sample_job :: "string \<Rightarrow> string \<Rightarrow> job" where
  "sample_job i s =
     \<lparr>j_id = ''job-'' @ i, j_owner = ''alice'', j_request_key = i, j_token = ''token-'' @ i,
      j_state = s, j_epoch = 0, j_ttl_ms = 60000, j_submitted_at = 10, j_expires_at = 5000,
      j_requires_availability = False, j_deadline_at = None, j_claimed_by = None\<rparr>"

definition sample_queue :: "job list \<Rightarrow> desktop_queue" where
  "sample_queue js = queue_default\<lparr>path := Some ''desktop.json'', jobs := js, boot_id := Some ''boot''\<rparr>"

definition sample_credentials :: json where
  "sample_credentials =
     jobj [(''_desktop'', jobj [(''token'', JStr ''token-1''), (''owner'', JStr ''alice'')])]"

definition sample_params :: "string \<Rightarrow> json" where
  "sample_params consumer =
     jobj [(''owner'', JStr ''alice''), (''token'', JStr ''token-1''), (''requestKey'', JStr ''1''),
           (''consumerId'', JStr consumer), (''enabled'', JBool True)]"

definition sample_active :: desktop_queue where
  "sample_active = sample_queue [sample_job ''1'' ''active'', sample_job ''2'' ''queued'']"

definition sample_begun :: desktop_queue where
  "sample_begun = fst (desktop_begin sample_times ''ui.click'' sample_credentials sample_active)"

definition sample_restarted :: desktop_queue where
  "sample_restarted =
     queue_default\<lparr>path := Some ''desktop.json'', boot_id := Some ''boot'', blocked := True,
       jobs := jobs sample_active,
       disk := Some ((persisted sample_active)\<lparr>f_blocked := True\<rparr>)\<rparr>"

definition sample_submit :: desk_op where
  "sample_submit = Command sample_calls ''job-3'' ''token-3'' ''desktop.submit''
     (jobj [(''owner'', JStr ''bob''), (''requestKey'', JStr ''3'')])"

definition failing_times :: "nat \<Rightarrow> moment" where
  "failing_times n = sample_moment\<lparr>m_save := Some ''disk full''\<rparr>"

definition armed_moment :: moment where
  "armed_moment = sample_moment\<lparr>m_availability := Some \<lparr>af_len = 200, af_json = Some (jobj
     [(''observedAtMs'', ju64 900), (''expiresAtMs'', ju64 2000), (''schemaVersion'', ju64 1),
      (''provider'', JStr ''away-guard''), (''state'', JStr ''armed''), (''generation'', JStr ''g''),
      (''sequence'', ju64 7), (''available'', JBool True)])\<rparr>\<rparr>"

section \<open>Helper facts\<close>

lemma is_live_expire [simp]: "is_live (expire_job now j) = is_live j"
  by (simp add: expire_job_def is_live_def)

lemma expire_queued:
  "j_state (expire_job now j) = ''queued'' \<Longrightarrow> expire_job now j = j \<and> \<not> past (j_deadline_at j) now"
  by (auto simp: expire_job_def split: if_splits)

interpretation policy: desk_stable "\<lambda>q. desk_inv q \<and> availability_required q"
proof unfold_locales
  show "desk_inv (q\<lparr>jobs := js\<rparr>) \<and> availability_required (q\<lparr>jobs := js\<rparr>)"
    if "desk_inv q \<and> availability_required q" "list_all2 job_moves (jobs q) js" for q js
    using that by (simp add: inv_moves)
  show "desk_inv (granted now i q) \<and> availability_required (granted now i q)"
    if "desk_inv q \<and> availability_required q" "may_grant i q" for q i now
    using that inv_grant [of q i now] by (simp add: granted_def)
  show "desk_inv (q\<lparr>jobs := jobs q @ [j]\<rparr>) \<and> availability_required (q\<lparr>jobs := jobs q @ [j]\<rparr>)"
    if "desk_inv q \<and> availability_required q" "fresh_job q j" for q j
    using that by (simp add: inv_submit)
qed (simp_all add: desk_inv_def)

interpretation desk_policy: invariant_machine desk_step desk_fresh "\<lambda>q. desk_inv q \<and> availability_required q"
  by unfold_locales (rule policy.desk_step_P)

lemma command_dispatch:
  assumes "command w uid utok action params q = (q', Ok v)"
  shows "command_match (\<lambda>i. w (1 + i)) uid utok action params (fst (promote (w 0) q)) = (q', Ok v)"
  using assms by (auto simp: command_def sbind_Ok split: if_splits)

lemma match_claim: "command_match w uid utok ''desktop.claim'' params q = desktop_claim w params q"
  by (simp add: command_match_def)

lemma match_submit: "command_match w uid utok ''desktop.submit'' params q = desktop_submit w uid utok params q"
  by (simp add: command_match_def)

lemma match_list: "command_match w uid utok ''desktop.list'' params q = (q, desktop_list w params q)"
  by (simp add: command_match_def lift_res_def)

lemma claim_job_Ok:
  "claim_job m i c q = (q', Ok v) \<Longrightarrow> jobs q' = (jobs q)[i := (jobs q ! i)\<lparr>j_claimed_by := Some c\<rparr>]"
  by (auto simp: claim_job_def save_def set_job_def split: option.splits)

lemma claim_Ok:
  assumes "desktop_claim w params q = (q', Ok v)"
  obtains i owner token c where
    "field params ''owner'' = Ok owner" "field params ''token'' = Ok token"
    "field params ''consumerId'' = Ok c" "i < length (jobs q)"
    "j_token (jobs q ! i) = token" "j_owner (jobs q ! i) = owner"
    "j_state (jobs q ! i) = ''active''" "\<not> blocked q"
    "j_claimed_by (jobs q ! i) = None \<or> j_claimed_by (jobs q ! i) = Some c"
    "jobs q' = (jobs q)[i := (jobs q ! i)\<lparr>j_claimed_by := Some c\<rparr>]"
proof -
  from assms obtain owner token c i where fields: "field params ''owner'' = Ok owner"
      "field params ''token'' = Ok token" "field params ''consumerId'' = Ok c"
    and i: "position (\<lambda>j. j_owner j = owner \<and> j_token j = token) (jobs q) = Some i"
    and ok: "j_state (jobs q ! i) = ''active''" "\<not> blocked q"
      "j_claimed_by (jobs q ! i) = None \<or> j_claimed_by (jobs q ! i) = Some c"
    and run: "claim_job (w 0 4) i c q = (q', Ok v)"
    by (auto simp: desktop_claim_def sbind_Ok lift_res_def Let_def split: if_splits)
  show thesis
    using position_SomeD [OF i] by (intro that [OF fields _ _ _ ok claim_job_Ok [OF run]]) auto
qed

lemma token_unique:
  assumes "desk_inv q" and "i < length (jobs q)" and "k < length (jobs q)"
    and "j_token (jobs q ! i) = j_token (jobs q ! k)"
  shows "i = k"
  using assms nth_eq_iff_index_eq [of "map j_token (jobs q)" i k] by (simp add: desk_inv_def)

lemma request_unique:
  assumes "desk_inv q" and "i < length (jobs q)" and "k < length (jobs q)"
    and "j_owner (jobs q ! i) = j_owner (jobs q ! k)"
    and "j_request_key (jobs q ! i) = j_request_key (jobs q ! k)"
  shows "i = k"
  using assms nth_eq_iff_index_eq [of "map (\<lambda>j. (j_owner j, j_request_key j)) (jobs q)" i k]
  by (simp add: desk_inv_def)

lemma promote_history: "desk_inv q \<Longrightarrow> desk_inv (fst (promote w q)) \<and> queue_history q (fst (promote w q))"
  using hist.promote_P [of q q w] by simp

lemma job_value_keeps:
  assumes "k \<notin> {''userAuthorization'', ''inputAllowed'', ''requiresAvailability''}"
  shows "bt_get (job_value w q j) k = bt_get (job_object j) k"
  using assms by (auto simp: job_value_def Let_def bt_get_insert split: option.splits)

lemma job_value_id: "jget (JObj (job_value w q j)) ''id'' = Some (JStr (j_id j))"
  and job_value_token: "jget (JObj (job_value w q j)) ''token'' = Some (JStr (j_token j))"
  by (simp_all add: job_value_keeps job_object_def bt_get_of_list)

lemma job_value_wf [simp]: "bt_wf (job_value w q j)"
  by (simp add: job_value_def job_object_def Let_def bt_wf_insert split: option.split)

lemma submit_known:
  assumes "desk_inv q" and "i < length (jobs q)"
    and "field params ''owner'' = Ok (j_owner (jobs q ! i))"
    and "field params ''requestKey'' = Ok (j_request_key (jobs q ! i))"
  shows "desktop_submit w uid utok params q = (q, Ok (JObj (job_value (w 0) q (jobs q ! i))))"
proof -
  have "position (\<lambda>j. j_owner j = j_owner (jobs q ! i) \<and> j_request_key j = j_request_key (jobs q ! i)) (jobs q) = Some i"
    using request_unique [OF assms(1)] assms(2) by (intro position_SomeI) (auto dest: less_trans)
  with assms(3,4) show ?thesis by (simp add: desktop_submit_def lift_res_def)
qed

lemma history_job:
  "queue_history q q' \<Longrightarrow> i < length (jobs q) \<Longrightarrow>
     i < length (jobs q') \<and> job_history (jobs q ! i) (jobs q' ! i)"
  by (auto simp: queue_history_def)

lemma job_history_ident:
  "job_history j j' \<Longrightarrow> j_id j' = j_id j \<and> j_owner j' = j_owner j \<and> j_request_key j' = j_request_key j
     \<and> j_token j' = j_token j"
  by (simp add: job_history_def job_ident_def)

lemma job_history_claim:
  "job_history j j' \<Longrightarrow> j_claimed_by j = Some c \<Longrightarrow> j_claimed_by j' = Some c"
  by (simp add: job_history_def)

lemma begin_fields:
  "jobs (fst (desktop_begin w action params q)) = jobs q"
  "boot_id (fst (desktop_begin w action params q)) = boot_id q"
  by (simp_all add: desktop_begin_def sbind_fst_inv [where P = "\<lambda>q'. jobs q' = jobs q"]
        sbind_fst_inv [where P = "\<lambda>q'. boot_id q' = boot_id q"])

section \<open>One holder, one life cycle\<close>

text \<open>C12: over every sequence of calls on the queue (commands, admissions, ends of actions,
  cleanups, worker wake-ups and inspections, in any order and with any clock, file and write
  outcomes), job ids, tokens and request keys stay unique and at most one job holds the
  desktop (is active or draining).\<close>
theorem one_desktop_holder:
  "desk_inv q \<Longrightarrow> adm_run desk_fresh desk_step q es \<Longrightarrow> desk_inv (foldl desk_step q es)"
  by (rule desk.run_inv)

theorem one_desktop_holder_witness:
  "desk_inv (foldl desk_step sample_active [sample_submit, Begin sample_times ''ui.click'' sample_credentials])"
  by (rule one_desktop_holder) code_simp+

text \<open>C22: over every sequence of calls a job keeps its place in the queue, its identity, token
  and limits; its state only moves forward along queued, active, draining and the terminal
  states; a claim once made stays with its consumer and the epoch of a grant never changes.\<close>
theorem job_lifecycle_refined:
  "desk_inv q \<Longrightarrow> adm_run desk_fresh desk_step q es \<Longrightarrow> queue_history q (foldl desk_step q es)"
  by (rule run_history)

theorem job_lifecycle_refined_witness:
  "queue_history sample_active (foldl desk_step sample_active [sample_submit, CleanupDone sample_times True])"
  by (rule job_lifecycle_refined) code_simp+

text \<open>A promotion that makes a job active found it queued and not past its deadline, found
  no holder, no quarantine, no action in flight and no maintenance, wrote the grant to the
  queue file, and chose either the first queued job, with availability permission when that
  is required, or a job for which an operator has left an authorization.\<close>
theorem promote_in_order:
  assumes "desk_inv q" and "promote w q = (q', r)" and "i < length (jobs q)"
    and "j_state (jobs q ! i) \<noteq> ''active''" and "j_state (jobs q' ! i) = ''active''"
  shows "r = Ok () \<and> j_state (jobs q ! i) = ''queued'' \<and> \<not> past (j_deadline_at (jobs q ! i)) (m_now (w 1))
    \<and> active q = None \<and> \<not> blocked q' \<and> \<not> in_flight q' \<and> maintenance_owner q' = None
    \<and> jobs q' ! i = grant_job (epoch q + 1) (m_now (w 3)) (jobs q ! i) \<and> epoch q' = epoch q + 1
    \<and> (path q \<noteq> None \<longrightarrow> disk q' = Some (persisted q'))
    \<and> ((\<forall>k<i. j_state (jobs q' ! k) \<noteq> ''queued'')
         \<and> (j_requires_availability (jobs q ! i) \<or> availability_required q' \<longrightarrow> is_available (w 2) q)
       \<or> user_authorization (w (4 + i)) q (jobs q ! i) \<noteq> None)"
  using assms(1,2)
proof (cases rule: promote_cases)
  case kept
  with assms(3-5) show ?thesis
    by (auto simp: list_all2_conv_all_nth job_moves_def job_next_active)
next
  case (granted k q1)
  let ?j = "expire_job (m_now (w 1)) (jobs q ! k)"
  have k: "k < length (jobs q)" using granted(2,4) by (simp add: may_grant_def)
  have "jobs q' = (jobs q1)[k := grant_job (epoch q + 1) (m_now (w 3)) (jobs q1 ! k)]"
    using granted(7,9) by (simp add: granted_def)
  then have jobs': "jobs q' ! n = (if n = k then grant_job (epoch q + 1) (m_now (w 3)) ?j
      else expire_job (m_now (w 1)) (jobs q ! n))" if "n < length (jobs q)" for n
    using that k granted(4) by simp
  have "i = k"
    using jobs' [OF assms(3)] assms(4,5) by (auto simp: expire_job_def split: if_splits)
  have queued: "?j = jobs q ! k" "j_state (jobs q ! k) = ''queued''"
      "\<not> past (j_deadline_at (jobs q ! k)) (m_now (w 1))"
    using granted(2,4) k expire_queued [of "m_now (w 1)" "jobs q ! k"] by (auto simp: may_grant_def)
  have flags: "active q = None" "\<not> blocked q'" "\<not> in_flight q'" "maintenance_owner q' = None"
      "epoch q' = epoch q + 1"
    using granted(2,4,7,9) by (auto simp: may_grant_def active_None granted_def filter_map o_def)
  have "(\<forall>n<k. j_state (jobs q1 ! n) \<noteq> ''queued'')
      \<and> (j_requires_availability (jobs q1 ! k) \<or> availability_required q1 \<longrightarrow> is_available (w 2) q)
    \<or> user_authorization (w (4 + k)) q (jobs q1 ! k) \<noteq> None"
    using candidate_spec [OF granted(3)] is_available_cong [OF granted(5)]
      user_authorization_cong [OF granted(5,6)] by simp
  then have "(\<forall>n<k. j_state (jobs q' ! n) \<noteq> ''queued'')
      \<and> (j_requires_availability (jobs q ! k) \<or> availability_required q' \<longrightarrow> is_available (w 2) q)
    \<or> user_authorization (w (4 + k)) q (jobs q ! k) \<noteq> None"
    using granted(4,8) k queued(1) jobs' by auto
  with granted(1,10) queued flags jobs' [OF k] show ?thesis unfolding \<open>i = k\<close> by simp
qed

theorem promote_in_order_witness:
  "jobs (fst (promote sample_times (sample_queue [sample_job ''1'' ''queued'']))) ! 0
     = grant_job (epoch (sample_queue [sample_job ''1'' ''queued'']) + 1) (m_now (sample_times 3))
         (jobs (sample_queue [sample_job ''1'' ''queued'']) ! 0)"
proof -
  let ?q = "sample_queue [sample_job ''1'' ''queued'']"
  have inv: "desk_inv ?q" and run: "promote sample_times ?q = (fst (promote sample_times ?q), Ok ())"
    and len: "0 < length (jobs ?q)" and was: "j_state (jobs ?q ! 0) \<noteq> ''active''"
    and now: "j_state (jobs (fst (promote sample_times ?q)) ! 0) = ''active''"
    by code_simp+
  show ?thesis using promote_in_order [OF inv run len was now] by blast
qed

section \<open>Admission of an action\<close>

text \<open>C31: an action is admitted only on a desktop that is neither quarantined nor busy. When a
  job holds the desktop, the caller presented that job's token and owner, the job is active
  and neither expired nor past its deadline, and availability permission or an operator
  authorization is there when required; a computer-use call is bound to the session of that
  grant. Without a holder, only an action outside the session protocol passes, and not during
  maintenance or under the availability policy. The action in flight is on disk before the
  admission returns.\<close>
theorem begin_admits_holder:
  assumes "desktop_begin w action params q = (q', Ok params')"
  shows "\<not> blocked q \<and> \<not> in_flight q \<and> in_flight q' \<and> jobs q' = jobs q
    \<and> (path q \<noteq> None \<longrightarrow> disk q' = Some (persisted q'))
    \<and> (case active q of
         Some i \<Rightarrow>
           j_state (jobs q ! i) = ''active'' \<and> m_now (w 1) < j_expires_at (jobs q ! i)
           \<and> \<not> past (j_deadline_at (jobs q ! i)) (m_now (w 2))
           \<and> jidx (jidx params ''_desktop'') ''token'' = JStr (j_token (jobs q ! i))
           \<and> jidx (jidx params ''_desktop'') ''owner'' = JStr (j_owner (jobs q ! i))
           \<and> (j_requires_availability (jobs q ! i) \<or> availability_required q' \<longrightarrow>
                is_available (w 3) q \<or> user_authorization (w 4) q (jobs q ! i) \<noteq> None)
           \<and> (action = ''computer-use.call'' \<longrightarrow>
                jidx params' ''sessionId'' = JStr (job_session_id (jobs q ! i)))
       | None \<Rightarrow>
           maintenance_owner q = None \<and> \<not> availability_required q'
           \<and> action \<noteq> ''computer-use.call'' \<and> jget params ''_desktop'' = None)"
proof -
  let ?q = "fst (refresh_availability_policy (w 0) q)"
  have fields: "in_flight q'" "jobs q' = jobs q" "availability_required q' = availability_required ?q"
    by (simp_all add: begin_Ok(4) [OF assms])
  have cong: "is_available m ?q = is_available m q" "user_authorization m ?q j = user_authorization m q j"
    for m j by (rule is_available_cong user_authorization_cong; simp)+
  have "active ?q = active q" by (rule active_cong) simp
  with begin_Ok(3) [OF assms] fields(3)
  show ?thesis
    using begin_Ok(1,2,5) [OF assms] fields(1,2)
    by (auto simp: begin_admit_def Let_def cong eq_str_def jidx_def [of params'] jget_jset
             split: option.splits if_splits)
qed

theorem begin_admits_holder_witness:
  "in_flight sample_begun \<and> disk sample_begun = Some (persisted sample_begun)"
proof -
  have run: "desktop_begin sample_times ''ui.click'' sample_credentials sample_active
      = (sample_begun, Ok sample_credentials)" and path: "path sample_active \<noteq> None"
    by code_simp+
  show ?thesis using begin_admits_holder [OF run] path by blast
qed

text \<open>Between an admission and the end of its action no second action is admitted and no job
  is granted, whatever other calls arrive in between.\<close>
theorem one_action_in_flight:
  assumes "desk_inv q" and "path q \<noteq> None" and "desktop_begin w action params q = (q1, Ok params')"
    and "adm_run (\<lambda>q e. desk_fresh q e \<and> \<not> ends_action e) desk_step q1 es"
  shows "in_flight (foldl desk_step q1 es) \<and> no_grant q (foldl desk_step q1 es)
    \<and> fst (desktop_begin v b p (foldl desk_step q1 es)) = foldl desk_step q1 es
    \<and> \<not> is_ok (snd (desktop_begin v b p (foldl desk_step q1 es)))"
proof -
  have "dispatching True q (foldl desk_step q1 es)"
    using desk_disp.run_inv begin_dispatching [OF assms(1-3)] assms(4) by blast
  then show ?thesis using begin_busy by (auto simp: dispatching_def)
qed

theorem one_action_in_flight_witness:
  "\<not> is_ok (snd (desktop_begin sample_times ''ui.click'' sample_credentials
      (foldl desk_step sample_begun [WorkerReconcile sample_times True, NeedsCleanup sample_times])))"
proof -
  have inv: "desk_inv sample_active" and path: "path sample_active \<noteq> None"
    and run: "desktop_begin sample_times ''ui.click'' sample_credentials sample_active
      = (sample_begun, Ok sample_credentials)"
    and adm: "adm_run (\<lambda>q e. desk_fresh q e \<and> \<not> ends_action e) desk_step sample_begun
      [WorkerReconcile sample_times True, NeedsCleanup sample_times]"
    by code_simp+
  show ?thesis using one_action_in_flight [OF inv path run adm] by blast
qed

section \<open>Quarantine\<close>

text \<open>A quarantined desktop stays quarantined under every sequence of calls without a
  recovery that confirms the desktop reset; until then no job is granted and every action is
  refused.\<close>
theorem blocked_quarantine:
  assumes "desk_inv q" and "blocked q"
    and "adm_run (\<lambda>q e. desk_fresh q e \<and> \<not> confirmed_recovery e) desk_step q es"
  shows "blocked (foldl desk_step q es) \<and> no_grant q (foldl desk_step q es)
    \<and> desktop_begin w action params (foldl desk_step q es)
      = (foldl desk_step q es, Err (error ''DESKTOP_RECOVERY_REQUIRED''
           ''desktop outcome is uncertain; explicit reset required''))"
proof -
  have "quarantined q q" using assms(1,2) by (simp add: quarantined_def)
  then have "quarantined q (foldl desk_step q es)" using assms(3) by (rule desk_quar.run_inv)
  then show ?thesis by (simp add: quarantined_def desktop_begin_def)
qed

theorem blocked_quarantine_witness:
  "blocked (foldl desk_step (sample_active\<lparr>blocked := True\<rparr>)
     [End sample_moment False, WorkerReconcile sample_times False, CleanupDone sample_times True])"
proof -
  have inv: "desk_inv (sample_active\<lparr>blocked := True\<rparr>)" and blk: "blocked (sample_active\<lparr>blocked := True\<rparr>)"
    and adm: "adm_run (\<lambda>q e. desk_fresh q e \<and> \<not> confirmed_recovery e) desk_step
      (sample_active\<lparr>blocked := True\<rparr>)
      [End sample_moment False, WorkerReconcile sample_times False, CleanupDone sample_times True]"
    by code_simp+
  show ?thesis using blocked_quarantine [OF inv blk adm] by blast
qed

text \<open>C9: if the executor stops at any point between the admission of an action and its end, the
  queue opened from the file left behind never treats the action as done: unless the kernel's
  boot id proves that the operating system was restarted, in which case no job holds the
  desktop any more, the desktop is quarantined and refuses every action.\<close>
theorem interrupted_action_quarantined:
  assumes "desk_inv q" and "path q \<noteq> None" and "desktop_begin w action params q = (q1, Ok params')"
    and "adm_run (\<lambda>q e. desk_fresh q e \<and> \<not> ends_action e) desk_step q1 es"
    and "open_with_boot_id v p (map_option Ok (disk (foldl desk_step q1 es))) boot = Ok q3"
  shows "\<not> in_flight q3
    \<and> (if os_restarted (boot_id q) boot then active q3 = None
       else blocked q3 \<and> \<not> is_ok (snd (desktop_begin u b params2 q3)))"
proof -
  have "dispatching True q (foldl desk_step q1 es)"
    using desk_disp.run_inv begin_dispatching [OF assms(1-3)] assms(4) by blast
  then obtain f where f: "disk (foldl desk_step q1 es) = Some f" "f_in_flight f" "f_boot_id f = boot_id q"
    by (auto simp: dispatching_def disk_in_flight_def split: option.splits)
  let ?q = "(queue_of_file f)\<lparr>path := Some p\<rparr>"
  have "in_flight ?q" "boot_id ?q = boot_id q" using f(2,3) by (simp_all add: queue_of_file_def)
  note fl = reopened_in_flight [OF this(1), where m = "v 0" and boot = boot] this(2)
  have "q3 = fst (save (v 1) (reopened (v 0) boot ?q))"
    using open_Ok(1) [of v p f boot q3] assms(5) f(1) by simp
  then show ?thesis using fl by (auto simp: active_None desktop_begin_def)
qed

theorem interrupted_action_quarantined_witness:
  "blocked sample_restarted"
proof -
  have inv: "desk_inv sample_active" and path: "path sample_active \<noteq> None"
    and run: "desktop_begin sample_times ''ui.click'' sample_credentials sample_active
      = (sample_begun, Ok sample_credentials)"
    and adm: "adm_run (\<lambda>q e. desk_fresh q e \<and> \<not> ends_action e) desk_step sample_begun
      [WorkerReconcile sample_times True, NeedsCleanup sample_times]"
    by code_simp+
  have reopen: "open_with_boot_id sample_times ''desktop.json''
      (map_option Ok (disk (foldl desk_step sample_begun
        [WorkerReconcile sample_times True, NeedsCleanup sample_times]))) (Some ''boot'') = Ok sample_restarted"
    and boot: "\<not> os_restarted (boot_id sample_active) (Some ''boot'')"
    by code_simp+
  show ?thesis using interrupted_action_quarantined [OF inv path run adm reopen] boot by simp
qed

text \<open>Once a local availability provider has been seen, no sequence of calls lifts the
  requirement: every later admission is for a job that holds the desktop with permission.\<close>
theorem availability_policy_sticky:
  assumes "desk_inv q" and "availability_required q" and "adm_run desk_fresh desk_step q es"
    and "desktop_begin w action params (foldl desk_step q es) = (q', Ok params')"
  shows "availability_required (foldl desk_step q es)
    \<and> (\<exists>i. active (foldl desk_step q es) = Some i
         \<and> (is_available (w 3) (foldl desk_step q es)
            \<or> user_authorization (w 4) (foldl desk_step q es) (jobs (foldl desk_step q es) ! i) \<noteq> None))"
proof -
  let ?r = "foldl desk_step q es" and ?q = "fst (refresh_availability_policy (w 0) (foldl desk_step q es))"
  have req: "availability_required ?r" using desk_policy.run_inv assms(1-3) by blast
  have cong: "is_available m ?q = is_available m ?r"
    "user_authorization m ?q j = user_authorization m ?r j" for m j
    by (rule is_available_cong user_authorization_cong; simp)+
  have "active ?q = active ?r" by (rule active_cong) simp
  with begin_Ok(3) [OF assms(4)] req show ?thesis
    by (auto simp: begin_admit_def Let_def cong refresh_policy split: option.splits if_splits)
qed

theorem availability_policy_sticky_witness:
  "availability_required (foldl desk_step (sample_active\<lparr>availability_required := True\<rparr>)
     [WorkerReconcile sample_times True])"
proof -
  let ?q = "sample_active\<lparr>availability_required := True\<rparr>"
  let ?r = "foldl desk_step ?q [WorkerReconcile sample_times True]"
  have inv: "desk_inv ?q" and req: "availability_required ?q"
    and adm: "adm_run desk_fresh desk_step ?q [WorkerReconcile sample_times True]"
    and run: "desktop_begin (\<lambda>_. armed_moment) ''ui.click'' sample_credentials ?r
      = (fst (desktop_begin (\<lambda>_. armed_moment) ''ui.click'' sample_credentials ?r), Ok sample_credentials)"
    by code_simp+
  show ?thesis using availability_policy_sticky [OF inv req adm run] by blast
qed

section \<open>Submission, claims and listings\<close>

text \<open>Submission is idempotent: after any sequence of calls, a submission with the owner and
  request key of a job already in the queue adds no job and answers with the id and token of
  that job.\<close>
theorem desktop_submit_idempotent:
  assumes "desk_inv q" and "i < length (jobs q)" and "adm_run desk_fresh desk_step q es"
    and "field params ''owner'' = Ok (j_owner (jobs q ! i))"
    and "field params ''requestKey'' = Ok (j_request_key (jobs q ! i))"
    and "command w uid utok ''desktop.submit'' params (foldl desk_step q es) = (q', Ok v)"
  shows "length (jobs q') = length (jobs (foldl desk_step q es))
    \<and> jget v ''id'' = Some (JStr (j_id (jobs q ! i))) \<and> jget v ''token'' = Some (JStr (j_token (jobs q ! i)))"
proof -
  let ?r = "foldl desk_step q es" and ?p = "fst (promote (w 0) (foldl desk_step q es))"
  have inv: "desk_inv ?r" "desk_inv ?p" and hist: "queue_history ?r ?p"
    using desk.run_inv [OF assms(1,3)] promote_history [of ?r "w 0"] by simp_all
  have i: "i < length (jobs ?r)" "job_history (jobs q ! i) (jobs ?r ! i)"
    using history_job [OF run_history [OF assms(1,3)] assms(2)] by auto
  have "i < length (jobs ?p)" "job_history (jobs ?r ! i) (jobs ?p ! i)"
    using history_job [OF hist i(1)] by auto
  note ids = this(1) job_history_ident [OF i(2)] job_history_ident [OF this(2)]
  have "desktop_submit (\<lambda>i. w (1 + i)) uid utok params ?p = (q', Ok v)"
    using command_dispatch [OF assms(6)] by (simp only: match_submit)
  then have "q' = ?p" "v = JObj (job_value (w 1) ?p (jobs ?p ! i))"
    using submit_known [OF inv(2) ids(1), of params] assms(4,5) ids(2,3) by auto
  moreover have "length (jobs ?p) = length (jobs ?r)"
    using inv(1) map_eq_imp_length_eq [OF promote_idents] by (simp add: desk_inv_def)
  ultimately show ?thesis using ids(2,3) by (simp only: job_value_id job_value_token)
qed

theorem desktop_submit_idempotent_witness:
  "jget (JObj (job_value sample_times sample_active (jobs sample_active ! 0))) ''token'' = Some (JStr ''token-1'')"
proof -
  let ?r = "foldl desk_step sample_active [WorkerReconcile sample_times True]"
  let ?v = "JObj (job_value sample_times sample_active (jobs sample_active ! 0))"
  have inv: "desk_inv sample_active" and i: "0 < length (jobs sample_active)"
    and adm: "adm_run desk_fresh desk_step sample_active [WorkerReconcile sample_times True]"
    and own: "field (sample_params ''c'') ''owner'' = Ok (j_owner (jobs sample_active ! 0))"
    and key: "field (sample_params ''c'') ''requestKey'' = Ok (j_request_key (jobs sample_active ! 0))"
    and run: "command sample_calls ''job-9'' ''token-9'' ''desktop.submit'' (sample_params ''c'') ?r
      = (fst (command sample_calls ''job-9'' ''token-9'' ''desktop.submit'' (sample_params ''c'') ?r), Ok ?v)"
    and tok: "j_token (jobs sample_active ! 0) = ''token-1''"
    by code_simp+
  show ?thesis using desktop_submit_idempotent [OF inv i adm own key run] tok by simp
qed

text \<open>A session is claimed by one consumer for good: after a successful claim and any sequence
  of calls, a claim of the same token succeeds only for the same consumer.\<close>
theorem claim_exclusive:
  assumes "desk_inv q" and "command w uid utok ''desktop.claim'' params q = (q1, Ok v)"
    and "desk_inv q1" and "adm_run desk_fresh desk_step q1 es"
    and "command w2 uid2 utok2 ''desktop.claim'' params2 (foldl desk_step q1 es) = (q2, Ok v2)"
    and "jidx params2 ''token'' = jidx params ''token''"
  shows "jidx params2 ''consumerId'' = jidx params ''consumerId''"
proof -
  let ?p1 = "fst (promote (w 0) q)" and ?r = "foldl desk_step q1 es"
  let ?p2 = "fst (promote (w2 0) ?r)"
  have "desktop_claim (\<lambda>i. w (1 + i)) params ?p1 = (q1, Ok v)"
    using command_dispatch [OF assms(2)] by (simp only: match_claim)
  then obtain i owner token c where one: "field params ''token'' = Ok token"
      "field params ''consumerId'' = Ok c" "i < length (jobs ?p1)" "j_token (jobs ?p1 ! i) = token"
      "jobs q1 = (jobs ?p1)[i := (jobs ?p1 ! i)\<lparr>j_claimed_by := Some c\<rparr>]"
    by (rule claim_Ok)
  have "desktop_claim (\<lambda>i. w2 (1 + i)) params2 ?p2 = (q2, Ok v2)"
    using command_dispatch [OF assms(5)] by (simp only: match_claim)
  then obtain k owner2 token2 c2 where two: "field params2 ''token'' = Ok token2"
      "field params2 ''consumerId'' = Ok c2" "k < length (jobs ?p2)" "j_token (jobs ?p2 ! k) = token2"
      "j_claimed_by (jobs ?p2 ! k) = None \<or> j_claimed_by (jobs ?p2 ! k) = Some c2"
    by (rule claim_Ok)
  have "desk_inv ?r" using assms(3,4) by (rule desk.run_inv)
  then have inv: "desk_inv ?p2" and h: "queue_history ?r ?p2" using promote_history by auto
  have i: "i < length (jobs q1)" "j_token (jobs q1 ! i) = token" "j_claimed_by (jobs q1 ! i) = Some c"
    using one by simp_all
  have r: "i < length (jobs ?r)" "job_history (jobs q1 ! i) (jobs ?r ! i)"
    using history_job [OF run_history [OF assms(3,4)] i(1)] by auto
  have p: "i < length (jobs ?p2)" "job_history (jobs ?r ! i) (jobs ?p2 ! i)"
    using history_job [OF h r(1)] by auto
  have "j_token (jobs ?p2 ! i) = token" "j_claimed_by (jobs ?p2 ! i) = Some c"
    using job_history_ident [OF r(2)] job_history_ident [OF p(2)] i(2)
      job_history_claim [OF p(2) job_history_claim [OF r(2) i(3)]] by simp_all
  moreover have "token2 = token" using one(1) two(1) assms(6) by (simp add: field_Ok)
  ultimately have "k = i" "c2 = c"
    using token_unique [OF inv two(3) p(1)] two(4,5) by auto
  then show ?thesis using one(2) two(2) by (simp add: field_Ok)
qed

theorem claim_exclusive_witness:
  "jidx (sample_params ''c'') ''consumerId'' = jidx (sample_params ''c'') ''consumerId''
     \<and> is_ok (snd (command sample_calls ''u'' ''t'' ''desktop.claim'' (sample_params ''c'')
         (fst (command sample_calls ''u'' ''t'' ''desktop.claim'' (sample_params ''c'') sample_active))))"
proof -
  let ?p = "sample_params ''c''"
  let ?q1 = "fst (command sample_calls ''u'' ''t'' ''desktop.claim'' ?p sample_active)"
  let ?q2 = "fst (command sample_calls ''u'' ''t'' ''desktop.claim'' ?p (foldl desk_step ?q1 []))"
  let ?v = "jobj [(''claimed'', JBool True), (''id'', JStr ''job-1'')]"
  have inv: "desk_inv sample_active" and one: "command sample_calls ''u'' ''t'' ''desktop.claim'' ?p sample_active = (?q1, Ok ?v)"
    and inv1: "desk_inv ?q1" and adm: "adm_run desk_fresh desk_step ?q1 []"
    and two: "command sample_calls ''u'' ''t'' ''desktop.claim'' ?p (foldl desk_step ?q1 []) = (?q2, Ok ?v)"
    by code_simp+
  have "jidx ?p ''consumerId'' = jidx ?p ''consumerId''"
    using claim_exclusive [OF inv one inv1 adm two] by blast
  with two show ?thesis by (simp add: is_ok_iff) (metis snd_conv)
qed

text \<open>A listing shows the requested jobs in queue order and never a session token.\<close>
theorem list_hides_tokens:
  assumes "command w uid utok ''desktop.list'' params q = (q', Ok v)"
    and "bool_param params ''includeTerminal'' True ''includeTerminal must be a boolean'' = Ok all"
  shows "\<exists>vs. jget v ''jobs'' = Some (JArr vs) \<and> (\<forall>x \<in> set vs. jget x ''token'' = None)
    \<and> map (\<lambda>x. jget x ''id'') vs
      = map (\<lambda>j. Some (JStr (j_id j))) (filter (\<lambda>j. all \<or> \<not> job_terminal j) (jobs q'))"
proof -
  let ?f = "\<lambda>(i, j). JObj (bt_remove ''token'' (job_value (w (Suc (Suc i))) q' j))"
  let ?vs = "map ?f (filter (\<lambda>(i, j). all \<or> \<not> job_terminal j) (enumerate 0 (jobs q')))"
  have "desktop_list (\<lambda>i. w (1 + i)) params q' = Ok v"
    using command_dispatch [OF assms(1)] by (simp only: match_list) auto
  with assms(2) have vs: "jget v ''jobs'' = Some (JArr ?vs)"
    by (auto simp: desktop_list_def Let_def)
  have ids: "jget (?f x) ''id'' = Some (JStr (j_id (snd x)))" for x
    using job_value_id by (cases x) (simp add: bt_get_remove)
  have "map (\<lambda>x. jget x ''id'') ?vs = map (\<lambda>j. Some (JStr (j_id j)))
      (map snd (filter (\<lambda>(i, j). all \<or> \<not> job_terminal j) (enumerate 0 (jobs q'))))"
    using ids by (simp add: comp_def)
  moreover have "map snd (filter (\<lambda>(i, j). all \<or> \<not> job_terminal j) (enumerate n js))
      = filter (\<lambda>j. all \<or> \<not> job_terminal j) js" for n js
    by (induction js arbitrary: n) auto
  moreover have "\<forall>x \<in> set ?vs. jget x ''token'' = None" by (auto simp: bt_get_remove)
  ultimately show ?thesis using vs by auto
qed

theorem list_hides_tokens_witness:
  "\<exists>vs. (\<forall>x \<in> set vs. jget x ''token'' = None) \<and> length vs = 2"
proof -
  let ?r = "command sample_calls ''u'' ''t'' ''desktop.list'' (jobj []) sample_active"
  let ?v = "case snd ?r of Ok v \<Rightarrow> v | _ \<Rightarrow> JNull"
  have run: "?r = (fst ?r, Ok ?v)"
    and all: "bool_param (jobj []) ''includeTerminal'' True ''includeTerminal must be a boolean'' = Ok True"
    and len: "length (jobs (fst ?r)) = 2"
    by code_simp+
  from list_hides_tokens [OF run all] obtain vs where vs: "\<forall>x \<in> set vs. jget x ''token'' = None"
      "map (\<lambda>x. jget x ''id'') vs = map (\<lambda>j. Some (JStr (j_id j)))
         (filter (\<lambda>j. True \<or> \<not> job_terminal j) (jobs (fst ?r)))" by blast
  from arg_cong [OF vs(2), of length] len have "length vs = 2" by simp
  with vs(1) show ?thesis by blast
qed

section \<open>Maintenance, permission and a failed write\<close>

text \<open>While an operator holds maintenance, no call of anyone else ends it and no job is
  granted.\<close>
theorem maintenance_pauses_grants:
  assumes "desk_inv q" and "maintenance_owner q = Some operator"
    and "adm_run (\<lambda>q e. desk_fresh q e \<and> \<not> maintenance_by operator e) desk_step q es"
  shows "maintenance_owner (foldl desk_step q es) = Some operator \<and> no_grant q (foldl desk_step q es)"
proof -
  have "maintained operator q q" using assms(1,2) by (simp add: maintained_def)
  then have "maintained operator q (foldl desk_step q es)" using assms(3) by (rule desk_maint.run_inv)
  then show ?thesis by (simp add: maintained_def)
qed

theorem maintenance_pauses_grants_witness:
  "maintenance_owner (foldl desk_step (sample_active\<lparr>maintenance_owner := Some ''op''\<rparr>)
     [CleanupDone sample_times True]) = Some ''op''"
proof -
  let ?q = "sample_active\<lparr>maintenance_owner := Some ''op''\<rparr>"
  have inv: "desk_inv ?q" and held: "maintenance_owner ?q = Some ''op''"
    and adm: "adm_run (\<lambda>q e. desk_fresh q e \<and> \<not> maintenance_by ''op'' e) desk_step ?q [CleanupDone sample_times True]"
    by code_simp+
  show ?thesis using maintenance_pauses_grants [OF inv held adm] by blast
qed

text \<open>Availability permission comes from an armed provider snapshot that was observed at most
  ten seconds ago, has not expired and lives for at most ten seconds; the differences the code
  computes on unsigned integers do not wrap.\<close>
theorem permission_is_fresh:
  assumes "is_available m q"
  shows "\<exists>v observed expires. availability_snapshot m q = Some v
    \<and> jidx v ''observedAtMs'' = ju64 observed \<and> jidx v ''expiresAtMs'' = ju64 expires
    \<and> jidx v ''state'' = JStr ''armed'' \<and> jidx v ''available'' = JBool True
    \<and> unat observed \<le> unat (m_now m) \<and> unat (m_now m) < unat expires
    \<and> unat (m_now m) \<le> unat observed + 10000 \<and> unat expires \<le> unat observed + 10000"
proof -
  obtain v where v: "availability_snapshot m q = Some v" "snapshot_allows_input v (m_now m)"
    using assms by (auto simp: is_available_iff)
  then obtain ob ex where f: "jidx v ''observedAtMs'' = ju64 ob" "jidx v ''expiresAtMs'' = ju64 ex"
      "jidx v ''state'' = JStr ''armed''" "jidx v ''available'' = JBool True"
    and le: "ob \<le> m_now m" "m_now m < ex" "m_now m - ob \<le> 10000" "ex - ob \<le> 10000"
    by (auto simp: snapshot_allows_input_def eq_str_def eq_bool_def AVAILABILITY_MAX_AGE_MS_def
          AVAILABILITY_MAX_LIFETIME_MS_def split: option.splits)
  have age: "unat (m_now m) - unat ob \<le> 10000"
    using le(1,3) by (simp add: word_le_nat_alt unat_sub)
  have "ob \<le> ex" using le(1,2) by simp
  then have "unat ex - unat ob \<le> 10000"
    using le(4) by (simp add: word_le_nat_alt unat_sub)
  moreover have "unat ob \<le> unat (m_now m)" "unat (m_now m) < unat ex"
    using le(1,2) by (simp_all add: word_le_nat_alt word_less_nat_alt)
  ultimately have "unat ob \<le> unat (m_now m) \<and> unat (m_now m) < unat ex
      \<and> unat (m_now m) \<le> unat ob + 10000 \<and> unat ex \<le> unat ob + 10000"
    using age by arith
  with f v(1) show ?thesis by blast
qed

theorem permission_is_fresh_witness:
  "\<exists>v. availability_snapshot armed_moment sample_active = Some v \<and> jidx v ''available'' = JBool True"
proof -
  have avail: "is_available armed_moment sample_active" by code_simp
  show ?thesis using permission_is_fresh [OF avail] by blast
qed

text \<open>When an admission fails because the queue file cannot be written, no action runs, but
  the in-flight mark stays in memory: without a call that ends an action, which only follows a
  successful admission, every later admission and recovery is refused and nothing is granted.\<close>
theorem begin_write_failure_sticks:
  assumes "desk_inv q" and "desktop_begin w action params q = (q1, Err e)" and "in_flight q1"
    and "adm_run (\<lambda>q e. desk_fresh q e \<and> \<not> ends_action e) desk_step q1 es"
  shows "in_flight (foldl desk_step q1 es) \<and> no_grant q (foldl desk_step q1 es)
    \<and> \<not> is_ok (snd (desktop_begin v b p (foldl desk_step q1 es)))
    \<and> \<not> is_ok (snd (desktop_recover u r (foldl desk_step q1 es)))"
proof -
  have "jobs q1 = jobs q" "boot_id q1 = boot_id q"
    using begin_fields [of w action params q] assms(2) by simp_all
  then have "dispatching False q q1"
    using assms(1,3) by (simp add: dispatching_def same_jobs [of q1 q])
  then have "dispatching False q (foldl desk_step q1 es)" using assms(4) by (rule desk_disp.run_inv)
  then show ?thesis using begin_busy by (auto simp: dispatching_def desktop_recover_def)
qed

theorem begin_write_failure_sticks_witness:
  "in_flight (foldl desk_step (sample_active\<lparr>in_flight := True\<rparr>) [WorkerReconcile sample_times True])"
proof -
  let ?q = "sample_active\<lparr>in_flight := True\<rparr>"
  have inv: "desk_inv sample_active" and fl: "in_flight ?q"
    and run: "desktop_begin failing_times ''ui.click'' sample_credentials sample_active
      = (?q, Err (error ''DESKTOP_STATE_FAILED'' ''disk full''))"
    and adm: "adm_run (\<lambda>q e. desk_fresh q e \<and> \<not> ends_action e) desk_step ?q [WorkerReconcile sample_times True]"
    by code_simp+
  show ?thesis using begin_write_failure_sticks [OF inv run fl adm] by blast
qed

end
