(* ===== verification/Execution_Capacity.thy ===== *)
theory Execution_Capacity
  imports Schema_Types
begin

text \<open>
  Admission of executor requests (\<open>ExecutionCapacity\<close> in \<open>executor.rs\<close>): at most
  \<open>maximum\<close> requests run at once, each holds its resources exclusively, the others wait in
  ticket order in a bounded queue. \<open>acquire\<close> releases the mutex only while it waits on the
  condition variable, so a call is a sequence of critical sections: \<open>enter\<close> up to the first
  wait, then one \<open>wake\<close> per return of \<open>wait_timeout\<close>. Threads interleave at these points and
  at \<open>drop_permit\<close>; \<open>cap_step\<close> is the resulting step relation. Whether a deadline has passed
  is an observation (\<open>expired\<close>, \<open>timed_out\<close>) passed to each section.
\<close>

section \<open>State and critical sections\<close>

record capacity =
  maximum :: nat
  maximum_queue :: nat
  wait_timeout_ms :: nat

record waiting_execution =
  w_ticket :: u64
  w_resources :: "string list"

record execution_state =
  x_active :: nat
  held_resources :: "string set"
  waiting :: "waiting_execution list"
  next_ticket :: u64

definition execution_default :: execution_state where
  "execution_default = \<lparr>x_active = 0, held_resources = {}, waiting = [], next_ticket = 0\<rparr>"

text \<open>The configuration read from the environment: parsed values where the variables are set.\<close>

definition from_environment :: "nat option \<Rightarrow> nat option \<Rightarrow> nat option \<Rightarrow> nat option \<Rightarrow> capacity" where
  "from_environment parallelism concurrency queue wait =
     \<lparr>maximum = (case concurrency of
          Some n \<Rightarrow> if n > 0 then n else min 32 (max 2 (case parallelism of Some p \<Rightarrow> p | None \<Rightarrow> 4))
        | None \<Rightarrow> min 32 (max 2 (case parallelism of Some p \<Rightarrow> p | None \<Rightarrow> 4))),
      maximum_queue = (case queue of Some n \<Rightarrow> n | None \<Rightarrow> 128),
      wait_timeout_ms = (case wait of Some n \<Rightarrow> if n > 0 then n else 30000 | None \<Rightarrow> 30000)\<rparr>"

definition can_grant :: "capacity \<Rightarrow> execution_state \<Rightarrow> string list \<Rightarrow> u64 option \<Rightarrow> bool" where
  "can_grant cap st resources ticket =
     (if x_active st \<ge> maximum cap \<or> list_ex (\<lambda>r. r \<in> held_resources st) resources then False
      else case ticket of
        None \<Rightarrow> waiting st = []
      | Some t \<Rightarrow>
          (case position (\<lambda>w. w_ticket w = t) (waiting st) of
             None \<Rightarrow> False
           | Some p \<Rightarrow> \<not> list_ex (\<lambda>earlier. list_ex (\<lambda>r. r \<in> set resources) (w_resources earlier))
                         (take p (waiting st))))"

datatype admission = Granted | Refused rpc_error | Waiting u64

definition queue_full :: "capacity \<Rightarrow> rpc_error" where
  "queue_full cap =
     (rpc_error_new ''EXECUTOR_QUEUE_FULL''
        (''executor queue limit '' @ show_nat (maximum_queue cap) @ '' reached''))\<lparr>retryable := True\<rparr>"

definition queue_timeout :: "capacity \<Rightarrow> rpc_error" where
  "queue_timeout cap =
     (rpc_error_new ''EXECUTOR_QUEUE_TIMEOUT''
        (''executor admission wait exceeded '' @ show_nat (wait_timeout_ms cap) @ '' ms''))\<lparr>retryable := True\<rparr>"

definition leave :: "u64 \<Rightarrow> execution_state \<Rightarrow> execution_state" where
  "leave ticket st = st\<lparr>waiting := filter (\<lambda>w. w_ticket w \<noteq> ticket) (waiting st)\<rparr>"

text \<open>\<open>Vec::remove\<close> at the position of the ticket; the position exists when \<open>can_grant\<close> holds.\<close>

definition admit :: "string list \<Rightarrow> u64 \<Rightarrow> execution_state \<Rightarrow> execution_state" where
  "admit resources ticket st =
     (case position (\<lambda>w. w_ticket w = ticket) (waiting st) of
        Some p \<Rightarrow>
          st\<lparr>waiting := take p (waiting st) @ drop (Suc p) (waiting st),
             x_active := x_active st + 1,
             held_resources := held_resources st \<union> set resources\<rparr>
      | None \<Rightarrow> st)"

definition poll :: "capacity \<Rightarrow> string list \<Rightarrow> u64 \<Rightarrow> bool \<Rightarrow> execution_state \<Rightarrow> execution_state \<times> admission" where
  "poll cap resources ticket expired st =
     (if can_grant cap st resources (Some ticket) then (admit resources ticket st, Granted)
      else if expired then (leave ticket st, Refused (queue_timeout cap))
      else (st, Waiting ticket))"

definition enter :: "capacity \<Rightarrow> string list \<Rightarrow> bool \<Rightarrow> execution_state \<Rightarrow> execution_state \<times> admission" where
  "enter cap requested expired st =
     (let resources = sort_dedup requested;
          ticket = next_ticket st;
          st1 = st\<lparr>next_ticket := sat_add (next_ticket st) 1\<rparr>
      in if \<not> can_grant cap st1 resources None \<and> length (waiting st1) \<ge> maximum_queue cap
         then (st1, Refused (queue_full cap))
         else poll cap resources ticket expired
                (st1\<lparr>waiting := waiting st1 @ [\<lparr>w_ticket = ticket, w_resources = resources\<rparr>]\<rparr>))"

definition wake :: "capacity \<Rightarrow> string list \<Rightarrow> u64 \<Rightarrow> bool \<Rightarrow> bool \<Rightarrow> execution_state \<Rightarrow> execution_state \<times> admission" where
  "wake cap resources ticket timed_out expired st =
     (if timed_out \<and> \<not> can_grant cap st resources (Some ticket)
      then (leave ticket st, Refused (queue_timeout cap))
      else poll cap resources ticket expired st)"

definition drop_permit :: "string list \<Rightarrow> execution_state \<Rightarrow> execution_state" where
  "drop_permit resources st =
     st\<lparr>x_active := x_active st - 1, held_resources := held_resources st - set resources\<rparr>"

definition execution_snapshot :: "capacity \<Rightarrow> execution_state \<Rightarrow> nat \<times> nat \<times> nat \<times> nat \<times> nat" where
  "execution_snapshot cap st =
     (x_active st, maximum cap, length (waiting st), maximum_queue cap, card (held_resources st))"

definition execution_is_available :: "string \<Rightarrow> execution_state \<Rightarrow> bool" where
  "execution_is_available resource st \<longleftrightarrow> resource \<notin> held_resources st"

section \<open>Interleaved executions\<close>

text \<open>
  The state behind the mutex and the permits that have been handed out. A thread inside
  \<open>acquire\<close> is represented by its entry in the waiting list. Tickets are counted up to the
  largest 64-bit value, which a run of fewer than \<open>2 ^ 64 - 1\<close> calls does not reach.
\<close>

record cap_system =
  shared :: execution_state
  permits :: "string list list"

inductive cap_step :: "capacity \<Rightarrow> cap_system \<Rightarrow> cap_system \<Rightarrow> bool" for cap where
  enter: "enter cap requested expired (shared s) = (st, a) \<Longrightarrow> next_ticket (shared s) \<noteq> u64_max \<Longrightarrow>
    cap_step cap s \<lparr>shared = st,
      permits = (if a = Granted then permits s @ [sort_dedup requested] else permits s)\<rparr>"
| wake: "w \<in> set (waiting (shared s)) \<Longrightarrow>
    wake cap (w_resources w) (w_ticket w) timed_out expired (shared s) = (st, a) \<Longrightarrow>
    cap_step cap s \<lparr>shared = st,
      permits = (if a = Granted then permits s @ [w_resources w] else permits s)\<rparr>"
| release: "r \<in> set (permits s) \<Longrightarrow>
    cap_step cap s \<lparr>shared = drop_permit r (shared s), permits = remove1 r (permits s)\<rparr>"

definition cap_initial :: cap_system where
  "cap_initial = \<lparr>shared = execution_default, permits = []\<rparr>"

inductive_simps cap_step_simps: "cap_step cap s s'"

definition cap_inv :: "capacity \<Rightarrow> cap_system \<Rightarrow> bool" where
  "cap_inv cap s \<longleftrightarrow>
     x_active (shared s) = length (permits s) \<and> length (permits s) \<le> maximum cap
     \<and> held_resources (shared s) = set (concat (permits s)) \<and> distinct (concat (permits s))
     \<and> length (waiting (shared s)) \<le> maximum_queue cap
     \<and> sorted_wrt (\<lambda>v w. w_ticket v < w_ticket w) (waiting (shared s))
     \<and> (\<forall>w \<in> set (waiting (shared s)). w_ticket w < next_ticket (shared s) \<and> distinct (w_resources w))"

section \<open>Lemmas\<close>

lemma remove1_disjoint:
  assumes "r \<in> set ps" and "distinct (concat ps)"
  shows "distinct (concat (remove1 r ps))" "set (concat (remove1 r ps)) = set (concat ps) - set r"
proof -
  obtain xs ys where ps: "ps = xs @ r # ys" "r \<notin> set xs"
    using split_list_first [OF assms(1)] by blast
  then have "remove1 r ps = xs @ ys" by (simp add: remove1_append)
  with assms(2) show "distinct (concat (remove1 r ps))"
    "set (concat (remove1 r ps)) = set (concat ps) - set r"
    by (auto simp: ps)
qed

lemma can_grant_Some:
  "can_grant cap st rs (Some t) \<longleftrightarrow>
     x_active st < maximum cap \<and> set rs \<inter> held_resources st = {}
     \<and> (\<exists>p. position (\<lambda>w. w_ticket w = t) (waiting st) = Some p
          \<and> (\<forall>e \<in> set (take p (waiting st)). set (w_resources e) \<inter> set rs = {}))"
  by (auto simp: can_grant_def list_ex_iff split: option.splits)

lemma can_grant_None:
  "can_grant cap st rs None \<longleftrightarrow>
     x_active st < maximum cap \<and> set rs \<inter> held_resources st = {} \<and> waiting st = []"
  by (auto simp: can_grant_def list_ex_iff)

lemma take_drop_subseq: "set (take p ws @ drop (Suc p) ws) \<subseteq> set ws"
  by (auto dest: in_set_takeD in_set_dropD)

lemma sorted_wrt_remove:
  "sorted_wrt P xs \<Longrightarrow> sorted_wrt P (take p xs @ drop (Suc p) xs)"
proof (induction xs arbitrary: p)
  case (Cons x xs)
  show ?case
  proof (cases p)
    case (Suc n)
    with Cons take_drop_subseq [of n xs] show ?thesis by auto
  qed (use Cons.prems in simp)
qed simp

lemma admit_fields:
  assumes "can_grant cap st rs (Some t)"
  obtains p where "p < length (waiting st)"
    "admit rs t st = st\<lparr>waiting := take p (waiting st) @ drop (Suc p) (waiting st),
       x_active := x_active st + 1, held_resources := held_resources st \<union> set rs\<rparr>"
    "w_ticket (waiting st ! p) = t" "\<forall>e \<in> set (take p (waiting st)). set (w_resources e) \<inter> set rs = {}"
proof -
  from assms obtain p where p: "position (\<lambda>w. w_ticket w = t) (waiting st) = Some p"
    and earlier: "\<forall>e \<in> set (take p (waiting st)). set (w_resources e) \<inter> set rs = {}"
    by (auto simp: can_grant_Some)
  show thesis using position_SomeD [OF p] earlier by (intro that [of p]) (simp_all add: admit_def p)
qed

text \<open>The part of the invariant that a grant relies on, apart from the length of the queue.\<close>

definition queue_inv :: "execution_state \<Rightarrow> bool" where
  "queue_inv st \<longleftrightarrow>
     sorted_wrt (\<lambda>v w. w_ticket v < w_ticket w) (waiting st)
     \<and> (\<forall>w \<in> set (waiting st). w_ticket w < next_ticket st \<and> distinct (w_resources w))"

definition permit_inv :: "capacity \<Rightarrow> execution_state \<Rightarrow> string list list \<Rightarrow> bool" where
  "permit_inv cap st ps \<longleftrightarrow>
     x_active st = length ps \<and> length ps \<le> maximum cap
     \<and> held_resources st = set (concat ps) \<and> distinct (concat ps)"

lemma cap_inv_parts:
  "cap_inv cap s \<longleftrightarrow> permit_inv cap (shared s) (permits s) \<and> queue_inv (shared s)
     \<and> length (waiting (shared s)) \<le> maximum_queue cap"
  by (auto simp: cap_inv_def permit_inv_def queue_inv_def)

lemma queue_inv_leave: "queue_inv st \<Longrightarrow> queue_inv (leave t st)"
  by (auto simp: queue_inv_def leave_def intro: sorted_wrt_filter)

lemma queue_inv_admit:
  assumes "queue_inv st" and "can_grant cap st rs (Some t)"
  shows "queue_inv (admit rs t st)"
proof -
  obtain p where "admit rs t st = st\<lparr>waiting := take p (waiting st) @ drop (Suc p) (waiting st),
       x_active := x_active st + 1, held_resources := held_resources st \<union> set rs\<rparr>"
    using assms(2) by (rule admit_fields)
  with assms(1) sorted_wrt_remove [of "\<lambda>v w. w_ticket v < w_ticket w" "waiting st" p]
    take_drop_subseq [of p "waiting st"]
  show ?thesis unfolding queue_inv_def by (auto simp del: sorted_wrt_append)
qed

lemma permit_inv_admit:
  assumes "permit_inv cap st ps" and "can_grant cap st rs (Some t)" and "distinct rs"
  shows "permit_inv cap (admit rs t st) (ps @ [rs])"
proof -
  obtain p where "admit rs t st = st\<lparr>waiting := take p (waiting st) @ drop (Suc p) (waiting st),
       x_active := x_active st + 1, held_resources := held_resources st \<union> set rs\<rparr>"
    using assms(2) by (rule admit_fields)
  with assms show ?thesis by (auto simp: permit_inv_def can_grant_Some)
qed

lemma permit_inv_leave: "permit_inv cap st ps \<Longrightarrow> permit_inv cap (leave t st) ps"
  by (simp add: permit_inv_def leave_def)

lemma poll_inv:
  assumes "permit_inv cap st ps" and "queue_inv st" and "distinct rs"
    and "poll cap rs t expired st = (st', a)"
  shows "permit_inv cap st' (if a = Granted then ps @ [rs] else ps) \<and> queue_inv st'"
  using assms
  by (auto simp: poll_def permit_inv_admit queue_inv_admit permit_inv_leave queue_inv_leave
           split: if_splits)

lemma admit_length:
  "can_grant cap st rs (Some t) \<Longrightarrow> length (waiting (admit rs t st)) = length (waiting st) - 1"
  by (erule admit_fields) auto

lemma poll_length:
  "poll cap rs t expired st = (st', a) \<Longrightarrow> length (waiting st') \<le> length (waiting st)"
  by (auto simp: poll_def leave_def admit_length split: if_splits)

lemma leave_length: "length (waiting (leave t st)) \<le> length (waiting st)"
  by (simp add: leave_def)

lemma wake_inv:
  assumes "permit_inv cap st ps" and "queue_inv st" and "distinct rs"
    and "wake cap rs t timed_out expired st = (st', a)"
  shows "permit_inv cap st' (if a = Granted then ps @ [rs] else ps) \<and> queue_inv st'
       \<and> length (waiting st') \<le> length (waiting st)"
  using assms poll_inv [of cap st ps rs t expired st' a] poll_length [of cap rs t expired st st' a]
  by (auto simp: wake_def permit_inv_leave queue_inv_leave leave_length split: if_splits)

text \<open>A request that finds the queue empty and its resources free is granted at once.\<close>

lemma position_snoc:
  "\<forall>w \<in> set ws. w_ticket w \<noteq> t \<Longrightarrow>
     position (\<lambda>w. w_ticket w = t) (ws @ [\<lparr>w_ticket = t, w_resources = rs\<rparr>]) = Some (length ws)"
  by (intro position_SomeI) (auto simp: nth_append)

lemma enter_inv:
  assumes p: "permit_inv cap st ps" and q: "queue_inv st" and len: "length (waiting st) \<le> maximum_queue cap"
    and ticket: "next_ticket st \<noteq> u64_max" and run: "enter cap req expired st = (st', a)"
  shows "permit_inv cap st' (if a = Granted then ps @ [sort_dedup req] else ps)
       \<and> queue_inv st' \<and> length (waiting st') \<le> maximum_queue cap"
proof -
  let ?rs = "sort_dedup req" and ?t = "next_ticket st"
  let ?st1 = "st\<lparr>next_ticket := sat_add ?t 1\<rparr>"
  let ?st2 = "?st1\<lparr>waiting := waiting st @ [\<lparr>w_ticket = ?t, w_resources = ?rs\<rparr>]\<rparr>"
  have lt: "?t < sat_add ?t 1" using ticket by (rule sat_add_one_gt)
  have q1: "queue_inv ?st1" using q lt by (auto simp: queue_inv_def)
  have q2: "queue_inv ?st2" using q lt by (auto simp: queue_inv_def sorted_wrt_append)
  have p12: "permit_inv cap ?st1 ps" "permit_inv cap ?st2 ps" using p by (simp_all add: permit_inv_def)
  show ?thesis
  proof (cases "\<not> can_grant cap ?st1 ?rs None \<and> length (waiting st) \<ge> maximum_queue cap")
    case True
    with run p12(1) q1 len show ?thesis by (auto simp: enter_def)
  next
    case False
    with run have polled: "poll cap ?rs ?t expired ?st2 = (st', a)" by (simp add: enter_def Let_def)
    have "length (waiting st') \<le> maximum_queue cap"
    proof (cases "can_grant cap ?st1 ?rs None")
      case True
      then have "can_grant cap ?st2 ?rs (Some ?t)" by (auto simp: can_grant_None can_grant_Some)
      moreover from True have "waiting st = []" by (simp add: can_grant_None)
      ultimately show ?thesis using polled by (auto simp: poll_def admit_length)
    next
      case False2: False
      with False have "length (waiting st) < maximum_queue cap" by simp
      with poll_length [OF polled] show ?thesis by simp
    qed
    with poll_inv [OF p12(2) q2 _ polled] show ?thesis by simp
  qed
qed

lemma drop_permit_inv:
  "permit_inv cap st ps \<Longrightarrow> r \<in> set ps \<Longrightarrow> permit_inv cap (drop_permit r st) (remove1 r ps)"
  using remove1_disjoint [of r ps]
  by (auto simp: permit_inv_def drop_permit_def length_remove1)

lemma cap_step_inv: "cap_step cap s s' \<Longrightarrow> cap_inv cap s \<Longrightarrow> cap_inv cap s'"
proof (induction rule: cap_step.induct)
  case (enter requested expired s st a)
  then show ?case using enter_inv [of cap "shared s" "permits s" requested expired st a]
    by (simp add: cap_inv_parts)
next
  case (wake w s timed_out expired st a)
  then have "distinct (w_resources w)" by (auto simp: cap_inv_def)
  with wake show ?case
    using wake_inv [of cap "shared s" "permits s" "w_resources w" "w_ticket w" timed_out expired st a]
    by (auto simp: cap_inv_parts)
next
  case (release r s)
  then show ?case using drop_permit_inv [of cap "shared s" "permits s" r]
    by (auto simp: cap_inv_parts queue_inv_def drop_permit_def)
qed

interpretation cap: relation_machine "cap_step cap" "cap_inv cap" for cap
  by unfold_locales (rule cap_step_inv)

lemma cap_initial_inv: "cap_inv cap cap_initial"
  by (simp add: cap_initial_def cap_inv_def execution_default_def)

lemma reachable_inv: "(cap_step cap)\<^sup>*\<^sup>* cap_initial s \<Longrightarrow> cap_inv cap s"
  using cap.reach_inv cap_initial_inv by blast

lemma ticket_position:
  assumes "queue_inv st" and "w \<in> set (waiting st)"
  obtains p where "position (\<lambda>v. w_ticket v = w_ticket w) (waiting st) = Some p"
    "set (take p (waiting st)) = {v \<in> set (waiting st). w_ticket v < w_ticket w}"
proof -
  obtain xs ys where ws: "waiting st = xs @ w # ys" using split_list [OF assms(2)] by blast
  with assms(1) have "\<forall>v \<in> set xs. w_ticket v < w_ticket w" "\<forall>v \<in> set ys. w_ticket w < w_ticket v"
    by (auto simp: queue_inv_def sorted_wrt_append)
  moreover from this have "\<forall>j<length xs. w_ticket (xs ! j) \<noteq> w_ticket w" using nth_mem by fastforce
  ultimately show thesis
    by (intro that [of "length xs"] position_SomeI) (auto simp: ws nth_append dest: order.asym)
qed

lemma can_grant_waiting:
  assumes "queue_inv st" and "w \<in> set (waiting st)"
  shows "can_grant cap st (w_resources w) (Some (w_ticket w)) \<longleftrightarrow>
    x_active st < maximum cap \<and> set (w_resources w) \<inter> held_resources st = {}
    \<and> (\<forall>v \<in> set (waiting st). w_ticket v < w_ticket w \<longrightarrow> set (w_resources v) \<inter> set (w_resources w) = {})"
proof -
  obtain p where "position (\<lambda>v. w_ticket v = w_ticket w) (waiting st) = Some p"
    "set (take p (waiting st)) = {v \<in> set (waiting st). w_ticket v < w_ticket w}"
    using ticket_position [OF assms] by blast
  then show ?thesis by (auto simp: can_grant_Some)
qed

lemma admit_waiting: "set (waiting (admit rs t st)) \<subseteq> set (waiting st)" "next_ticket (admit rs t st) = next_ticket st"
  by (auto simp: admit_def split: option.splits dest: in_set_takeD in_set_dropD)

lemma poll_waiting:
  assumes "poll cap rs t expired st = (st', a)"
  shows "set (waiting st') \<subseteq> set (waiting st)" "next_ticket st' = next_ticket st"
  using assms admit_waiting [of rs t st] by (auto simp: poll_def leave_def split: if_splits)

lemma enter_cases:
  assumes "enter cap requested expired st = (st', a)"
  obtains (full) "st' = st\<lparr>next_ticket := sat_add (next_ticket st) 1\<rparr>" "a = Refused (queue_full cap)"
  | (queued) "poll cap (sort_dedup requested) (next_ticket st) expired
      (st\<lparr>next_ticket := sat_add (next_ticket st) 1, waiting := waiting st @
        [\<lparr>w_ticket = next_ticket st, w_resources = sort_dedup requested\<rparr>]\<rparr>) = (st', a)"
proof (cases "\<not> can_grant cap (st\<lparr>next_ticket := sat_add (next_ticket st) 1\<rparr>) (sort_dedup requested) None
    \<and> length (waiting st) \<ge> maximum_queue cap")
  case True
  show thesis by (rule full) (use assms True in \<open>simp_all add: enter_def\<close>)
next
  case False
  show thesis by (rule queued) (use assms False in \<open>simp add: enter_def Let_def\<close>)
qed

lemma step_waiting:
  assumes "cap_step cap s s'" and "v \<in> set (waiting (shared s'))"
  shows "v \<in> set (waiting (shared s)) \<or> w_ticket v = next_ticket (shared s)"
  using assms
proof (induction rule: cap_step.induct)
  case (enter requested expired s st a)
  from enter.hyps(1) show ?case
  proof (cases rule: enter_cases)
    case queued
    then show ?thesis using poll_waiting(1) [OF queued] enter.prems by auto
  qed (use enter.prems in simp)
next
  case (wake w s timed_out expired st a)
  then show ?case
    using poll_waiting(1) [of cap "w_resources w" "w_ticket w" expired "shared s" st a]
    by (auto simp: wake_def leave_def split: if_splits)
qed (simp add: drop_permit_def)

lemma step_ticket: "cap_step cap s s' \<Longrightarrow> next_ticket (shared s) \<le> next_ticket (shared s')"
proof (induction rule: cap_step.induct)
  case (enter requested expired s st a)
  have "next_ticket st = sat_add (next_ticket (shared s)) 1"
    using enter.hyps(1) by (cases rule: enter_cases) (auto dest: poll_waiting(2))
  then show ?case using sat_add_ge by simp
next
  case (wake w s timed_out expired st a)
  then show ?case
    using poll_waiting(2) [of cap "w_resources w" "w_ticket w" expired "shared s" st a]
    by (auto simp: wake_def leave_def split: if_splits)
qed (simp add: drop_permit_def)

interpretation ahead: relation_machine "cap_step cap"
  "\<lambda>s. t < next_ticket (shared s) \<and> {v \<in> set (waiting (shared s)). w_ticket v < t} \<subseteq> A" for cap t A
proof unfold_locales
  fix s s'
  assume before: "t < next_ticket (shared s) \<and> {v \<in> set (waiting (shared s)). w_ticket v < t} \<subseteq> A"
    and step: "cap_step cap s s'"
  show "t < next_ticket (shared s') \<and> {v \<in> set (waiting (shared s')). w_ticket v < t} \<subseteq> A"
  proof (intro conjI subsetI)
    show "t < next_ticket (shared s')" using before step_ticket [OF step] by auto
    fix v
    assume v: "v \<in> {v \<in> set (waiting (shared s')). w_ticket v < t}"
    then have "v \<in> set (waiting (shared s))" using step_waiting [OF step, of v] before by auto
    with v before show "v \<in> A" by auto
  qed
qed

section \<open>Guarantees\<close>

text \<open>C11: in every interleaving of admissions, wake-ups, time-outs and releases, at most
  \<open>maximum\<close> requests run, no resource belongs to two of them, the held set is exactly what the
  running requests hold, and the queue is bounded and in ticket order.\<close>
theorem capacity_exclusive:
  "(cap_step cap)\<^sup>*\<^sup>* cap_initial s \<Longrightarrow> cap_inv cap s"
  by (rule reachable_inv)

text \<open>Requests that compete for a resource are admitted in the order of their tickets: while
  an earlier request waits for it, neither a later waiting request nor a new one is granted.\<close>
theorem conflicts_in_order:
  assumes "(cap_step cap)\<^sup>*\<^sup>* cap_initial s" and "v \<in> set (waiting (shared s))" and "r \<in> set (w_resources v)"
  shows "(w \<in> set (waiting (shared s)) \<and> w_ticket v < w_ticket w \<and> r \<in> set (w_resources w) \<longrightarrow>
      snd (wake cap (w_resources w) (w_ticket w) timed_out expired (shared s)) \<noteq> Granted)
    \<and> (r \<in> set requested \<and> next_ticket (shared s) \<noteq> u64_max \<longrightarrow>
      snd (enter cap requested expired (shared s)) \<noteq> Granted)"
proof -
  have q: "queue_inv (shared s)" using reachable_inv [OF assms(1)] by (simp add: cap_inv_parts)
  have "snd (wake cap (w_resources w) (w_ticket w) timed_out expired (shared s)) \<noteq> Granted"
    if "w \<in> set (waiting (shared s))" "w_ticket v < w_ticket w" "r \<in> set (w_resources w)"
    using can_grant_waiting [OF q that(1), of cap] that assms(2,3) by (auto simp: wake_def poll_def)
  moreover have "snd (enter cap requested expired (shared s)) \<noteq> Granted" if "r \<in> set requested"
  proof -
    let ?st = "shared s" and ?rs = "sort_dedup requested"
    let ?st2 = "?st\<lparr>next_ticket := sat_add (next_ticket ?st) 1,
      waiting := waiting ?st @ [\<lparr>w_ticket = next_ticket ?st, w_resources = ?rs\<rparr>]\<rparr>"
    have "\<forall>w \<in> set (waiting ?st). w_ticket w \<noteq> next_ticket ?st" using q by (auto simp: queue_inv_def)
    then have "\<not> can_grant cap ?st2 ?rs (Some (next_ticket ?st))"
      using assms(2,3) that by (auto simp: can_grant_Some position_snoc)
    then show ?thesis by (auto simp: enter_def Let_def poll_def)
  qed
  ultimately show ?thesis by blast
qed

text \<open>Nobody overtakes: from any reachable state on, the requests ahead of a waiting request
  are among those that were ahead of it before.\<close>
theorem no_overtaking:
  assumes "(cap_step cap)\<^sup>*\<^sup>* cap_initial s" and "(cap_step cap)\<^sup>*\<^sup>* s s'"
    and "w \<in> set (waiting (shared s))"
  shows "{v \<in> set (waiting (shared s')). w_ticket v < w_ticket w}
       \<subseteq> {v \<in> set (waiting (shared s)). w_ticket v < w_ticket w}"
proof -
  have "w_ticket w < next_ticket (shared s)"
    using reachable_inv [OF assms(1)] assms(3) by (auto simp: cap_inv_def)
  then show ?thesis using ahead.reach_inv [OF assms(2)] by blast
qed

text \<open>The admission queue does not deadlock: as long as someone waits, either a request is
  running and will release its resources, or the first waiting request is granted as soon as
  its thread runs.\<close>
theorem capacity_no_deadlock:
  assumes "(cap_step cap)\<^sup>*\<^sup>* cap_initial s" and "maximum cap > 0" and "waiting (shared s) = w # ws"
  shows "permits s \<noteq> []
    \<or> snd (wake cap (w_resources w) (w_ticket w) timed_out expired (shared s)) = Granted"
proof -
  have inv: "cap_inv cap s" using assms(1) by (rule reachable_inv)
  then have q: "queue_inv (shared s)" by (simp add: cap_inv_parts)
  have first: "\<forall>v \<in> set (waiting (shared s)). \<not> w_ticket v < w_ticket w"
    using q assms(3) by (auto simp: queue_inv_def)
  have w: "w \<in> set (waiting (shared s))" using assms(3) by simp
  show ?thesis
    using can_grant_waiting [OF q w, of cap] first assms(2) inv
    by (auto simp: wake_def poll_def cap_inv_def)
qed

text \<open>No wake-up is lost: a request that joins the queue or is turned away because it is full
  does not notify the condition variable, and indeed makes no waiting request grantable; nor
  does a wake-up that goes back to waiting, which changes nothing.\<close>
theorem no_lost_wakeup:
  assumes "(cap_step cap)\<^sup>*\<^sup>* cap_initial s" and "w \<in> set (waiting (shared s))"
    and "enter cap requested expired (shared s) = (st, a)"
    and "a = Waiting t \<or> a = Refused (queue_full cap)"
    and "can_grant cap st (w_resources w) (Some (w_ticket w))"
  shows "can_grant cap (shared s) (w_resources w) (Some (w_ticket w))"
proof -
  have q: "queue_inv (shared s)" using reachable_inv [OF assms(1)] by (simp add: cap_inv_parts)
  have "queue_full cap \<noteq> queue_timeout cap"
    by (simp add: queue_full_def queue_timeout_def rpc_error_new_def)
  then have st: "x_active st = x_active (shared s)" "held_resources st = held_resources (shared s)"
      "\<exists>xs. waiting st = waiting (shared s) @ xs"
    using assms(3,4) by (auto simp: enter_def Let_def poll_def split: if_splits)
  obtain p where p: "position (\<lambda>v. w_ticket v = w_ticket w) (waiting (shared s)) = Some p"
    using ticket_position [OF q assms(2)] by blast
  with st show ?thesis
    using assms(5) position_SomeD [OF p] by (auto simp: can_grant_Some position_append)
qed

section \<open>Instances\<close>

definition sample_cap :: capacity where
  "sample_cap = \<lparr>maximum = 1, maximum_queue = 4, wait_timeout_ms = 2000\<rparr>"

definition sample_busy :: cap_system where
  "sample_busy = \<lparr>shared = \<lparr>x_active = 1, held_resources = {''a''}, waiting = [], next_ticket = 1\<rparr>,
     permits = [[''a'']]\<rparr>"

definition sample_queued :: cap_system where
  "sample_queued = \<lparr>shared = \<lparr>x_active = 1, held_resources = {''a''},
       waiting = [\<lparr>w_ticket = 1, w_resources = [''a'', ''b'']\<rparr>], next_ticket = 2\<rparr>,
     permits = [[''a'']]\<rparr>"

lemma sample_steps: "cap_step sample_cap cap_initial sample_busy" "cap_step sample_cap sample_busy sample_queued"
proof -
  have run: "enter sample_cap [''a''] False (shared cap_initial) = (shared sample_busy, Granted)"
    "enter sample_cap [''b'', ''a'', ''b''] False (shared sample_busy) = (shared sample_queued, Waiting 1)"
    and ticket: "next_ticket (shared cap_initial) \<noteq> u64_max" "next_ticket (shared sample_busy) \<noteq> u64_max"
    and norm: "sort_dedup [''a''] = [''a'']"
    by code_simp+
  show "cap_step sample_cap cap_initial sample_busy"
    using cap_step.enter [OF run(1) ticket(1)] norm by (simp add: sample_busy_def cap_initial_def)
  show "cap_step sample_cap sample_busy sample_queued"
    using cap_step.enter [OF run(2) ticket(2)] by (simp add: sample_busy_def sample_queued_def)
qed

definition sample_freed :: cap_system where
  "sample_freed = \<lparr>shared = drop_permit [''a''] (shared sample_queued), permits = remove1 [''a''] (permits sample_queued)\<rparr>"

lemma sample_reachable: "(cap_step sample_cap)\<^sup>*\<^sup>* cap_initial sample_queued"
  using sample_steps by (meson converse_rtranclp_into_rtranclp rtranclp.rtrancl_refl)

lemma sample_freed_reachable: "(cap_step sample_cap)\<^sup>*\<^sup>* cap_initial sample_freed"
proof -
  have "cap_step sample_cap sample_queued sample_freed"
    unfolding sample_freed_def by (rule cap_step.release) (simp add: sample_queued_def)
  with sample_reachable show ?thesis by (rule rtranclp.rtrancl_into_rtrancl)
qed

theorem capacity_exclusive_witness: "cap_inv sample_cap sample_queued"
  using sample_reachable by (rule capacity_exclusive)

theorem conflicts_in_order_witness:
  "snd (enter sample_cap [''b''] False (shared sample_queued)) \<noteq> Granted"
proof -
  have v: "\<lparr>w_ticket = 1, w_resources = [''a'', ''b'']\<rparr> \<in> set (waiting (shared sample_queued))"
    and r: "''b'' \<in> set (w_resources \<lparr>w_ticket = 1, w_resources = [''a'', ''b'']\<rparr>)"
    and t: "next_ticket (shared sample_queued) \<noteq> u64_max"
    by code_simp+
  show ?thesis using conflicts_in_order [OF sample_reachable v r, where requested = "[''b'']"] t by simp
qed

theorem no_overtaking_witness:
  "{v \<in> set (waiting (shared sample_queued)). w_ticket v < 1} \<subseteq> {v \<in> set (waiting (shared sample_queued)). w_ticket v < 1}
     \<and> length (waiting (shared sample_queued)) = 1"
proof -
  have w: "\<lparr>w_ticket = 1, w_resources = [''a'', ''b'']\<rparr> \<in> set (waiting (shared sample_queued))"
    and len: "length (waiting (shared sample_queued)) = 1"
    by code_simp+
  show ?thesis using no_overtaking [OF sample_reachable rtranclp.rtrancl_refl w] len by simp
qed

theorem capacity_no_deadlock_witness:
  "snd (wake sample_cap [''a'', ''b''] 1 False False (shared sample_freed)) = Granted"
proof -
  have m: "maximum sample_cap > 0" and idle: "permits sample_freed = []"
    and w: "waiting (shared sample_freed) = [\<lparr>w_ticket = 1, w_resources = [''a'', ''b'']\<rparr>]"
    by code_simp+
  show ?thesis using capacity_no_deadlock [OF sample_freed_reachable m w, of False False] idle by simp
qed

theorem no_lost_wakeup_witness:
  "\<exists>w. w \<in> set (waiting (shared sample_freed))
     \<and> can_grant sample_cap (shared sample_freed) (w_resources w) (Some (w_ticket w))"
proof -
  let ?w = "\<lparr>w_ticket = 1, w_resources = [''a'', ''b'']\<rparr>"
  have w: "?w \<in> set (waiting (shared sample_freed))"
    and run: "enter sample_cap [''a''] False (shared sample_freed) =
      (fst (enter sample_cap [''a''] False (shared sample_freed)), Waiting 2)"
    and can: "can_grant sample_cap (fst (enter sample_cap [''a''] False (shared sample_freed)))
      (w_resources ?w) (Some (w_ticket ?w))"
    by code_simp+
  show ?thesis using no_lost_wakeup [OF sample_freed_reachable w run _ can] w by blast
qed

end
