(* ===== verification/Capability_Catalog.thy ===== *)
theory Capability_Catalog
  imports Schema_Types
begin

text \<open>
  The capability catalogue of an executor (\<open>capability_catalog\<close>, \<open>contract\<close> and
  \<open>output_schema\<close> in \<open>executor.rs\<close>): for every capability its input and output schema, the
  locks it takes, its idempotency fields, time-out, rollback and evidence. The build's
  platform (\<open>cfg(target_os)\<close>, \<open>cfg(windows)\<close>) is an argument.
\<close>

section \<open>Capabilities by platform\<close>

datatype platform = MacOS | Windows | OtherPlatform

definition common_capabilities :: "(string \<times> effect) list" where
  "common_capabilities =
     [(''filesystem.resolve'', ReadOnly), (''filesystem.stat'', ReadOnly),
     (''filesystem.capacity'', ReadOnly), (''filesystem.read'', ReadOnly),
     (''filesystem.list'', ReadOnly), (''filesystem.search'', ReadOnly),
     (''filesystem.write'', Mutating), (''filesystem.patch'', Mutating),
     (''filesystem.remove'', Mutating), (''filesystem.restore'', Mutating),
     (''filesystem.mkdir'', Mutating), (''command.run'', Mutating),
     (''clipboard.status'', ReadOnly), (''clipboard.read'', ReadOnly),
     (''clipboard.write'', Mutating), (''artifact.build'', Mutating),
     (''artifact.describe'', ReadOnly), (''artifact.pack-chromium-datapack'', Mutating),
     (''artifact.relay.archive.create'', ReadOnly), (''artifact.relay.archive.read'', ReadOnly),
     (''artifact.relay.archive.remove'', ReadOnly), (''artifact.relay.archive.prepare'', Mutating),
     (''artifact.relay.archive.write'', Mutating), (''artifact.relay.archive.commit'', Mutating),
     (''artifact.relay.manifest'', ReadOnly), (''artifact.relay.read'', ReadOnly),
     (''artifact.relay.prepare'', Mutating), (''artifact.relay.write'', Mutating),
     (''artifact.relay.commit'', Mutating), (''process.start'', Mutating),
     (''process.get'', ReadOnly), (''process.list'', ReadOnly), (''process.stop'', Mutating),
     (''process.events'', ReadOnly), (''logs.read'', ReadOnly), (''port.check'', ReadOnly),
     (''tunnel.ensure'', Mutating), (''tunnel.get'', ReadOnly), (''tunnel.list'', ReadOnly),
     (''tunnel.stop'', Mutating), (''agent.start'', Mutating), (''agent.stop'', Mutating),
     (''application.materialize'', Mutating), (''application.apply-artifacts'', Mutating),
     (''application.generation.record'', Mutating), (''application.runtime.record'', Mutating),
     (''application.activate'', Mutating)]"

definition macos_capabilities :: "(string \<times> effect) list" where
  "macos_capabilities =
     [(''application.inspect'', ReadOnly), (''application.finalize'', Mutating),
     (''application.launch'', Mutating), (''application.open-file'', Mutating),
     (''application.stop'', Mutating), (''ui.inspect'', ReadOnly), (''ui.evaluate'', ReadOnly),
     (''ui.automate'', Mutating), (''ui.capture'', ReadOnly), (''ui.native-inspect'', ReadOnly)]"

definition windows_capabilities :: "(string \<times> effect) list" where
  "windows_capabilities =
     [(''application.inspect'', ReadOnly), (''application.launch'', Mutating),
     (''application.open-file'', Mutating), (''application.stop'', Mutating),
     (''ui.evaluate'', ReadOnly), (''ui.capture'', ReadOnly), (''ui.native-inspect'', ReadOnly)]"

section \<open>Contracts\<close>

text \<open>The tuple each arm of \<open>contract\<close> evaluates to.\<close>

record contract_row =
  r_required :: "string list"
  r_properties :: json
  r_locks :: "string list"
  r_key_fields :: "string list"
  r_timeout_ms :: u64
  r_rollback :: rollback_strategy
  r_evidence :: "string list"

definition row ::
  "string list \<Rightarrow> json \<Rightarrow> string list \<Rightarrow> string list \<Rightarrow> u64 \<Rightarrow> rollback_strategy \<Rightarrow> string list \<Rightarrow> contract_row" where
  "row required properties locks key_fields timeout_ms rollback evidence =
     \<lparr>r_required = required, r_properties = properties, r_locks = locks, r_key_fields = key_fields,
      r_timeout_ms = timeout_ms, r_rollback = rollback, r_evidence = evidence\<rparr>"

definition ty :: "string \<Rightarrow> json" where
  "ty t = jobj [(''type'', JStr t)]"

definition contract_filesystem :: "platform \<Rightarrow> string \<Rightarrow> contract_row option" where
  "contract_filesystem plat name =
     (if name = ''clipboard.status''
        then Some (row [''clipboard''] (jobj []) [] [] 5000 RollbackNone [''clipboard-status''])
      else if name = ''clipboard.read''
        then Some (row [''clipboard''] (jobj [(''maxBytes'', jobj [(''type'', JStr ''integer''),
        (''minimum'', ju64 1), (''maximum'', ju64 16777216)])]) [] [''maxBytes'']
        5000 RollbackNone [''clipboard-digest''])
      else if name = ''clipboard.write''
        then Some (row [''clipboard''] (jobj [(''semanticDigest'', ty ''string''),
        (''content'', ty ''object''), (''expiresAtMs'', jobj [(''type'', JStr ''integer''),
        (''minimum'', ju64 1)]), (''maxBytes'', jobj [(''type'', JStr ''integer''),
        (''minimum'', ju64 1), (''maximum'', ju64 16777216)])]) [''clipboard:${executorId}'']
        [''semanticDigest''] 30000 RollbackNone [''clipboard-digest''])
      else if name \<in> {''filesystem.resolve'', ''filesystem.stat'', ''filesystem.capacity'',
          ''filesystem.read'', ''filesystem.list''}
        then Some (row [''filesystem''] (jobj [(''path'', ty ''string'')]) [] [''path'']
        30000 RollbackNone [''filesystem-result''])
      else if name = ''filesystem.search''
        then Some (row [''filesystem''] (jobj [(''path'', ty ''string''),
        (''query'', ty ''string''), (''maxResults'', jobj [(''type'', JStr ''integer''),
        (''minimum'', ju64 1)])]) [] [''path'', ''query'', ''maxResults'']
        60000 RollbackNone [''search-results''])
      else if name = ''filesystem.write''
        then Some (row [''filesystem''] (jobj [(''path'', ty ''string''),
        (''content'', ty ''string''), (''expectedDigest'', ty ''string''),
        (''expectedAbsent'', ty ''boolean'')]) [''filesystem:${path}''] [''path'', ''content'',
        ''expectedDigest'', ''expectedAbsent''] 30000 RollbackNone [''file-digest''])
      else if name = ''filesystem.patch''
        then Some (row [''filesystem''] (jobj [(''path'', ty ''string''),
        (''before'', ty ''string''), (''after'', ty ''string''),
        (''expectedDigest'', ty ''string'')]) [''filesystem:${path}''] [''path'', ''before'',
        ''after'', ''expectedDigest''] 30000 RollbackNone [''file-digest''])
      else if name = ''filesystem.remove''
        then Some (row [''filesystem''] (jobj [(''path'', ty ''string''),
        (''expectedDigest'', ty ''string'')]) [''filesystem:${path}''] [''path'',
        ''expectedDigest''] 30000 (RollbackCompensate ''filesystem.restore'') [''restore-token''])
      else if name = ''filesystem.restore''
        then Some (row [''filesystem''] (jobj [(''path'', ty ''string''),
        (''restoreToken'', ty ''string'')]) [''filesystem:${path}''] [''path'', ''restoreToken'']
        30000 RollbackNone [''restore-result''])
      else if name = ''filesystem.mkdir''
        then Some (row [''filesystem''] (jobj [(''path'', ty ''string'')]) [''filesystem:${path}'']
        [''path''] 30000 RollbackNone [''directory-result''])
      else None)"

definition contract_artifact :: "platform \<Rightarrow> string \<Rightarrow> contract_row option" where
  "contract_artifact plat name =
     (if name = ''command.run''
        then Some (row [''process''] (jobj [(''cwd'', ty ''string''),
        (''argv'', jobj [(''type'', JStr ''array''), (''items'', ty ''string'')]),
        (''env'', jobj [(''type'', JStr ''object''), (''additionalProperties'', ty ''string'')]),
        (''approvalDigest'', ty ''string''), (''timeoutMs'', jobj [(''type'', JStr ''integer''),
        (''minimum'', ju64 1), (''maximum'', ju64 3600000), (''default'', ju64 300000)])])
        [''command:${cwd}''] [''cwd'', ''argv'', ''env'', ''timeoutMs'']
        3600000 RollbackNone [''command-result''])
      else if name = ''artifact.build''
        then Some (row [''process'', ''filesystem''] (jobj [(''cwd'', ty ''string''),
        (''argv'', jobj [(''type'', JStr ''array''), (''items'', ty ''string'')]),
        (''env'', jobj [(''type'', JStr ''object''), (''additionalProperties'', ty ''string'')]),
        (''artifactPath'', ty ''string''), (''artifactType'', ty ''string''),
        (''approvalDigest'', ty ''string''), (''timeoutMs'', jobj [(''type'', JStr ''integer''),
        (''minimum'', ju64 1), (''maximum'', ju64 3600000), (''default'', ju64 3600000)])])
        [''build:${artifactPath}''] [''cwd'', ''argv'', ''env'', ''artifactPath'', ''artifactType'',
        ''timeoutMs''] 3600000 RollbackNone [''build-log'', ''artifact-digest'', ''provenance''])
      else if name = ''artifact.describe''
        then Some (row [''filesystem''] (jobj [(''path'', ty ''string'')]) [] [''path'']
        600000 RollbackNone [''artifact-digest'', ''provenance''])
      else if name \<in> {''artifact.relay.archive.create'', ''artifact.relay.archive.read'',
          ''artifact.relay.archive.remove'', ''artifact.relay.manifest'',
          ''artifact.relay.read''}
        then Some (row [''filesystem''] (jobj [(''path'', ty ''string''),
        (''token'', ty ''string''), (''relativePath'', ty ''string''), (''offset'', ty ''integer''),
        (''limit'', ty ''integer'')]) [] [''path'', ''relativePath'', ''offset'', ''limit'']
        600000 RollbackNone [''artifact-relay-source''])
      else if name \<in> {''artifact.relay.archive.prepare'', ''artifact.relay.archive.write'',
          ''artifact.relay.archive.commit'', ''artifact.relay.prepare'',
          ''artifact.relay.write'', ''artifact.relay.commit''}
        then Some (row [''filesystem''] (jobj [(''destination'', ty ''string''),
        (''staging'', ty ''string''), (''entries'', ty ''array''),
        (''relativePath'', ty ''string''), (''offset'', ty ''integer''), (''data'', ty ''string''),
        (''expectedDigest'', ty ''string''), (''archiveSize'', ty ''integer''),
        (''size'', ty ''integer''), (''files'', ty ''integer'')])
        [''artifact-relay:${destination}''] [''destination'', ''staging'']
        3600000 RollbackNone [''artifact-relay-destination''])
      else if name = ''artifact.pack-chromium-datapack''
        then Some (row [''chromium-datapack''] (jobj [(''rootPath'', ty ''string''),
        (''resourceTrees'', ty ''array''), (''outputRelative'', ty ''string''),
        (''platform'', ty ''string''), (''arch'', ty ''string''), (''bundleName'', ty ''string''),
        (''basePackPath'', ty ''string''), (''basePackDigest'', ty ''string''),
        (''changedPrefixes'', jobj [(''type'', JStr ''array''), (''items'', ty ''string'')])])
        [''datapack:${rootPath}/${outputRelative}''] [''rootPath'', ''resourceTrees'',
        ''outputRelative'']
        3600000 RetainPreviousGeneration [''packed-resource-digest'', ''packed-resource-manifest''])
      else None)"

definition contract_application :: "platform \<Rightarrow> string \<Rightarrow> contract_row option" where
  "contract_application plat name =
     (if name = ''application.materialize''
        then Some (row [''filesystem-copy''] (jobj [(''generationRoot'', ty ''string''),
        (''generationId'', ty ''string''), (''baselinePath'', ty ''string'')])
        [''generation:${generationRoot}/${generationId}''] [''generationRoot'', ''generationId'',
        ''baselinePath'']
        3600000 RetainPreviousGeneration [''generation-marker'', ''baseline-identity''])
      else if name = ''application.apply-artifacts''
        then Some (row [''filesystem-copy''] (jobj [(''applicationPath'', ty ''string''),
        (''overlays'', ty ''array'')]) [''application:${applicationPath}''] [''applicationPath'',
        ''overlays'']
        3600000 RetainPreviousGeneration [''applied-artifacts'', ''generation-marker''])
      else if name = ''application.finalize''
        then Some (row [''macos-codesign''] (jobj [(''applicationPath'', ty ''string''),
        (''identity'', ty ''string''), (''signingKeychain'', ty ''string''),
        (''signingKeychainPasswordFile'', ty ''string''), (''units'', ty ''array'')])
        [''application:${applicationPath}''] [''applicationPath'', ''units'', ''identity'']
        600000 RetainPreviousGeneration [''signature-verification''])
      else if name = ''application.activate''
        then Some (row [''atomic-symlink''] (jobj [(''generationRoot'', ty ''string''),
        (''generationId'', ty ''string''), (''fence'', ty ''integer'')])
        [''activation:${generationRoot}/current''] [''generationRoot'', ''generationId'']
        30000 RetainPreviousGeneration [''activation-record''])
      else if name \<in> {''application.generation.record'', ''application.runtime.record''}
        then Some (row [''filesystem''] (jobj [(''generationRoot'', ty ''string''),
        (''generationId'', ty ''string''), (''state'', ty ''string''),
        (''evidence'', ty ''object''), (''runtimeMarker'', jobj [])])
        [''generation:${generationRoot}/${generationId}''] [''generationRoot'', ''generationId'',
        ''state'', ''evidence''] 30000 RetainPreviousGeneration [''generation-record''])
      else if name = ''application.inspect''
        then Some (row [if plat = Windows then ''windows-application'' else ''macos-application'']
        (jobj [(''applicationPath'', ty ''string'')]) [] [''applicationPath'']
        30000 RollbackNone [''application-identity''])
      else if name = ''application.launch''
        then Some (row [if plat = Windows then ''windows-application'' else ''macos-application'']
        (jobj [(''applicationPath'', ty ''string''), (''bundleIdentifier'', ty ''string''),
        (''args'', jobj [(''type'', JStr ''array''), (''items'', ty ''string'')]),
        (''env'', jobj [(''type'', JStr ''object''), (''additionalProperties'', ty ''string'')]),
        (''userDataDir'', ty ''string''), (''chromiumLocalStatePatch'', ty ''object''),
        (''browserExecutableRelative'', ty ''string''), (''runtimeShadowDir'', ty ''string''),
        (''chromiumLocalStatePath'', ty ''string''),
        (''chromiumLocalStateSettleMs'', jobj [(''type'', JStr ''integer''), (''minimum'', ju64 0),
        (''maximum'', ju64 30000)]), (''file'', ty ''string''),
        (''remoteDebuggingPort'', ty ''integer''),
        (''terminateConflictingInstances'', ty ''boolean'')])
        [''application-instance:${bundleIdentifier}'', ''debug-port:${remoteDebuggingPort}'']
        [''applicationPath'', ''bundleIdentifier'', ''args'', ''env'',
        ''terminateConflictingInstances''] 120000 (RollbackCompensate ''process.stop'')
        [''process'', ''readiness''])
      else if name = ''application.open-file''
        then Some (row [if plat = Windows then ''windows-shell'' else ''launch-services'']
        (jobj [(''applicationPath'', ty ''string''), (''file'', ty ''string''),
        (''handlerPath'', ty ''string'')]) [''application-instance:${applicationPath}'']
        [''applicationPath'', ''file''] 30000 RollbackNone [''open-result''])
      else if name = ''application.stop''
        then Some (row [if plat = Windows then ''windows-application'' else ''macos-application'']
        (jobj [(''applicationPath'', ty ''string'')]) [''application-instance:${applicationPath}'']
        [''applicationPath''] 30000 RollbackNone [''stop-result''])
      else None)"

definition contract_ui :: "platform \<Rightarrow> string \<Rightarrow> contract_row option" where
  "contract_ui plat name =
     (if name = ''ui.inspect''
        then Some (row [''cdp''] (jobj [(''remoteDebuggingPort'', ty ''integer'')]) [] []
        30000 RollbackNone [''ui-snapshot''])
      else if name = ''ui.evaluate''
        then Some (row [''cdp''] (jobj [(''remoteDebuggingPort'', ty ''integer''),
        (''targetUrlPrefix'', ty ''string''), (''expression'', ty ''string'')]) []
        [''remoteDebuggingPort'', ''targetUrlPrefix'', ''expression'']
        30000 RollbackNone [''evaluation-result''])
      else if name = ''ui.automate''
        then Some (row [''cdp''] (jobj [(''remoteDebuggingPort'', ty ''integer''),
        (''targetUrlPrefix'', ty ''string''), (''method'', ty ''string''),
        (''params'', ty ''object'')]) [''ui-target:${remoteDebuggingPort}'']
        [''remoteDebuggingPort'', ''targetUrlPrefix'', ''method'', ''params'']
        30000 RollbackNone [''automation-result''])
      else if plat \<noteq> Windows \<and> name = ''ui.capture''
        then Some (row [''cdp''] (jobj [(''remoteDebuggingPort'', ty ''integer''),
        (''targetUrlPrefix'', ty ''string''), (''output'', ty ''string'')]) []
        [''remoteDebuggingPort'', ''targetUrlPrefix'', ''output'']
        30000 RollbackNone [''screenshot''])
      else if plat = Windows \<and> name = ''ui.capture''
        then Some (row [''windows-desktop'', ''printwindow'']
        (jobj [(''applicationPath'', ty ''string''), (''expectedWindowTitle'', ty ''string''),
        (''output'', ty ''string'')]) [] [''applicationPath'', ''expectedWindowTitle'', ''output'']
        30000 RollbackNone [''screenshot'', ''capture-backend'', ''window-bounds''])
      else if name = ''ui.native-inspect''
        then Some (row [if plat = Windows then ''windows-accessibility'' else ''macos-accessibility'']
        (jobj [(''applicationPath'', ty ''string''), (''requestPermission'', ty ''boolean''),
        (''expectedWindowTitle'', ty ''string''), (''recoveryInspection'', ty ''boolean''),
        (''_desktop'', jobj [(''type'', JStr ''object''),
        (''properties'', jobj [(''owner'', ty ''string''), (''token'', ty ''string'')]),
        (''required'', JArr [JStr ''owner'', JStr ''token'']),
        (''additionalProperties'', JBool False)])]) [] [''applicationPath'']
        30000 RollbackNone [''native-window-tree'', ''accessibility-trust''])
      else None)"

definition contract_process :: "platform \<Rightarrow> string \<Rightarrow> contract_row option" where
  "contract_process plat name =
     (if name = ''process.start''
        then Some (row [''process''] (jobj [(''processId'', ty ''string''),
        (''cwd'', ty ''string''), (''argv'', jobj [(''type'', JStr ''array''),
        (''items'', ty ''string'')]), (''env'', jobj [(''type'', JStr ''object''),
        (''additionalProperties'', ty ''string'')]), (''logPath'', ty ''string''),
        (''readiness'', ty ''object'')]) [''process:${processId}''] [''processId'', ''argv'',
        ''cwd''] 30000 (RollbackCompensate ''process.stop'') [''process-record'', ''readiness''])
      else if name \<in> {''process.get'', ''process.stop'', ''process.events'', ''logs.read''}
        then Some (row [''process''] (jobj [(''processId'', ty ''string''),
        (''tail'', ty ''integer'')]) (if name = ''process.stop'' then [''process:${processId}'']
        else []) [''processId''] 30000 RollbackNone [''process-record''])
      else if name = ''process.list''
        then Some (row [''process''] (jobj []) [] [] 30000 RollbackNone [''process-list''])
      else if name = ''port.check''
        then Some (row [''network''] (jobj [(''port'', jobj [(''type'', JStr ''integer''),
        (''minimum'', ju64 1), (''maximum'', ju64 65535)])]) [] [''port'']
        30000 RollbackNone [''port-status''])
      else if name = ''tunnel.ensure''
        then Some (row [''network'', ''process''] (jobj [(''tunnelId'', ty ''string''),
        (''sshHost'', ty ''string''), (''direction'', ty ''string''), (''bindHost'', ty ''string''),
        (''bindPort'', jobj [(''type'', JStr ''integer''), (''minimum'', ju64 1),
        (''maximum'', ju64 65535)]), (''targetHost'', ty ''string''),
        (''targetPort'', jobj [(''type'', JStr ''integer''), (''minimum'', ju64 1),
        (''maximum'', ju64 65535)]), (''cwd'', ty ''string''),
        (''workspaceSessionId'', ty ''string''), (''knownHostsFile'', ty ''string''),
        (''logPath'', ty ''string'')]) [''tunnel:${tunnelId}'', ''bind:${bindHost}:${bindPort}'']
        [''tunnelId'', ''sshHost'', ''direction'', ''bindHost'', ''bindPort'', ''targetHost'',
        ''targetPort'', ''cwd''] 30000 (RollbackCompensate ''tunnel.stop'') [''tunnel-record'',
        ''readiness''])
      else if name \<in> {''tunnel.get'', ''tunnel.stop''}
        then Some (row [''network'', ''process''] (jobj [(''tunnelId'', ty ''string'')])
        [''tunnel:${tunnelId}''] [''tunnelId''] 30000 RollbackNone [''tunnel-record''])
      else if name = ''tunnel.list''
        then Some (row [''network'', ''process''] (jobj []) [] []
        30000 RollbackNone [''tunnel-list''])
      else if name = ''agent.start''
        then Some (row [''process'', ''agent-runtime''] (jobj [(''agentId'', ty ''string''),
        (''role'', ty ''string''), (''cwd'', ty ''string''),
        (''argv'', jobj [(''type'', JStr ''array''), (''items'', ty ''string'')]),
        (''env'', jobj [(''type'', JStr ''object''), (''additionalProperties'', ty ''string'')]),
        (''logPath'', ty ''string''), (''readiness'', ty ''object'')]) [''agent:${agentId}'']
        [''agentId'', ''role'', ''cwd'', ''argv''] 60000 (RollbackCompensate ''agent.stop'')
        [''agent-process'', ''readiness''])
      else if name = ''agent.stop''
        then Some (row [''process'', ''agent-runtime''] (jobj [(''agentId'', ty ''string'')])
        [''agent:${agentId}''] [''agentId''] 30000 RollbackNone [''agent-process''])
      else None)"

definition contract_default :: contract_row where
  "contract_default = row [] (jobj []) [] [] 30000 RollbackNone []"

text \<open>The match of \<open>contract\<close>, its arms grouped as they are written.\<close>

definition contract_row_of :: "platform \<Rightarrow> string \<Rightarrow> contract_row" where
  "contract_row_of plat name =
     (case contract_filesystem plat name of Some r \<Rightarrow> r | None \<Rightarrow>
      (case contract_artifact plat name of Some r \<Rightarrow> r | None \<Rightarrow>
       (case contract_application plat name of Some r \<Rightarrow> r | None \<Rightarrow>
        (case contract_ui plat name of Some r \<Rightarrow> r | None \<Rightarrow>
         (case contract_process plat name of Some r \<Rightarrow> r | None \<Rightarrow> contract_default)))))"

definition optional_fields :: "string list" where
  "optional_fields =
     [''mode'', ''identity'', ''fence'', ''remoteDebuggingPort'', ''targetUrlPrefix'',
      ''requestPermission'', ''maxResults'', ''env'', ''logPath'', ''readiness'', ''tail'', ''fence'',
      ''approvalDigest'', ''workspaceSessionId'', ''knownHostsFile'']"

definition capability_optional_fields :: "string \<Rightarrow> string list" where
  "capability_optional_fields name =
     (if name = ''artifact.pack-chromium-datapack''
      then [''platform'', ''arch'', ''bundleName'', ''basePackPath'', ''basePackDigest'', ''changedPrefixes'']
      else if name \<in> {''application.generation.record'', ''application.runtime.record''}
      then [''evidence'', ''runtimeMarker'']
      else if name = ''application.finalize''
      then [''signingKeychain'', ''signingKeychainPasswordFile'']
      else if name = ''application.launch''
      then [''env'', ''userDataDir'', ''chromiumLocalStatePatch'', ''browserExecutableRelative'',
            ''runtimeShadowDir'', ''chromiumLocalStatePath'', ''chromiumLocalStateSettleMs'', ''file'']
      else if name = ''filesystem.write'' then [''expectedDigest'', ''expectedAbsent'']
      else if name = ''application.open-file'' then [''handlerPath'']
      else if name = ''ui.native-inspect''
      then [''requestPermission'', ''expectedWindowTitle'', ''recoveryInspection'', ''_desktop'']
      else [])"

definition object_keys :: "json \<Rightarrow> string list" where
  "object_keys v = (case as_object v of Some m \<Rightarrow> bt_keys m | None \<Rightarrow> [])"

definition schema_required :: "string \<Rightarrow> json \<Rightarrow> string list" where
  "schema_required name properties =
     filter (\<lambda>key. \<not> (key \<in> set optional_fields \<or> key \<in> set (capability_optional_fields name)))
       (object_keys properties)"

section \<open>Output schemas\<close>

definition output_properties_files :: "string \<Rightarrow> json option" where
  "output_properties_files name =
     (if name = ''filesystem.resolve''
        then Some (jobj [(''path'', ty ''string''), (''exists'', ty ''boolean'')])
      else if name = ''filesystem.stat''
        then Some (jobj [(''path'', ty ''string''), (''exists'', ty ''boolean''),
        (''kind'', ty ''string''), (''size'', ty ''integer''),
        (''digest'', jobj [(''type'', JArr [JStr ''string'', JStr ''null''])])])
      else if name = ''filesystem.capacity''
        then Some (jobj [(''path'', ty ''string''),
        (''availableBytes'', jobj [(''type'', JStr ''integer''), (''minimum'', ju64 0)]),
        (''freeBytes'', jobj [(''type'', JStr ''integer''), (''minimum'', ju64 0)]),
        (''totalBytes'', jobj [(''type'', JStr ''integer''), (''minimum'', ju64 0)])])
      else if name = ''filesystem.read''
        then Some (jobj [(''path'', ty ''string''), (''content'', ty ''string''),
        (''digest'', ty ''string''), (''size'', ty ''integer'')])
      else if name = ''filesystem.list''
        then Some (jobj [(''path'', ty ''string''), (''entries'', ty ''array'')])
      else if name = ''filesystem.search''
        then Some (jobj [(''path'', ty ''string''), (''query'', ty ''string''),
        (''matches'', ty ''array''), (''truncated'', ty ''boolean'')])
      else if name \<in> {''filesystem.write'', ''filesystem.patch''}
        then Some (jobj [(''path'', ty ''string''), (''digest'', ty ''string'')])
      else if name = ''filesystem.remove''
        then Some (jobj [(''path'', ty ''string''), (''removed'', ty ''boolean''),
        (''restoreToken'', ty ''string'')])
      else if name = ''filesystem.restore''
        then Some (jobj [(''path'', ty ''string''), (''restored'', ty ''boolean'')])
      else if name = ''filesystem.mkdir''
        then Some (jobj [(''path'', ty ''string''), (''created'', ty ''boolean'')])
      else if name = ''artifact.describe''
        then Some (jobj [(''digest'', ty ''string''), (''digestAlgorithm'', ty ''string''),
        (''size'', ty ''integer''), (''bytes'', ty ''integer''), (''files'', ty ''integer''),
        (''kind'', ty ''string''), (''path'', ty ''string''), (''executorId'', ty ''string''),
        (''describedAt'', ty ''integer'')])
      else if name = ''command.run''
        then Some (jobj [(''cwd'', ty ''string''), (''argv'', ty ''array''),
        (''exitCode'', jobj [(''type'', JArr [JStr ''integer'', JStr ''null''])]),
        (''stdout'', ty ''string''), (''stderr'', ty ''string''), (''stdoutBytes'', ty ''integer''),
        (''stderrBytes'', ty ''integer''), (''stdoutTruncated'', ty ''boolean''),
        (''stderrTruncated'', ty ''boolean''), (''outputLimitBytes'', ty ''integer'')])
      else if name = ''artifact.build''
        then Some (jobj [(''command'', ty ''object''), (''artifact'', ty ''object'')])
      else if name \<in> {''process.start'', ''process.get'', ''process.stop'', ''agent.start'',
          ''agent.stop''}
        then Some (jobj [(''id'', ty ''string''), (''state'', ty ''string''),
        (''pid'', jobj [(''type'', JArr [JStr ''integer'', JStr ''null''])])])
      else if name = ''application.materialize''
        then Some (jobj [(''generationId'', ty ''string''), (''root'', ty ''string''),
        (''applicationPath'', ty ''string''), (''markerPath'', ty ''string''),
        (''createdAt'', ty ''integer'')])
      else if name = ''application.activate''
        then Some (jobj [(''current'', ty ''string''),
        (''previous'', jobj [(''type'', JArr [JStr ''string'', JStr ''null''])]),
        (''generationId'', ty ''string''), (''activatedAt'', ty ''integer'')])
      else None)"

definition output_properties_runtime :: "string \<Rightarrow> json option" where
  "output_properties_runtime name =
     (if name \<in> {''application.generation.record'', ''application.runtime.record''}
        then Some (jobj [(''generationId'', ty ''string''), (''state'', ty ''string'')])
      else if name = ''application.inspect''
        then Some (jobj [(''path'', ty ''string''),
        (''bundleIdentifier'', jobj [(''type'', JArr [JStr ''string'', JStr ''null''])]),
        (''version'', jobj []), (''build'', jobj []), (''documentTypes'', jobj [])])
      else if name = ''application.finalize''
        then Some (jobj [(''applicationPath'', ty ''string''), (''signed'', ty ''array''),
        (''verified'', ty ''boolean'')])
      else if name = ''application.launch''
        then Some (jobj [(''applicationPath'', ty ''string''), (''pid'', ty ''integer''),
        (''args'', ty ''array''),
        (''cdp'', jobj [(''type'', JArr [JStr ''object'', JStr ''null''])])])
      else if name = ''artifact.pack-chromium-datapack''
        then Some (jobj [(''output'', ty ''string''), (''resources'', ty ''integer''),
        (''entries'', ty ''integer''), (''size'', ty ''integer''), (''sha256'', ty ''string''),
        (''contentHash'', ty ''string'')])
      else if name = ''application.apply-artifacts''
        then Some (jobj [(''applied'', ty ''array'')])
      else if name = ''application.open-file''
        then Some (jobj [(''applicationPath'', ty ''string''), (''handlerPath'', ty ''string''),
        (''file'', ty ''string''), (''openedAt'', ty ''integer'')])
      else if name = ''application.stop''
        then Some (jobj [(''applicationPath'', ty ''string''), (''stopped'', ty ''array'')])
      else if name = ''ui.inspect''
        then Some (jobj [(''targets'', ty ''array'')])
      else if name = ''ui.automate''
        then Some (jobj [(''target'', ty ''object''), (''result'', jobj [])])
      else if name = ''ui.capture''
        then Some (jobj [(''path'', ty ''string''), (''target'', ty ''object''),
        (''bytes'', ty ''integer''), (''capturedAt'', ty ''integer'')])
      else if name = ''logs.read''
        then Some (jobj [(''processId'', ty ''string''), (''path'', ty ''string''),
        (''lines'', ty ''array'')])
      else if name = ''process.list''
        then Some (jobj [(''processes'', ty ''array'')])
      else if name = ''port.check''
        then Some (jobj [(''port'', ty ''integer''), (''available'', ty ''boolean'')])
      else if name \<in> {''tunnel.ensure'', ''tunnel.get'', ''tunnel.stop''}
        then Some (jobj [(''id'', jobj []), (''workspaceSessionId'', jobj []),
        (''sshHost'', jobj []), (''direction'', jobj []), (''source'', jobj []),
        (''destination'', jobj []), (''desiredState'', jobj []), (''observedState'', jobj []),
        (''state'', jobj []), (''readiness'', jobj []), (''processId'', jobj []),
        (''startedAt'', jobj []), (''updatedAt'', jobj []), (''lastProbeAt'', jobj []),
        (''observation'', jobj []), (''reused'', jobj [])])
      else if name = ''tunnel.list''
        then Some (jobj [(''tunnels'', ty ''array'')])
      else if name = ''ui.evaluate''
        then Some (jobj [(''target'', ty ''object''), (''value'', jobj []),
        (''evaluatedAt'', ty ''integer'')])
      else if name = ''ui.native-inspect''
        then Some (jobj [(''applicationPath'', ty ''string''), (''pids'', ty ''array''),
        (''inspection'', ty ''object''), (''inspectedAt'', ty ''integer'')])
      else if name = ''process.events''
        then Some (jobj [(''processId'', ty ''string''), (''events'', ty ''array'')])
      else None)"

definition output_properties :: "string \<Rightarrow> json" where
  "output_properties name =
     (case output_properties_files name of Some v \<Rightarrow> v | None \<Rightarrow>
      (case output_properties_runtime name of Some v \<Rightarrow> v | None \<Rightarrow> jobj []))"

definition output_schema :: "string \<Rightarrow> json" where
  "output_schema name =
     (let properties = output_properties name
      in jobj [(''type'', JStr ''object''), (''properties'', properties),
               (''required'', JArr (map JStr (object_keys properties))),
               (''additionalProperties'', JBool True)])"

section \<open>The catalogue\<close>

definition contract :: "platform \<Rightarrow> string \<Rightarrow> effect \<Rightarrow> capability_descriptor" where
  "contract plat name eff =
     (let r = contract_row_of plat name
      in \<lparr>cd_name = name, cd_version = ''1.0.0'',
          cd_input_schema = jobj
            [(''$schema'', JStr ''https://json-schema.org/draft/2020-12/schema''),
             (''type'', JStr ''object''), (''properties'', r_properties r),
             (''required'', JArr (map JStr (schema_required name (r_properties r)))),
             (''additionalProperties'', JBool (name \<noteq> ''ui.native-inspect''))],
          cd_output_schema = output_schema name,
          cd_required_executor_features = r_required r,
          cd_locks = map (\<lambda>key. \<lparr>lk_key = key, lk_mode = LockExclusive\<rparr>) (r_locks r),
          cd_idempotency = \<lparr>ic_key_fields = r_key_fields r, ic_retention_ms = 86400000\<rparr>,
          cd_timeout_ms = r_timeout_ms r,
          cd_retry = \<lparr>rp_max_attempts = (if eff = ReadOnly \<or> r_key_fields r \<noteq> [] then 3 else 1),
                      rp_retryable_errors = [''EXECUTOR_UNAVAILABLE''], rp_backoff_ms = 500\<rparr>,
          cd_rollback = r_rollback r, cd_health_check = HealthCheckProcess,
          cd_emitted_evidence = r_evidence r, cd_effect = eff\<rparr>)"

definition catalog_entries :: "platform \<Rightarrow> (string \<times> effect) list" where
  "catalog_entries plat =
     common_capabilities
     @ (case plat of MacOS \<Rightarrow> macos_capabilities | Windows \<Rightarrow> windows_capabilities | OtherPlatform \<Rightarrow> [])"

definition capability_catalog :: "platform \<Rightarrow> capability_descriptor list" where
  "capability_catalog plat = map (\<lambda>(name, eff). contract plat name eff) (catalog_entries plat)"

end
