(* ===== verification/Execution_Resources.thy ===== *)
theory Execution_Resources
  imports Capability_Catalog
begin

text \<open>
  The resources a request locks and the fences it is issued (\<open>execution_resources\<close>,
  \<open>render_authority_resource\<close>, \<open>render_execution_resource\<close>, \<open>issue_authority\<close> and
  \<open>persist_fences\<close> in \<open>executor.rs\<close>). Rendering a lock template is a loop that may not end; it
  is a \<open>partial_function\<close>, and a call that does not return has the value \<open>None\<close>. The JSON
  printer of the library (\<open>Value::to_string\<close>) is the parameter \<open>to_str\<close>.
\<close>

section \<open>Lock templates\<close>

text \<open>\<open>rendered.find("${")\<close>.\<close>

fun find_open :: "string \<Rightarrow> nat option" where
  "find_open (c # d # cs) =
     (if c = CHR ''$'' \<and> d = CHR ''{'' then Some 0 else map_option Suc (find_open (d # cs)))"
| "find_open _ = None"

definition value_text :: "(json \<Rightarrow> string) \<Rightarrow> json \<Rightarrow> string" where
  "value_text to_str v = (case as_str v of Some s \<Rightarrow> s | None \<Rightarrow> to_str v)"

definition lock_requires :: "string \<Rightarrow> rpc_error" where
  "lock_requires key = rpc_error_new ''EXECUTOR_AUTHORITY_MISMATCH'' (''capability lock requires '' @ key)"

partial_function (option) render_loop ::
  "(json \<Rightarrow> string) \<Rightarrow> string \<Rightarrow> json \<Rightarrow> string \<Rightarrow> string rpc option" where
  "render_loop to_str template params rendered =
     (case find_open rendered of
        None \<Rightarrow> Some (Ok rendered)
      | Some start \<Rightarrow>
          (case position (\<lambda>c. c = CHR ''}'') (drop (start + 2) rendered) of
             None \<Rightarrow> Some (Err (rpc_error_new ''INVALID_LOCK_TEMPLATE'' template))
           | Some relative_end \<Rightarrow>
               let key = take relative_end (drop (start + 2) rendered)
               in (case jget params key of
                     None \<Rightarrow> Some (Err (lock_requires key))
                   | Some v \<Rightarrow>
                       render_loop to_str template params
                         (take start rendered @ value_text to_str v
                            @ drop (start + 2 + relative_end + 1) rendered))))"

declare render_loop.simps [code]

definition render_authority_resource ::
  "(json \<Rightarrow> string) \<Rightarrow> string \<Rightarrow> json \<Rightarrow> string rpc option" where
  "render_authority_resource to_str template params = render_loop to_str template params template"

definition required_str :: "json \<Rightarrow> string \<Rightarrow> string rpc" where
  "required_str params key =
     (case jget params key of
        Some (JStr s) \<Rightarrow>
          if s \<noteq> [] then Ok s else Err (rpc_error_new ''INVALID_PARAMS'' (key @ '' is required''))
      | _ \<Rightarrow> Err (rpc_error_new ''INVALID_PARAMS'' (key @ '' is required'')))"

definition required_port :: "json \<Rightarrow> string \<Rightarrow> u16 rpc" where
  "required_port params key =
     (let bad = Err (rpc_error_new ''INVALID_PARAMS'' (key @ '' must be a TCP port''))
      in case jget params key of
           None \<Rightarrow> bad
         | Some v \<Rightarrow> (case as_u64 v of
             None \<Rightarrow> bad
           | Some n \<Rightarrow> if n \<le> 65535 \<and> n > 0 then Ok (ucast n) else bad))"

definition show_u16 :: "u16 \<Rightarrow> string" where
  "show_u16 n = show_nat (unat n)"

definition render_execution_resource ::
  "(json \<Rightarrow> string) \<Rightarrow> string \<Rightarrow> string \<Rightarrow> json \<Rightarrow> u16 option \<Rightarrow> string option rpc option" where
  "render_execution_resource to_str template action params default_launch_port =
     (if action = ''application.launch'' \<and> template = ''debug-port:${remoteDebuggingPort}''
      then Some (and_then
             (if jget params ''remoteDebuggingPort'' \<noteq> None
              then and_then (required_port params ''remoteDebuggingPort'') (\<lambda>p. Ok (Some p))
              else Ok default_launch_port)
             (\<lambda>port. Ok (map_option (\<lambda>p. ''debug-port:'' @ show_u16 p) port)))
      else map_option (\<lambda>r. and_then r (\<lambda>s. Ok (Some s))) (render_authority_resource to_str template params))"

section \<open>Resources of a request\<close>

definition canonical_action :: "string \<Rightarrow> string" where
  "canonical_action action =
     (if action = ''fs.write'' then ''filesystem.write''
      else if action = ''fs.patch'' then ''filesystem.patch''
      else if action = ''fs.remove'' then ''filesystem.remove''
      else if action = ''fs.restore'' then ''filesystem.restore''
      else action)"

text \<open>\<open>collect::<Result<Vec<_>, _>>\<close>: the first error ends the iteration.\<close>

fun render_all ::
  "(json \<Rightarrow> string) \<Rightarrow> string list \<Rightarrow> string \<Rightarrow> json \<Rightarrow> u16 option \<Rightarrow> string option list rpc option" where
  "render_all to_str [] action params dflt = Some (Ok [])"
| "render_all to_str (t # ts) action params dflt =
     (case render_execution_resource to_str t action params dflt of
        None \<Rightarrow> None
      | Some (Ok r) \<Rightarrow>
          map_option (\<lambda>rest. and_then rest (\<lambda>rs. Ok (r # rs))) (render_all to_str ts action params dflt)
      | Some (Err e) \<Rightarrow> Some (Err e)
      | Some Panic \<Rightarrow> Some Panic)"

definition find_contract :: "platform \<Rightarrow> string \<Rightarrow> capability_descriptor option" where
  "find_contract plat canonical = List.find (\<lambda>c. cd_name c = canonical) (capability_catalog plat)"

definition workspace_scope :: "json \<Rightarrow> string \<Rightarrow> string \<Rightarrow> string" where
  "workspace_scope params executor_id canonical =
     (case jget params ''_workspaceSessionId'' of
        Some (JStr s) \<Rightarrow>
          if s \<noteq> [] then s else ''executor:'' @ executor_id @ '':'' @ canonical
      | _ \<Rightarrow> ''executor:'' @ executor_id @ '':'' @ canonical)"

definition execution_resources ::
  "platform \<Rightarrow> (json \<Rightarrow> string) \<Rightarrow> string \<Rightarrow> json \<Rightarrow> string \<Rightarrow> string list rpc option" where
  "execution_resources plat to_str action params executor_id =
     (let canonical = canonical_action action
      in case find_contract plat canonical of
           None \<Rightarrow> Some (Ok [])
         | Some c \<Rightarrow>
             map_option (\<lambda>r. and_then r (\<lambda>rendered.
                 let resources = List.map_filter (\<lambda>x. x) rendered;
                     resources = (if cd_effect c \<noteq> ReadOnly \<and> resources = []
                                  then [''workspace:'' @ workspace_scope params executor_id canonical]
                                  else resources)
                 in Ok (sort_dedup resources)))
               (render_all to_str (map lk_key (cd_locks c)) canonical params
                  (if plat = MacOS then Some 9222 else None)))"

section \<open>Fences\<close>

record fence_record =
  fr_controller_id :: string
  fr_fence :: u64

text \<open>\<open>fence_disk\<close> is the content of the fence file; \<open>persist\<close> is the outcome of writing it.\<close>

record executor_fences =
  fence_resources :: "fence_record btree"
  fence_disk :: "fence_record btree"

definition persist_fences ::
  "string option \<Rightarrow> executor_fences \<Rightarrow> executor_fences \<times> unit rpc" where
  "persist_fences persist fs =
     (case persist of
        None \<Rightarrow> (fs\<lparr>fence_disk := fence_resources fs\<rparr>, Ok ())
      | Some e \<Rightarrow> (fs, Err (rpc_error_new ''FENCE_STATE_FAILED'' e)))"

definition next_fence :: "fence_record btree \<Rightarrow> string \<Rightarrow> u64" where
  "next_fence m resource =
     (case bt_get m resource of None \<Rightarrow> 1 | Some current \<Rightarrow> sat_add (fr_fence current) 1)"

fun issue_loop ::
  "string \<Rightarrow> string list \<Rightarrow> fence_record btree \<Rightarrow> json list \<Rightarrow> fence_record btree \<times> json list" where
  "issue_loop controller_id [] m authorities = (m, authorities)"
| "issue_loop controller_id (resource # rs) m authorities =
     (let fence = next_fence m resource
      in issue_loop controller_id rs
           (bt_insert resource \<lparr>fr_controller_id = controller_id, fr_fence = fence\<rparr> m)
           (authorities @ [jobj [(''controllerId'', JStr controller_id), (''resource'', JStr resource),
                                 (''fence'', ju64 fence)]]))"

definition issue_authority ::
  "platform \<Rightarrow> (json \<Rightarrow> string) \<Rightarrow> string option \<Rightarrow> string \<Rightarrow> string \<Rightarrow> json \<Rightarrow> executor_fences option
     \<Rightarrow> (executor_fences option \<times> json rpc) option" where
  "issue_authority plat to_str persist executor_id action params fences =
     (case fences of
        None \<Rightarrow> Some (None, Ok params)
      | Some fs \<Rightarrow>
          (case find_contract plat (canonical_action action) of
             None \<Rightarrow> Some (Some fs, Ok params)
           | Some c \<Rightarrow>
               if cd_effect c = ReadOnly then Some (Some fs, Ok params)
               else map_option (\<lambda>r.
                      case r of
                        Err e \<Rightarrow> (Some fs, Err e)
                      | Panic \<Rightarrow> (Some fs, Panic)
                      | Ok resources \<Rightarrow>
                          let (m, authorities) =
                                issue_loop (''executor:'' @ executor_id) resources (fence_resources fs) [];
                              (fs', saved) = persist_fences persist (fs\<lparr>fence_resources := m\<rparr>)
                          in (Some fs', and_then saved (\<lambda>_.
                                case jset params ''_authority'' (JArr authorities) of
                                  Some p \<Rightarrow> Ok p | None \<Rightarrow> Panic)))
                    (execution_resources plat to_str action params executor_id)))"

text \<open>Restarting the executor reads the fence file back (\<open>open_with_policy\<close>).\<close>

definition reopen_fences :: "executor_fences \<Rightarrow> executor_fences" where
  "reopen_fences fs = fs\<lparr>fence_resources := fence_disk fs\<rparr>"

text \<open>A run of the executor as the fence table sees it: requests, each with the outcome of
  writing the file, and restarts. A request whose rendering does not return changes nothing.\<close>

datatype fence_call = IssueFences string json "string option" | ReopenFences

fun fence_step :: "platform \<Rightarrow> (json \<Rightarrow> string) \<Rightarrow> string \<Rightarrow> executor_fences \<Rightarrow> fence_call \<Rightarrow> executor_fences" where
  "fence_step plat to_str executor_id fs (IssueFences action params persist) =
     (case issue_authority plat to_str persist executor_id action params (Some fs) of
        Some (Some fs', _) \<Rightarrow> fs'
      | _ \<Rightarrow> fs)"
| "fence_step plat to_str executor_id fs ReopenFences = reopen_fences fs"

definition fence_level :: "fence_record btree \<Rightarrow> string \<Rightarrow> u64" where
  "fence_level m r = (case bt_get m r of None \<Rightarrow> 0 | Some x \<Rightarrow> fr_fence x)"

definition fences_inv :: "executor_fences \<Rightarrow> bool" where
  "fences_inv fs \<longleftrightarrow> (\<forall>r. fence_level (fence_disk fs) r \<le> fence_level (fence_resources fs) r)"

section \<open>Reference: substitution in a template\<close>

datatype seg = Lit string | Var string

fun unparse :: "seg list \<Rightarrow> string" where
  "unparse [] = []"
| "unparse (Lit l # segs) = l @ unparse segs"
| "unparse (Var k # segs) = ''${'' @ k @ ''}'' @ unparse segs"

fun segs_ok :: "seg list \<Rightarrow> bool" where
  "segs_ok [] = True"
| "segs_ok (Lit l # segs) \<longleftrightarrow> CHR ''$'' \<notin> set l \<and> segs_ok segs"
| "segs_ok (Var k # segs) \<longleftrightarrow> CHR ''}'' \<notin> set k \<and> segs_ok segs"

fun fill :: "(json \<Rightarrow> string) \<Rightarrow> json \<Rightarrow> seg list \<Rightarrow> string rpc" where
  "fill to_str params [] = Ok []"
| "fill to_str params (Lit l # segs) = and_then (fill to_str params segs) (\<lambda>r. Ok (l @ r))"
| "fill to_str params (Var k # segs) =
     (case jget params k of
        None \<Rightarrow> Err (lock_requires k)
      | Some v \<Rightarrow> and_then (fill to_str params segs) (\<lambda>r. Ok (value_text to_str v @ r)))"

text \<open>The segments of a template, read from left to right.\<close>

fun read_lit :: "string \<Rightarrow> string \<times> string" where
  "read_lit (c # d # cs) =
     (if c = CHR ''$'' \<and> d = CHR ''{'' then ([], c # d # cs)
      else let (l, r) = read_lit (d # cs) in (c # l, r))"
| "read_lit cs = (cs, [])"

fun template_segs :: "nat \<Rightarrow> string \<Rightarrow> seg list" where
  "template_segs 0 s = []"
| "template_segs (Suc n) s =
     (let (l, r) = read_lit s
      in Lit l # (if r = [] then []
                  else Var (takeWhile (\<lambda>c. c \<noteq> CHR ''}'') (drop 2 r))
                       # template_segs n (drop 1 (dropWhile (\<lambda>c. c \<noteq> CHR ''}'') (drop 2 r)))))"

text \<open>No value of a parameter, as text, contains a dollar sign.\<close>

definition plain_values :: "(json \<Rightarrow> string) \<Rightarrow> json \<Rightarrow> bool" where
  "plain_values to_str params \<longleftrightarrow>
     (case as_object params of
        Some m \<Rightarrow> list_all (\<lambda>(k, v). CHR ''$'' \<notin> set (value_text to_str v)) m
      | None \<Rightarrow> True)"

section \<open>Rendering\<close>

lemma find_open_skip:
  "CHR ''$'' \<notin> set pre \<Longrightarrow> find_open (pre @ xs) = map_option (\<lambda>n. length pre + n) (find_open xs)"
proof (induction pre)
  case (Cons c pre)
  then have "find_open ((c # pre) @ xs) = map_option Suc (find_open (pre @ xs))"
    by (cases "pre @ xs") auto
  with Cons show ?case by (simp add: option.map_comp comp_def)
qed (cases "find_open xs"; simp)

lemma find_open_none: "CHR ''$'' \<notin> set s \<Longrightarrow> find_open s = None"
  using find_open_skip [of s "[]"] by simp

lemma position_close:
  "CHR ''}'' \<notin> set k \<Longrightarrow> position (\<lambda>c. c = CHR ''}'') (k @ CHR ''}'' # r) = Some (length k)"
  by (intro position_SomeI) (auto simp: nth_append dest: nth_mem)

lemma drop_placeholder [simp]: "drop (3 + length k) (CHR ''$'' # CHR ''{'' # k @ CHR ''}'' # rest) = rest"
  by (simp add: eval_nat_numeral)

text \<open>One turn of the loop at the first placeholder.\<close>

lemma render_turn:
  assumes "CHR ''$'' \<notin> set pre" and "CHR ''}'' \<notin> set k"
  shows "render_loop to_str t params (pre @ ''${'' @ k @ ''}'' @ rest) =
    (case jget params k of
       None \<Rightarrow> Some (Err (lock_requires k))
     | Some v \<Rightarrow> render_loop to_str t params (pre @ value_text to_str v @ rest))"
proof -
  have "find_open (pre @ ''${'' @ k @ ''}'' @ rest) = Some (length pre)"
    using assms(1) by (simp add: find_open_skip)
  then show ?thesis
    using assms(2) position_close [of k rest]
    by (subst render_loop.simps) (simp add: Let_def split: option.split)
qed

lemma bt_get_member: "bt_get m k = Some v \<Longrightarrow> (k, v) \<in> set m"
  by (induction m) (auto split: if_splits)

lemma plain_value:
  "plain_values to_str params \<Longrightarrow> jget params k = Some v \<Longrightarrow> CHR ''$'' \<notin> set (value_text to_str v)"
  by (cases params) (auto simp: plain_values_def list_all_iff dest!: bt_get_member)

lemma render_fill:
  assumes "plain_values to_str params" and "segs_ok segs" and "CHR ''$'' \<notin> set pre"
  shows "render_loop to_str t params (pre @ unparse segs)
       = Some (and_then (fill to_str params segs) (\<lambda>r. Ok (pre @ r)))"
  using assms(2,3)
proof (induction segs arbitrary: pre rule: unparse.induct)
  case 1
  then show ?case by (subst render_loop.simps) (simp add: find_open_none)
next
  case (2 l segs)
  then have "render_loop to_str t params ((pre @ l) @ unparse segs)
      = Some (and_then (fill to_str params segs) (\<lambda>r. Ok ((pre @ l) @ r)))"
    by (intro 2) auto
  then show ?case by (cases "fill to_str params segs") simp_all
next
  case (3 k segs)
  show ?case
  proof (cases "jget params k")
    case None
    with 3 show ?thesis using render_turn [of pre k to_str t params "unparse segs"] by simp
  next
    case (Some v)
    have "render_loop to_str t params ((pre @ value_text to_str v) @ unparse segs)
        = Some (and_then (fill to_str params segs) (\<lambda>r. Ok ((pre @ value_text to_str v) @ r)))"
      using 3 plain_value [OF assms(1) Some] by (intro 3) auto
    then show ?thesis
      using 3 Some render_turn [of pre k to_str t params "unparse segs"]
      by (cases "fill to_str params segs") simp_all
  qed
qed

text \<open>A value that mentions its own placeholder feeds the loop for ever.\<close>

definition feeds_itself :: "(json \<Rightarrow> string) \<Rightarrow> json \<Rightarrow> string \<Rightarrow> bool" where
  "feeds_itself to_str params k \<longleftrightarrow>
     CHR ''}'' \<notin> set k
     \<and> (\<exists>v a b. jget params k = Some v \<and> value_text to_str v = a @ ''${'' @ k @ ''}'' @ b \<and> CHR ''$'' \<notin> set a)"

text \<open>The strings from which the loop never leaves: a placeholder of the key comes first.\<close>

definition stuck_at :: "string \<Rightarrow> string \<Rightarrow> bool" where
  "stuck_at k s \<longleftrightarrow> (\<exists>pre rest. CHR ''$'' \<notin> set pre \<and> s = pre @ ''${'' @ k @ ''}'' @ rest)"

lemma render_stuck:
  assumes "feeds_itself to_str params k" and "render_loop to_str' t params' s = Some y"
  shows "\<not> (to_str' = to_str \<and> params' = params \<and> stuck_at k s)"
proof (rule render_loop.raw_induct
    [where P = "\<lambda>a _ c d _. \<not> (a = to_str \<and> c = params \<and> stuck_at k d)", OF _ assms(2)], rule notI)
  fix f a t c s y
  assume IH: "\<And>a t c s y. f a t c s = Some y \<Longrightarrow> \<not> (a = to_str \<and> c = params \<and> stuck_at k s)"
    and turn: "(case find_open s of None \<Rightarrow> Some (Ok s)
      | Some start \<Rightarrow> (case position (\<lambda>c. c = CHR ''}'') (drop (start + 2) s) of
          None \<Rightarrow> Some (Err (rpc_error_new ''INVALID_LOCK_TEMPLATE'' t))
        | Some relative_end \<Rightarrow> let key = take relative_end (drop (start + 2) s)
            in (case jget c key of None \<Rightarrow> Some (Err (lock_requires key))
              | Some v \<Rightarrow> f a t c (take start s @ value_text a v @ drop (start + 2 + relative_end + 1) s)))) = Some y"
    and "a = to_str \<and> c = params \<and> stuck_at k s"
  then have args: "a = to_str" "c = params" and stuck: "stuck_at k s" by simp_all
  from stuck obtain pre rest where pre: "CHR ''$'' \<notin> set pre" and s: "s = pre @ ''${'' @ k @ ''}'' @ rest"
    unfolding stuck_at_def by (elim exE conjE)
  from assms(1) obtain v x z where k: "CHR ''}'' \<notin> set k" "jget params k = Some v"
      "value_text to_str v = x @ ''${'' @ k @ ''}'' @ z" "CHR ''$'' \<notin> set x"
    unfolding feeds_itself_def by (elim exE conjE)
  have "find_open s = Some (length pre)" using pre by (simp add: s find_open_skip)
  with turn have again: "f to_str t params (pre @ value_text to_str v @ rest) = Some y"
    using position_close [OF k(1), of rest] k(2) by (simp add: s Let_def args)
  have "stuck_at k (pre @ value_text to_str v @ rest)"
    unfolding stuck_at_def
    by (rule exI [of _ "pre @ x"], rule exI [of _ "z @ rest"]) (use pre k(3,4) in simp)
  with IH [OF again] show False by simp
qed

lemma render_diverges:
  assumes "feeds_itself to_str params k" and "stuck_at k s"
  shows "render_loop to_str t params s = None"
  using render_stuck [OF assms(1), of to_str t params s] assms(2)
  by (cases "render_loop to_str t params s") simp_all

section \<open>The catalogue's templates\<close>

text \<open>
  The templates of the catalogue are well-formed, and every capability that may change
  something has a lock whose placeholder must be among the parameters.
\<close>

definition template_ok :: "string \<Rightarrow> bool" where
  "template_ok t \<longleftrightarrow> (let segs = template_segs (length t) t in segs_ok segs \<and> unparse segs = t)"

definition lock_vars :: "string \<Rightarrow> string list" where
  "lock_vars t =
     concat (map (\<lambda>x. case x of Var k \<Rightarrow> [k] | Lit _ \<Rightarrow> []) (template_segs (length t) t))"

text \<open>The capabilities whose locks are written out below: those that may change something.\<close>

definition locks_ok :: "contract_row \<Rightarrow> bool" where
  "locks_ok r \<longleftrightarrow> list_all template_ok (r_locks r)"

text \<open>The text of a lock without the loop: the launch port as the code computes it, any other
  template by substitution of its segments.\<close>

definition lock_text ::
  "(json \<Rightarrow> string) \<Rightarrow> string \<Rightarrow> string \<Rightarrow> json \<Rightarrow> u16 option \<Rightarrow> string option rpc" where
  "lock_text to_str t action params dflt =
     (if action = ''application.launch'' \<and> t = ''debug-port:${remoteDebuggingPort}''
      then the (render_execution_resource to_str t action params dflt)
      else and_then (fill to_str params (template_segs (length t) t)) (\<lambda>s. Ok (Some s)))"

fun lock_texts ::
  "(json \<Rightarrow> string) \<Rightarrow> string list \<Rightarrow> string \<Rightarrow> json \<Rightarrow> u16 option \<Rightarrow> string option list rpc" where
  "lock_texts to_str [] action params dflt = Ok []"
| "lock_texts to_str (t # ts) action params dflt =
     and_then (lock_text to_str t action params dflt) (\<lambda>r.
       and_then (lock_texts to_str ts action params dflt) (\<lambda>rs. Ok (r # rs)))"

lemma catalogue_templates:
  "template_ok ''activation:${generationRoot}/current''"
  "template_ok ''agent:${agentId}''"
  "template_ok ''application-instance:${applicationPath}''"
  "template_ok ''application-instance:${bundleIdentifier}''"
  "template_ok ''application:${applicationPath}''"
  "template_ok ''artifact-relay:${destination}''"
  "template_ok ''bind:${bindHost}:${bindPort}''"
  "template_ok ''build:${artifactPath}''"
  "template_ok ''clipboard:${executorId}''"
  "template_ok ''command:${cwd}''"
  "template_ok ''datapack:${rootPath}/${outputRelative}''"
  "template_ok ''debug-port:${remoteDebuggingPort}''"
  "template_ok ''filesystem:${path}''"
  "template_ok ''generation:${generationRoot}/${generationId}''"
  "template_ok ''process:${processId}''"
  "template_ok ''tunnel:${tunnelId}''"
  "template_ok ''ui-target:${remoteDebuggingPort}''"
  by code_simp+

lemma pred_option_if: "P r \<Longrightarrow> pred_option P e \<Longrightarrow> pred_option P (if b then Some r else e)"
  by simp

lemma pred_option_None: "pred_option P None"
  by simp

lemma locks_ok_row:
  "locks_ok (row a b [] d f g h)"
  "template_ok t \<Longrightarrow> locks_ok (row a b [t] d f g h)"
  "template_ok t \<Longrightarrow> locks_ok (row a b (if c then [t] else []) d f g h)"
  "template_ok t \<Longrightarrow> template_ok u \<Longrightarrow> locks_ok (row a b [t, u] d f g h)"
  by (simp_all add: locks_ok_def row_def)

lemma group_locks_ok:
  "pred_option locks_ok (contract_filesystem plat name)"
  "pred_option locks_ok (contract_artifact plat name)"
  "pred_option locks_ok (contract_application plat name)"
  "pred_option locks_ok (contract_ui plat name)"
  "pred_option locks_ok (contract_process plat name)"
  unfolding contract_filesystem_def contract_artifact_def contract_application_def contract_ui_def
    contract_process_def
  by (intro pred_option_if pred_option_None locks_ok_row catalogue_templates)+

lemma contract_locks_ok: "locks_ok (contract_row_of plat name)"
  using group_locks_ok [of plat name] locks_ok_row(1)
  by (auto simp: contract_row_of_def contract_default_def split: option.split)

lemma contract_fields:
  "cd_name (contract plat name eff) = name" "cd_effect (contract plat name eff) = eff"
  "map lk_key (cd_locks (contract plat name eff)) = r_locks (contract_row_of plat name)"
  by (simp_all add: contract_def Let_def comp_def)

lemma find_map: "List.find P (map f xs) = map_option f (List.find (P \<circ> f) xs)"
  by (induction xs) simp_all

text \<open>Only the descriptor that is asked for needs to be built.\<close>

lemma find_contract_code [code]:
  "find_contract plat name =
     map_option (\<lambda>(n, eff). contract plat n eff) (List.find (\<lambda>e. fst e = name) (catalog_entries plat))"
proof -
  have "(\<lambda>c. cd_name c = name) \<circ> (\<lambda>(n, eff). contract plat n eff) = (\<lambda>e. fst e = name)"
    by (auto simp: fun_eq_iff contract_fields)
  then show ?thesis by (simp add: find_contract_def capability_catalog_def find_map)
qed

lemma find_contract_Some:
  assumes "find_contract plat name = Some c"
  shows "map lk_key (cd_locks c) = r_locks (contract_row_of plat name)"
    "(name, cd_effect c) \<in> set (catalog_entries plat)"
proof -
  from assms obtain i where "i < length (catalog_entries plat)"
    and c: "c = (\<lambda>(n, eff). contract plat n eff) (catalog_entries plat ! i)" "cd_name c = name"
    by (auto simp: find_contract_def find_Some_iff capability_catalog_def)
  moreover obtain n eff where e: "catalog_entries plat ! i = (n, eff)" by fastforce
  ultimately have m: "(n, eff) \<in> set (catalog_entries plat)" by (metis nth_mem)
  from c have "c = contract plat n eff" "n = name" by (simp_all add: e contract_fields)
  with m show "map lk_key (cd_locks c) = r_locks (contract_row_of plat name)"
    "(name, cd_effect c) \<in> set (catalog_entries plat)"
    by (simp_all add: contract_fields)
qed

text \<open>The locks of the capabilities that may change something.\<close>

lemma mutating_locks:
  "r_locks (contract_row_of plat ''filesystem.write'') = [''filesystem:${path}'']"
  "r_locks (contract_row_of plat ''filesystem.patch'') = [''filesystem:${path}'']"
  "r_locks (contract_row_of plat ''filesystem.remove'') = [''filesystem:${path}'']"
  "r_locks (contract_row_of plat ''filesystem.restore'') = [''filesystem:${path}'']"
  "r_locks (contract_row_of plat ''filesystem.mkdir'') = [''filesystem:${path}'']"
  "r_locks (contract_row_of plat ''command.run'') = [''command:${cwd}'']"
  "r_locks (contract_row_of plat ''clipboard.write'') = [''clipboard:${executorId}'']"
  "r_locks (contract_row_of plat ''artifact.build'') = [''build:${artifactPath}'']"
  "r_locks (contract_row_of plat ''artifact.pack-chromium-datapack'') = [''datapack:${rootPath}/${outputRelative}'']"
  "r_locks (contract_row_of plat ''artifact.relay.archive.prepare'') = [''artifact-relay:${destination}'']"
  "r_locks (contract_row_of plat ''artifact.relay.archive.write'') = [''artifact-relay:${destination}'']"
  "r_locks (contract_row_of plat ''artifact.relay.archive.commit'') = [''artifact-relay:${destination}'']"
  "r_locks (contract_row_of plat ''artifact.relay.prepare'') = [''artifact-relay:${destination}'']"
  "r_locks (contract_row_of plat ''artifact.relay.write'') = [''artifact-relay:${destination}'']"
  "r_locks (contract_row_of plat ''artifact.relay.commit'') = [''artifact-relay:${destination}'']"
  "r_locks (contract_row_of plat ''process.start'') = [''process:${processId}'']"
  "r_locks (contract_row_of plat ''process.stop'') = [''process:${processId}'']"
  "r_locks (contract_row_of plat ''tunnel.ensure'') = [''tunnel:${tunnelId}'', ''bind:${bindHost}:${bindPort}'']"
  "r_locks (contract_row_of plat ''tunnel.stop'') = [''tunnel:${tunnelId}'']"
  "r_locks (contract_row_of plat ''agent.start'') = [''agent:${agentId}'']"
  "r_locks (contract_row_of plat ''agent.stop'') = [''agent:${agentId}'']"
  "r_locks (contract_row_of plat ''application.materialize'') = [''generation:${generationRoot}/${generationId}'']"
  "r_locks (contract_row_of plat ''application.apply-artifacts'') = [''application:${applicationPath}'']"
  "r_locks (contract_row_of plat ''application.generation.record'') = [''generation:${generationRoot}/${generationId}'']"
  "r_locks (contract_row_of plat ''application.runtime.record'') = [''generation:${generationRoot}/${generationId}'']"
  "r_locks (contract_row_of plat ''application.activate'') = [''activation:${generationRoot}/current'']"
  "r_locks (contract_row_of plat ''application.finalize'') = [''application:${applicationPath}'']"
  "r_locks (contract_row_of plat ''application.launch'') = [''application-instance:${bundleIdentifier}'', ''debug-port:${remoteDebuggingPort}'']"
  "r_locks (contract_row_of plat ''application.open-file'') = [''application-instance:${applicationPath}'']"
  "r_locks (contract_row_of plat ''application.stop'') = [''application-instance:${applicationPath}'']"
  "r_locks (contract_row_of plat ''ui.automate'') = [''ui-target:${remoteDebuggingPort}'']"
  by (simp_all add: contract_row_of_def contract_filesystem_def contract_artifact_def
        contract_application_def contract_ui_def contract_process_def row_def)

definition is_var :: "seg \<Rightarrow> bool" where
  "is_var x = (case x of Var _ \<Rightarrow> True | Lit _ \<Rightarrow> False)"

definition keyed_lock :: "string list \<Rightarrow> bool" where
  "keyed_lock locks \<longleftrightarrow> locks \<noteq> [] \<and> hd locks \<noteq> ''debug-port:${remoteDebuggingPort}''
     \<and> list_ex is_var (template_segs (length (hd locks)) (hd locks))"

lemma keyed_locks:
  "keyed_lock [''filesystem:${path}'']" "keyed_lock [''command:${cwd}'']"
  "keyed_lock [''clipboard:${executorId}'']" "keyed_lock [''build:${artifactPath}'']"
  "keyed_lock [''datapack:${rootPath}/${outputRelative}'']" "keyed_lock [''artifact-relay:${destination}'']"
  "keyed_lock [''process:${processId}'']" "keyed_lock [''tunnel:${tunnelId}'', ''bind:${bindHost}:${bindPort}'']"
  "keyed_lock [''tunnel:${tunnelId}'']" "keyed_lock [''agent:${agentId}'']"
  "keyed_lock [''generation:${generationRoot}/${generationId}'']"
  "keyed_lock [''application:${applicationPath}'']" "keyed_lock [''activation:${generationRoot}/current'']"
  "keyed_lock [''application-instance:${bundleIdentifier}'', ''debug-port:${remoteDebuggingPort}'']"
  "keyed_lock [''application-instance:${applicationPath}'']" "keyed_lock [''ui-target:${remoteDebuggingPort}'']"
  by code_simp+

definition lock_known :: "platform \<Rightarrow> string \<times> effect \<Rightarrow> bool" where
  "lock_known plat e \<longleftrightarrow> snd e = ReadOnly \<or> keyed_lock (r_locks (contract_row_of plat (fst e)))"

lemma catalogue_lock_known: "list_all (lock_known plat) (catalog_entries plat)"
  by (simp add: catalog_entries_def common_capabilities_def macos_capabilities_def windows_capabilities_def
      lock_known_def mutating_locks keyed_locks split: platform.split)

section \<open>Resources are always found\<close>

lemma fill_not_Panic: "fill to_str params segs \<noteq> Panic"
  by (induction segs rule: unparse.induct) (auto simp: and_then_Panic_iff split: option.split)

lemma render_plain:
  "template_ok t \<Longrightarrow> plain_values to_str params \<Longrightarrow>
     render_authority_resource to_str t params = Some (fill to_str params (template_segs (length t) t))"
  using render_fill [of to_str params "template_segs (length t) t" "[]" t]
  by (cases "fill to_str params (template_segs (length t) t)")
    (simp_all add: template_ok_def Let_def render_authority_resource_def)

lemma render_execution_plain:
  "template_ok t \<Longrightarrow> plain_values to_str params \<Longrightarrow>
     render_execution_resource to_str t action params dflt = Some (lock_text to_str t action params dflt)"
  by (simp add: render_execution_resource_def lock_text_def render_plain)

lemma render_all_plain:
  "list_all template_ok ts \<Longrightarrow> plain_values to_str params \<Longrightarrow>
     render_all to_str ts action params dflt = Some (lock_texts to_str ts action params dflt)"
proof (induction ts)
  case (Cons t ts)
  then show ?case
    by (cases "lock_text to_str t action params dflt") (simp_all add: render_execution_plain)
qed simp

lemma required_port_not_Panic: "required_port params key \<noteq> Panic"
  by (auto simp: required_port_def Let_def split: option.split)

text \<open>The loop never panics, whatever the parameters are.\<close>

lemma render_loop_not_Panic:
  assumes "render_loop to_str t params s = Some y"
  shows "y \<noteq> Panic"
proof (rule render_loop.raw_induct [where P = "\<lambda>_ _ _ _ y. y \<noteq> Panic", OF _ assms])
  fix f a t c s y
  assume IH: "\<And>a t c s y. f a t c s = Some y \<Longrightarrow> y \<noteq> Panic"
    and turn: "(case find_open s of None \<Rightarrow> Some (Ok s)
      | Some start \<Rightarrow> (case position (\<lambda>c. c = CHR ''}'') (drop (start + 2) s) of
          None \<Rightarrow> Some (Err (rpc_error_new ''INVALID_LOCK_TEMPLATE'' t))
        | Some relative_end \<Rightarrow> let key = take relative_end (drop (start + 2) s)
            in (case jget c key of None \<Rightarrow> Some (Err (lock_requires key))
              | Some v \<Rightarrow> f a t c (take start s @ value_text a v @ drop (start + 2 + relative_end + 1) s)))) = Some y"
  show "y \<noteq> Panic"
  proof (cases "find_open s")
    case None
    with turn show ?thesis by auto
  next
    case (Some start)
    show ?thesis
    proof (cases "position (\<lambda>c. c = CHR ''}'') (drop (start + 2) s)")
      case None
      with Some turn show ?thesis by auto
    next
      case (Some relative_end)
      with \<open>find_open s = Some start\<close> turn show ?thesis
        by (cases "jget c (take relative_end (drop (start + 2) s))") (auto simp: Let_def dest: IH)
    qed
  qed
qed

lemma render_execution_not_Panic:
  "render_execution_resource to_str t action params dflt \<noteq> Some Panic"
  using required_port_not_Panic render_loop_not_Panic [of to_str t params t Panic]
  by (auto simp: render_execution_resource_def render_authority_resource_def and_then_Panic_iff)

lemma render_all_not_Panic: "render_all to_str ts action params dflt \<noteq> Some Panic"
proof (induction ts)
  case (Cons t ts)
  then show ?case
    using render_execution_not_Panic [of to_str t action params dflt]
    by (auto simp: and_then_Panic_iff split: option.split outcome.split)
qed simp

lemma execution_resources_not_Panic: "execution_resources plat to_str action params executor_id \<noteq> Some Panic"
  using render_all_not_Panic
  by (auto simp: execution_resources_def Let_def and_then_Panic_iff split: option.split)

lemma execution_resources_Ok:
  assumes "execution_resources plat to_str action params executor_id = Some (Ok rs)"
    and "find_contract plat (canonical_action action) = Some c" and "cd_effect c \<noteq> ReadOnly"
  shows "rs \<noteq> []" "sorted rs" "distinct rs"
  using assms by (auto simp: execution_resources_def Let_def and_then_Ok_iff split: if_splits)

lemma execution_resources_returns:
  assumes "plain_values to_str params"
  shows "\<exists>r. execution_resources plat to_str action params executor_id = Some r"
proof (cases "find_contract plat (canonical_action action)")
  case (Some c)
  then have "list_all template_ok (map lk_key (cd_locks c))"
    using contract_locks_ok [of plat "canonical_action action"] find_contract_Some(1) [OF Some]
    by (simp add: locks_ok_def)
  then show ?thesis
    using Some by (simp add: execution_resources_def Let_def render_all_plain [OF _ assms])
qed (simp add: execution_resources_def Let_def)

section \<open>Fences of a request\<close>

definition authority :: "string \<Rightarrow> string \<Rightarrow> u64 \<Rightarrow> json" where
  "authority controller_id resource fence =
     jobj [(''controllerId'', JStr controller_id), (''resource'', JStr resource), (''fence'', ju64 fence)]"

lemma next_fence_level: "next_fence m r = (if bt_get m r = None then 1 else sat_add (fence_level m r) 1)"
  by (auto simp: next_fence_def fence_level_def split: option.split)

lemma next_fence_gt: "fence_level m r \<noteq> u64_max \<Longrightarrow> fence_level m r < next_fence m r"
  by (auto simp: next_fence_level sat_add_one_gt) (simp add: fence_level_def)

lemma next_fence_ge: "fence_level m r \<le> next_fence m r"
  by (auto simp: next_fence_level sat_add_ge) (simp add: fence_level_def)

lemma issue_loop_result:
  "distinct rs \<Longrightarrow> issue_loop cid rs m acc = (m', as) \<Longrightarrow>
     (\<forall>r. bt_get m' r = (if r \<in> set rs then Some \<lparr>fr_controller_id = cid, fr_fence = next_fence m r\<rparr> else bt_get m r))
     \<and> as = acc @ map (\<lambda>r. authority cid r (next_fence m r)) rs"
proof (induction rs arbitrary: m acc)
  case (Cons r rs)
  let ?m = "bt_insert r \<lparr>fr_controller_id = cid, fr_fence = next_fence m r\<rparr> m"
  have same: "next_fence ?m x = next_fence m x" if "x \<in> set rs" for x
    using that Cons.prems(1) by (cases "x = r") (simp_all add: next_fence_def bt_get_insert)
  have "issue_loop cid rs ?m (acc @ [authority cid r (next_fence m r)]) = (m', as)"
    using Cons.prems(2) by (simp add: Let_def authority_def)
  from Cons.IH [OF _ this] Cons.prems(1) same show ?case by (auto simp: bt_get_insert)
qed auto

text \<open>The outcomes of a request that may change something.\<close>

lemma issue_cases:
  assumes "issue_authority plat to_str persist eid action params (Some fs) = Some (fs1, res)"
    and "find_contract plat (canonical_action action) = Some c" and "cd_effect c \<noteq> ReadOnly"
  obtains (refused) e where "execution_resources plat to_str action params eid = Some (Err e)"
      "fs1 = Some fs" "res = Err e"
  | (unsaved) rs e fs' where "execution_resources plat to_str action params eid = Some (Ok rs)"
      "fs1 = Some fs'" "res = Err e" "fence_disk fs' = fence_disk fs"
      "fence_resources fs' = fst (issue_loop (''executor:'' @ eid) rs (fence_resources fs) [])"
  | (saved) rs fs' where "execution_resources plat to_str action params eid = Some (Ok rs)"
      "fs1 = Some fs'" "fence_disk fs' = fence_resources fs'"
      "fence_resources fs' = fst (issue_loop (''executor:'' @ eid) rs (fence_resources fs) [])"
      "res = (case jset params ''_authority'' (JArr (snd (issue_loop (''executor:'' @ eid) rs (fence_resources fs) []))) of
               Some p \<Rightarrow> Ok p | None \<Rightarrow> Panic)"
proof -
  from assms obtain r where r: "execution_resources plat to_str action params eid = Some r"
    by (cases "execution_resources plat to_str action params eid") (simp_all add: issue_authority_def)
  show thesis
  proof (cases r)
    case (Ok rs)
    obtain m as where l: "issue_loop (''executor:'' @ eid) rs (fence_resources fs) [] = (m, as)" by fastforce
    show thesis
    proof (cases persist)
      case None
      with assms Ok r l show thesis
        by (intro saved [of rs "fs\<lparr>fence_resources := m, fence_disk := m\<rparr>"])
          (simp_all add: issue_authority_def persist_fences_def Let_def)
    next
      case (Some e)
      with assms Ok r l show thesis
        by (intro unsaved [of rs "fs\<lparr>fence_resources := m\<rparr>" "rpc_error_new ''FENCE_STATE_FAILED'' e"])
          (simp_all add: issue_authority_def persist_fences_def Let_def)
    qed
  next
    case (Err e)
    with assms r show thesis by (intro refused [of e]) (simp_all add: issue_authority_def)
  next
    case Panic
    with r execution_resources_not_Panic show thesis by blast
  qed
qed

text \<open>A request that is not for a known mutating capability leaves the table alone.\<close>

lemma issue_skips:
  "(\<And>c. find_contract plat (canonical_action action) = Some c \<Longrightarrow> cd_effect c = ReadOnly) \<Longrightarrow>
     issue_authority plat to_str persist eid action params (Some fs) = Some (Some fs, Ok params)"
  by (cases "find_contract plat (canonical_action action)") (simp_all add: issue_authority_def)

lemma issued_level:
  assumes "distinct rs" and "fence_resources fs' = fst (issue_loop cid rs (fence_resources fs) [])"
  shows "fence_level (fence_resources fs') r =
    (if r \<in> set rs then next_fence (fence_resources fs) r else fence_level (fence_resources fs) r)"
  using issue_loop_result [OF assms(1), of cid "fence_resources fs" "[]"]
  by (cases "issue_loop cid rs (fence_resources fs) []") (simp add: assms(2) fence_level_def)

lemma execution_resources_distinct:
  "execution_resources plat to_str action params eid = Some (Ok rs) \<Longrightarrow> distinct rs"
  by (auto simp: execution_resources_def Let_def and_then_Ok_iff split: option.splits)

lemma fence_step_grows:
  assumes "fences_inv fs"
  shows "fences_inv (fence_step plat to_str eid fs e)"
    "fence_level (fence_disk fs) r \<le> fence_level (fence_disk (fence_step plat to_str eid fs e)) r"
proof -
  have goal: "fences_inv (fence_step plat to_str eid fs e)
    \<and> (\<forall>r. fence_level (fence_disk fs) r \<le> fence_level (fence_disk (fence_step plat to_str eid fs e)) r)"
  proof (cases e)
    case ReopenFences
    then show ?thesis by (simp add: reopen_fences_def fences_inv_def)
  next
    case (IssueFences action params persist)
    let ?call = "issue_authority plat to_str persist eid action params (Some fs)"
    show ?thesis
    proof (cases "\<exists>c. find_contract plat (canonical_action action) = Some c \<and> cd_effect c \<noteq> ReadOnly")
      case False
      then have "?call = Some (Some fs, Ok params)" by (intro issue_skips) auto
      then show ?thesis using assms by (simp add: IssueFences)
    next
      case True
      then obtain c where c: "find_contract plat (canonical_action action) = Some c" "cd_effect c \<noteq> ReadOnly" by blast
      show ?thesis
      proof (cases ?call)
        case None
        then show ?thesis using assms by (simp add: IssueFences)
      next
        case (Some out)
        obtain fs1 res where out: "out = (fs1, res)" by fastforce
        from Some have "?call = Some (fs1, res)" by (simp add: out)
        then show ?thesis
        proof (cases rule: issue_cases [OF _ c, consumes 1, case_names refused unsaved saved])
          case refused
          then show ?thesis using assms Some by (simp add: IssueFences out)
        next
          case (unsaved rs e fs')
          then have "fences_inv fs'"
            using assms issued_level [OF execution_resources_distinct, of plat to_str action params eid rs fs'] next_fence_ge
            by (fastforce simp: fences_inv_def intro: order_trans)
          then show ?thesis using Some unsaved by (simp add: IssueFences out)
        next
          case (saved rs fs')
          have "fence_level (fence_disk fs) r \<le> fence_level (fence_resources fs') r" for r
            using assms issued_level [OF execution_resources_distinct [OF saved(1)] saved(4), of r] next_fence_ge
            by (auto simp: fences_inv_def intro: order_trans)
          then show ?thesis using Some saved by (simp add: IssueFences out fences_inv_def)
        qed
      qed
    qed
  qed
  then show "fences_inv (fence_step plat to_str eid fs e)"
    "fence_level (fence_disk fs) r \<le> fence_level (fence_disk (fence_step plat to_str eid fs e)) r" by blast+
qed

interpretation fences: monotone_machine "fence_step plat to_str eid" "\<lambda>_ _. True" fences_inv
    "\<lambda>fs. fence_level (fence_disk fs)"
  by unfold_locales (simp_all add: fence_step_grows)

definition may_change :: "platform \<Rightarrow> string \<Rightarrow> bool" where
  "may_change plat action \<longleftrightarrow>
     (case find_contract plat (canonical_action action) of Some c \<Rightarrow> cd_effect c \<noteq> ReadOnly | None \<Rightarrow> False)"

lemma fill_without_object:
  "as_object params = None \<Longrightarrow> list_ex is_var segs \<Longrightarrow> \<exists>e. fill to_str params segs = Err e"
proof (induction segs rule: unparse.induct)
  case (3 k segs)
  then have "jget params k = None" by (cases params) auto
  then show ?case by simp
qed (auto simp: is_var_def)

text \<open>Parameters that are not an object are refused before anything is stored in them.\<close>

lemma non_object_refused:
  assumes "as_object params = None" and "may_change plat action"
  shows "\<exists>e. execution_resources plat to_str action params eid = Some (Err e)"
proof -
  obtain c where c: "find_contract plat (canonical_action action) = Some c" "cd_effect c \<noteq> ReadOnly"
    using assms(2) by (auto simp: may_change_def split: option.splits)
  let ?locks = "r_locks (contract_row_of plat (canonical_action action))"
  have "keyed_lock ?locks"
    using catalogue_lock_known [of plat] find_contract_Some(2) [OF c(1)] c(2)
    by (auto simp: list_all_iff lock_known_def)
  then obtain t ts where t: "?locks = t # ts" "t \<noteq> ''debug-port:${remoteDebuggingPort}''"
      "list_ex is_var (template_segs (length t) t)"
    by (cases ?locks) (auto simp: keyed_lock_def)
  have plain: "plain_values to_str params" using assms(1) by (simp add: plain_values_def)
  have ok: "list_all template_ok ?locks" using contract_locks_ok by (simp add: locks_ok_def)
  obtain e where "fill to_str params (template_segs (length t) t) = Err e"
    using fill_without_object [OF assms(1) t(3)] by blast
  then show ?thesis
    using c render_all_plain [OF ok plain] t(1,2)
    by (simp add: execution_resources_def Let_def find_contract_Some(1) [OF c(1)] lock_text_def)
qed

lemma issue_not_Panic:
  assumes "issue_authority plat to_str persist eid action params fences = Some (fs, r)"
  shows "r \<noteq> Panic"
proof (cases fences)
  case None
  with assms show ?thesis by (simp add: issue_authority_def) blast
next
  case (Some fs0)
  note call = assms [unfolded Some]
  show ?thesis
  proof (cases "find_contract plat (canonical_action action)")
    case None
    with call show ?thesis by (auto simp: issue_authority_def)
  next
    case (Some c)
    show ?thesis
    proof (cases "cd_effect c = ReadOnly")
      case True
      with call Some show ?thesis by (auto simp: issue_authority_def)
    next
      case False
      then have m: "may_change plat action" using Some by (simp add: may_change_def)
      from call Some False show ?thesis
      proof (cases rule: issue_cases)
        case (saved rs fs')
        have "as_object params \<noteq> None"
          using non_object_refused [OF _ m, of params to_str eid] saved(1) by (cases "as_object params") simp_all
        then have "jset params ''_authority'' x \<noteq> None" for x by (simp add: jset_None_iff)
        then show ?thesis using saved(5) by (auto split: option.split)
      qed simp_all
    qed
  qed
qed

text \<open>What a successful request issues.\<close>

lemma issued:
  assumes "issue_authority plat to_str persist eid action params (Some fs) = Some (Some fs', Ok q)"
    and "may_change plat action"
  obtains rs where "execution_resources plat to_str action params eid = Some (Ok rs)" "distinct rs"
    "rs \<noteq> []" "fence_disk fs' = fence_resources fs'"
    "jget q ''_authority'' = Some (JArr (map (\<lambda>r. authority (''executor:'' @ eid) r (next_fence (fence_resources fs) r)) rs))"
    "\<forall>r. fence_level (fence_disk fs') r =
       (if r \<in> set rs then next_fence (fence_resources fs) r else fence_level (fence_resources fs) r)"
proof -
  obtain c where c: "find_contract plat (canonical_action action) = Some c" "cd_effect c \<noteq> ReadOnly"
    using assms(2) by (auto simp: may_change_def split: option.splits)
  from assms(1) c show thesis
  proof (cases rule: issue_cases)
    case (saved rs fs1)
    have d: "distinct rs" using saved(1) by (rule execution_resources_distinct)
    obtain m as where l: "issue_loop (''executor:'' @ eid) rs (fence_resources fs) [] = (m, as)" by fastforce
    have "as = map (\<lambda>r. authority (''executor:'' @ eid) r (next_fence (fence_resources fs) r)) rs"
      using issue_loop_result [OF d l] by simp
    moreover have "jset params ''_authority'' (JArr as) = Some q"
      using saved(5) l by (auto split: option.splits)
    ultimately have "jget q ''_authority'' =
        Some (JArr (map (\<lambda>r. authority (''executor:'' @ eid) r (next_fence (fence_resources fs) r)) rs))"
      using jget_jset [of params "''_authority''" "JArr as" q "''_authority''"] by simp
    then show thesis
      using saved(2,3) issued_level [OF d saved(4)] execution_resources_Ok(1) [OF saved(1) c] saved(1) d
      by (intro that [of rs]) simp_all
  qed simp_all
qed

lemma authority_inject: "authority cid r f = authority cid r' f' \<longleftrightarrow> r = r' \<and> f = f'"
proof
  assume eq: "authority cid r f = authority cid r' f'"
  have "jget (authority cid r f) ''fence'' = Some (ju64 f)" "jget (authority cid r f) ''resource'' = Some (JStr r)"
    for r f by (simp_all add: authority_def)
  from this(1) [of r f] this(1) [of r' f'] this(2) [of r f] this(2) [of r' f'] eq show "r = r' \<and> f = f'"
    by simp
qed simp

section \<open>Guarantees\<close>

text \<open>Rendering a lock is substitution: for parameters whose text has no dollar sign, the
  rewriting loop ends, and its result is the template with every placeholder replaced by its
  parameter, or the error for the first parameter that is missing.\<close>
theorem render_is_substitution:
  assumes "plain_values to_str params" and "segs_ok segs"
  shows "render_authority_resource to_str (unparse segs) params = Some (fill to_str params segs)"
  using render_fill [OF assms, of "[]" "unparse segs"]
  by (cases "fill to_str params segs") (simp_all add: render_authority_resource_def)

text \<open>A parameter whose text mentions its own placeholder makes a request hang: when the
  first lock of the capability names the parameter, \<open>execution_resources\<close> does not return.\<close>
theorem self_reference_hangs:
  assumes "feeds_itself to_str params k" and "stuck_at k t"
    and "find_contract plat (canonical_action action) = Some c" and "map lk_key (cd_locks c) = t # ts"
    and "canonical_action action \<noteq> ''application.launch''"
  shows "execution_resources plat to_str action params executor_id = None"
proof -
  have "render_authority_resource to_str t params = None"
    unfolding render_authority_resource_def using assms(1,2) by (rule render_diverges)
  with assms(3-5) show ?thesis
    by (simp add: execution_resources_def Let_def render_execution_resource_def)
qed

text \<open>C39: for parameters whose text has no dollar sign the resources of every request, for every
  capability of every platform, are computed without hanging or panicking; a request that may
  change something locks at least one resource, and the list is sorted without duplicates.\<close>
theorem resources_always_found:
  assumes "plain_values to_str params"
  shows "\<exists>r. execution_resources plat to_str action params executor_id = Some r \<and> r \<noteq> Panic
    \<and> (\<forall>rs. r = Ok rs \<longrightarrow> sorted rs \<and> distinct rs \<and> (may_change plat action \<longrightarrow> rs \<noteq> []))"
proof -
  obtain r where r: "execution_resources plat to_str action params executor_id = Some r"
    using execution_resources_returns [OF assms] by blast
  moreover have "sorted rs \<and> distinct rs \<and> (may_change plat action \<longrightarrow> rs \<noteq> [])" if "r = Ok rs" for rs
  proof -
    have "sorted rs \<and> distinct rs"
      using r that by (auto simp: execution_resources_def Let_def and_then_Ok_iff split: option.splits)
    moreover have "rs \<noteq> []" if "may_change plat action"
      using that r \<open>r = Ok rs\<close> execution_resources_Ok(1) by (auto simp: may_change_def split: option.splits)
    ultimately show ?thesis by blast
  qed
  ultimately show ?thesis using execution_resources_not_Panic by blast
qed

text \<open>C6: fences are never reused: a fence issued for a resource is greater than every fence
  issued for it before, whatever requests, failed writes of the fence file and restarts lie in
  between.\<close>
theorem fences_never_reused:
  assumes "fences_inv fs"
    and "issue_authority plat to_str p1 eid a1 ps1 (Some fs) = Some (Some fs1, Ok q1)"
    and "issue_authority plat to_str p2 eid a2 ps2 (Some (foldl (fence_step plat to_str eid) fs1 calls))
       = Some (Some fs2, Ok q2)"
    and "may_change plat a1" and "may_change plat a2"
    and "jget q1 ''_authority'' = Some (JArr as1)" and "authority (''executor:'' @ eid) r f1 \<in> set as1"
    and "jget q2 ''_authority'' = Some (JArr as2)" and "authority (''executor:'' @ eid) r f2 \<in> set as2"
    and "f1 \<noteq> u64_max"
  shows "f1 < f2"
proof -
  let ?mid = "foldl (fence_step plat to_str eid) fs1 calls"
  obtain rs1 where rs1: "jget q1 ''_authority'' =
      Some (JArr (map (\<lambda>r. authority (''executor:'' @ eid) r (next_fence (fence_resources fs) r)) rs1))"
    "fence_disk fs1 = fence_resources fs1" "\<forall>r. fence_level (fence_disk fs1) r =
       (if r \<in> set rs1 then next_fence (fence_resources fs) r else fence_level (fence_resources fs) r)"
    by (rule issued [OF assms(2,4)]) (rule that; assumption)
  obtain rs2 where rs2: "jget q2 ''_authority'' =
      Some (JArr (map (\<lambda>r. authority (''executor:'' @ eid) r (next_fence (fence_resources ?mid) r)) rs2))"
    by (rule issued [OF assms(3,5)]) (rule that; assumption)
  have f1: "fence_level (fence_disk fs1) r = f1"
    using assms(6,7) rs1(1,3) by (auto simp: authority_inject)
  have f2: "f2 = next_fence (fence_resources ?mid) r"
    using assms(8,9) rs2 by (auto simp: authority_inject)
  have "fences_inv fs1" using rs1(2) by (simp add: fences_inv_def)
  then have "fences_inv ?mid" "fence_level (fence_disk fs1) r \<le> fence_level (fence_disk ?mid) r"
    using fences.run_inv fences.run_mono by simp_all
  then have "f1 \<le> fence_level (fence_resources ?mid) r"
    using f1 by (auto simp: fences_inv_def intro: order_trans)
  then show ?thesis
  proof (cases "f1 = fence_level (fence_resources ?mid) r")
    case True
    with assms(10) show ?thesis unfolding f2 by (simp add: next_fence_gt)
  next
    case False
    with \<open>f1 \<le> _\<close> have "f1 < fence_level (fence_resources ?mid) r" by simp
    then show ?thesis unfolding f2 using next_fence_ge by (rule less_le_trans)
  qed
qed

text \<open>Issuing fences never panics: parameters into which the authority cannot be stored are
  refused, because every capability that may change something has a lock that needs a named
  parameter.\<close>
theorem issue_authority_no_panic:
  "issue_authority plat to_str persist eid action params fences = Some (fs, r) \<Longrightarrow> r \<noteq> Panic"
  by (rule issue_not_Panic)

section \<open>Instances\<close>

definition sample_print :: "json \<Rightarrow> string" where
  "sample_print v = ''null''"

definition sample_write :: json where
  "sample_write = jobj [(''path'', JStr ''/a''), (''content'', JStr ''x'')]"

definition sample_fences :: executor_fences where
  "sample_fences = \<lparr>fence_resources = [], fence_disk = []\<rparr>"

lemma sample_contract: "may_change OtherPlatform ''fs.write''"
  by code_simp

lemma sample_plain: "plain_values sample_print sample_write"
  by code_simp

theorem render_is_substitution_witness:
  "render_authority_resource sample_print (unparse [Lit ''filesystem:'', Var ''path'']) sample_write
     = Some (Ok ''filesystem:/a'')"
proof -
  have ok: "segs_ok [Lit ''filesystem:'', Var ''path'']"
    and fill: "fill sample_print sample_write [Lit ''filesystem:'', Var ''path''] = Ok ''filesystem:/a''"
    by code_simp+
  show ?thesis using render_is_substitution [OF sample_plain ok] fill by simp
qed

theorem resources_always_found_witness:
  "\<exists>r. execution_resources OtherPlatform sample_print ''fs.write'' sample_write ''e'' = Some r \<and> r \<noteq> Panic"
  using resources_always_found [OF sample_plain, of OtherPlatform "''fs.write''" "''e''"] by blast

definition sample_loop :: json where
  "sample_loop = jobj [(''path'', JStr ''${path}'')]"

theorem self_reference_hangs_witness:
  "execution_resources OtherPlatform sample_print ''fs.write'' sample_loop ''e'' = None"
proof -
  have get: "jget sample_loop ''path'' = Some (JStr ''${path}'')" by code_simp
  have feeds: "feeds_itself sample_print sample_loop ''path''"
    unfolding feeds_itself_def
    by (intro conjI exI [of _ "JStr ''${path}''"] exI [of _ "[]"]) (simp_all add: get value_text_def)
  have stuck: "stuck_at ''path'' ''filesystem:${path}''"
    unfolding stuck_at_def by (intro exI [of _ "''filesystem:''"] exI [of _ "[]"]) simp
  obtain c where c: "find_contract OtherPlatform (canonical_action ''fs.write'') = Some c"
    using sample_contract by (auto simp: may_change_def split: option.splits)
  have action: "canonical_action ''fs.write'' = ''filesystem.write''"
    and launch: "canonical_action ''fs.write'' \<noteq> ''application.launch''" by code_simp+
  have locks: "map lk_key (cd_locks c) = [''filesystem:${path}'']"
    using find_contract_Some(1) [OF c] by (simp only: action mutating_locks)
  show ?thesis by (rule self_reference_hangs [OF feeds stuck c locks launch])
qed

definition sample_fences1 :: executor_fences where
  "sample_fences1 = (let m = [(''filesystem:/a'', \<lparr>fr_controller_id = ''executor:e'', fr_fence = 1\<rparr>)]
     in \<lparr>fence_resources = m, fence_disk = m\<rparr>)"

definition sample_fences2 :: executor_fences where
  "sample_fences2 = (let m = [(''filesystem:/a'', \<lparr>fr_controller_id = ''executor:e'', fr_fence = 2\<rparr>)]
     in \<lparr>fence_resources = m, fence_disk = m\<rparr>)"

definition sample_issued :: "u64 \<Rightarrow> json" where
  "sample_issued f = jobj [(''path'', JStr ''/a''), (''content'', JStr ''x''),
     (''_authority'', JArr [authority (''executor:'' @ ''e'') ''filesystem:/a'' f])]"

theorem fences_never_reused_witness:
  "jget (sample_issued 1) ''_authority'' = Some (JArr [authority (''executor:'' @ ''e'') ''filesystem:/a'' 1])
   \<and> jget (sample_issued 2) ''_authority'' = Some (JArr [authority (''executor:'' @ ''e'') ''filesystem:/a'' 2])
   \<and> (1 :: u64) < 2"
proof -
  let ?calls = "[ReopenFences]"
  have inv: "fences_inv sample_fences" by (simp add: fences_inv_def sample_fences_def)
  have first: "issue_authority OtherPlatform sample_print None ''e'' ''fs.write'' sample_write (Some sample_fences)
      = Some (Some sample_fences1, Ok (sample_issued 1))" by code_simp
  have second: "issue_authority OtherPlatform sample_print None ''e'' ''fs.write'' sample_write
        (Some (foldl (fence_step OtherPlatform sample_print ''e'') sample_fences1 ?calls))
      = Some (Some sample_fences2, Ok (sample_issued 2))" by code_simp
  have as: "jget (sample_issued f) ''_authority'' = Some (JArr [authority (''executor:'' @ ''e'') ''filesystem:/a'' f])"
    for f by (simp add: sample_issued_def)
  have max: "(1 :: u64) \<noteq> u64_max" by code_simp
  show ?thesis
    using fences_never_reused [OF inv first second sample_contract sample_contract as _ as _ max, of "''filesystem:/a''" 2]
    by (simp add: as)
qed

theorem issue_authority_no_panic_witness:
  "\<exists>r. issue_authority OtherPlatform sample_print None ''e'' ''fs.write'' (JStr ''x'') (Some sample_fences)
     = Some (Some sample_fences, r) \<and> r \<noteq> Panic"
proof -
  have "issue_authority OtherPlatform sample_print None ''e'' ''fs.write'' (JStr ''x'') (Some sample_fences)
      = Some (Some sample_fences, Err (lock_requires ''path''))" by code_simp
  with issue_authority_no_panic [OF this] show ?thesis by blast
qed

end
