(* ===== verification/Desktop_Dispatch.thy ===== *)
theory Desktop_Dispatch
  imports Desktop_Guarantees Execution_Resources
begin

text \<open>
  A request on the executor (\<open>handle\<close>, \<open>desktop_dispatch\<close>, \<open>reconcile_desktop\<close> and the
  recovery inspection in \<open>executor.rs\<close>): admission, reconciliation of the desktop, fences and
  dispatch, and the judgement whether an outcome leaves the desktop in doubt.

  A request locks the desktop queue several times and lets it go in between. What the other
  threads do to the queue between two of its locks is the list \<open>v_others\<close> of calls; what it
  finds at the gate \<open>desktop_execution\<close>, and what closing the computer-use host gives, are
  observations. They are numbered by the place in the request. The handlers behind
  \<open>dispatch\<close> are the argument \<open>run\<close>: the theorems hold for every behaviour of them. The
  mutex around the queue is poisoned only by a panic inside a queue operation and is taken to
  be healthy; a handler that panics poisons the gate.
\<close>

section \<open>Doubtful outcomes\<close>

fun contains_str :: "string \<Rightarrow> string \<Rightarrow> bool" where
  "contains_str pat [] = (pat = [])"
| "contains_str pat (c # cs) = (take (length pat) (c # cs) = pat \<or> contains_str pat cs)"

definition to_ascii_lowercase :: "string \<Rightarrow> string" where
  "to_ascii_lowercase s =
     map (\<lambda>c. let n = of_char c :: nat in if 65 \<le> n \<and> n \<le> 90 then char_of (n + 32) else c) s"

definition launch_failure_receipt :: json where
  "launch_failure_receipt =
     jobj [(''version'', ju64 1), (''tool'', JStr ''launch_browser''), (''phase'', JStr ''navigation''),
           (''physicalInputDispatched'', JBool False), (''navigationOutcome'', JStr ''unknown''),
           (''ownedBrowserClosed'', JBool True), (''ownedProfileRemoved'', JBool True),
           (''ownershipReleased'', JBool True), (''retrySafe'', JBool False)]"

definition navigation_failure_receipt :: json where
  "navigation_failure_receipt =
     jobj [(''version'', ju64 1), (''mechanism'', JStr ''cdp''), (''command'', JStr ''Page.navigate''),
           (''phase'', JStr ''navigation''), (''physicalInputDispatched'', JBool False),
           (''navigationOutcome'', JStr ''unknown''), (''retrySafe'', JBool False)]"

definition returned_cdp_navigation_failure ::
  "(string \<Rightarrow> bool) \<Rightarrow> string \<Rightarrow> string option \<Rightarrow> rpc_error \<Rightarrow> bool" where
  "returned_cdp_navigation_failure is_uuid action tool e \<longleftrightarrow>
     (let matched_scope =
            (if tool = Some ''navigate_browser'' then True
             else if tool = Some ''launch_browser''
             then pointer (details e) [''hostDiagnostics'', ''launchFailure''] = Some launch_failure_receipt
             else False)
      in action = ''computer-use.call''
         \<and> matched_scope
         \<and> code e = ''COMPUTER_USE_TOOL_FAILED''
         \<and> jget (details e) ''hostResponseReceived'' = Some (JBool True)
         \<and> Option.bind (jget (details e) ''tool'') as_str = tool
         \<and> jget (details e) ''operationOutcome'' = Some (JStr ''unknown'')
         \<and> (case Option.bind (jget (details e) ''hostRequestId'') as_str of
              Some i \<Rightarrow> is_uuid i | None \<Rightarrow> False)
         \<and> pointer (details e) [''hostDiagnostics'', ''navigationFailure''] = Some navigation_failure_receipt)"

definition empty_array :: "json \<Rightarrow> bool" where
  "empty_array v \<longleftrightarrow> as_array v = Some []"

definition distinct_codes :: "json \<Rightarrow> bool" where
  "distinct_codes v =
     (case as_array v of
        None \<Rightarrow> False
      | Some items \<Rightarrow> (case those (map as_u64 items) of
          None \<Rightarrow> False
        | Some ns \<Rightarrow> length (remdups ns) = length items))"

definition counts_match :: "json \<Rightarrow> json \<Rightarrow> bool" where
  "counts_match dispatch receipt =
     (case (as_u64 (jidx receipt ''operationEventsDispatched''), as_u64 (jidx receipt ''releaseEventsDispatched'')) of
        (Some operation, Some releases) \<Rightarrow>
          operation > 0
          \<and> (case checked_add operation releases of
               Some all \<Rightarrow> as_u64 (jidx dispatch ''eventsDispatched'') = Some all
             | None \<Rightarrow> False)
      | _ \<Rightarrow> False)"

definition verified_native_input_recovery :: "json \<Rightarrow> bool" where
  "verified_native_input_recovery dispatch \<longleftrightarrow>
     (let receipt = jidx dispatch ''inputRecovery''
      in eq_bool (jidx dispatch ''recoveryRequired'') False
         \<and> eq_bool (jidx dispatch ''retrySafe'') False
         \<and> empty_array (jidx dispatch ''unreleasedKeys'')
         \<and> empty_array (jidx dispatch ''unreleasedMouseButtons'')
         \<and> eq_u64 (jidx receipt ''schemaVersion'') 1
         \<and> eq_str (jidx receipt ''scope'') ''native_transaction''
         \<and> eq_str (jidx receipt ''status'') ''verified''
         \<and> eq_bool (jidx receipt ''nativeOperationStopped'') True
         \<and> eq_bool (jidx receipt ''inputReplayed'') False
         \<and> eq_str (jidx receipt ''verification'') ''system_input_state''
         \<and> empty_array (jidx receipt ''unreleasedKeys'')
         \<and> empty_array (jidx receipt ''unreleasedMouseButtons'')
         \<and> distinct_codes (jidx receipt ''verifiedKeys'')
         \<and> distinct_codes (jidx receipt ''verifiedMouseButtons'')
         \<and> counts_match dispatch receipt)"

definition text_at :: "json \<Rightarrow> string list \<Rightarrow> string option" where
  "text_at v p = Option.bind (pointer v p) as_str"

definition bool_at :: "json \<Rightarrow> string list \<Rightarrow> bool option" where
  "bool_at v p = Option.bind (pointer v p) as_bool"

definition has_structured_computer_use_unknown :: "json \<Rightarrow> bool" where
  "has_structured_computer_use_unknown v =
     (if text_at v [''details'', ''tool''] \<noteq> Some ''act_ui''
         \<or> text_at v [''details'', ''status''] \<noteq> Some ''dispatch_outcome_unknown''
      then False
      else
        let transport_unknown =
              text_at v [''details'', ''execution'', ''transport'', ''outcome''] = Some ''unknown'';
            partial_hid_unknown =
              (text_at v [''details'', ''execution'', ''inputDispatch'', ''outcome''] = Some ''unknown''
               \<and> text_at v [''details'', ''execution'', ''inputDispatch'', ''kind''] = Some ''partial_hid''
               \<and> \<not> (case pointer v [''details'', ''execution'', ''inputDispatch''] of
                      Some d \<Rightarrow> verified_native_input_recovery d | None \<Rightarrow> False));
            semantic_unknown =
              (text_at v [''details'', ''execution'', ''semanticDispatch'', ''outcome''] = Some ''unknown''
               \<and> text_at v [''details'', ''execution'', ''semanticDispatch'', ''mechanism''] = Some ''atspi''
               \<and> bool_at v [''details'', ''execution'', ''semanticDispatch'', ''recoveryRequired''] = Some True
               \<and> bool_at v [''details'', ''execution'', ''semanticDispatch'', ''retrySafe''] = Some False
               \<and> text_at v [''details'', ''error'', ''code''] = Some ''semantic_dispatch_unknown'')
        in transport_unknown \<or> partial_hid_unknown \<or> semantic_unknown)"

text \<open>The first argument recognises a UUID (\<open>Uuid::parse_str\<close>).\<close>

definition desktop_dispatch_uncertain ::
  "(string \<Rightarrow> bool) \<Rightarrow> string \<Rightarrow> string option \<Rightarrow> json rpc \<Rightarrow> bool" where
  "desktop_dispatch_uncertain is_uuid action tool result =
     (let read_only_poll =
            (action = ''computer-use.tools''
             \<or> (action = ''computer-use.call'' \<and> tool \<in> {Some ''observe_ui'', Some ''wait_for''}))
      in case result of
           Err e \<Rightarrow>
             let m = to_ascii_lowercase (message e)
             in \<not> read_only_poll
                \<and> \<not> returned_cdp_navigation_failure is_uuid action tool e
                \<and> (code e = ''COMPUTER_USE_UNAVAILABLE''
                   \<or> contains_str ''TIMEOUT'' (code e)
                   \<or> (code e = ''COMPUTER_USE_TOOL_FAILED''
                      \<and> (contains_str ''timeout'' m \<or> contains_str ''timed out'' m \<or> contains_str ''abort'' m)))
         | Ok v \<Rightarrow> action = ''computer-use.call'' \<and> has_structured_computer_use_unknown v
         | Panic \<Rightarrow> False)"

section \<open>Dispatch\<close>

datatype gate_look = GateFree | GateHeld | GatePoisoned

record dispatch_view =
  v_gate :: "nat \<Rightarrow> gate_look"
  v_closed :: "nat \<Rightarrow> rpc_error option"
  v_moments :: "nat \<Rightarrow> nat \<Rightarrow> nat \<Rightarrow> moment"
  v_others :: "nat \<Rightarrow> desk_op list"
  v_uid :: string
  v_utok :: string
  v_is_uuid :: "string \<Rightarrow> bool"

definition others :: "dispatch_view \<Rightarrow> nat \<Rightarrow> desktop_queue \<Rightarrow> desktop_queue" where
  "others v k q = foldl desk_step q (v_others v k)"

definition poisoned :: rpc_error where
  "poisoned = error ''DESKTOP_STATE_FAILED'' ''poisoned lock: another task failed inside''"

text \<open>\<open>k\<close> is the place of the call in the request: it looks at the gate once and locks the
  queue at \<open>k\<close> and, for the cleanup, at \<open>k + 1\<close>.\<close>

definition reconcile_desktop ::
  "dispatch_view \<Rightarrow> nat \<Rightarrow> desktop_queue \<Rightarrow> desktop_queue \<times> unit rpc" where
  "reconcile_desktop v k q =
     (case v_gate v k of
        GateHeld \<Rightarrow> (q, Ok ())
      | GatePoisoned \<Rightarrow> (q, Err poisoned)
      | GateFree \<Rightarrow>
          (case needs_cleanup (v_moments v k 0) (others v k q) of
             (q, cleanup) \<Rightarrow>
               if \<not> cleanup then (q, Ok ())
               else let closed = v_closed v k
                    in sbind (cleanup_done (v_moments v k 1) (closed = None) (others v (k + 1) q)) (\<lambda>q _.
                         (q, case closed of None \<Rightarrow> Ok () | Some e \<Rightarrow> Err e))))"

definition reconcile_desktop_if ::
  "dispatch_view \<Rightarrow> nat \<Rightarrow> bool \<Rightarrow> desktop_queue \<Rightarrow> desktop_queue \<times> unit rpc" where
  "reconcile_desktop_if v k enabled q = (if enabled then reconcile_desktop v k q else (q, Ok ()))"

text \<open>A protected action once the gate is held: begin, dispatch, end, reconcile. When the
  handler panics the queue stays as the other threads leave it.\<close>

definition run_protected ::
  "dispatch_view \<Rightarrow> nat \<Rightarrow> (json \<Rightarrow> json rpc) \<Rightarrow> string \<Rightarrow> json \<Rightarrow> desktop_queue \<Rightarrow> desktop_queue \<times> json rpc" where
  "run_protected v k run action params q =
     sbind (desktop_begin (v_moments v k 0) action params (others v k q)) (\<lambda>q params'.
       let tool = Option.bind (jget params' ''tool'') as_str;
           result = run params';
           uncertain = desktop_dispatch_uncertain (v_is_uuid v) action tool result
       in if result = Panic then (others v (k + 1) q, Panic)
          else sbind (desktop_end (v_moments v (k + 1) 0 0) uncertain (others v (k + 1) q)) (\<lambda>q _.
               sbind (reconcile_desktop v (k + 2) q) (\<lambda>q _. (q, result))))"

text \<open>The recovery inspection; \<open>application_path\<close> is the outcome of resolving the
  application's path, \<open>inspect\<close> the native inspection. The guard ends the inspection on every
  way out.\<close>

definition recovery_inspection_dispatch_using ::
  "dispatch_view \<Rightarrow> nat \<Rightarrow> string rpc \<Rightarrow> (string \<Rightarrow> json rpc) \<Rightarrow> string \<Rightarrow> json \<Rightarrow> desktop_queue
     \<Rightarrow> desktop_queue \<times> json rpc" where
  "recovery_inspection_dispatch_using v k application_path inspect action params q =
     sbind (lift_res q (validate_recovery_inspection_params action params)) (\<lambda>q _.
       if v_gate v k = GatePoisoned then (q, Err poisoned)
       else sbind (begin_recovery_inspection action params (others v k q)) (\<lambda>q _.
            (end_recovery_inspection (others v (k + 1) q), and_then application_path inspect)))"

definition recovery_inspection_dispatch ::
  "platform \<Rightarrow> dispatch_view \<Rightarrow> nat \<Rightarrow> string rpc \<Rightarrow> (string \<Rightarrow> json rpc) \<Rightarrow> string \<Rightarrow> json \<Rightarrow> desktop_queue
     \<Rightarrow> desktop_queue \<times> json rpc" where
  "recovery_inspection_dispatch plat v k application_path inspect action params q =
     sbind (lift_res q (validate_recovery_inspection_params action params)) (\<lambda>q _.
       if plat \<noteq> MacOS
       then (q, Err (error ''RECOVERY_INSPECT_UNSUPPORTED_PLATFORM''
                      ''recovery inspection is supported only on macOS''))
       else recovery_inspection_dispatch_using v k application_path inspect action params q)"

definition recovery_request :: "string \<Rightarrow> json \<Rightarrow> bool" where
  "recovery_request action params \<longleftrightarrow>
     action = ''ui.native-inspect'' \<and> jget params ''recoveryInspection'' = Some (JBool True)"

record request_env =
  e_platform :: platform
  e_view :: dispatch_view
  e_run :: "string \<Rightarrow> json \<Rightarrow> json rpc"
  e_application_path :: "string rpc"
  e_inspect :: "string \<Rightarrow> json rpc"

definition desktop_dispatch ::
  "request_env \<Rightarrow> nat \<Rightarrow> string \<Rightarrow> json \<Rightarrow> desktop_queue \<Rightarrow> desktop_queue \<times> json rpc" where
  "desktop_dispatch env k action params q =
     (let v = e_view env
      in if recovery_request action params
         then recovery_inspection_dispatch (e_platform env) v k (e_application_path env) (e_inspect env)
                action params q
         else if starts_with ''desktop.'' action
         then sbind (command (v_moments v k) (v_uid v) (v_utok v) action params (others v k q)) (\<lambda>q result.
              sbind (reconcile_desktop v (k + 1) q) (\<lambda>q _.
                if action \<in> {''desktop.finish'', ''desktop.cancel''}
                then command (v_moments v (k + 3)) (v_uid v) (v_utok v) ''desktop.get'' params (others v (k + 3) q)
                else (q, Ok result)))
         else if \<not> protected action then (q, e_run env action params)
         else sbind (reconcile_desktop v k q) (\<lambda>q _.
                if v_gate v (k + 2) = GatePoisoned then (q, Err poisoned)
                else run_protected v (k + 2) (e_run env action) action params q))"

section \<open>Requests\<close>

record executor_state =
  x_queue :: desktop_queue
  x_fences :: "executor_fences option"

definition unqueued_actions :: "string set" where
  "unqueued_actions = {''ping'', ''status'', ''availability'', ''capability.list''}"

definition request_resources ::
  "platform \<Rightarrow> (json \<Rightarrow> string) \<Rightarrow> string \<Rightarrow> string \<Rightarrow> json \<Rightarrow> string list option rpc option" where
  "request_resources plat to_str eid action params =
     (if action \<in> unqueued_actions then Some (Ok None)
      else map_option (\<lambda>r. and_then r (\<lambda>rs. Ok (Some rs))) (execution_resources plat to_str action params eid))"

definition acquire_permit :: "(string list \<Rightarrow> rpc_error option) \<Rightarrow> string list option \<Rightarrow> unit rpc" where
  "acquire_permit acquire need =
     (case need of
        None \<Rightarrow> Ok ()
      | Some rs \<Rightarrow> (case acquire rs of None \<Rightarrow> Ok () | Some e \<Rightarrow> Err e))"

text \<open>The response of a request; a panic of its handler gives none.\<close>

definition respond :: "string \<Rightarrow> json rpc \<Rightarrow> response rpc" where
  "respond rid r =
     (case r of Ok v \<Rightarrow> Ok (response_success rid v) | Err e \<Rightarrow> Ok (response_failure rid e) | Panic \<Rightarrow> Panic)"

text \<open>
  \<open>acquire\<close> is what the admission queue decides for a list of resources (the last critical
  section of \<open>Execution_Capacity\<close>); \<open>persist\<close> is the outcome of writing the fence file. The
  reconciliation of tunnels at the start of a request belongs to the process table and is not
  modelled.
\<close>

definition handle ::
  "request_env \<Rightarrow> (json \<Rightarrow> string) \<Rightarrow> string option \<Rightarrow> string \<Rightarrow> (string list \<Rightarrow> rpc_error option)
     \<Rightarrow> request \<Rightarrow> executor_state \<Rightarrow> (executor_state \<times> response rpc) option" where
  "handle env to_str persist eid acquire rq ex =
     (let action = rq_action rq; params = rq_params rq; rid = rq_request_id rq
      in case request_resources (e_platform env) to_str eid action params of
           None \<Rightarrow> None
         | Some need \<Rightarrow>
             (case and_then need (acquire_permit acquire) of
                Err e \<Rightarrow> Some (ex, respond rid (Err e))
              | Panic \<Rightarrow> Some (ex, Panic)
              | Ok _ \<Rightarrow>
                  (case reconcile_desktop_if (e_view env) 0 (\<not> recovery_request action params) (x_queue ex) of
                     (q, Err e) \<Rightarrow> Some (ex\<lparr>x_queue := q\<rparr>, respond rid (Err e))
                   | (q, Panic) \<Rightarrow> Some (ex\<lparr>x_queue := q\<rparr>, Panic)
                   | (q, Ok _) \<Rightarrow>
                       (case issue_authority (e_platform env) to_str persist eid action params (x_fences ex) of
                          None \<Rightarrow> None
                        | Some (fs, Err e) \<Rightarrow> Some (\<lparr>x_queue = q, x_fences = fs\<rparr>, respond rid (Err e))
                        | Some (fs, Panic) \<Rightarrow> Some (\<lparr>x_queue = q, x_fences = fs\<rparr>, Panic)
                        | Some (fs, Ok params') \<Rightarrow>
                            (case desktop_dispatch env 2 action params' q of
                               (q, r) \<Rightarrow> Some (\<lparr>x_queue = q, x_fences = fs\<rparr>, respond rid r))))))"

section \<open>A request as a sequence of queue calls\<close>

definition reconcile_ops :: "dispatch_view \<Rightarrow> nat \<Rightarrow> desktop_queue \<Rightarrow> desk_op list" where
  "reconcile_ops v k q =
     (if v_gate v k \<noteq> GateFree then []
      else v_others v k @ NeedsCleanup (v_moments v k 0)
           # (if snd (needs_cleanup (v_moments v k 0) (others v k q))
              then v_others v (k + 1) @ [CleanupDone (v_moments v k 1) (v_closed v k = None)]
              else []))"

definition uncertain_result :: "dispatch_view \<Rightarrow> string \<Rightarrow> json \<Rightarrow> json rpc \<Rightarrow> bool" where
  "uncertain_result v action params' result =
     desktop_dispatch_uncertain (v_is_uuid v) action (Option.bind (jget params' ''tool'') as_str) result"

definition protected_ops ::
  "dispatch_view \<Rightarrow> nat \<Rightarrow> (json \<Rightarrow> json rpc) \<Rightarrow> string \<Rightarrow> json \<Rightarrow> desktop_queue \<Rightarrow> desk_op list" where
  "protected_ops v k run action params q =
     v_others v k @ Begin (v_moments v k 0) action params
     # (case desktop_begin (v_moments v k 0) action params (others v k q) of
          (q1, Ok params') \<Rightarrow>
            v_others v (k + 1)
            @ (if run params' = Panic then []
               else End (v_moments v (k + 1) 0 0) (uncertain_result v action params' (run params'))
                    # (case desktop_end (v_moments v (k + 1) 0 0) (uncertain_result v action params' (run params'))
                              (others v (k + 1) q1) of
                         (q2, Ok _) \<Rightarrow> reconcile_ops v (k + 2) q2
                       | _ \<Rightarrow> []))
        | _ \<Rightarrow> [])"

definition inspection_ops ::
  "platform \<Rightarrow> dispatch_view \<Rightarrow> nat \<Rightarrow> string \<Rightarrow> json \<Rightarrow> desktop_queue \<Rightarrow> desk_op list" where
  "inspection_ops plat v k action params q =
     (if \<not> is_ok (validate_recovery_inspection_params action params) \<or> plat \<noteq> MacOS \<or> v_gate v k = GatePoisoned
      then []
      else v_others v k @ BeginInspection action params
           # (if is_ok (snd (begin_recovery_inspection action params (others v k q)))
              then v_others v (k + 1) @ [EndInspection] else []))"

definition command_ops :: "dispatch_view \<Rightarrow> nat \<Rightarrow> string \<Rightarrow> json \<Rightarrow> desktop_queue \<Rightarrow> desk_op list" where
  "command_ops v k action params q =
     v_others v k @ Command (v_moments v k) (v_uid v) (v_utok v) action params
     # (case command (v_moments v k) (v_uid v) (v_utok v) action params (others v k q) of
          (q1, Ok _) \<Rightarrow>
            reconcile_ops v (k + 1) q1
            @ (if action \<in> {''desktop.finish'', ''desktop.cancel''} \<and> is_ok (snd (reconcile_desktop v (k + 1) q1))
               then v_others v (k + 3) @ [Command (v_moments v (k + 3)) (v_uid v) (v_utok v) ''desktop.get'' params]
               else [])
        | _ \<Rightarrow> [])"

definition dispatch_ops :: "request_env \<Rightarrow> nat \<Rightarrow> string \<Rightarrow> json \<Rightarrow> desktop_queue \<Rightarrow> desk_op list" where
  "dispatch_ops env k action params q =
     (let v = e_view env
      in if recovery_request action params then inspection_ops (e_platform env) v k action params q
         else if starts_with ''desktop.'' action then command_ops v k action params q
         else if \<not> protected action then []
         else reconcile_ops v k q
              @ (case reconcile_desktop v k q of
                   (q1, Ok _) \<Rightarrow>
                     if v_gate v (k + 2) = GatePoisoned then []
                     else protected_ops v (k + 2) (e_run env action) action params q1
                 | _ \<Rightarrow> []))"

lemma foldl_others [simp]: "foldl desk_step q (v_others v k) = others v k q"
  by (simp add: others_def)

lemma reconcile_is_calls: "fst (reconcile_desktop v k q) = foldl desk_step q (reconcile_ops v k q)"
proof -
  obtain q1 c where n: "needs_cleanup (v_moments v k 0) (others v k q) = (q1, c)" by fastforce
  obtain q2 r where d: "cleanup_done (v_moments v k 1) (v_closed v k = None) (others v (k + 1) q1) = (q2, r)"
    by fastforce
  show ?thesis
    using d [simplified]
    by (cases "v_gate v k"; cases r) (simp_all add: reconcile_desktop_def reconcile_ops_def n Let_def)
qed

lemma protected_is_calls:
  "fst (run_protected v k run action params q) = foldl desk_step q (protected_ops v k run action params q)"
proof -
  obtain q1 b where b: "desktop_begin (v_moments v k 0) action params (others v k q) = (q1, b)" by fastforce
  show ?thesis
  proof (cases b)
    case (Ok p)
    let ?u = "uncertain_result v action p (run p)"
    obtain q2 e where e: "desktop_end (v_moments v (k + 1) 0 0) ?u (others v (k + 1) q1) = (q2, e)" by fastforce
    obtain q3 c where c: "reconcile_desktop v (k + 2) q2 = (q3, c)" by fastforce
    have q3: "q3 = foldl desk_step q2 (reconcile_ops v (k + 2) q2)" using reconcile_is_calls [of v "k + 2" q2] c by simp
    have u: "desktop_dispatch_uncertain (v_is_uuid v) action (Option.bind (jget p ''tool'') as_str) (run p) = ?u"
      by (simp add: uncertain_result_def)
    show ?thesis
      using b [simplified] e [simplified] c [simplified] by (cases e; cases c)
        (simp_all add: run_protected_def protected_ops_def Ok Let_def u q3)
  qed (simp_all add: run_protected_def protected_ops_def b)
qed

lemma inspection_is_calls:
  "fst (recovery_inspection_dispatch plat v k app inspect action params q)
     = foldl desk_step q (inspection_ops plat v k action params q)"
proof -
  obtain q1 b where b: "begin_recovery_inspection action params (others v k q) = (q1, b)" by fastforce
  show ?thesis
    by (cases "validate_recovery_inspection_params action params"; cases b)
      (simp_all add: recovery_inspection_dispatch_def recovery_inspection_dispatch_using_def inspection_ops_def
        lift_res_def b)
qed

lemma command_is_calls:
  "fst (sbind (command (v_moments v k) (v_uid v) (v_utok v) action params (others v k q)) (\<lambda>q result.
        sbind (reconcile_desktop v (k + 1) q) (\<lambda>q _.
          if action \<in> {''desktop.finish'', ''desktop.cancel''}
          then command (v_moments v (k + 3)) (v_uid v) (v_utok v) ''desktop.get'' params (others v (k + 3) q)
          else (q, Ok result))))
     = foldl desk_step q (command_ops v k action params q)"
proof -
  obtain q1 b where b: "command (v_moments v k) (v_uid v) (v_utok v) action params (others v k q) = (q1, b)"
    by fastforce
  obtain q3 c where c: "reconcile_desktop v (k + 1) q1 = (q3, c)" by fastforce
  have q3: "foldl desk_step q1 (reconcile_ops v (k + 1) q1) = q3"
    using reconcile_is_calls [of v "k + 1" q1] c by simp
  show ?thesis
    using c [simplified] q3 [simplified] by (cases b; cases c) (simp_all add: command_ops_def b)
qed

lemma dispatch_is_calls:
  "fst (desktop_dispatch env k action params q) = foldl desk_step q (dispatch_ops env k action params q)"
proof -
  obtain q1 c where c: "reconcile_desktop (e_view env) k q = (q1, c)" by fastforce
  have q1: "foldl desk_step q (reconcile_ops (e_view env) k q) = q1"
    using reconcile_is_calls [of "e_view env" k q] c by simp
  show ?thesis
    by (cases c)
      (simp_all add: desktop_dispatch_def dispatch_ops_def Let_def inspection_is_calls
        command_is_calls [simplified] protected_is_calls c q1)
qed

section \<open>After the action\<close>

text \<open>The queue after \<open>end\<close>, and what the rest of the request does to it.\<close>

lemma protected_tail:
  assumes "desktop_begin (v_moments v k 0) action params (others v k q) = (q1, Ok params')"
    and "run params' \<noteq> Panic"
    and "adm_run desk_fresh desk_step q (protected_ops v k run action params q)"
  obtains ops where
    "fst (run_protected v k run action params q) = foldl desk_step
       (fst (desktop_end (v_moments v (k + 1) 0 0) (uncertain_result v action params' (run params')) (others v (k + 1) q1))) ops"
    "adm_run desk_fresh desk_step
       (fst (desktop_end (v_moments v (k + 1) 0 0) (uncertain_result v action params' (run params')) (others v (k + 1) q1))) ops"
    "\<And>b. list_all b (v_others v (k + 2) @ v_others v (k + 3)) \<Longrightarrow> (\<And>w. b (NeedsCleanup w)) \<Longrightarrow>
       (\<And>w x. b (CleanupDone w x)) \<Longrightarrow> list_all b ops"
    "adm_run desk_fresh desk_step (others v k q) (Begin (v_moments v k 0) action params # v_others v (k + 1))"
    "adm_run desk_fresh desk_step q (v_others v k)"
proof -
  let ?u = "uncertain_result v action params' (run params')"
  obtain q2 e where e: "desktop_end (v_moments v (k + 1) 0 0) ?u (others v (k + 1) q1) = (q2, e)" by fastforce
  let ?ops = "if is_ok e then reconcile_ops v (k + 2) q2 else []"
  have begun: "fst (desktop_begin (v_moments v k 0) action params (others v k q)) = q1" using assms(1) by simp
  have ops: "protected_ops v k run action params q = v_others v k @ Begin (v_moments v k 0) action params
      # v_others v (k + 1) @ End (v_moments v (k + 1) 0 0) ?u # ?ops"
    using assms(1,2) e by (cases e) (simp_all add: protected_ops_def)
  show thesis
  proof (rule that [of ?ops])
    show "fst (run_protected v k run action params q)
        = foldl desk_step (fst (desktop_end (v_moments v (k + 1) 0 0) ?u (others v (k + 1) q1))) ?ops"
      unfolding protected_is_calls ops by (simp only: foldl_append foldl_Cons foldl_others desk_step.simps begun)
    show "adm_run desk_fresh desk_step
        (fst (desktop_end (v_moments v (k + 1) 0 0) ?u (others v (k + 1) q1))) ?ops"
      using assms(3) unfolding ops
      by (simp only: adm_run_append adm_run.simps foldl_append foldl_Cons foldl_others desk_step.simps begun)
    show "list_all b ?ops" if "list_all b (v_others v (k + 2) @ v_others v (k + 3))" "\<And>w. b (NeedsCleanup w)"
      "\<And>w x. b (CleanupDone w x)" for b
      using that by (simp add: reconcile_ops_def numeral_3_eq_3)
    show "adm_run desk_fresh desk_step (others v k q) (Begin (v_moments v k 0) action params # v_others v (k + 1))"
      "adm_run desk_fresh desk_step q (v_others v k)"
      using assms(3) unfolding ops
      by (simp_all only: adm_run_append adm_run.simps foldl_append foldl_Cons foldl_others desk_step.simps)
  qed
qed

lemma adm_run_both: "adm_run a step s es \<Longrightarrow> list_all b es \<Longrightarrow> adm_run (\<lambda>s e. a s e \<and> b e) step s es"
  by (induction es arbitrary: s) auto

lemma begun_inv:
  assumes "desk_inv q" and "adm_run desk_fresh desk_step q (v_others v k)"
    and "adm_run desk_fresh desk_step (others v k q) (Begin m action params # v_others v (k + 1))"
    and "desktop_begin m action params (others v k q) = (q1, r)"
  shows "desk_inv (others v (k + 1) q1)"
proof -
  have "desk_inv (others v k q)" using desk.run_inv [OF assms(1,2)] by simp
  from desk.run_inv [OF this assms(3)] assms(4) show ?thesis by simp
qed

lemma end_inv: "desk_inv q \<Longrightarrow> desk_inv (fst (desktop_end m u q))"
  using dinv.end_P by blast

fun begins_action :: "desk_op \<Rightarrow> bool" where
  "begins_action (Begin w action params) \<longleftrightarrow> True"
| "begins_action _ \<longleftrightarrow> False"

definition idle :: "desktop_queue \<Rightarrow> bool" where
  "idle q \<longleftrightarrow> desk_inv q \<and> \<not> in_flight q"

interpretation idle: desk_closed idle
proof unfold_locales
  show "idle (q\<lparr>jobs := js\<rparr>)" if "idle q" "list_all2 job_moves (jobs q) js" for q js
    using that by (simp add: idle_def inv_moves)
  show "idle (granted now i q)" if "idle q" "may_grant i q" for q now i
    using that by (simp add: idle_def inv_grant) (simp add: granted_def)
  show "idle (q\<lparr>jobs := jobs q @ [j]\<rparr>)" if "idle q" "fresh_job q j" for q j
    using that by (simp add: idle_def inv_submit)
qed (auto simp: idle_def desk_inv_def)

interpretation idle_end: desk_end_closed idle
  by unfold_locales (simp add: idle_def desk_inv_def)

interpretation idle_recover: desk_recover_closed idle
  by unfold_locales (simp add: idle_def desk_inv_def)

interpretation idle_maintenance: desk_maintenance_closed idle
  by unfold_locales (simp add: idle_def desk_inv_def)

interpretation desk_idle: invariant_machine desk_step "\<lambda>q e. desk_fresh q e \<and> \<not> begins_action e" idle
  by unfold_locales
     (rule idle.step_P; auto simp: idle_end.end_P idle_recover.recover_P idle_maintenance.maintenance_P)

section \<open>Outcomes of a request\<close>

lemma may_change_queued:
  assumes "may_change plat action"
  shows "action \<notin> unqueued_actions"
proof
  assume "action \<in> unqueued_actions"
  then have "action = ''ping'' \<or> action = ''status'' \<or> action = ''availability'' \<or> action = ''capability.list''"
    unfolding unqueued_actions_def by (elim insertE emptyE) simp_all
  moreover have "\<not> may_change plat ''ping''" "\<not> may_change plat ''status''"
    "\<not> may_change plat ''availability''" "\<not> may_change plat ''capability.list''"
    by (induct plat; code_simp)+
  ultimately show False using assms by (elim disjE) simp_all
qed

lemma respond_ok: "respond rid r = Ok resp \<and> rs_ok resp \<longleftrightarrow> (\<exists>v. r = Ok v \<and> resp = response_success rid v)"
  by (cases r) (auto simp: respond_def response_success_def response_failure_def)

lemma handle_Ok:
  assumes "handle env to_str persist eid acquire rq ex = Some (ex', Ok resp)" and "rs_ok resp"
  obtains need q fs' params' q' x where
    "request_resources (e_platform env) to_str eid (rq_action rq) (rq_params rq) = Some (Ok need)"
    "acquire_permit acquire need = Ok ()"
    "issue_authority (e_platform env) to_str persist eid (rq_action rq) (rq_params rq) (x_fences ex) = Some (fs', Ok params')"
    "desktop_dispatch env 2 (rq_action rq) params' q = (q', Ok x)"
    "ex' = \<lparr>x_queue = q', x_fences = fs'\<rparr>" "resp = response_success (rq_request_id rq) x"
proof -
  have failed: False if "respond rid (Err e) = Ok resp" for rid e
    using that assms(2) by (auto simp: respond_def response_failure_def)
  obtain r where r: "request_resources (e_platform env) to_str eid (rq_action rq) (rq_params rq) = Some r"
    using assms(1) by (cases "request_resources (e_platform env) to_str eid (rq_action rq) (rq_params rq)")
      (simp_all add: handle_def Let_def)
  obtain need where need: "r = Ok need" "acquire_permit acquire need = Ok ()"
    using assms(1) r failed by (cases r; cases "and_then r (acquire_permit acquire)") (auto simp: handle_def Let_def)
  obtain q c where c: "reconcile_desktop_if (e_view env) 0 (\<not> recovery_request (rq_action rq) (rq_params rq)) (x_queue ex) = (q, c)"
    by fastforce
  obtain u where u: "c = Ok u"
    using assms(1) r need c failed by (cases c) (auto simp: handle_def Let_def)
  obtain fs' i where i: "issue_authority (e_platform env) to_str persist eid (rq_action rq) (rq_params rq) (x_fences ex) = Some (fs', i)"
    using assms(1) r need c u
    by (cases "issue_authority (e_platform env) to_str persist eid (rq_action rq) (rq_params rq) (x_fences ex)")
      (auto simp: handle_def Let_def)
  obtain params' where p: "i = Ok params'"
    using assms(1) r need c u i failed by (cases i) (auto simp: handle_def Let_def)
  obtain q' o' where o: "desktop_dispatch env 2 (rq_action rq) params' q = (q', o')" by fastforce
  have "ex' = \<lparr>x_queue = q', x_fences = fs'\<rparr>" "respond (rq_request_id rq) o' = Ok resp"
    using assms(1) r need c u i p o by (auto simp: handle_def Let_def)
  moreover obtain x where "o' = Ok x" "resp = response_success (rq_request_id rq) x"
    using respond_ok [of "rq_request_id rq" o' resp] calculation(2) assms(2) by auto
  ultimately show thesis using that r need i p o by blast
qed

section \<open>Guarantees\<close>


text \<open>C10: an action whose outcome is in doubt leaves the desktop quarantined when its request
  returns, whatever the other threads do meanwhile short of a confirmed recovery, and no
  further action is admitted.\<close>
theorem doubtful_action_quarantines:
  assumes "desk_inv q" and "adm_run desk_fresh desk_step q (protected_ops v k run action params q)"
    and "desktop_begin (v_moments v k 0) action params (others v k q) = (q1, Ok params')"
    and "run params' \<noteq> Panic"
    and "desktop_dispatch_uncertain (v_is_uuid v) action (Option.bind (jget params' ''tool'') as_str) (run params')"
    and "list_all (\<lambda>e. \<not> confirmed_recovery e) (v_others v (k + 2) @ v_others v (k + 3))"
  shows "blocked (fst (run_protected v k run action params q))
    \<and> \<not> is_ok (snd (desktop_begin w b params2 (fst (run_protected v k run action params q))))"
proof -
  let ?u = "uncertain_result v action params' (run params')"
  let ?q2 = "fst (desktop_end (v_moments v (k + 1) 0 0) ?u (others v (k + 1) q1))"
  obtain ops where ops: "fst (run_protected v k run action params q) = foldl desk_step ?q2 ops"
      "adm_run desk_fresh desk_step ?q2 ops" "list_all (\<lambda>e. \<not> confirmed_recovery e) ops"
      "adm_run desk_fresh desk_step (others v k q) (Begin (v_moments v k 0) action params # v_others v (k + 1))"
      "adm_run desk_fresh desk_step q (v_others v k)"
    using protected_tail [OF assms(3,4,2)] assms(6) by (metis confirmed_recovery.simps)
  have "desk_inv ?q2" by (intro end_inv begun_inv [OF assms(1) ops(5,4) assms(3)])
  moreover have "blocked ?q2" using assms(5) by (simp add: desktop_end_def uncertain_result_def)
  ultimately have "quarantined ?q2 ?q2" by (simp add: quarantined_def)
  from desk_quar.run_inv [OF this adm_run_both [OF ops(2,3)]] show ?thesis
    by (simp add: ops(1) quarantined_def desktop_begin_def)
qed

text \<open>An action that returns, with success, an error or in doubt, frees the desktop: no
  action is in flight any more, unless another thread has begun one since.\<close>
theorem action_frees_desktop:
  assumes "desk_inv q" and "adm_run desk_fresh desk_step q (protected_ops v k run action params q)"
    and "desktop_begin (v_moments v k 0) action params (others v k q) = (q1, Ok params')"
    and "run params' \<noteq> Panic"
    and "list_all (\<lambda>e. \<not> begins_action e) (v_others v (k + 2) @ v_others v (k + 3))"
  shows "\<not> in_flight (fst (run_protected v k run action params q))"
proof -
  let ?u = "uncertain_result v action params' (run params')"
  let ?q2 = "fst (desktop_end (v_moments v (k + 1) 0 0) ?u (others v (k + 1) q1))"
  obtain ops where ops: "fst (run_protected v k run action params q) = foldl desk_step ?q2 ops"
      "adm_run desk_fresh desk_step ?q2 ops" "list_all (\<lambda>e. \<not> begins_action e) ops"
      "adm_run desk_fresh desk_step (others v k q) (Begin (v_moments v k 0) action params # v_others v (k + 1))"
      "adm_run desk_fresh desk_step q (v_others v k)"
    using protected_tail [OF assms(3,4,2)] assms(5) by (metis begins_action.simps)
  have "desk_inv ?q2" by (intro end_inv begun_inv [OF assms(1) ops(5,4) assms(3)])
  then have "idle ?q2" by (simp add: idle_def desktop_end_def)
  from desk_idle.run_inv [OF this adm_run_both [OF ops(2,3)]] show ?thesis
    by (simp add: ops(1) idle_def)
qed


section \<open>Instances\<close>

text \<open>A request during which another thread lets the queue's worker run; the gate is free and
  closing the host succeeds.\<close>

definition sample_view :: dispatch_view where
  "sample_view =
     \<lparr>v_gate = (\<lambda>_. GateFree), v_closed = (\<lambda>_. None), v_moments = (\<lambda>_ _ _. sample_moment),
      v_others = (\<lambda>k. if k = 3 then [WorkerReconcile sample_times True] else []),
      v_uid = ''job-9'', v_utok = ''token-9'', v_is_uuid = (\<lambda>_. True)\<rparr>"

definition sample_timeout :: "json \<Rightarrow> json rpc" where
  "sample_timeout params = Err (rpc_error_new ''COMPUTER_USE_TIMEOUT'' ''no answer'')"

definition sample_env :: request_env where
  "sample_env =
     \<lparr>e_platform = MacOS, e_view = sample_view, e_run = (\<lambda>_. sample_timeout),
      e_application_path = Ok ''/a'', e_inspect = (\<lambda>_. Ok JNull)\<rparr>"

lemma sample_inv: "desk_inv sample_active"
  by code_simp


lemma sample_protected:
  "adm_run desk_fresh desk_step sample_active
     (protected_ops sample_view 2 sample_timeout ''ui.click'' sample_credentials sample_active)"
  "desktop_begin (v_moments sample_view 2 0) ''ui.click'' sample_credentials (others sample_view 2 sample_active)
     = (sample_begun, Ok sample_credentials)"
  by code_simp+

lemma sample_returns: "sample_timeout sample_credentials \<noteq> Panic"
  by (simp add: sample_timeout_def)

theorem doubtful_action_quarantines_witness:
  "blocked (fst (run_protected sample_view 2 sample_timeout ''ui.click'' sample_credentials sample_active))"
proof -
  have u: "desktop_dispatch_uncertain (v_is_uuid sample_view) ''ui.click''
      (Option.bind (jget sample_credentials ''tool'') as_str) (sample_timeout sample_credentials)"
    and o: "list_all (\<lambda>e. \<not> confirmed_recovery e) (v_others sample_view (2 + 2) @ v_others sample_view (2 + 3))"
    by code_simp+
  show ?thesis
    using doubtful_action_quarantines [OF sample_inv sample_protected sample_returns u o] by blast
qed

theorem action_frees_desktop_witness:
  "\<not> in_flight (fst (run_protected sample_view 2 sample_timeout ''ui.click'' sample_credentials sample_active))"
proof -
  have o: "list_all (\<lambda>e. \<not> begins_action e) (v_others sample_view (2 + 2) @ v_others sample_view (2 + 3))"
    by code_simp
  show ?thesis by (rule action_frees_desktop [OF sample_inv sample_protected sample_returns o])
qed

definition sample_written :: request_env where
  "sample_written = sample_env\<lparr>e_platform := OtherPlatform, e_run := (\<lambda>_ _. Ok (JBool True))\<rparr>"

definition sample_request :: request where
  "sample_request = \<lparr>rq_api_version = RPC_VERSION, rq_request_id = ''r1'', rq_correlation_id = None,
     rq_parent_request_id = None, rq_action = ''fs.write'', rq_params = sample_write\<rparr>"

definition sample_executor :: executor_state where
  "sample_executor = \<lparr>x_queue = queue_default, x_fences = Some sample_fences\<rparr>"


end
