(* ===== verification/Fabric_Store.thy ===== *)
theory Fabric_Store
  imports Schema_Types
begin

text \<open>
  The durable state of a controller (\<open>store.rs\<close>): \<open>fabric_state\<close> and the way \<open>JsonStore\<close>
  saves it, by writing a temporary file, syncing it and renaming it over the old one. A save is
  a sequence of file system steps; each step's outcome is an observation \<open>io\<close>, and a failed
  write may leave any content in the temporary file. \<open>save_run\<close> returns every file system the
  save passes through, so that a crash at any moment is one of them. The encoder and decoder
  of the state (derived by serde) are the parameters \<open>encode\<close> and \<open>decode\<close>.
\<close>

record fabric_state =
  fs_controller_id :: "string option"
  fs_sessions :: "workspace_session list"
  fs_executors :: "executor_entry list"
  fs_controllers :: "controller_peer list"
  fs_leases :: "lease list"
  fs_lease_fences :: "u64 btree"
  fs_tasks :: "task list"
  fs_artifacts :: "artifact list"
  fs_generations :: "generation list"
  fs_transactions :: "activation_transaction list"
  fs_agents :: "agent_instance list"
  fs_handoffs :: "handoff list"
  fs_approvals :: "approval list"

definition fabric_state_default :: fabric_state where
  "fabric_state_default =
     \<lparr>fs_controller_id = None, fs_sessions = [], fs_executors = [], fs_controllers = [], fs_leases = [],
      fs_lease_fences = [], fs_tasks = [], fs_artifacts = [], fs_generations = [], fs_transactions = [],
      fs_agents = [], fs_handoffs = [], fs_approvals = []\<rparr>"

datatype store_error =
    StoreIo string
  | StoreJson string
  | ControllerIdentityMismatch string string

section \<open>Saving and loading\<close>

type_synonym files = "string \<Rightarrow> string option"

datatype io_step = MakeParent | OpenTemporary | EncodeState | WriteBody | WriteNewline | SyncTemporary | RenameTemporary

text \<open>A failed step reports an error; \<open>left\<close> is what a failed write leaves in the file.\<close>

datatype io_outcome = IoOk | IoFail (reason: string) (left: string)

definition temporary_path :: "string \<Rightarrow> string \<Rightarrow> string \<Rightarrow> string" where
  "temporary_path dir name uuid = dir @ ''.'' @ name @ ''.'' @ uuid @ ''.tmp''"

definition io_effect :: "string \<Rightarrow> string \<Rightarrow> string \<Rightarrow> io_step \<Rightarrow> files \<Rightarrow> files" where
  "io_effect path temporary body s fs =
     (case s of
        OpenTemporary \<Rightarrow> fs(temporary := Some [])
      | WriteBody \<Rightarrow> fs(temporary := Some body)
      | WriteNewline \<Rightarrow> fs(temporary := Some (body @ [CHR 0x0A]))
      | RenameTemporary \<Rightarrow> fs(path := fs temporary, temporary := None)
      | _ \<Rightarrow> fs)"

definition io_damage :: "string \<Rightarrow> io_step \<Rightarrow> string \<Rightarrow> files \<Rightarrow> files" where
  "io_damage temporary s x fs =
     (if s = WriteBody \<or> s = WriteNewline then fs(temporary := Some x) else fs)"

definition io_error :: "string \<Rightarrow> io_step \<Rightarrow> string \<Rightarrow> store_error" where
  "io_error temporary s e =
     (case s of
        EncodeState \<Rightarrow> StoreJson e
      | WriteBody \<Rightarrow> StoreIo (''write state temp '' @ temporary @ '': '' @ e)
      | WriteNewline \<Rightarrow> StoreIo (''write state temp '' @ temporary @ '': '' @ e)
      | SyncTemporary \<Rightarrow> StoreIo (''sync state temp '' @ temporary @ '': '' @ e)
      | RenameTemporary \<Rightarrow> StoreIo (''rename state temp '' @ temporary @ '': '' @ e)
      | _ \<Rightarrow> StoreIo e)"

text \<open>The steps one after the other, up to the first that fails.\<close>

fun run_steps ::
  "(io_step \<Rightarrow> io_outcome) \<Rightarrow> string \<Rightarrow> string \<Rightarrow> string \<Rightarrow> io_step list \<Rightarrow> files
     \<Rightarrow> files list \<times> (store_error, unit) outcome" where
  "run_steps io path temporary body [] fs = ([fs], Ok ())"
| "run_steps io path temporary body (s # ss) fs =
     (case io s of
        IoOk \<Rightarrow>
          let (seen, r) = run_steps io path temporary body ss (io_effect path temporary body s fs)
          in (fs # seen, r)
      | IoFail e x \<Rightarrow> ([fs, io_damage temporary s x fs], Err (io_error temporary s e)))"

text \<open>
  What a step can observe: opening the temporary file fails when it exists (\<open>create_new\<close>),
  and encoding fails when the encoder does.
\<close>

definition save_io ::
  "(io_step \<Rightarrow> io_outcome) \<Rightarrow> (string, string) outcome \<Rightarrow> files \<Rightarrow> string \<Rightarrow> io_step \<Rightarrow> io_outcome" where
  "save_io io body fs temporary s =
     (if s = EncodeState then (case body of Ok _ \<Rightarrow> IoOk | Err e \<Rightarrow> IoFail e [] | Panic \<Rightarrow> IoOk)
      else if s = OpenTemporary \<and> fs temporary \<noteq> None then IoFail ''File exists (os error 17)'' []
      else io s)"

text \<open>\<open>save_inner\<close>: a failure after the parent directory exists removes the temporary file,
  when that removal succeeds (\<open>removed\<close>).\<close>

definition save_run ::
  "(io_step \<Rightarrow> io_outcome) \<Rightarrow> bool \<Rightarrow> (fabric_state \<Rightarrow> (string, string) outcome) \<Rightarrow> string \<Rightarrow> string \<Rightarrow> string
     \<Rightarrow> fabric_state \<Rightarrow> files \<Rightarrow> files list \<times> (store_error, unit) outcome" where
  "save_run io removed encode dir name uuid state fs =
     (let path = dir @ name;
          temporary = temporary_path dir name uuid;
          body = (case encode state of Ok b \<Rightarrow> b | _ \<Rightarrow> []);
          io' = save_io io (encode state) fs temporary
      in case io' MakeParent of
           IoFail e x \<Rightarrow> ([fs], Err (io_error temporary MakeParent e))
         | IoOk \<Rightarrow>
             (case run_steps io' path temporary body
                     [OpenTemporary, EncodeState, WriteBody, WriteNewline, SyncTemporary, RenameTemporary] fs of
                (seen, Err e) \<Rightarrow>
                  (if removed then seen @ [(last seen)(temporary := None)] else seen, Err e)
              | r \<Rightarrow> r))"

definition load :: "(string \<Rightarrow> (string, fabric_state) outcome) \<Rightarrow> string option \<Rightarrow> string \<Rightarrow> files
     \<Rightarrow> (store_error, fabric_state) outcome" where
  "load decode unreadable path fs =
     (case fs path of
        None \<Rightarrow> Ok fabric_state_default
      | Some bytes \<Rightarrow>
          (case unreadable of
             Some e \<Rightarrow> Err (StoreIo e)
           | None \<Rightarrow> (case decode bytes of Ok s \<Rightarrow> Ok s | Err e \<Rightarrow> Err (StoreJson e) | Panic \<Rightarrow> Panic)))"

section \<open>Atomicity\<close>

lemma temporary_differs: "temporary_path dir name uuid \<noteq> dir @ name"
  by (simp add: temporary_path_def)

text \<open>Every file system a save passes through has the old file or the whole new one in place,
  and differs from the first only there and at the temporary path.\<close>

definition old_or_new :: "string \<Rightarrow> string \<Rightarrow> string \<Rightarrow> files \<Rightarrow> files \<Rightarrow> bool" where
  "old_or_new path temporary body fs f \<longleftrightarrow>
     (f path = fs path \<or> f path = Some (body @ [CHR 0x0A]))
     \<and> (\<forall>p. p \<noteq> path \<and> p \<noteq> temporary \<longrightarrow> f p = fs p)"

lemma run_steps_outcomes:
  assumes "temporary \<noteq> path"
    and "run_steps io path temporary body
           [OpenTemporary, EncodeState, WriteBody, WriteNewline, SyncTemporary, RenameTemporary] fs = (seen, r)"
  shows "seen \<noteq> [] \<and> list_all (old_or_new path temporary body fs) seen
    \<and> (r = Ok () \<longrightarrow> last seen path = Some (body @ [CHR 0x0A]))
    \<and> (r \<noteq> Ok () \<longrightarrow> last seen path = fs path) \<and> r \<noteq> Panic
    \<and> (r = Ok () \<longrightarrow> io EncodeState = IoOk)"
  using assms
  by (cases "io OpenTemporary"; cases "io EncodeState"; cases "io WriteBody"; cases "io WriteNewline";
      cases "io SyncTemporary"; cases "io RenameTemporary")
    (auto simp: io_effect_def io_damage_def old_or_new_def)

lemma save_run_outcomes:
  assumes "save_run io removed encode dir name uuid state fs = (seen, r)"
  shows "seen \<noteq> [] \<and> list_all (old_or_new (dir @ name) (temporary_path dir name uuid)
             (case encode state of Ok b \<Rightarrow> b | _ \<Rightarrow> []) fs) seen
    \<and> (r = Ok () \<longrightarrow> last seen (dir @ name) = Some ((case encode state of Ok b \<Rightarrow> b | _ \<Rightarrow> []) @ [CHR 0x0A]))
    \<and> (r \<noteq> Ok () \<longrightarrow> last seen (dir @ name) = fs (dir @ name)) \<and> r \<noteq> Panic"
proof -
  let ?t = "temporary_path dir name uuid" and ?p = "dir @ name"
  let ?b = "case encode state of Ok b \<Rightarrow> b | _ \<Rightarrow> []"
  let ?io = "save_io io (encode state) fs ?t"
  obtain seen' r' where steps: "run_steps ?io ?p ?t ?b
      [OpenTemporary, EncodeState, WriteBody, WriteNewline, SyncTemporary, RenameTemporary] fs = (seen', r')"
    by fastforce
  note out = run_steps_outcomes [OF temporary_differs steps]
  have last: "old_or_new ?p ?t ?b fs (last seen')" using out by (auto simp: list_all_iff)
  then have gone: "old_or_new ?p ?t ?b fs ((last seen')(?t := None))"
    using temporary_differs [of dir name uuid] by (auto simp: old_or_new_def)
  have "old_or_new ?p ?t ?b fs fs" by (simp add: old_or_new_def)
  then show ?thesis
    using assms out gone temporary_differs [of dir name uuid] steps
    by (cases "?io MakeParent"; cases r'; cases removed) (auto simp: save_run_def Let_def)
qed


section \<open>Instances\<close>

definition sample_encode :: "fabric_state \<Rightarrow> (string, string) outcome" where
  "sample_encode s = Ok (case fs_controller_id s of Some i \<Rightarrow> i | None \<Rightarrow> ''-'')"

definition sample_decode :: "string \<Rightarrow> (string, fabric_state) outcome" where
  "sample_decode b = Ok (fabric_state_default\<lparr>fs_controller_id := Some (butlast b)\<rparr>)"


end
