(* ===== verification/Task_Payloads.thy ===== *)
theory Task_Payloads
  imports Task_Table
begin

text \<open>
  Large task payloads (\<open>controller.rs\<close>, \<open>task_with_payload\<close> to \<open>write_task_payload\<close>): when
  the state is saved, inputs and outputs of finished tasks above the inline limit move to files
  named by their digest, and a reference takes their place; reading a task puts them back. Files
  beside the state file are a map from paths to contents. What the surroundings contribute is a
  \<open>payload_env\<close>: where the state file is, the SHA-256 function of the library, the JSON encoder
  and decoder of the library, and the faults of the file system.
\<close>

record payload_env =
  pe_dir :: string
  pe_name :: string
  pe_sha :: "string \<Rightarrow> string"
  pe_to_vec :: "json \<Rightarrow> (string, string) outcome"
  pe_from_slice :: "string \<Rightarrow> (string, json) outcome"
  pe_read_fault :: "string \<Rightarrow> string option"
  pe_write_fault :: "string \<Rightarrow> string option"
  pe_unix :: bool

type_synonym payload_files = "string \<Rightarrow> string option"

definition TASK_PAYLOAD_INLINE_LIMIT :: nat where
  "TASK_PAYLOAD_INLINE_LIMIT = 64 * 1024"

definition payload_unavailable :: "string \<Rightarrow> rpc_error" where
  "payload_unavailable reason = rpc_error_new ''TASK_PAYLOAD_UNAVAILABLE'' reason"

definition payload_error :: "task_payload_ref \<Rightarrow> string \<Rightarrow> rpc_error" where
  "payload_error r reason =
     payload_unavailable (reason @ '' (digest='' @ pr_digest r @ '', locator='' @ pr_locator r @ '')'')"

definition is_ascii_hexdigit :: "char \<Rightarrow> bool" where
  "is_ascii_hexdigit c =
     (let n = of_char c :: nat in (48 \<le> n \<and> n \<le> 57) \<or> (65 \<le> n \<and> n \<le> 70) \<or> (97 \<le> n \<and> n \<le> 102))"

definition strip_prefix :: "string \<Rightarrow> string \<Rightarrow> string option" where
  "strip_prefix p s = (if take (length p) s = p then Some (drop (length p) s) else None)"

definition valid_payload_digest :: "string \<Rightarrow> bool" where
  "valid_payload_digest digest =
     (case strip_prefix ''sha256:'' digest of
        None \<Rightarrow> False
      | Some hex \<Rightarrow> length hex = 64 \<and> list_all is_ascii_hexdigit hex)"

section \<open>Reading\<close>

definition read_payload_bytes ::
  "payload_env \<Rightarrow> payload_files \<Rightarrow> string \<Rightarrow> u64 \<Rightarrow> string \<Rightarrow> string rpc" where
  "read_payload_bytes pe files path sz digest =
     (let invalid = (\<lambda>reason. Err (payload_unavailable (path @ '': '' @ reason)))
      in case pe_read_fault pe path of
           Some e \<Rightarrow> invalid e
         | None \<Rightarrow>
             (case files path of
                None \<Rightarrow> invalid ''No such file or directory (os error 2)''
              | Some bytes \<Rightarrow>
                  if of_nat (length bytes) \<noteq> sz then invalid ''byte count mismatch''
                  else if pe_sha pe bytes \<noteq> digest then invalid ''SHA-256 or byte count mismatch''
                  else Ok bytes))"

definition payload_path :: "payload_env \<Rightarrow> string \<Rightarrow> string" where
  "payload_path pe locator = pe_dir pe @ ''/'' @ locator"

definition read_task_payload :: "payload_env \<Rightarrow> payload_files \<Rightarrow> task_payload_ref \<Rightarrow> json rpc" where
  "read_task_payload pe files r =
     (if \<not> valid_payload_digest (pr_digest r) then Err (payload_error r ''invalid digest'')
      else
        let expected_locator = ''task-payloads/'' @ drop 7 (pr_digest r) @ ''.json'';
            legacy_locator = ''task-payloads/'' @ pr_digest r @ ''.json'';
            locator_valid = (pr_locator r = expected_locator \<or> (pe_unix pe \<and> pr_locator r = legacy_locator))
        in if \<not> locator_valid then Err (payload_error r ''locator is not the canonical digest path'')
           else and_then (read_payload_bytes pe files (payload_path pe (pr_locator r)) (pr_bytes r) (pr_digest r))
                  (\<lambda>bytes. case pe_from_slice pe bytes of
                     Ok v \<Rightarrow> Ok v
                   | Err e \<Rightarrow> Err (payload_error r (''invalid JSON: '' @ e))
                   | Panic \<Rightarrow> Panic))"

section \<open>Payloads of earlier releases\<close>

definition is_lower_hex :: "char \<Rightarrow> bool" where
  "is_lower_hex c = (let n = of_char c :: nat in (48 \<le> n \<and> n \<le> 57) \<or> (97 \<le> n \<and> n \<le> 102))"

definition object_size :: "json \<Rightarrow> nat option" where
  "object_size v = map_option length (as_object v)"

definition marker_digest :: "json \<Rightarrow> string option" where
  "marker_digest marker =
     (case Option.bind (jget marker ''sha256'') as_str of
        Some d \<Rightarrow> if length d = 64 \<and> list_all is_lower_hex d then Some d else None
      | None \<Rightarrow> None)"

definition deployed_payload :: "payload_env \<Rightarrow> payload_files \<Rightarrow> json \<Rightarrow> json option rpc" where
  "deployed_payload pe files v =
     (case jget v ''$machineFabricPayload'' of
        None \<Rightarrow> Ok None
      | Some marker \<Rightarrow>
          if object_size v \<noteq> Some 1 \<or> object_size marker \<noteq> Some 2
          then Err (payload_unavailable ''invalid deployed payload marker fields'')
          else and_then (ok_or (marker_digest marker) (payload_unavailable ''invalid deployed payload digest''))
            (\<lambda>digest. and_then (ok_or (Option.bind (jget marker ''bytes'') as_u64)
                                  (payload_unavailable ''invalid deployed payload byte count''))
            (\<lambda>sz. and_then (read_payload_bytes pe files
                                (pe_dir pe @ ''/'' @ pe_name pe @ ''.payloads/'' @ digest @ ''.json'')
                                sz (''sha256:'' @ digest))
            (\<lambda>bytes. case pe_from_slice pe bytes of
                Ok x \<Rightarrow> Ok (Some x)
              | Err e \<Rightarrow> Err (payload_unavailable (''invalid deployed payload JSON: '' @ e))
              | Panic \<Rightarrow> Panic))))"

definition hydrate_deployed_payload :: "payload_env \<Rightarrow> payload_files \<Rightarrow> json \<Rightarrow> json rpc" where
  "hydrate_deployed_payload pe files v =
     and_then (deployed_payload pe files v) (\<lambda>r. Ok (case r of Some x \<Rightarrow> x | None \<Rightarrow> v))"

fun hydrate_events :: "payload_env \<Rightarrow> payload_files \<Rightarrow> task_event list \<Rightarrow> task_event list rpc" where
  "hydrate_events pe files [] = Ok []"
| "hydrate_events pe files (e # es) =
     and_then (hydrate_deployed_payload pe files (ev_details e)) (\<lambda>d.
       and_then (hydrate_events pe files es) (\<lambda>rest. Ok (e\<lparr>ev_details := d\<rparr> # rest)))"

definition hydrate_opt :: "('a \<Rightarrow> 'b rpc) \<Rightarrow> 'a option \<Rightarrow> 'b option rpc" where
  "hydrate_opt f x = (case x of None \<Rightarrow> Ok None | Some a \<Rightarrow> and_then (f a) (\<lambda>b. Ok (Some b)))"

definition task_with_payload :: "payload_env \<Rightarrow> payload_files \<Rightarrow> task \<Rightarrow> task rpc" where
  "task_with_payload pe files task =
     and_then (case t_input_ref task of
                 Some r \<Rightarrow> read_task_payload pe files r | None \<Rightarrow> Ok (t_input task)) (\<lambda>inp.
     and_then (case t_output_ref task of
                 Some r \<Rightarrow> and_then (read_task_payload pe files r) (\<lambda>v. Ok (Some v))
               | None \<Rightarrow> Ok (t_output task)) (\<lambda>outp.
     and_then (hydrate_deployed_payload pe files inp) (\<lambda>inp.
     and_then (hydrate_opt (hydrate_deployed_payload pe files) outp) (\<lambda>outp.
     and_then (hydrate_opt (\<lambda>e. and_then (hydrate_deployed_payload pe files (tf_details e))
                 (\<lambda>d. Ok (e\<lparr>tf_details := d\<rparr>))) (t_error task)) (\<lambda>err.
     and_then (hydrate_events pe files (t_events task)) (\<lambda>evs.
       Ok (task\<lparr>t_input := inp, t_output := outp, t_error := err, t_events := evs\<rparr>)))))))"

section \<open>Writing\<close>

definition payload_marker :: "task_payload_ref \<Rightarrow> json" where
  "payload_marker r = jobj [(''$taskPayloadRef'', JStr (pr_digest r)), (''bytes'', ju64 (pr_bytes r))]"

definition payload_ref_of :: "payload_env \<Rightarrow> string \<Rightarrow> task_payload_ref" where
  "payload_ref_of pe bytes =
     \<lparr>pr_digest = pe_sha pe bytes, pr_bytes = of_nat (length bytes),
      pr_locator = ''task-payloads/'' @ drop 7 (pe_sha pe bytes) @ ''.json'', pr_chunk = None\<rparr>"

definition write_task_payload ::
  "payload_env \<Rightarrow> string \<Rightarrow> payload_files \<Rightarrow> payload_files \<times> task_payload_ref rpc" where
  "write_task_payload pe bytes files =
     (let r = payload_ref_of pe bytes;
          path = payload_path pe (pr_locator r)
      in if files path \<noteq> None
         then (files, and_then (read_payload_bytes pe files path (of_nat (length bytes)) (pr_digest r)) (\<lambda>_. Ok r))
         else case pe_write_fault pe path of
                Some e \<Rightarrow> (files, Err (rpc_error_new ''STATE_PAYLOAD_WRITE_FAILED'' e))
              | None \<Rightarrow> (files(path := Some bytes), Ok r))"

definition encode_payload :: "payload_env \<Rightarrow> json \<Rightarrow> string rpc" where
  "encode_payload pe v =
     (case pe_to_vec pe v of
        Ok b \<Rightarrow> Ok b
      | Err e \<Rightarrow> Err (rpc_error_new ''STATE_PAYLOAD_ENCODE_FAILED'' e)
      | Panic \<Rightarrow> Panic)"

text \<open>One payload field: left alone when it is already a reference or small enough.\<close>

definition externalize_value ::
  "payload_env \<Rightarrow> json \<Rightarrow> payload_files \<Rightarrow> payload_files \<times> task_payload_ref option rpc" where
  "externalize_value pe v files =
     sbind (lift_res files (encode_payload pe v)) (\<lambda>files bytes.
       if length bytes > TASK_PAYLOAD_INLINE_LIMIT
       then sbind (write_task_payload pe bytes files) (\<lambda>files r. (files, Ok (Some r)))
       else (files, Ok None))"

record payload_update =
  pu_id :: string
  pu_revision :: u64
  pu_input :: "(json \<times> task_payload_ref) option"
  pu_output :: "(json \<times> task_payload_ref) option"

definition with_input_ref :: "task \<Rightarrow> task_payload_ref option \<Rightarrow> task" where
  "with_input_ref task x =
     (case x of None \<Rightarrow> task | Some r \<Rightarrow> task\<lparr>t_input := payload_marker r, t_input_ref := Some r\<rparr>)"

definition with_output_ref :: "task \<Rightarrow> task_payload_ref option \<Rightarrow> task" where
  "with_output_ref task x =
     (case x of None \<Rightarrow> task | Some r \<Rightarrow> task\<lparr>t_output := Some (payload_marker r), t_output_ref := Some r\<rparr>)"

definition update_of ::
  "task \<Rightarrow> task_payload_ref option \<Rightarrow> task_payload_ref option \<Rightarrow> payload_update list" where
  "update_of task i x =
     (if i = None \<and> x = None then []
      else [\<lparr>pu_id = t_id task, pu_revision = t_revision task,
             pu_input = map_option (\<lambda>r. (payload_marker r, r)) i,
             pu_output = map_option (\<lambda>r. (payload_marker r, r)) x\<rparr>])"

definition externalize_task ::
  "payload_env \<Rightarrow> task \<Rightarrow> payload_files \<Rightarrow> payload_files \<times> (task \<times> payload_update list) rpc" where
  "externalize_task pe task files =
     (if \<not> terminal (t_state task) then (files, Ok (task, []))
      else
        sbind (if t_input_ref task = None then externalize_value pe (t_input task) files else (files, Ok None))
          (\<lambda>files i.
        sbind (case t_output task of
                 Some v \<Rightarrow> if t_output_ref task = None then externalize_value pe v files else (files, Ok None)
               | None \<Rightarrow> (files, Ok None))
          (\<lambda>files x. (files, Ok (with_output_ref (with_input_ref task i) x, update_of task i x)))))"

fun externalize_task_payloads ::
  "payload_env \<Rightarrow> task list \<Rightarrow> payload_files \<Rightarrow> payload_files \<times> (task list \<times> payload_update list) rpc" where
  "externalize_task_payloads pe [] files = (files, Ok ([], []))"
| "externalize_task_payloads pe (task # ts) files =
     sbind (externalize_task pe task files) (\<lambda>files (task', us).
     sbind (externalize_task_payloads pe ts files) (\<lambda>files (ts', vs).
       (files, Ok (task' # ts', us @ vs))))"

text \<open>What \<open>persist\<close> does with the updates once the state is on disk.\<close>

definition apply_update :: "task_table \<Rightarrow> payload_update \<Rightarrow> task_table" where
  "apply_update t u =
     (let t = (case pu_input u of
                 Some (marker, r) \<Rightarrow> fst (replace_input_ref_if_unchanged (pu_id u) (pu_revision u) marker r t)
               | None \<Rightarrow> t)
      in case pu_output u of
           Some (marker, r) \<Rightarrow> fst (replace_output_ref_if_unchanged (pu_id u) (pu_revision u) marker r t)
         | None \<Rightarrow> t)"

section \<open>Migration at start\<close>

definition migrate_value ::
  "payload_env \<Rightarrow> bool \<Rightarrow> json \<Rightarrow> task_payload_ref option \<Rightarrow> payload_files
     \<Rightarrow> payload_files \<times> (json \<times> task_payload_ref option \<times> bool) rpc" where
  "migrate_value pe finished v r files =
     sbind (lift_res files (deployed_payload pe files v)) (\<lambda>files found.
       case found of
         None \<Rightarrow> (files, Ok (v, r, False))
       | Some restored \<Rightarrow>
           if r \<noteq> None
           then (files, Err (payload_unavailable ''conflicting deployed and candidate references''))
           else if finished
           then sbind (lift_res files (encode_payload pe restored)) (\<lambda>files bytes.
                sbind (write_task_payload pe bytes files) (\<lambda>files c.
                  (files, Ok (payload_marker c, Some c, True))))
           else (files, Ok (restored, None, True)))"

fun check_events :: "payload_env \<Rightarrow> payload_files \<Rightarrow> task_event list \<Rightarrow> unit rpc" where
  "check_events pe files [] = Ok ()"
| "check_events pe files (e # es) =
     and_then (deployed_payload pe files (ev_details e)) (\<lambda>_. check_events pe files es)"

definition migrate_task :: "payload_env \<Rightarrow> task \<Rightarrow> payload_files \<Rightarrow> payload_files \<times> (task \<times> bool) rpc" where
  "migrate_task pe task files =
     (let finished = terminal (t_state task)
      in sbind (migrate_value pe finished (t_input task) (t_input_ref task) files) (\<lambda>files (inp, ri, ci).
         sbind (case t_output task of
                  None \<Rightarrow> (files, Ok (None, t_output_ref task, False))
                | Some v \<Rightarrow> sbind (migrate_value pe finished v (t_output_ref task) files)
                              (\<lambda>files (x, ro, co). (files, Ok (Some x, ro, co)))) (\<lambda>files (outp, ro, co).
         sbind (lift_res files (case t_error task of
                  Some e \<Rightarrow> and_then (deployed_payload pe files (tf_details e)) (\<lambda>_. Ok ())
                | None \<Rightarrow> Ok ())) (\<lambda>files _.
         sbind (lift_res files (check_events pe files (t_events task))) (\<lambda>files _.
           (files, Ok (task\<lparr>t_input := inp, t_input_ref := ri, t_output := outp, t_output_ref := ro\<rparr>, ci \<or> co)))))))"

fun migrate_deployed_task_payloads ::
  "payload_env \<Rightarrow> task list \<Rightarrow> payload_files \<Rightarrow> payload_files \<times> (task list \<times> bool) rpc" where
  "migrate_deployed_task_payloads pe [] files = (files, Ok ([], False))"
| "migrate_deployed_task_payloads pe (task # ts) files =
     sbind (migrate_task pe task files) (\<lambda>files (task', c).
     sbind (migrate_deployed_task_payloads pe ts files) (\<lambda>files (ts', d).
       (files, Ok (task' # ts', c \<or> d))))"

section \<open>Round trip\<close>

text \<open>The contents a task moves to files, and the file names they would take.\<close>

definition task_payloads :: "payload_env \<Rightarrow> task \<Rightarrow> string list" where
  "task_payloads pe task =
     (case pe_to_vec pe (t_input task) of Ok b \<Rightarrow> [b] | _ \<Rightarrow> [])
     @ (case t_output task of
          Some v \<Rightarrow> (case pe_to_vec pe v of Ok b \<Rightarrow> [b] | _ \<Rightarrow> [])
        | None \<Rightarrow> [])"

definition bytes_path :: "payload_env \<Rightarrow> string \<Rightarrow> string" where
  "bytes_path pe b = payload_path pe (pr_locator (payload_ref_of pe b))"

text \<open>No other content is, or comes to be, stored under the digest of one of them.\<close>

definition no_collision :: "payload_env \<Rightarrow> payload_files \<Rightarrow> string list \<Rightarrow> bool" where
  "no_collision pe files bs \<longleftrightarrow>
     (\<forall>b \<in> set bs. files (bytes_path pe b) = None \<or> files (bytes_path pe b) = Some b)
     \<and> (\<forall>b \<in> set bs. \<forall>c \<in> set bs. bytes_path pe b = bytes_path pe c \<longrightarrow> b = c)"

text \<open>The reference stands for the value: the file has its encoding.\<close>

definition stands_for :: "payload_env \<Rightarrow> payload_files \<Rightarrow> task_payload_ref \<Rightarrow> json \<Rightarrow> bool" where
  "stands_for pe files r v \<longleftrightarrow>
     (\<exists>b. pe_to_vec pe v = Ok b \<and> r = payload_ref_of pe b \<and> files (bytes_path pe b) = Some b)"

lemma externalize_value_Ok:
  assumes "externalize_value pe v files = (files', Ok x)"
    and "\<And>b. pe_to_vec pe v = Ok b \<Longrightarrow> b \<in> set bs" and "no_collision pe files bs"
  shows "files \<subseteq>\<^sub>m files'" "no_collision pe files' bs" "\<And>r. x = Some r \<Longrightarrow> stands_for pe files' r v"
proof -
  obtain b where b: "pe_to_vec pe v = Ok b"
    using assms(1) by (cases "pe_to_vec pe v") (simp_all add: externalize_value_def encode_payload_def lift_res_def)
  have mem: "b \<in> set bs" using assms(2) b by blast
  have stored: "files (bytes_path pe b) = None \<or> files (bytes_path pe b) = Some b"
    using assms(3) mem by (simp add: no_collision_def)
  have path: "payload_path pe (pr_locator (payload_ref_of pe b)) = bytes_path pe b" by (simp add: bytes_path_def)
  have cases: "(files' = files \<and> (x = None \<or> (x = Some (payload_ref_of pe b) \<and> files (bytes_path pe b) = Some b)))
      \<or> (files (bytes_path pe b) = None \<and> files' = files(bytes_path pe b := Some b) \<and> x = Some (payload_ref_of pe b))"
    using assms(1) b stored
    by (auto simp: externalize_value_def encode_payload_def lift_res_def write_task_payload_def Let_def path
        sbind_Ok and_then_Ok_iff split: if_splits option.splits)
  then show "files \<subseteq>\<^sub>m files'" by (auto simp: map_le_def)
  have "files' (bytes_path pe c) = None \<or> files' (bytes_path pe c) = Some c" if "c \<in> set bs" for c
  proof (cases "bytes_path pe c = bytes_path pe b")
    case True
    then have "c = b" using assms(3) that mem unfolding no_collision_def by blast
    then show ?thesis using cases stored by auto
  next
    case False
    then have "files' (bytes_path pe c) = files (bytes_path pe c)" using cases by auto
    then show ?thesis using assms(3) that by (simp add: no_collision_def)
  qed
  then show "no_collision pe files' bs"
    using assms(3) by (simp add: no_collision_def)
  from cases show "stands_for pe files' r v" if "x = Some r" for r
    using that b by (auto simp: stands_for_def)
qed

lemma read_back:
  assumes "stands_for pe files r v" and "files \<subseteq>\<^sub>m files2"
    and "\<And>v b. pe_to_vec pe v = Ok b \<Longrightarrow> pe_from_slice pe b = Ok v"
    and "\<And>b. valid_payload_digest (pe_sha pe b)" and "\<And>path. pe_read_fault pe path = None"
  shows "read_task_payload pe files2 r = Ok v"
proof -
  obtain b where b: "pe_to_vec pe v = Ok b" "r = payload_ref_of pe b" "files (bytes_path pe b) = Some b"
    using assms(1) by (auto simp: stands_for_def)
  then have "files2 (bytes_path pe b) = Some b" using assms(2) by (auto simp: map_le_def dom_def)
  then show ?thesis
    using assms(3) [OF b(1)] assms(4,5)
    by (simp add: read_task_payload_def b(2) read_payload_bytes_def Let_def bytes_path_def payload_ref_of_def)
qed

text \<open>Reading a task depends only on the values its two payload fields give.\<close>

definition field_value :: "payload_env \<Rightarrow> payload_files \<Rightarrow> task_payload_ref option \<Rightarrow> json \<Rightarrow> json rpc" where
  "field_value pe files r v = (case r of Some r \<Rightarrow> read_task_payload pe files r | None \<Rightarrow> Ok v)"

lemma task_with_payload_cong:
  assumes "field_value pe files (t_input_ref a) (t_input a) = field_value pe files (t_input_ref b) (t_input b)"
    and "(case t_output_ref a of Some r \<Rightarrow> and_then (read_task_payload pe files r) (\<lambda>v. Ok (Some v)) | None \<Rightarrow> Ok (t_output a))
       = (case t_output_ref b of Some r \<Rightarrow> and_then (read_task_payload pe files r) (\<lambda>v. Ok (Some v)) | None \<Rightarrow> Ok (t_output b))"
    and "b = a\<lparr>t_input := t_input b, t_input_ref := t_input_ref b, t_output := t_output b, t_output_ref := t_output_ref b\<rparr>"
  shows "and_then (task_with_payload pe files a) (\<lambda>t. Ok (t\<lparr>t_input_ref := None, t_output_ref := None\<rparr>))
       = and_then (task_with_payload pe files b) (\<lambda>t. Ok (t\<lparr>t_input_ref := None, t_output_ref := None\<rparr>))"
proof -
  let ?i = "field_value pe files (t_input_ref a) (t_input a)"
  let ?o = "case t_output_ref a of Some r \<Rightarrow> and_then (read_task_payload pe files r) (\<lambda>v. Ok (Some v)) | None \<Rightarrow> Ok (t_output a)"
  have same: "t_error b = t_error a" "t_events b = t_events a"
    "\<And>i x e v. b\<lparr>t_input := i, t_output := x, t_error := e, t_events := v, t_input_ref := None, t_output_ref := None\<rparr>
      = a\<lparr>t_input := i, t_output := x, t_error := e, t_events := v, t_input_ref := None, t_output_ref := None\<rparr>"
    by (subst assms(3), simp)+
  have norm: "and_then (and_then r f) g = and_then r (\<lambda>x. and_then (f x) g)" for r :: "'x rpc" and f :: "'x \<Rightarrow> 'y rpc" and g :: "'y \<Rightarrow> 'z rpc"
    by (cases r) simp_all
  show ?thesis
    using assms(1,2) by (simp add: task_with_payload_def field_value_def norm same cong: option.case_cong)
qed

lemma externalize_task_Ok:
  assumes "externalize_task pe task files = (files', Ok (task', us))" and "no_collision pe files (task_payloads pe task)"
  obtains i x where "task' = with_output_ref (with_input_ref task i) x" "us = update_of task i x"
    "files \<subseteq>\<^sub>m files'"
    "\<And>r. i = Some r \<Longrightarrow> stands_for pe files' r (t_input task) \<and> t_input_ref task = None"
    "\<And>r. x = Some r \<Longrightarrow> \<exists>v. t_output task = Some v \<and> stands_for pe files' r v \<and> t_output_ref task = None"
proof (cases "terminal (t_state task)")
  case False
  with assms(1) show thesis
    by (intro that [of None None]) (auto simp: externalize_task_def with_output_ref_def with_input_ref_def update_of_def)
next
  case True
  let ?bs = "task_payloads pe task"
  obtain f1 i where i: "(if t_input_ref task = None then externalize_value pe (t_input task) files else (files, Ok None)) = (f1, Ok i)"
    using assms(1) True by (auto simp: externalize_task_def sbind_Ok)
  obtain x where x: "(case t_output task of
        Some v \<Rightarrow> if t_output_ref task = None then externalize_value pe v f1 else (f1, Ok None)
      | None \<Rightarrow> (f1, Ok None)) = (files', Ok x)"
    and out: "task' = with_output_ref (with_input_ref task i) x" "us = update_of task i x"
    using assms(1) True i by (auto simp: externalize_task_def sbind_Ok)
  have inb: "b \<in> set ?bs" if "pe_to_vec pe (t_input task) = Ok b" for b using that by (simp add: task_payloads_def)
  have outb: "b \<in> set ?bs" if "t_output task = Some v" "pe_to_vec pe v = Ok b" for v b
    using that by (simp add: task_payloads_def)
  have first: "files \<subseteq>\<^sub>m f1" "no_collision pe f1 ?bs"
      "\<And>r. i = Some r \<Longrightarrow> stands_for pe f1 r (t_input task) \<and> t_input_ref task = None"
    using i externalize_value_Ok [of pe "t_input task" files f1 i ?bs] inb assms(2)
    by (auto split: if_splits)
  have second: "f1 \<subseteq>\<^sub>m files'"
      "\<And>r. x = Some r \<Longrightarrow> \<exists>v. t_output task = Some v \<and> stands_for pe files' r v \<and> t_output_ref task = None"
    using x externalize_value_Ok [of pe _ f1 files' x ?bs] outb first(2)
    by (auto split: if_splits option.splits)
  have "stands_for pe files' r (t_input task)" if "stands_for pe f1 r (t_input task)" for r
    using that second(1) by (auto simp: stands_for_def map_le_def dom_def)
  then show thesis
    using that [of i x] out first second map_le_trans by blast
qed


section \<open>Instances\<close>

text \<open>An encoder that always exceeds the inline limit, and a digest of the right form.\<close>

definition sample_payload_env :: payload_env where
  "sample_payload_env =
     \<lparr>pe_dir = ''/state'', pe_name = ''fabric.json'', pe_sha = (\<lambda>_. ''sha256:'' @ replicate 64 CHR ''a''),
      pe_to_vec = (\<lambda>v. if v = JBool True then Ok (replicate (Suc TASK_PAYLOAD_INLINE_LIMIT) CHR ''t'') else Err ''other''),
      pe_from_slice = (\<lambda>_. Ok (JBool True)), pe_read_fault = (\<lambda>_. None), pe_write_fault = (\<lambda>_. None), pe_unix = True\<rparr>"

definition sample_large_task :: task where
  "sample_large_task =
     \<lparr>t_id = ''task_1'', t_correlation_id = None, t_request_id = None, t_workspace_session_id = ''s'', t_executor_id = ''e'',
      t_capability = ''c'', t_input = JBool True, t_input_ref = None, t_output = None, t_output_ref = None, t_error = None,
      t_idempotency_key = ''k'', t_state = Failed, t_attempt = 1, t_revision = 2, t_created_at = 1, t_updated_at = 1, t_events = []\<rparr>"

definition sample_large_bytes :: string where
  "sample_large_bytes = replicate (Suc TASK_PAYLOAD_INLINE_LIMIT) CHR ''t''"

definition sample_large_ref :: task_payload_ref where
  "sample_large_ref = payload_ref_of sample_payload_env sample_large_bytes"

definition sample_large_files :: payload_files where
  "sample_large_files = Map.empty(bytes_path sample_payload_env sample_large_bytes \<mapsto> sample_large_bytes)"


end
