(* ===== verification/Schema_Validation.thy ===== *)
theory Schema_Validation
  imports Schema_Types "HOL-Library.Log_Nat"
begin

text \<open>
  The controller's check of capability inputs and outputs against a JSON schema
  (\<open>validate_schema\<close> in \<open>controller.rs\<close>). Rendering a value or a number inside an error message
  is the library's; \<open>text_of\<close> and \<open>show_f64\<close> stand for it. Numbers are compared as doubles:
  \<open>f64_of_int\<close> rounds an integer to the nearest one, ties to even.
\<close>

definition f64_of_int :: "int \<Rightarrow> rat" where
  "f64_of_int n =
     (let a = \<bar>n\<bar>; k = nat (bitlen a)
      in if k \<le> 53 then of_int n
         else let s = 2 ^ (k - 53);
                  q = a div s;
                  r = a mod s;
                  m = (if 2 * r > s \<or> (2 * r = s \<and> odd q) then q + 1 else q)
              in of_int (sgn n * m * s))"

fun as_f64 :: "json \<Rightarrow> rat option" where
  "as_f64 (JNum (PosInt n)) = Some (f64_of_int (uint n))"
| "as_f64 (JNum (NegInt i)) = Some (f64_of_int i)"
| "as_f64 (JNum (Float x)) = Some x"
| "as_f64 _ = None"

record schema_text =
  text_of :: "json \<Rightarrow> string"
  show_f64 :: "rat \<Rightarrow> string"

definition schema_error :: "string \<Rightarrow> string \<Rightarrow> rpc_error" where
  "schema_error path msg = rpc_error_new ''SCHEMA_VALIDATION_FAILED'' (path @ '' '' @ msg)"

definition value_matches_type :: "json \<Rightarrow> string \<Rightarrow> bool" where
  "value_matches_type v kind =
     (if kind = ''null'' then v = JNull
      else if kind = ''boolean'' then (case v of JBool _ \<Rightarrow> True | _ \<Rightarrow> False)
      else if kind = ''integer'' then (case v of JNum (PosInt _) \<Rightarrow> True | JNum (NegInt _) \<Rightarrow> True | _ \<Rightarrow> False)
      else if kind = ''number'' then (case v of JNum _ \<Rightarrow> True | _ \<Rightarrow> False)
      else if kind = ''string'' then (case v of JStr _ \<Rightarrow> True | _ \<Rightarrow> False)
      else if kind = ''array'' then (case v of JArr _ \<Rightarrow> True | _ \<Rightarrow> False)
      else if kind = ''object'' then (case v of JObj _ \<Rightarrow> True | _ \<Rightarrow> False)
      else False)"

definition strings_of :: "json list \<Rightarrow> string list" where
  "strings_of xs = List.map_filter as_str xs"

text \<open>The checks of a value on its own, before its children.\<close>

definition check_enum :: "json \<Rightarrow> json \<Rightarrow> string \<Rightarrow> unit rpc" where
  "check_enum schema v path =
     (case Option.bind (jget schema ''enum'') as_array of
        Some allowed \<Rightarrow> if v \<in> set allowed then Ok () else Err (schema_error path ''value is not in enum'')
      | None \<Rightarrow> Ok ())"

definition check_type :: "schema_text \<Rightarrow> json \<Rightarrow> json \<Rightarrow> string \<Rightarrow> unit rpc" where
  "check_type st schema v path =
     (case jget schema ''type'' of
        None \<Rightarrow> Ok ()
      | Some types \<Rightarrow>
          if (case types of
                JStr kind \<Rightarrow> value_matches_type v kind
              | JArr kinds \<Rightarrow> list_ex (value_matches_type v) (strings_of kinds)
              | _ \<Rightarrow> False)
          then Ok () else Err (schema_error path (''does not match type '' @ text_of st types)))"

definition check_minimum :: "schema_text \<Rightarrow> json \<Rightarrow> json \<Rightarrow> string \<Rightarrow> unit rpc" where
  "check_minimum st schema v path =
     (case (Option.bind (jget schema ''minimum'') as_f64, as_f64 v) of
        (Some minimum, Some x) \<Rightarrow>
          if x < minimum then Err (schema_error path (''is below minimum '' @ show_f64 st minimum)) else Ok ()
      | _ \<Rightarrow> Ok ())"

definition check_maximum :: "schema_text \<Rightarrow> json \<Rightarrow> json \<Rightarrow> string \<Rightarrow> unit rpc" where
  "check_maximum st schema v path =
     (case (Option.bind (jget schema ''maximum'') as_f64, as_f64 v) of
        (Some maximum, Some x) \<Rightarrow>
          if x > maximum then Err (schema_error path (''is above maximum '' @ show_f64 st maximum)) else Ok ()
      | _ \<Rightarrow> Ok ())"

definition check_required :: "json \<Rightarrow> json_object \<Rightarrow> string \<Rightarrow> unit rpc" where
  "check_required schema ob path =
     (case Option.bind (jget schema ''required'') as_array of
        None \<Rightarrow> Ok ()
      | Some required \<Rightarrow>
          (case List.find (\<lambda>key. bt_get ob key = None) (strings_of required) of
             None \<Rightarrow> Ok ()
           | Some key \<Rightarrow> Err (schema_error (path @ ''.'' @ key) ''is required'')))"

fun validate_schema :: "schema_text \<Rightarrow> json \<Rightarrow> json \<Rightarrow> string \<Rightarrow> unit rpc"
and validate_fields :: "schema_text \<Rightarrow> json \<Rightarrow> json_object \<Rightarrow> (string \<times> json) list \<Rightarrow> string \<Rightarrow> unit rpc"
and validate_items :: "schema_text \<Rightarrow> json \<Rightarrow> json list \<Rightarrow> nat \<Rightarrow> string \<Rightarrow> unit rpc" where
  "validate_schema st schema v path =
     (if (case as_object schema of None \<Rightarrow> True | Some m \<Rightarrow> m = []) then Ok ()
      else and_then (check_enum schema v path) (\<lambda>_.
           and_then (check_type st schema v path) (\<lambda>_.
           and_then (check_minimum st schema v path) (\<lambda>_.
           and_then (check_maximum st schema v path) (\<lambda>_.
           and_then (case v of
                       JObj ob \<Rightarrow>
                         and_then (check_required schema ob path) (\<lambda>_.
                           case Option.bind (jget schema ''properties'') as_object of
                             None \<Rightarrow> Ok ()
                           | Some properties \<Rightarrow> validate_fields st schema properties ob path)
                     | _ \<Rightarrow> Ok ()) (\<lambda>_.
             case jget schema ''items'' of
               None \<Rightarrow> Ok ()
             | Some items \<Rightarrow> (case v of JArr xs \<Rightarrow> validate_items st items xs 0 path | _ \<Rightarrow> Ok ())))))))"
| "validate_fields st schema properties [] path = Ok ()"
| "validate_fields st schema properties ((key, child) # rest) path =
     and_then (case bt_get properties key of
                 Some child_schema \<Rightarrow> validate_schema st child_schema child (path @ ''.'' @ key)
               | None \<Rightarrow>
                   if jget schema ''additionalProperties'' = Some (JBool False)
                   then Err (schema_error (path @ ''.'' @ key) ''is not allowed'') else Ok ())
       (\<lambda>_. validate_fields st schema properties rest path)"
| "validate_items st items [] i path = Ok ()"
| "validate_items st items (child # rest) i path =
     and_then (validate_schema st items child (path @ ''['' @ show_nat i @ '']''))
       (\<lambda>_. validate_items st items rest (Suc i) path)"

section \<open>What the validator accepts\<close>

text \<open>
  The reading of a schema without an order of checks: \<open>holds_here\<close> is what the schema asks of
  the value itself, \<open>conforms\<close> asks the same of every child under the schema of its place.
\<close>

definition holds_here :: "json \<Rightarrow> json \<Rightarrow> bool" where
  "holds_here schema v \<longleftrightarrow>
     (\<forall>allowed. jget schema ''enum'' = Some (JArr allowed) \<longrightarrow> v \<in> set allowed) \<and>
     (\<forall>types. jget schema ''type'' = Some types \<longrightarrow>
        (\<exists>kind. (types = JStr kind \<or> (\<exists>kinds. types = JArr kinds \<and> JStr kind \<in> set kinds)) \<and>
                value_matches_type v kind)) \<and>
     (\<forall>bound b x. jget schema ''minimum'' = Some bound \<and> as_f64 bound = Some b \<and> as_f64 v = Some x \<longrightarrow> b \<le> x) \<and>
     (\<forall>bound b x. jget schema ''maximum'' = Some bound \<and> as_f64 bound = Some b \<and> as_f64 v = Some x \<longrightarrow> x \<le> b) \<and>
     (\<forall>ob required key. v = JObj ob \<and> jget schema ''required'' = Some (JArr required) \<and> JStr key \<in> set required \<longrightarrow>
        bt_get ob key \<noteq> None)"

text \<open>The children of a value that a schema speaks about, each with the schema of its place.\<close>

definition placed :: "json \<Rightarrow> json \<Rightarrow> (json \<times> json) set" where
  "placed schema v =
     {(s, child). \<exists>properties ob key. jget schema ''properties'' = Some (JObj properties) \<and> v = JObj ob \<and>
                    (key, child) \<in> set ob \<and> bt_get properties key = Some s} \<union>
     {(s, child). jget schema ''items'' = Some s \<and> (\<exists>xs. v = JArr xs \<and> child \<in> set xs)}"

definition no_extra :: "json \<Rightarrow> json \<Rightarrow> bool" where
  "no_extra schema v \<longleftrightarrow>
     (\<forall>properties ob key child.
        jget schema ''properties'' = Some (JObj properties) \<and> v = JObj ob \<and>
        jget schema ''additionalProperties'' = Some (JBool False) \<and> (key, child) \<in> set ob \<longrightarrow>
        bt_get properties key \<noteq> None)"

inductive conforms :: "json \<Rightarrow> json \<Rightarrow> bool" where
  anything: "as_object schema = None \<or> schema = JObj [] \<Longrightarrow> conforms schema v"
| checked: "holds_here schema v \<Longrightarrow> no_extra schema v \<Longrightarrow>
    (\<And>s child. (s, child) \<in> placed schema v \<Longrightarrow> conforms s child) \<Longrightarrow> conforms schema v"

section \<open>Proofs\<close>

lemma set_strings_of [simp]: "s \<in> set (strings_of xs) \<longleftrightarrow> JStr s \<in> set xs"
  by (force simp: strings_of_def List.map_filter_def)

lemma as_array_Some [simp]: "as_array v = Some xs \<longleftrightarrow> v = JArr xs"
  by (cases v) auto

lemma as_object_Some [simp]: "as_object v = Some m \<longleftrightarrow> v = JObj m"
  by (cases v) auto

lemma bind_as_array: "Option.bind x as_array = Some xs \<longleftrightarrow> x = Some (JArr xs)"
  by (cases x) auto

lemma bind_as_object: "Option.bind x as_object = Some m \<longleftrightarrow> x = Some (JObj m)"
  by (cases x) auto

lemma check_enum_Ok:
  "check_enum schema v path = Ok u \<longleftrightarrow> (\<forall>allowed. jget schema ''enum'' = Some (JArr allowed) \<longrightarrow> v \<in> set allowed)"
  by (auto simp: check_enum_def bind_as_array split: option.splits)

lemma check_type_Ok:
  "check_type st schema v path = Ok u \<longleftrightarrow>
     (\<forall>types. jget schema ''type'' = Some types \<longrightarrow>
        (\<exists>kind. (types = JStr kind \<or> (\<exists>kinds. types = JArr kinds \<and> JStr kind \<in> set kinds)) \<and>
                value_matches_type v kind))"
  by (auto simp: check_type_def list_ex_iff split: option.splits json.splits)

lemma check_minimum_Ok:
  "check_minimum st schema v path = Ok u \<longleftrightarrow>
     (\<forall>bound b x. jget schema ''minimum'' = Some bound \<and> as_f64 bound = Some b \<and> as_f64 v = Some x \<longrightarrow> b \<le> x)"
  by (cases "jget schema ''minimum''") (auto simp: check_minimum_def split: option.splits)

lemma check_maximum_Ok:
  "check_maximum st schema v path = Ok u \<longleftrightarrow>
     (\<forall>bound b x. jget schema ''maximum'' = Some bound \<and> as_f64 bound = Some b \<and> as_f64 v = Some x \<longrightarrow> x \<le> b)"
  by (cases "jget schema ''maximum''") (auto simp: check_maximum_def split: option.splits)

lemma check_required_Ok:
  "check_required schema ob path = Ok u \<longleftrightarrow>
     (\<forall>required key. jget schema ''required'' = Some (JArr required) \<and> JStr key \<in> set required \<longrightarrow> bt_get ob key \<noteq> None)"
  by (auto simp: check_required_def bind_as_array find_None_iff find_Some_iff split: option.splits)
     (metis nth_mem set_strings_of)

lemmas checks_Ok = check_enum_Ok check_type_Ok check_minimum_Ok check_maximum_Ok check_required_Ok

lemma validate_fields_Ok:
  "validate_fields st schema properties kvs path = Ok u \<longleftrightarrow>
     (\<forall>(key, child) \<in> set kvs. case bt_get properties key of
        Some s \<Rightarrow> validate_schema st s child (path @ ''.'' @ key) = Ok ()
      | None \<Rightarrow> jget schema ''additionalProperties'' \<noteq> Some (JBool False))"
  by (induction kvs) (auto simp: and_then_Ok_iff simp del: validate_schema.simps split: option.splits if_splits)

lemma validate_items_Ok:
  "validate_items st items xs i path = Ok u \<longleftrightarrow>
     (\<forall>j < length xs. validate_schema st items (xs ! j) (path @ ''['' @ show_nat (i + j) @ '']'') = Ok ())"
proof (induction xs arbitrary: i)
  case (Cons x xs)
  show ?case
    using Cons.IH [of "Suc i"] by (simp add: and_then_Ok_iff All_less_Suc2 del: validate_schema.simps)
qed simp

lemma unit_outcome: "(r :: unit rpc) = Ok u \<longleftrightarrow> r = Ok ()"
  by simp

lemma validate_accepts:
  assumes "\<not> (as_object schema = None \<or> schema = JObj [])"
  shows "validate_schema st schema v path = Ok () \<longleftrightarrow>
    holds_here schema v \<and> no_extra schema v \<and>
    (\<forall>ob properties. v = JObj ob \<and> jget schema ''properties'' = Some (JObj properties) \<longrightarrow>
       (\<forall>(key, child) \<in> set ob. \<forall>s. bt_get properties key = Some s \<longrightarrow>
          validate_schema st s child (path @ ''.'' @ key) = Ok ())) \<and>
    (\<forall>xs items. v = JArr xs \<and> jget schema ''items'' = Some items \<longrightarrow>
       (\<forall>j < length xs. validate_schema st items (xs ! j) (path @ ''['' @ show_nat j @ '']'') = Ok ()))"
proof -
  obtain m where m: "schema = JObj m" "m \<noteq> []"
    using assms by (cases schema) auto
  have step: "validate_schema st schema v path = Ok () \<longleftrightarrow>
      check_enum schema v path = Ok () \<and> check_type st schema v path = Ok () \<and>
      check_minimum st schema v path = Ok () \<and> check_maximum st schema v path = Ok () \<and>
      (case v of
         JObj ob \<Rightarrow> check_required schema ob path = Ok () \<and>
           (\<forall>properties. jget schema ''properties'' = Some (JObj properties) \<longrightarrow>
              validate_fields st schema properties ob path = Ok ())
       | JArr xs \<Rightarrow> (\<forall>items. jget schema ''items'' = Some items \<longrightarrow> validate_items st items xs 0 path = Ok ())
       | _ \<Rightarrow> True)"
    using m
    by (subst validate_schema.simps)
       (auto simp: and_then_Ok_iff bind_as_object simp del: validate_schema.simps split: json.splits option.splits)
  show ?thesis
    unfolding step checks_Ok validate_fields_Ok validate_items_Ok holds_here_def no_extra_def
    by (cases v) (fastforce simp del: validate_schema.simps split: option.splits)+
qed

lemma conforms_object:
  assumes "\<not> (as_object schema = None \<or> schema = JObj [])"
  shows "conforms schema v \<longleftrightarrow>
    holds_here schema v \<and> no_extra schema v \<and> (\<forall>(s, child) \<in> placed schema v. conforms s child)"
  using assms by (subst conforms.simps) auto

lemma validate_anything: "as_object schema = None \<or> schema = JObj [] \<Longrightarrow> validate_schema st schema v path = Ok ()"
  by (subst validate_schema.simps) auto

lemma validate_scalar:
  assumes "v \<notin> range JObj" "v \<notin> range JArr"
  shows "validate_schema st schema v path = Ok () \<longleftrightarrow> conforms schema v"
proof (cases "as_object schema = None \<or> schema = JObj []")
  case False
  show ?thesis
    using assms by (auto simp: validate_accepts [OF False] conforms_object [OF False] placed_def simp del: validate_schema.simps)
qed (simp add: validate_anything anything del: validate_schema.simps)

lemma validate_iff_conforms: "validate_schema st schema v path = Ok () \<longleftrightarrow> conforms schema v"
proof (induction v arbitrary: schema path)
  case (JArr xs)
  show ?case
  proof (cases "as_object schema = None \<or> schema = JObj []")
    case False
    have "(\<forall>j < length xs. validate_schema st s (xs ! j) (q j) = Ok ()) \<longleftrightarrow> (\<forall>x \<in> set xs. conforms s x)" for s q
      by (simp add: JArr.IH all_set_conv_all_nth del: validate_schema.simps)
    then show ?thesis
      by (auto simp: validate_accepts [OF False] conforms_object [OF False] placed_def simp del: validate_schema.simps)
  qed (auto simp: validate_anything anything simp del: validate_schema.simps)
next
  case (JObj ob)
  show ?case
  proof (cases "as_object schema = None \<or> schema = JObj []")
    case False
    have IH: "(key, child) \<in> set ob \<Longrightarrow> validate_schema st s child q = Ok () \<longleftrightarrow> conforms s child" for key child s q
      using JObj.IH by force
    have "(\<forall>(key, child) \<in> set ob. \<forall>s. bt_get p key = Some s \<longrightarrow> validate_schema st s child (path @ ''.'' @ key) = Ok ()) \<longleftrightarrow>
        (\<forall>(s, child) \<in> {(s, child). \<exists>key. (key, child) \<in> set ob \<and> bt_get p key = Some s}. conforms s child)" for p
      using IH by (fastforce simp del: validate_schema.simps)
    then show ?thesis
      unfolding validate_accepts [OF False] conforms_object [OF False] placed_def
      by (fastforce simp del: validate_schema.simps)
  qed (auto simp: validate_anything anything simp del: validate_schema.simps)
qed (use validate_scalar in blast)+

lemma check_outcome:
  "check_enum schema v path \<noteq> Panic" "check_enum schema v path = Err e \<Longrightarrow> code e = ''SCHEMA_VALIDATION_FAILED''"
  "check_type st schema v path \<noteq> Panic" "check_type st schema v path = Err e \<Longrightarrow> code e = ''SCHEMA_VALIDATION_FAILED''"
  "check_minimum st schema v path \<noteq> Panic" "check_minimum st schema v path = Err e \<Longrightarrow> code e = ''SCHEMA_VALIDATION_FAILED''"
  "check_maximum st schema v path \<noteq> Panic" "check_maximum st schema v path = Err e \<Longrightarrow> code e = ''SCHEMA_VALIDATION_FAILED''"
  "check_required schema ob path \<noteq> Panic" "check_required schema ob path = Err e \<Longrightarrow> code e = ''SCHEMA_VALIDATION_FAILED''"
  by (auto simp: check_enum_def check_type_def check_minimum_def check_maximum_def check_required_def schema_error_def
      rpc_error_new_def split: option.splits if_splits)

definition refuses :: "unit rpc \<Rightarrow> bool" where
  "refuses r \<longleftrightarrow> r \<noteq> Panic \<and> (\<forall>e. r = Err e \<longrightarrow> code e = ''SCHEMA_VALIDATION_FAILED'')"

lemma refuses_check [simp, intro]:
  "refuses (check_enum schema v path)" "refuses (check_type st schema v path)"
  "refuses (check_minimum st schema v path)" "refuses (check_maximum st schema v path)"
  "refuses (check_required schema ob path)" "refuses (Ok u)" "refuses (Err (schema_error p m))"
  using check_outcome by (auto simp: refuses_def schema_error_def rpc_error_new_def)

lemma refuses_and_then: "refuses r \<Longrightarrow> (\<And>u. r = Ok u \<Longrightarrow> refuses (f u)) \<Longrightarrow> refuses (and_then r f)"
  by (cases r) (auto simp: refuses_def)

lemma validate_refuses:
  "refuses (validate_schema st schema v path)"
  "refuses (validate_fields st schema properties kvs path)"
  "refuses (validate_items st items xs i path)"
proof (induction st schema v path and st schema properties kvs path and st items xs i path
    rule: validate_schema_validate_fields_validate_items.induct)
  case (1 st schema v path)
  show ?case
    apply (subst validate_schema.simps)
    using 1 by (auto intro!: refuses_and_then simp del: validate_schema.simps split: json.splits option.splits)
qed (auto intro!: refuses_and_then simp del: validate_schema.simps split: option.splits)

section \<open>Properties\<close>

text \<open>C27: Input and output validation. \<open>validate_schema\<close> accepts a value exactly when it conforms to
  the schema: it satisfies what the schema asks of it, has no property the schema forbids, and each of its children
  conforms to the schema of its place. Otherwise the call fails with \<open>SCHEMA_VALIDATION_FAILED\<close>; it
  never panics, whatever the schema and the value.\<close>

theorem validate_schema_correct:
  "case validate_schema st schema v path of
     Ok _ \<Rightarrow> conforms schema v
   | Err e \<Rightarrow> \<not> conforms schema v \<and> code e = ''SCHEMA_VALIDATION_FAILED''
   | Panic \<Rightarrow> False"
  using validate_iff_conforms [of st schema v path] validate_refuses(1) [of st schema v path]
  by (cases "validate_schema st schema v path") (simp_all add: refuses_def del: validate_schema.simps)

end
