(* ===== verification/Controller_State.thy ===== *)
theory Controller_State
  imports Lease_Table Task_Payloads Fabric_Store Schema_Validation
begin

text \<open>
  The controller (\<open>controller.rs\<close>): its state, \<open>persist\<close>, opening from the state file,
  and the helpers its request handlers share. A request is handled as one step. What a request
  meets outside the controller is a \<open>cenv\<close>: the decoders and encoders serde derives for the
  wire types, the library's JSON and SHA-256, the readings of the clock, the generated UUIDs,
  the outcome of each call to another machine and of each write of the state file. The k-th
  such event of a request is the value at \<open>k\<close>.
\<close>

section \<open>Surroundings\<close>

type_synonym 'a decoder = "json \<Rightarrow> string + 'a"

record codec =
  dec_session :: "workspace_session decoder"
  enc_session :: "workspace_session \<Rightarrow> json"
  dec_session_state :: "session_state decoder"
  dec_task :: "task decoder"
  enc_task :: "task \<Rightarrow> json"
  dec_task_state :: "task_state decoder"
  enc_task_event :: "task_event \<Rightarrow> json"
  enc_payload_ref :: "task_payload_ref \<Rightarrow> json"
  dec_artifact :: "artifact decoder"
  enc_artifact :: "artifact \<Rightarrow> json"
  dec_generation :: "generation decoder"
  enc_generation :: "generation \<Rightarrow> json"
  dec_transaction :: "activation_transaction decoder"
  enc_transaction :: "activation_transaction \<Rightarrow> json"
  dec_step_state :: "transaction_step_state decoder"
  dec_agent :: "agent_instance decoder"
  enc_agent :: "agent_instance \<Rightarrow> json"
  dec_agent_state :: "agent_state decoder"
  dec_handoff :: "handoff decoder"
  enc_handoff :: "handoff \<Rightarrow> json"
  dec_executor :: "executor_entry decoder"
  enc_executor :: "executor_entry \<Rightarrow> json"
  dec_endpoint :: "executor_endpoint decoder"
  dec_capability :: "capability_descriptor decoder"
  enc_capability :: "capability_descriptor \<Rightarrow> json"
  enc_lock :: "lock_template \<Rightarrow> json"
  enc_effect :: "effect \<Rightarrow> json"
  enc_health :: "health_status \<Rightarrow> json"
  enc_controller :: "controller_peer \<Rightarrow> json"
  enc_approval :: "approval \<Rightarrow> json"
  enc_lease :: "lease \<Rightarrow> json"
  enc_rpc_error :: "rpc_error \<Rightarrow> json"
  not_a_sequence :: "json \<Rightarrow> string"
  not_a_string :: "json \<Rightarrow> string"
  debug_text :: "string \<Rightarrow> string"

datatype io_kind =
    KindNotFound | KindConnectionRefused | KindAddrNotAvailable | KindTimedOut | KindWouldBlock
  | KindUnexpectedEof | KindConnectionReset | KindConnectionAborted | KindBrokenPipe | KindOther

text \<open>A failed call: its text, the I/O error in its chain, if any, and whether a JSON error is in it.\<close>

record call_error =
  ce_text :: string
  ce_kind :: "io_kind option"
  ce_json :: bool

record cenv =
  cv_codec :: codec
  cv_payload :: payload_env
  cv_text :: schema_text
  cv_now :: "nat \<Rightarrow> u64"
  cv_uuid :: "nat \<Rightarrow> string"
  cv_call :: "nat \<Rightarrow> executor_endpoint \<Rightarrow> request \<Rightarrow> call_error + response"
  cv_save :: "nat \<Rightarrow> string option"
  cv_trace :: "(string \<times> string) option"
  cv_exists :: "string \<Rightarrow> bool"
  cv_unix :: bool
  cv_version :: string
  cv_pid :: u64
  cv_polls :: "task_table list"
  cv_process_polls :: "(call_error + response) list"
  cv_elapsed :: "nat \<Rightarrow> u64"
  cv_rounds :: nat

section \<open>The controller's state\<close>

text \<open>
  \<open>c_disk\<close> is the content of the state file and \<open>c_files\<close> the payload files beside it.
  \<open>c_poisoned\<close>: a thread panicked while it held the lock of the lease table, so that every
  later \<open>lock().expect("lease lock")\<close> panics.
\<close>

record controller =
  c_id :: string
  c_state :: fabric_state
  c_leases :: lease_table
  c_tasks :: task_table
  c_disk :: "fabric_state option"
  c_files :: payload_files
  c_poisoned :: bool

type_synonym 'a step = "controller \<Rightarrow> controller \<times> 'a rpc"

definition upd_state :: "(fabric_state \<Rightarrow> fabric_state) \<Rightarrow> controller \<Rightarrow> controller" where
  "upd_state f c = c\<lparr>c_state := f (c_state c)\<rparr>"

definition committed_state :: "controller \<Rightarrow> fabric_state" where
  "committed_state c =
     (c_state c)\<lparr>fs_leases := lease_snapshot (c_leases c), fs_lease_fences := fence_snapshot (c_leases c),
                 fs_tasks := task_snapshot (c_tasks c)\<rparr>"

definition state_path :: "cenv \<Rightarrow> string" where
  "state_path n = pe_dir (cv_payload n) @ ''/'' @ pe_name (cv_payload n)"

definition persist :: "cenv \<Rightarrow> nat \<Rightarrow> unit step" where
  "persist n k c =
     (case externalize_task_payloads (cv_payload n) (fs_tasks (committed_state c)) (c_files c) of
        (files, Ok (ts, updates)) \<Rightarrow>
          (case cv_save n k of
             Some e \<Rightarrow>
               (c\<lparr>c_files := files\<rparr>,
                Err (rpc_error_new ''STATE_WRITE_FAILED'' (''state commit '' @ state_path n @ '': '' @ e)))
           | None \<Rightarrow>
               (c\<lparr>c_files := files, c_disk := Some ((committed_state c)\<lparr>fs_tasks := ts\<rparr>),
                  c_tasks := foldl apply_update (c_tasks c) updates\<rparr>, Ok ()))
      | (files, Err e) \<Rightarrow> (c\<lparr>c_files := files\<rparr>, Err e)
      | (files, Panic) \<Rightarrow> (c\<lparr>c_files := files\<rparr>, Panic))"

text \<open>The end of most handlers: \<open>self.persist()?; Ok(value)\<close>.\<close>

definition persist_then :: "cenv \<Rightarrow> nat \<Rightarrow> json \<Rightarrow> json step" where
  "persist_then n k v c = sbind (persist n k c) (\<lambda>c _. (c, Ok v))"

section \<open>Requests and parameters\<close>

definition traced_request :: "cenv \<Rightarrow> nat \<Rightarrow> string \<Rightarrow> json \<Rightarrow> request" where
  "traced_request n k action params =
     (let r = request_new (cv_uuid n k) action params
      in case cv_trace n of
           Some (corr, rid) \<Rightarrow> r\<lparr>rq_correlation_id := Some corr, rq_parent_request_id := Some rid\<rparr>
         | None \<Rightarrow> r)"

definition current_trace :: "cenv \<Rightarrow> string option \<times> string option" where
  "current_trace n = (case cv_trace n of Some (corr, rid) \<Rightarrow> (Some corr, Some rid) | None \<Rightarrow> (None, None))"

definition call_executor :: "cenv \<Rightarrow> nat \<Rightarrow> executor_endpoint \<Rightarrow> string \<Rightarrow> json \<Rightarrow> call_error + response" where
  "call_executor n k endpoint action params = cv_call n k endpoint (traced_request n k action params)"

definition required_text :: "json \<Rightarrow> string \<Rightarrow> string rpc" where
  "required_text params key =
     (case Option.bind (jget params key) as_str of
        Some v \<Rightarrow> if v = [] then Err (rpc_error_new ''INVALID_PARAMS'' (key @ '' is required'')) else Ok v
      | None \<Rightarrow> Err (rpc_error_new ''INVALID_PARAMS'' (key @ '' is required'')))"

definition text_param :: "json \<Rightarrow> string \<Rightarrow> string option" where
  "text_param params key = Option.bind (jget params key) as_str"

definition u64_param :: "json \<Rightarrow> string \<Rightarrow> u64 option" where
  "u64_param params key = Option.bind (jget params key) as_u64"

definition u64_param_or :: "json \<Rightarrow> string \<Rightarrow> u64 \<Rightarrow> u64" where
  "u64_param_or params key d = (case u64_param params key of Some x \<Rightarrow> x | None \<Rightarrow> d)"

definition json_param_or :: "json \<Rightarrow> string \<Rightarrow> json \<Rightarrow> json" where
  "json_param_or params key d = (case jget params key of Some v \<Rightarrow> v | None \<Rightarrow> d)"

definition from_value :: "string \<Rightarrow> 'a decoder \<Rightarrow> json \<Rightarrow> 'a rpc" where
  "from_value ec dec v = (case dec v of Inr x \<Rightarrow> Ok x | Inl e \<Rightarrow> Err (rpc_error_new ec e))"

definition required_value :: "'a decoder \<Rightarrow> json \<Rightarrow> string \<Rightarrow> 'a rpc" where
  "required_value dec params key =
     and_then (ok_or (jget params key) (rpc_error_new ''INVALID_PARAMS'' (key @ '' is required'')))
       (from_value ''INVALID_PARAMS'' dec)"

fun decode_items :: "'a decoder \<Rightarrow> json list \<Rightarrow> string + 'a list" where
  "decode_items dec [] = Inr []"
| "decode_items dec (v # vs) =
     (case dec v of
        Inl e \<Rightarrow> Inl e
      | Inr x \<Rightarrow> (case decode_items dec vs of Inl e \<Rightarrow> Inl e | Inr xs \<Rightarrow> Inr (x # xs)))"

definition dec_array :: "codec \<Rightarrow> 'a decoder \<Rightarrow> 'a list decoder" where
  "dec_array cd dec v = (case v of JArr vs \<Rightarrow> decode_items dec vs | _ \<Rightarrow> Inl (not_a_sequence cd v))"

definition dec_string :: "codec \<Rightarrow> string decoder" where
  "dec_string cd v = (case v of JStr s \<Rightarrow> Inr s | _ \<Rightarrow> Inl (not_a_string cd v))"

definition optional_array :: "codec \<Rightarrow> 'a decoder \<Rightarrow> json \<Rightarrow> string \<Rightarrow> 'a list rpc" where
  "optional_array cd dec params key =
     (case jget params key of
        None \<Rightarrow> Ok []
      | Some v \<Rightarrow>
          (case dec_array cd dec v of
             Inr xs \<Rightarrow> Ok xs
           | Inl e \<Rightarrow> Err (rpc_error_new ''INVALID_PARAMS'' (key @ '': '' @ e))))"

fun upsert_by :: "('a \<Rightarrow> bool) \<Rightarrow> 'a \<Rightarrow> 'a list \<Rightarrow> 'a list" where
  "upsert_by p v [] = [v]"
| "upsert_by p v (x # xs) = (if p x then v # xs else x # upsert_by p v xs)"

text \<open>\<open>iter_mut().find(..)\<close> followed by an assignment through the reference.\<close>

fun update_first :: "('a \<Rightarrow> bool) \<Rightarrow> ('a \<Rightarrow> 'a) \<Rightarrow> 'a list \<Rightarrow> 'a list" where
  "update_first p f [] = []"
| "update_first p f (x # xs) = (if p x then f x # xs else x # update_first p f xs)"

definition find_session :: "controller \<Rightarrow> string \<Rightarrow> workspace_session option" where
  "find_session c i = List.find (\<lambda>s. md_id (ws_metadata s) = i) (fs_sessions (c_state c))"

definition find_executor :: "controller \<Rightarrow> string \<Rightarrow> executor_entry option" where
  "find_executor c i = List.find (\<lambda>e. md_id (ex_metadata e) = i) (fs_executors (c_state c))"

definition find_controller :: "controller \<Rightarrow> string \<Rightarrow> controller_peer option" where
  "find_controller c i = List.find (\<lambda>p. md_id (cp_metadata p) = i) (fs_controllers (c_state c))"

definition put_session :: "workspace_session \<Rightarrow> controller \<Rightarrow> controller" where
  "put_session s = upd_state (\<lambda>st. st\<lparr>fs_sessions :=
     upsert_by (\<lambda>x. md_id (ws_metadata x) = md_id (ws_metadata s)) s (fs_sessions st)\<rparr>)"

definition starts_with :: "string \<Rightarrow> string \<Rightarrow> bool" where
  "starts_with p s = (strip_prefix p s \<noteq> None)"

text \<open>The result of a call: the value of a successful response, the error of a failed one.\<close>

definition unavailable :: "string \<Rightarrow> bool \<Rightarrow> call_error \<Rightarrow> rpc_error" where
  "unavailable ec again e = (rpc_error_new ec (ce_text e))\<lparr>retryable := again\<rparr>"

definition response_value :: "string \<Rightarrow> string \<Rightarrow> response \<Rightarrow> json rpc" where
  "response_value ec msg r =
     (if rs_ok r then Ok (case rs_result r of Some v \<Rightarrow> v | None \<Rightarrow> JNull)
      else Err (case rs_error r of Some e \<Rightarrow> e | None \<Rightarrow> rpc_error_new ec msg))"

definition call_registered_executor :: "cenv \<Rightarrow> nat \<Rightarrow> controller \<Rightarrow> string \<Rightarrow> string \<Rightarrow> json \<Rightarrow> json rpc" where
  "call_registered_executor n k c executor_id action params =
     and_then (ok_or (find_executor c executor_id)
                 (rpc_error_new ''EXECUTOR_NOT_FOUND'' (''unknown executor: '' @ executor_id))) (\<lambda>ex.
     case call_executor n k (ex_endpoint ex) action params of
       Inl e \<Rightarrow> Err (unavailable ''EXECUTOR_UNAVAILABLE'' True e)
     | Inr r \<Rightarrow> response_value ''EXECUTOR_FAILED'' ''executor failed'' r)"

fun lease_error_text :: "lease_error \<Rightarrow> string" where
  "lease_error_text (LeaseActive own expires) =
     ''resource is leased by '' @ own @ '' until '' @ show_u64 expires"
| "lease_error_text LeaseNotFound = ''lease not found''"
| "lease_error_text LeaseOwnedByOther = ''lease is owned by another writer''"
| "lease_error_text LeaseInvalidHandoff = ''handoff target does not match''"

fun map_lease_error :: "lease_error \<Rightarrow> rpc_error" where
  "map_lease_error (LeaseActive own expires) =
     rpc_error_new ''LEASE_ACTIVE'' (lease_error_text (LeaseActive own expires))"
| "map_lease_error LeaseNotFound = rpc_error_new ''LEASE_NOT_FOUND'' (lease_error_text LeaseNotFound)"
| "map_lease_error LeaseOwnedByOther = rpc_error_new ''LEASE_OWNED_BY_OTHER'' (lease_error_text LeaseOwnedByOther)"
| "map_lease_error LeaseInvalidHandoff = rpc_error_new ''INVALID_HANDOFF'' (lease_error_text LeaseInvalidHandoff)"

definition map_err :: "('e \<Rightarrow> 'f) \<Rightarrow> ('e, 'a) outcome \<Rightarrow> ('f, 'a) outcome" where
  "map_err f r = (case r of Ok a \<Rightarrow> Ok a | Err e \<Rightarrow> Err (f e) | Panic \<Rightarrow> Panic)"

text \<open>A call of the lease or task table, with its error translated.\<close>

definition with_leases :: "(lease_table \<Rightarrow> lease_table \<times> (lease_error, 'a) outcome) \<Rightarrow> 'a step" where
  "with_leases f c = (case f (c_leases c) of (t, r) \<Rightarrow> (c\<lparr>c_leases := t\<rparr>, map_err map_lease_error r))"

text \<open>The names \<open>derive(Debug)\<close> prints.\<close>

fun debug_task_state :: "task_state \<Rightarrow> string" where
  "debug_task_state Queued = ''Queued''"
| "debug_task_state Running = ''Running''"
| "debug_task_state Succeeded = ''Succeeded''"
| "debug_task_state Failed = ''Failed''"
| "debug_task_state Cancelled = ''Cancelled''"
| "debug_task_state TimedOut = ''TimedOut''"
| "debug_task_state OutcomeUnknown = ''OutcomeUnknown''"

fun task_error_text :: "task_error \<Rightarrow> string" where
  "task_error_text TaskNotFound = ''task not found''"
| "task_error_text (InvalidTransition a b) =
     ''invalid transition from '' @ debug_task_state a @ '' to '' @ debug_task_state b"

definition with_tasks :: "(task_table \<Rightarrow> task_table \<times> (task_error, 'a) outcome) \<Rightarrow> 'a step" where
  "with_tasks f c =
     (case f (c_tasks c) of
        (t, r) \<Rightarrow> (c\<lparr>c_tasks := t\<rparr>, map_err (\<lambda>e. rpc_error_new ''INVALID_TASK_STATE'' (task_error_text e)) r))"

section \<open>Opening\<close>

text \<open>Evidence kept from earlier releases is reduced when the state is opened.\<close>

definition pointer_or :: "json \<Rightarrow> string list \<Rightarrow> json \<Rightarrow> json" where
  "pointer_or v ks d = (case pointer v ks of Some x \<Rightarrow> x | None \<Rightarrow> d)"

definition retained_task_output :: "string \<Rightarrow> json \<Rightarrow> json" where
  "retained_task_output capability result =
     (if capability \<noteq> ''ui.native-inspect''
         \<or> jget result ''$machineFabricPayload'' \<noteq> None
         \<or> jget result ''$taskPayloadRef'' \<noteq> None
         \<or> pointer result [''inspection'', ''processCount''] \<noteq> None
      then result
      else jobj
        [(''applicationPath'', json_param_or result ''applicationPath'' JNull),
         (''pids'', json_param_or result ''pids'' (JArr [])),
         (''inspection'', jobj
           [(''accessibilityTrusted'', pointer_or result [''inspection'', ''accessibilityTrusted''] (JBool False)),
            (''processCount'',
               jnat (case Option.bind (pointer result [''inspection'', ''processes'']) as_array of
                       Some xs \<Rightarrow> length xs | None \<Rightarrow> 0))]),
         (''inspectedAt'', json_param_or result ''inspectedAt'' JNull)])"

definition compact_task_output :: "task \<Rightarrow> task" where
  "compact_task_output task =
     (if t_capability task = ''ui.native-inspect'' \<and> t_output_ref task = None
      then task\<lparr>t_output := map_option (retained_task_output (t_capability task)) (t_output task)\<rparr>
      else task)"

fun compact_value :: "json \<Rightarrow> json"
and compact_fields :: "(string \<times> json) list \<Rightarrow> (string \<times> json) list"
and compact_items :: "json list \<Rightarrow> json list" where
  "compact_value (JObj m) =
     JObj (case bt_get m ''nativeEvaluations'' of
             Some evaluations \<Rightarrow>
               bt_insert ''nativeObservationCount''
                 (jnat (case as_array evaluations of Some xs \<Rightarrow> length xs | None \<Rightarrow> 0))
                 (bt_remove ''nativeEvaluations'' (compact_fields m))
           | None \<Rightarrow> compact_fields m)"
| "compact_value (JArr xs) = JArr (compact_items xs)"
| "compact_value v = v"
| "compact_fields [] = []"
| "compact_fields ((k, v) # m) = (k, compact_value v) # compact_fields m"
| "compact_items [] = []"
| "compact_items (v # vs) = compact_value v # compact_items vs"

definition compact_failure :: "task_failure \<Rightarrow> task_failure" where
  "compact_failure e = e\<lparr>tf_details := compact_value (tf_details e)\<rparr>"

definition compact_task :: "task \<Rightarrow> task" where
  "compact_task task =
     (let task = compact_task_output task
      in task\<lparr>t_input := compact_value (t_input task), t_output := map_option compact_value (t_output task),
              t_error := map_option compact_failure (t_error task)\<rparr>)"

definition compact_transaction :: "activation_transaction \<Rightarrow> activation_transaction" where
  "compact_transaction tx =
     tx\<lparr>tx_journal := map (\<lambda>e. e\<lparr>je_details := compact_value (je_details e)\<rparr>) (tx_journal tx),
        tx_error := map_option compact_failure (tx_error tx)\<rparr>"

definition compact_evidence :: "evidence_result \<Rightarrow> evidence_result" where
  "compact_evidence e = e\<lparr>er_details := compact_value (er_details e)\<rparr>"

definition compact_generation :: "generation \<Rightarrow> generation" where
  "compact_generation g =
     g\<lparr>g_validation := map_option compact_evidence (g_validation g),
       g_finalization := map_option compact_evidence (g_finalization g),
       g_smoke := map_option compact_evidence (g_smoke g),
       g_failure := map_option compact_failure (g_failure g)\<rparr>"

text \<open>The flags the functions return say whether anything changed.\<close>

definition compact_persisted_evidence :: "fabric_state \<Rightarrow> fabric_state \<times> bool" where
  "compact_persisted_evidence st =
     (let st' = st\<lparr>fs_tasks := map compact_task (fs_tasks st),
                   fs_transactions := map compact_transaction (fs_transactions st),
                   fs_generations := map compact_generation (fs_generations st),
                   fs_handoffs := map (\<lambda>h. h\<lparr>ho_evidence := map compact_value (ho_evidence h)\<rparr>) (fs_handoffs st),
                   fs_agents := map (\<lambda>a. a\<lparr>ag_metadata := compact_value (ag_metadata a)\<rparr>) (fs_agents st)\<rparr>
      in (st', st' \<noteq> st))"

definition claim_session :: "string \<Rightarrow> workspace_session \<Rightarrow> workspace_session" where
  "claim_session i s =
     (if ws_authority s = None
      then s\<lparr>ws_authority := Some \<lparr>sa_controller_id = i, sa_epoch = 1, sa_pending_controller_id = None\<rparr>\<rparr>
      else s)"

text \<open>
  \<open>open_with_id\<close>: \<open>disk\<close> is the content of the state file (\<open>None\<close> when there is none, which
  loads as the default state), \<open>clk\<close> the clock readings of the recovery of orphaned tasks. \<open>open_tables\<close>
  is the part after the migration of payloads: compaction, the two tables, and a save if anything changed.
\<close>

definition open_tables ::
  "cenv \<Rightarrow> (nat \<Rightarrow> u64) \<Rightarrow> string \<Rightarrow> bool \<Rightarrow> fabric_state option \<Rightarrow> payload_files \<Rightarrow> fabric_state
     \<Rightarrow> (fabric_state option \<times> payload_files) \<times> (store_error, controller) outcome" where
  "open_tables n clk i dirty disk files st =
     (let (st, compacted) = compact_persisted_evidence st;
          (ls, reaped) = reap_expired (cv_now n 0) (from_snapshot (fs_leases st) (fs_lease_fences st));
          (tt, orphans) = recover_orphans clk (from_tasks (fs_tasks st));
          changed = (dirty \<or> compacted \<or> reaped \<noteq> [] \<or> orphans \<noteq> []);
          st = (if changed
                then st\<lparr>fs_leases := lease_snapshot ls, fs_lease_fences := fence_snapshot ls,
                        fs_tasks := task_snapshot tt\<rparr> else st);
          disk' = (if changed then Some st else disk)
      in if changed \<and> cv_save n 0 \<noteq> None
         then ((disk, files), Err (StoreIo (the (cv_save n 0))))
         else ((disk', files),
               Ok \<lparr>c_id = i, c_state = st\<lparr>fs_tasks := []\<rparr>, c_leases = ls, c_tasks = tt, c_disk = disk',
                   c_files = files, c_poisoned = False\<rparr>))"

definition open_with_id ::
  "cenv \<Rightarrow> (nat \<Rightarrow> u64) \<Rightarrow> string option \<Rightarrow> fabric_state option \<Rightarrow> payload_files
     \<Rightarrow> (fabric_state option \<times> payload_files) \<times> (store_error, controller) outcome" where
  "open_with_id n clk configured_id disk files =
     (let st = (case disk of Some st \<Rightarrow> st | None \<Rightarrow> fabric_state_default)
      in if fs_controller_id st \<noteq> None \<and> configured_id \<noteq> None \<and> fs_controller_id st \<noteq> configured_id
         then ((disk, files),
               Err (ControllerIdentityMismatch (the (fs_controller_id st)) (the configured_id)))
         else
           let i = (case configured_id of Some i \<Rightarrow> i
                    | None \<Rightarrow> (case fs_controller_id st of Some i \<Rightarrow> i | None \<Rightarrow> ''controller_'' @ cv_uuid n 0));
               identity_changed = (fs_controller_id st \<noteq> Some i \<or> list_ex (\<lambda>s. ws_authority s = None) (fs_sessions st));
               st = st\<lparr>fs_controller_id := Some i, fs_sessions := map (claim_session i) (fs_sessions st)\<rparr>
           in case migrate_deployed_task_payloads (cv_payload n) (fs_tasks st) files of
                (files, Err e) \<Rightarrow> ((disk, files), Err (StoreIo (code e @ '': '' @ message e)))
              | (files, Panic) \<Rightarrow> ((disk, files), Panic)
              | (files, Ok (ts, migrated)) \<Rightarrow>
                  open_tables n clk i (migrated \<or> identity_changed) disk files (st\<lparr>fs_tasks := ts\<rparr>))"

section \<open>Routing\<close>

definition session_of_record :: "string \<Rightarrow> json \<Rightarrow> controller \<Rightarrow> string option" where
  "session_of_record action params c =
     (if starts_with ''agent.'' action
      then Option.bind (text_param params ''agentId'') (\<lambda>i.
             map_option ag_workspace_session_id (List.find (\<lambda>a. ag_id a = i) (fs_agents (c_state c))))
      else if starts_with ''task.'' action
      then Option.bind (text_param params ''taskId'') (\<lambda>i.
             map_option t_workspace_session_id (get_task (c_tasks c) i))
      else if starts_with ''transaction.'' action
      then Option.bind (text_param params ''transactionId'') (\<lambda>i.
             map_option tx_workspace_session_id (List.find (\<lambda>t. tx_id t = i) (fs_transactions (c_state c))))
      else if starts_with ''handoff.'' action
      then Option.bind (text_param params ''handoffId'') (\<lambda>i.
             map_option ho_workspace_session_id (List.find (\<lambda>h. ho_id h = i) (fs_handoffs (c_state c))))
      else None)"

definition or_else :: "'a option \<Rightarrow> 'a option \<Rightarrow> 'a option" where
  "or_else x y = (case x of Some a \<Rightarrow> Some a | None \<Rightarrow> y)"

definition session_id_for_action :: "string \<Rightarrow> json \<Rightarrow> controller \<Rightarrow> string option" where
  "session_id_for_action action params c =
     or_else (Option.bind (or_else (jget params ''workspaceSessionId'') (jget params ''sessionId'')) as_str)
    (or_else (if action = ''session.put'' then Option.bind (pointer params [''metadata'', ''id'']) as_str else None)
    (or_else (if action = ''session.accept-handoff''
              then Option.bind (pointer params [''session'', ''metadata'', ''id'']) as_str else None)
    (or_else (if action = ''artifact.put''
              then Option.bind (pointer params [''provenance'', ''workspaceSessionId'']) as_str else None)
    (or_else (if starts_with ''driver.'' action \<or> starts_with ''lease.'' action
              then Option.bind (text_param params ''resource'') (strip_prefix ''workspace:'') else None)
      (session_of_record action params c)))))"

definition route_to :: "cenv \<Rightarrow> string \<Rightarrow> json \<Rightarrow> controller \<Rightarrow> string option \<Rightarrow> json option rpc" where
  "route_to n action params c authority_id =
     (case authority_id of
        None \<Rightarrow> Ok None
      | Some i \<Rightarrow>
          if i = c_id c then Ok None
          else and_then (ok_or (find_controller c i)
                 (rpc_error_new ''SESSION_AUTHORITY_UNAVAILABLE'' (''home controller '' @ i @ '' is not registered'')))
            (\<lambda>home. case call_executor n 0 (cp_endpoint home) action params of
               Inl e \<Rightarrow> Err (unavailable ''SESSION_AUTHORITY_UNAVAILABLE'' False e)
             | Inr r \<Rightarrow> and_then (response_value ''SESSION_AUTHORITY_FAILED'' ''home controller rejected request'' r)
                         (\<lambda>v. Ok (Some v))))"

definition route_session_action :: "cenv \<Rightarrow> string \<Rightarrow> json \<Rightarrow> controller \<Rightarrow> json option rpc" where
  "route_session_action n action params c =
     (if action \<in> {''session.put'', ''session.accept-handoff''} then Ok None
      else case session_id_for_action action params c of
        None \<Rightarrow> Ok None
      | Some session_id \<Rightarrow>
          let authority = Option.bind (find_session c session_id) ws_authority
          in case Option.bind authority sa_pending_controller_id of
               Some target \<Rightarrow>
                 if action \<notin> {''session.get'', ''session.handoff''}
                 then Err (rpc_error_new ''SESSION_HANDOFF_IN_PROGRESS''
                             (''session handoff to '' @ target @ '' is in progress''))
                 else route_to n action params c (map_option sa_controller_id authority)
             | None \<Rightarrow> route_to n action params c (map_option sa_controller_id authority))"

end
