(* ===== verification/Controller_Sessions.thy ===== *)
theory Controller_Sessions
  imports Controller_State
begin

text \<open>
  The session requests of the controller (\<open>session.*\<close> in \<open>controller.rs\<close>). A session belongs
  to one controller at a time, named with an epoch in its authority; \<open>session.handoff\<close> moves it
  to another controller, which takes it with \<open>session.accept-handoff\<close>.
\<close>

definition session_put :: "cenv \<Rightarrow> json \<Rightarrow> json step" where
  "session_put n params c =
     sbind (lift_res c (from_value ''INVALID_PARAMS'' (dec_session (cv_codec n)) params)) (\<lambda>c session.
     let i = md_id (ws_metadata session)
     in sbind (lift_res c
          (case ws_authority session of
             None \<Rightarrow> Ok (session\<lparr>ws_authority :=
                 Some \<lparr>sa_controller_id = c_id c, sa_epoch = 1, sa_pending_controller_id = None\<rparr>\<rparr>)
           | Some authority \<Rightarrow>
               if sa_controller_id authority = c_id c
               then if Option.bind (find_session c i) ws_authority \<noteq> Some authority
                    then Err (rpc_error_new ''INVALID_AUTHORITY'' ''session authority can only change through handoff'')
                    else Ok session
               else Err (rpc_error_new ''NOT_SESSION_AUTHORITY''
                      (''session '' @ i @ '' is owned by controller '' @ sa_controller_id authority))))
        (\<lambda>c session. persist_then n 1 (enc_session (cv_codec n) session) (put_session session c)))"

text \<open>The records a handoff brings, array after array, each stored under its own key.\<close>

definition take_array ::
  "codec \<Rightarrow> 'a decoder \<Rightarrow> json \<Rightarrow> string \<Rightarrow> ('a \<Rightarrow> fabric_state \<Rightarrow> fabric_state) \<Rightarrow> unit step" where
  "take_array cd dec params key store c =
     sbind (lift_res c (optional_array cd dec params key)) (\<lambda>c xs. (upd_state (fold store xs) c, Ok ()))"

definition store_task_entry :: "task \<Rightarrow> fabric_state \<Rightarrow> fabric_state" where
  "store_task_entry x st = st\<lparr>fs_tasks := upsert_by (\<lambda>y. t_id y = t_id x) x (fs_tasks st)\<rparr>"

definition store_artifact :: "artifact \<Rightarrow> fabric_state \<Rightarrow> fabric_state" where
  "store_artifact x st = st\<lparr>fs_artifacts := upsert_by (\<lambda>y. ar_digest y = ar_digest x) x (fs_artifacts st)\<rparr>"

definition store_generation :: "generation \<Rightarrow> fabric_state \<Rightarrow> fabric_state" where
  "store_generation x st = st\<lparr>fs_generations := upsert_by (\<lambda>y. g_id y = g_id x) x (fs_generations st)\<rparr>"

definition store_transaction :: "activation_transaction \<Rightarrow> fabric_state \<Rightarrow> fabric_state" where
  "store_transaction x st = st\<lparr>fs_transactions := upsert_by (\<lambda>y. tx_id y = tx_id x) x (fs_transactions st)\<rparr>"

definition store_agent :: "agent_instance \<Rightarrow> fabric_state \<Rightarrow> fabric_state" where
  "store_agent x st = st\<lparr>fs_agents := upsert_by (\<lambda>y. ag_id y = ag_id x) x (fs_agents st)\<rparr>"

definition store_handoff :: "handoff \<Rightarrow> fabric_state \<Rightarrow> fabric_state" where
  "store_handoff x st = st\<lparr>fs_handoffs := upsert_by (\<lambda>y. ho_id y = ho_id x) x (fs_handoffs st)\<rparr>"

definition take_bundle :: "codec \<Rightarrow> json \<Rightarrow> unit step" where
  "take_bundle cd params c =
     sbind (take_array cd (dec_task cd) params ''tasks'' store_task_entry c) (\<lambda>c _.
     sbind (take_array cd (dec_artifact cd) params ''artifacts'' store_artifact c) (\<lambda>c _.
     sbind (take_array cd (dec_generation cd) params ''generations'' store_generation c) (\<lambda>c _.
     sbind (take_array cd (dec_transaction cd) params ''transactions'' store_transaction c) (\<lambda>c _.
     sbind (take_array cd (dec_agent cd) params ''agents'' store_agent c) (\<lambda>c _.
       take_array cd (dec_handoff cd) params ''handoffs'' store_handoff c)))))"

text \<open>\<open>state.tasks\<close> moves into the task table, which it replaces.\<close>

definition reload_tasks :: "controller \<Rightarrow> controller" where
  "reload_tasks c = (upd_state (\<lambda>st. st\<lparr>fs_tasks := []\<rparr>) c)\<lparr>c_tasks := from_tasks (fs_tasks (c_state c))\<rparr>"

definition accept_store :: "cenv \<Rightarrow> json \<Rightarrow> workspace_session \<Rightarrow> json step" where
  "accept_store n params session c =
     sbind (take_bundle (cv_codec n) params (put_session session c)) (\<lambda>c _.
       persist_then n 1 (enc_session (cv_codec n) session) (reload_tasks c))"

definition session_accept_handoff :: "cenv \<Rightarrow> json \<Rightarrow> json step" where
  "session_accept_handoff n params c =
     sbind (lift_res c (required_value (dec_session (cv_codec n)) params ''session'')) (\<lambda>c session.
     sbind (lift_res c (ok_or (ws_authority session)
              (rpc_error_new ''INVALID_AUTHORITY'' ''handoff has no session authority''))) (\<lambda>c authority.
     if sa_controller_id authority \<noteq> c_id c
     then (c, Err (rpc_error_new ''INVALID_AUTHORITY'' ''handoff target does not match this controller''))
     else case find_session c (md_id (ws_metadata session)) of
            None \<Rightarrow> accept_store n params session c
          | Some existing \<Rightarrow>
              if ws_authority existing = Some authority then (c, Ok (enc_session (cv_codec n) existing))
              else if (case ws_authority existing of
                         Some current \<Rightarrow> sa_epoch current \<ge> sa_epoch authority | None \<Rightarrow> False)
              then (c, Err (rpc_error_new ''STALE_AUTHORITY_EPOCH'' ''handoff epoch must increase''))
              else accept_store n params session c))"

definition session_bundle :: "codec \<Rightarrow> workspace_session \<Rightarrow> controller \<Rightarrow> json" where
  "session_bundle cd session c =
     (let i = md_id (ws_metadata session); st = c_state c
      in jobj
        [(''session'', enc_session cd session),
         (''tasks'', JArr (map (enc_task cd)
            (filter (\<lambda>x. t_workspace_session_id x = i) (task_snapshot (c_tasks c))))),
         (''artifacts'', JArr (map (enc_artifact cd)
            (filter (\<lambda>x. pv_workspace_session_id (ar_provenance x) = i) (fs_artifacts st)))),
         (''generations'', JArr (map (enc_generation cd)
            (filter (\<lambda>x. g_workspace_session_id x = i) (fs_generations st)))),
         (''transactions'', JArr (map (enc_transaction cd)
            (filter (\<lambda>x. tx_workspace_session_id x = i) (fs_transactions st)))),
         (''agents'', JArr (map (enc_agent cd)
            (filter (\<lambda>x. ag_workspace_session_id x = i) (fs_agents st)))),
         (''handoffs'', JArr (map (enc_handoff cd)
            (filter (\<lambda>x. ho_workspace_session_id x = i) (fs_handoffs st))))])"

text \<open>
  \<open>session.handoff\<close> in its three parts: the checks and the durable mark that a handoff is
  pending, the call to the target, and the change of authority once the target has accepted.
\<close>

record handoff_plan =
  hp_endpoint :: executor_endpoint
  hp_session :: workspace_session
  hp_bundle :: json

definition handoff_mark :: "cenv \<Rightarrow> string \<Rightarrow> workspace_session \<Rightarrow> session_authority \<Rightarrow> workspace_session step" where
  "handoff_mark n target_id session current c =
     (if sa_pending_controller_id current = None
      then let marked = session\<lparr>ws_authority := Some \<lparr>sa_controller_id = c_id c, sa_epoch = sa_epoch current,
                                  sa_pending_controller_id = Some target_id\<rparr>\<rparr>
           in sbind (persist n 1 (put_session marked c)) (\<lambda>c _. (c, Ok marked))
      else (c, Ok session))"

definition handoff_prepare :: "cenv \<Rightarrow> json \<Rightarrow> handoff_plan step" where
  "handoff_prepare n params c =
     sbind (lift_res c (required_text params ''sessionId'')) (\<lambda>c session_id.
     sbind (lift_res c (required_text params ''targetControllerId'')) (\<lambda>c target_id.
     sbind (lift_res c (ok_or (find_controller c target_id)
              (rpc_error_new ''CONTROLLER_NOT_FOUND'' ''target not registered''))) (\<lambda>c target.
     if list_ex (\<lambda>t. t_workspace_session_id t = session_id \<and> \<not> terminal (t_state t)) (task_snapshot (c_tasks c))
     then (c, Err (rpc_error_new ''SESSION_NOT_QUIESCENT'' ''session has queued or running tasks''))
     else
     sbind (lift_res c (ok_or (find_session c session_id)
              (rpc_error_new ''SESSION_NOT_FOUND'' ''session not found''))) (\<lambda>c session.
     sbind (lift_res c (ok_or (ws_authority session)
              (rpc_error_new ''INVALID_AUTHORITY'' ''session has no authority''))) (\<lambda>c current.
     if sa_controller_id current \<noteq> c_id c
     then (c, Err (rpc_error_new ''NOT_SESSION_AUTHORITY'' (''session is owned by '' @ sa_controller_id current)))
     else if (case sa_pending_controller_id current of Some p \<Rightarrow> p \<noteq> target_id | None \<Rightarrow> False)
     then (c, Err (rpc_error_new ''HANDOFF_IN_PROGRESS''
             (''handoff is already pending to '' @
              (case sa_pending_controller_id current of
                 Some p \<Rightarrow> ''Some('' @ debug_text (cv_codec n) p @ '')'' | None \<Rightarrow> ''None''))))
     else
     sbind (handoff_mark n target_id session current c) (\<lambda>c session.
       let moved = session
             \<lparr>ws_authority := Some \<lparr>sa_controller_id = target_id, sa_epoch = sat_add (sa_epoch current) 1,
                sa_pending_controller_id = None\<rparr>,
              ws_metadata := (ws_metadata session)\<lparr>md_updated_at := cv_now n 1\<rparr>\<rparr>
       in (c, Ok \<lparr>hp_endpoint = cp_endpoint target, hp_session = moved,
                  hp_bundle = session_bundle (cv_codec n) moved c\<rparr>)))))))"

definition handoff_commit :: "cenv \<Rightarrow> workspace_session \<Rightarrow> json step" where
  "handoff_commit n session c =
     persist_then n 2 (enc_session (cv_codec n) session) (put_session session c)"

definition session_handoff :: "cenv \<Rightarrow> json \<Rightarrow> json step" where
  "session_handoff n params c =
     sbind (handoff_prepare n params c) (\<lambda>c plan.
     case call_executor n 1 (hp_endpoint plan) ''session.accept-handoff'' (hp_bundle plan) of
       Inl e \<Rightarrow> (c, Err (unavailable ''CONTROLLER_UNAVAILABLE'' False e))
     | Inr r \<Rightarrow>
         sbind (lift_res c (response_value ''HANDOFF_REJECTED'' ''target rejected session handoff'' r))
           (\<lambda>c _. handoff_commit n (hp_session plan) c))"

definition session_get :: "cenv \<Rightarrow> json \<Rightarrow> json step" where
  "session_get n params c =
     sbind (lift_res c (required_text params ''sessionId'')) (\<lambda>c i.
       (c, case find_session c i of
                         Some s \<Rightarrow> Ok (enc_session (cv_codec n) s)
                       | None \<Rightarrow> Err (rpc_error_new ''SESSION_NOT_FOUND'' (''unknown session: '' @ i))))"

definition session_list :: "cenv \<Rightarrow> json step" where
  "session_list n c = (c, Ok (JArr (map (enc_session (cv_codec n)) (fs_sessions (c_state c)))))"

definition session_transition :: "cenv \<Rightarrow> json \<Rightarrow> json step" where
  "session_transition n params c =
     sbind (lift_res c (required_text params ''sessionId'')) (\<lambda>c i.
     sbind (lift_res c (required_value (dec_session_state (cv_codec n)) params ''state'')) (\<lambda>c st.
     case find_session c i of
       None \<Rightarrow> (c, Err (rpc_error_new ''SESSION_NOT_FOUND'' (''unknown session: '' @ i)))
     | Some session \<Rightarrow>
         let f = (\<lambda>s. s\<lparr>ws_state := st, ws_metadata := (ws_metadata s)\<lparr>md_updated_at := cv_now n 1\<rparr>\<rparr>)
         in persist_then n 1 (enc_session (cv_codec n) (f session))
              (upd_state (\<lambda>s. s\<lparr>fs_sessions :=
                 update_first (\<lambda>x. md_id (ws_metadata x) = i) f (fs_sessions s)\<rparr>) c)))"

end
