(* ===== verification/Controller_Records.thy ===== *)
theory Controller_Records
  imports Controller_Sessions
begin

text \<open>
  The requests of the controller on its other records: artifacts, generations, agents,
  registered executors and controllers, approvals, activation transactions, handoff documents,
  leases, tasks and ports (the arms of \<open>dispatch\<close> in \<open>controller.rs\<close>, one definition each).
\<close>

section \<open>Artifacts and generations\<close>

definition artifact_put :: "cenv \<Rightarrow> json \<Rightarrow> json step" where
  "artifact_put n params c =
     sbind (lift_res c (from_value ''INVALID_PARAMS'' (dec_artifact (cv_codec n)) params)) (\<lambda>c artifact.
       persist_then n 1 (enc_artifact (cv_codec n) artifact) (upd_state (store_artifact artifact) c))"

definition artifact_get :: "cenv \<Rightarrow> json \<Rightarrow> json step" where
  "artifact_get n params c =
     sbind (lift_res c (required_text params ''digest'')) (\<lambda>c i.
       (c, case List.find (\<lambda>x. ar_digest x = i) (fs_artifacts (c_state c)) of
             Some x \<Rightarrow> Ok (enc_artifact (cv_codec n) x)
           | None \<Rightarrow> Err (rpc_error_new ''ARTIFACT_NOT_FOUND'' (''unknown artifact: '' @ i))))"

definition artifact_list :: "cenv \<Rightarrow> json step" where
  "artifact_list n c = (c, Ok (JArr (map (enc_artifact (cv_codec n)) (fs_artifacts (c_state c)))))"

fun debug_generation_state :: "generation_state \<Rightarrow> string" where
  "debug_generation_state GenReserved = ''Reserved''"
| "debug_generation_state GenMaterializing = ''Materializing''"
| "debug_generation_state GenMaterialized = ''Materialized''"
| "debug_generation_state GenValidated = ''Validated''"
| "debug_generation_state GenFinalized = ''Finalized''"
| "debug_generation_state GenSmokePassed = ''SmokePassed''"
| "debug_generation_state GenActive = ''Active''"
| "debug_generation_state GenSuperseded = ''Superseded''"
| "debug_generation_state GenFailed = ''Failed''"

definition generation_transition_allowed :: "generation_state \<Rightarrow> generation_state \<Rightarrow> bool" where
  "generation_transition_allowed a b \<longleftrightarrow>
     a = b \<or>
     (a, b) \<in> {(GenReserved, GenMaterializing), (GenReserved, GenFailed),
               (GenMaterializing, GenMaterialized), (GenMaterializing, GenFailed),
               (GenMaterialized, GenValidated), (GenMaterialized, GenFailed),
               (GenValidated, GenFinalized), (GenValidated, GenFailed),
               (GenFinalized, GenSmokePassed), (GenFinalized, GenFailed),
               (GenSmokePassed, GenActive), (GenSmokePassed, GenFailed),
               (GenActive, GenSuperseded)}"

definition find_generation :: "controller \<Rightarrow> string \<Rightarrow> generation option" where
  "find_generation c i = List.find (\<lambda>x. g_id x = i) (fs_generations (c_state c))"

definition generation_put :: "cenv \<Rightarrow> json \<Rightarrow> json step" where
  "generation_put n params c =
     sbind (lift_res c (from_value ''INVALID_PARAMS'' (dec_generation (cv_codec n)) params)) (\<lambda>c g.
     sbind (lift_res c
       (case find_generation c (g_id g) of
          None \<Rightarrow> Ok ()
        | Some existing \<Rightarrow>
            if g_workspace_session_id existing \<noteq> g_workspace_session_id g \<or> g_root existing \<noteq> g_root g
               \<or> bl_digest (g_baseline existing) \<noteq> bl_digest (g_baseline g)
            then Err (rpc_error_new ''GENERATION_IDENTITY_CONFLICT'' ''generation identity fields are immutable'')
            else if \<not> generation_transition_allowed (g_state existing) (g_state g)
            then Err (rpc_error_new ''INVALID_GENERATION_STATE''
                   (''invalid generation transition '' @ debug_generation_state (g_state existing) @ '' -> '' @
                    debug_generation_state (g_state g)))
            else Ok ())) (\<lambda>c _.
       persist_then n 1 (enc_generation (cv_codec n) g) (upd_state (store_generation g) c)))"

definition generation_get :: "cenv \<Rightarrow> json \<Rightarrow> json step" where
  "generation_get n params c =
     sbind (lift_res c (required_text params ''generationId'')) (\<lambda>c i.
       (c, case find_generation c i of
             Some x \<Rightarrow> Ok (enc_generation (cv_codec n) x)
           | None \<Rightarrow> Err (rpc_error_new ''GENERATION_NOT_FOUND'' (''unknown generation: '' @ i))))"

definition generation_list :: "cenv \<Rightarrow> json step" where
  "generation_list n c = (c, Ok (JArr (map (enc_generation (cv_codec n)) (fs_generations (c_state c)))))"

section \<open>Agents\<close>

definition find_agent :: "controller \<Rightarrow> string \<Rightarrow> agent_instance option" where
  "find_agent c i = List.find (\<lambda>x. ag_id x = i) (fs_agents (c_state c))"

definition agent_put :: "cenv \<Rightarrow> json \<Rightarrow> json step" where
  "agent_put n params c =
     sbind (lift_res c (from_value ''INVALID_PARAMS'' (dec_agent (cv_codec n)) params)) (\<lambda>c agent.
       persist_then n 1 (enc_agent (cv_codec n) agent) (upd_state (store_agent agent) c))"

definition agent_get :: "cenv \<Rightarrow> json \<Rightarrow> json step" where
  "agent_get n params c =
     sbind (lift_res c (required_text params ''agentId'')) (\<lambda>c i.
       (c, case find_agent c i of
             Some x \<Rightarrow> Ok (enc_agent (cv_codec n) x)
           | None \<Rightarrow> Err (rpc_error_new ''AGENT_NOT_FOUND'' (''unknown agent: '' @ i))))"

definition agent_list :: "cenv \<Rightarrow> json step" where
  "agent_list n c = (c, Ok (JArr (map (enc_agent (cv_codec n)) (fs_agents (c_state c)))))"

definition change_agent :: "string \<Rightarrow> (agent_instance \<Rightarrow> agent_instance) \<Rightarrow> controller \<Rightarrow> controller" where
  "change_agent i f = upd_state (\<lambda>st. st\<lparr>fs_agents := update_first (\<lambda>x. ag_id x = i) f (fs_agents st)\<rparr>)"

definition agent_transition :: "cenv \<Rightarrow> json \<Rightarrow> json step" where
  "agent_transition n params c =
     sbind (lift_res c (required_text params ''agentId'')) (\<lambda>c i.
     sbind (lift_res c (required_value (dec_agent_state (cv_codec n)) params ''state'')) (\<lambda>c st.
     case find_agent c i of
       None \<Rightarrow> (c, Err (rpc_error_new ''AGENT_NOT_FOUND'' (''unknown agent: '' @ i)))
     | Some agent \<Rightarrow>
         persist_then n 1 (enc_agent (cv_codec n) (agent\<lparr>ag_state := st\<rparr>))
           (change_agent i (\<lambda>a. a\<lparr>ag_state := st\<rparr>) c)))"

section \<open>Registered executors and controllers\<close>

definition store_executor :: "executor_entry \<Rightarrow> fabric_state \<Rightarrow> fabric_state" where
  "store_executor x st =
     st\<lparr>fs_executors := upsert_by (\<lambda>y. md_id (ex_metadata y) = md_id (ex_metadata x)) x (fs_executors st)\<rparr>"

definition store_controller :: "controller_peer \<Rightarrow> fabric_state \<Rightarrow> fabric_state" where
  "store_controller x st =
     st\<lparr>fs_controllers := upsert_by (\<lambda>y. md_id (cp_metadata y) = md_id (cp_metadata x)) x (fs_controllers st)\<rparr>"

definition remove_executor :: "string \<Rightarrow> fabric_state \<Rightarrow> fabric_state" where
  "remove_executor i st = st\<lparr>fs_executors := filter (\<lambda>e. md_id (ex_metadata e) \<noteq> i) (fs_executors st)\<rparr>"

definition remove_controller :: "string \<Rightarrow> fabric_state \<Rightarrow> fabric_state" where
  "remove_controller i st = st\<lparr>fs_controllers := filter (\<lambda>e. md_id (cp_metadata e) \<noteq> i) (fs_controllers st)\<rparr>"

definition executor_list :: "cenv \<Rightarrow> json step" where
  "executor_list n c = (c, Ok (JArr (map (enc_executor (cv_codec n)) (fs_executors (c_state c)))))"

definition controller_list :: "cenv \<Rightarrow> json step" where
  "controller_list n c = (c, Ok (JArr (map (enc_controller (cv_codec n)) (fs_controllers (c_state c)))))"

definition executor_unregister :: "cenv \<Rightarrow> json \<Rightarrow> json step" where
  "executor_unregister n params c =
     sbind (lift_res c (required_text params ''executorId'')) (\<lambda>c i.
     let c' = upd_state (remove_executor i) c;
         removed = (length (fs_executors (c_state c')) \<noteq> length (fs_executors (c_state c)));
         result = jobj [(''executorId'', JStr i), (''removed'', JBool removed)]
     in if removed then persist_then n 1 result c' else (c', Ok result))"

definition controller_unregister :: "cenv \<Rightarrow> json \<Rightarrow> json step" where
  "controller_unregister n params c =
     sbind (lift_res c (required_text params ''controllerId'')) (\<lambda>c i.
     if i = c_id c then (c, Err (rpc_error_new ''CONTROLLER_SELF_UNREGISTER'' ''a Controller cannot unregister itself''))
     else
     let c' = upd_state (remove_controller i) c;
         removed = (length (fs_controllers (c_state c')) \<noteq> length (fs_controllers (c_state c)));
         result = jobj [(''controllerId'', JStr i), (''removed'', JBool removed)]
     in if removed then persist_then n 1 result c' else (c', Ok result))"

definition fresh_metadata :: "string \<Rightarrow> u64 \<Rightarrow> metadata" where
  "fresh_metadata i now = \<lparr>md_id = i, md_labels = [], md_created_at = now, md_updated_at = now\<rparr>"

definition controller_register :: "cenv \<Rightarrow> json \<Rightarrow> json step" where
  "controller_register n params c =
     sbind (lift_res c (required_text params ''controllerId'')) (\<lambda>c i.
     sbind (lift_res c (required_value (dec_endpoint (cv_codec n)) params ''endpoint'')) (\<lambda>c endpoint.
     sbind (lift_res c (case call_executor n 1 endpoint ''ping'' JNull of
              Inl e \<Rightarrow> Err (unavailable ''CONTROLLER_UNAVAILABLE'' True e)
            | Inr r \<Rightarrow> response_value ''CONTROLLER_FAILED'' ''controller failed'' r)) (\<lambda>c status.
     sbind (lift_res c (ok_or (Option.bind (Option.bind (jget status ''controller'') (\<lambda>v. jget v ''id'')) as_str)
              (rpc_error_new ''CONTROLLER_INVALID'' ''controller status did not report an identity''))) (\<lambda>c actual_id.
     if actual_id \<noteq> i
     then (c, Err (rpc_error_new ''CONTROLLER_IDENTITY_MISMATCH''
             (''endpoint reported Controller '' @ actual_id @ '', expected '' @ i)))
     else
     let peer = \<lparr>cp_api_version = ''machine-fabric.dev/v1'', cp_metadata = fresh_metadata i (cv_now n 1),
                 cp_endpoint = endpoint, cp_health = HealthReady\<rparr>
     in persist_then n 1 (enc_controller (cv_codec n) peer) (upd_state (store_controller peer) c)))))"

definition controller_call :: "cenv \<Rightarrow> json \<Rightarrow> json step" where
  "controller_call n params c =
     sbind (lift_res c (required_text params ''controllerId'')) (\<lambda>c i.
     sbind (lift_res c (ok_or (find_controller c i)
              (rpc_error_new ''CONTROLLER_NOT_FOUND'' (''unknown controller: '' @ i)))) (\<lambda>c peer.
     sbind (lift_res c (required_text params ''action'')) (\<lambda>c action.
       (c, case call_executor n 1 (cp_endpoint peer) action (json_param_or params ''params'' JNull) of
             Inl e \<Rightarrow> Err (unavailable ''CONTROLLER_UNAVAILABLE'' True e)
           | Inr r \<Rightarrow> response_value ''CONTROLLER_FAILED'' ''controller failed'' r))))"

definition executor_put :: "cenv \<Rightarrow> json \<Rightarrow> json step" where
  "executor_put n params c =
     sbind (lift_res c (from_value ''INVALID_PARAMS'' (dec_executor (cv_codec n)) params)) (\<lambda>c ex.
       persist_then n 1 (enc_executor (cv_codec n) ex) (upd_state (store_executor ex) c))"

definition executor_register :: "cenv \<Rightarrow> json \<Rightarrow> json step" where
  "executor_register n params c =
     sbind (lift_res c (required_text params ''executorId'')) (\<lambda>c i.
     sbind (lift_res c (required_value (dec_endpoint (cv_codec n)) params ''endpoint'')) (\<lambda>c endpoint.
     sbind (lift_res c (case call_executor n 1 endpoint ''status'' JNull of
              Inl e \<Rightarrow> Err (unavailable ''EXECUTOR_UNAVAILABLE'' True e)
            | Inr r \<Rightarrow> response_value ''EXECUTOR_FAILED'' ''executor failed'' r)) (\<lambda>c status.
     sbind (lift_res c (ok_or (text_param status ''executorId'')
              (rpc_error_new ''EXECUTOR_INVALID'' ''executor status did not report an identity''))) (\<lambda>c actual_id.
     if actual_id \<noteq> i
     then (c, Err (rpc_error_new ''EXECUTOR_IDENTITY_MISMATCH''
             (''endpoint reported Executor '' @ actual_id @ '', expected '' @ i)))
     else
     sbind (lift_res c (from_value ''EXECUTOR_INVALID''
              (dec_array (cv_codec n) (dec_capability (cv_codec n)))
              (json_param_or status ''capabilities'' (JArr [])))) (\<lambda>c capabilities.
     sbind (lift_res c (from_value ''EXECUTOR_INVALID''
              (dec_array (cv_codec n) (dec_string (cv_codec n)))
              (json_param_or status ''allowedRoots'' (JArr [])))) (\<lambda>c allowed_roots.
     let ex = \<lparr>ex_api_version = ''machine-fabric.dev/v1'', ex_metadata = fresh_metadata i (cv_now n 1),
               ex_endpoint = endpoint, ex_capabilities = capabilities, ex_allowed_roots = allowed_roots,
               ex_health = HealthReady\<rparr>
     in persist_then n 1 (enc_executor (cv_codec n) ex) (upd_state (store_executor ex) c)))))))"

definition executor_remove :: "cenv \<Rightarrow> json \<Rightarrow> json step" where
  "executor_remove n params c =
     sbind (lift_res c (required_text params ''executorId'')) (\<lambda>c i.
     let c' = upd_state (remove_executor i) c
     in if length (fs_executors (c_state c')) = length (fs_executors (c_state c))
        then (c', Err (rpc_error_new ''EXECUTOR_NOT_FOUND'' (''unknown executor: '' @ i)))
        else persist_then n 1 (jobj [(''executorId'', JStr i), (''removed'', JBool True)]) c')"

text \<open>
  \<open>executor.call\<close>: leases named by the caller become authorities of the nested request. They
  are checked, and the parameters rewritten, while the lock of the lease table is held:
  assigning to a field of a value that is neither an object nor null panics.
\<close>

fun call_authorities :: "(nat \<Rightarrow> u64) \<Rightarrow> string \<Rightarrow> lease_table \<Rightarrow> json list \<Rightarrow> json list rpc" where
  "call_authorities clk cid t [] = Ok []"
| "call_authorities clk cid t (item # items) =
     and_then (required_text item ''resource'') (\<lambda>resource.
     and_then (required_text item ''owner'') (\<lambda>owner.
     and_then (required_text item ''token'') (\<lambda>token.
     and_then (map_err map_lease_error (validate (clk 0) resource owner token t)) (\<lambda>l.
     and_then (call_authorities (\<lambda>k. clk (Suc k)) cid t items) (\<lambda>rest.
       Ok (jobj [(''controllerId'', JStr cid), (''resource'', JStr (l_resource l)), (''fence'', ju64 (l_fence l))]
           # rest))))))"

definition lease_params :: "json \<Rightarrow> json list option" where
  "lease_params params =
     or_else (Option.bind (jget params ''leases'') as_array)
       (map_option (\<lambda>resource.
          [jobj [(''resource'', resource), (''owner'', json_param_or params ''owner'' JNull),
                 (''token'', json_param_or params ''token'' JNull)]])
        (jget params ''leaseResource''))"

definition add_authority :: "cenv \<Rightarrow> json \<Rightarrow> json \<Rightarrow> json step" where
  "add_authority n params nested c =
     (case lease_params params of
        None \<Rightarrow> (c, Ok nested)
      | Some items \<Rightarrow>
          sbind (lift_res c (call_authorities (\<lambda>k. cv_now n (Suc k)) (c_id c) (c_leases c) items)) (\<lambda>c authorities.
            case jset nested ''_authority'' (JArr authorities) of
              Some v \<Rightarrow> (c, Ok v)
            | None \<Rightarrow> (c\<lparr>c_poisoned := True\<rparr>, Panic)))"

definition executor_call :: "cenv \<Rightarrow> json \<Rightarrow> json step" where
  "executor_call n params c =
     sbind (lift_res c (required_text params ''executorId'')) (\<lambda>c i.
     sbind (lift_res c (ok_or (find_executor c i)
              (rpc_error_new ''EXECUTOR_NOT_FOUND'' (''unknown executor: '' @ i)))) (\<lambda>c ex.
     sbind (lift_res c (required_text params ''action'')) (\<lambda>c nested_action.
     sbind (add_authority n params (json_param_or params ''params'' JNull) c) (\<lambda>c nested_params.
       (c, case call_executor n 1 (ex_endpoint ex) nested_action nested_params of
             Inl e \<Rightarrow> Err (unavailable ''EXECUTOR_UNAVAILABLE'' True e)
           | Inr r \<Rightarrow> response_value ''EXECUTOR_FAILED'' ''executor failed'' r)))))"

section \<open>Approvals\<close>

definition find_approval :: "controller \<Rightarrow> string \<Rightarrow> approval option" where
  "find_approval c i = List.find (\<lambda>a. ap_id a = i) (fs_approvals (c_state c))"

definition change_approval :: "string \<Rightarrow> (approval \<Rightarrow> approval) \<Rightarrow> controller \<Rightarrow> controller" where
  "change_approval i f = upd_state (\<lambda>st. st\<lparr>fs_approvals := update_first (\<lambda>a. ap_id a = i) f (fs_approvals st)\<rparr>)"

definition approval_request :: "cenv \<Rightarrow> json \<Rightarrow> json step" where
  "approval_request n params c =
     sbind (lift_res c (required_text params ''digest'')) (\<lambda>c digest.
     sbind (lift_res c (required_text params ''owner'')) (\<lambda>c owner.
     case List.find (\<lambda>a. ap_digest a = digest \<and> ap_owner a = owner
                         \<and> (ap_state a = ApprovalPending \<or> ap_state a = ApprovalApproved))
            (fs_approvals (c_state c)) of
       Some existing \<Rightarrow> (c, Ok (enc_approval (cv_codec n) existing))
     | None \<Rightarrow>
         sbind (lift_res c (required_text params ''reason'')) (\<lambda>c rsn.
         let a = \<lparr>ap_id = ''approval_'' @ cv_uuid n 0, ap_digest = digest, ap_owner = owner, ap_reason = rsn,
                  ap_state = ApprovalPending, ap_created_at = cv_now n 1, ap_approved_at = None,
                  ap_consumed_at = None, ap_expires_at = None\<rparr>
         in persist_then n 1 (enc_approval (cv_codec n) a)
              (upd_state (\<lambda>st. st\<lparr>fs_approvals := fs_approvals st @ [a]\<rparr>) c))))"

definition approval_list :: "cenv \<Rightarrow> json step" where
  "approval_list n c = (c, Ok (JArr (map (enc_approval (cv_codec n)) (fs_approvals (c_state c)))))"

definition approved :: "cenv \<Rightarrow> json \<Rightarrow> approval \<Rightarrow> approval" where
  "approved n params a =
     a\<lparr>ap_state := ApprovalApproved, ap_approved_at := Some (cv_now n 1),
       ap_expires_at := Some (sat_add (cv_now n 1) (u64_param_or params ''ttlMs'' 300000))\<rparr>"

definition approval_decide :: "cenv \<Rightarrow> string \<Rightarrow> json \<Rightarrow> json step" where
  "approval_decide n action params c =
     sbind (lift_res c (required_text params ''approvalId'')) (\<lambda>c i.
     case find_approval c i of
       None \<Rightarrow> (c, Err (rpc_error_new ''APPROVAL_NOT_FOUND'' (''unknown approval: '' @ i)))
     | Some a \<Rightarrow>
         if action = ''approval.approve'' \<and> ap_state a \<noteq> ApprovalPending
         then (c, Err (rpc_error_new ''APPROVAL_NOT_PENDING'' ''approval is not pending''))
         else
         let f = (if action = ''approval.approve'' then approved n params else (\<lambda>a. a\<lparr>ap_state := ApprovalRevoked\<rparr>))
         in persist_then n 1 (enc_approval (cv_codec n) (f a)) (change_approval i f c))"

section \<open>Activation transactions\<close>

definition new_transaction :: "cenv \<Rightarrow> string \<Rightarrow> string \<Rightarrow> string \<Rightarrow> string \<Rightarrow> json \<Rightarrow> activation_transaction" where
  "new_transaction n key ws target gid params =
     \<lparr>tx_id = ''transaction_'' @ cv_uuid n 0, tx_workspace_session_id = ws, tx_idempotency_key = key,
      tx_target = target, tx_generation_id = gid,
      tx_previous_generation_id = text_param params ''previousGenerationId'', tx_state = TxPlanned,
      tx_created_at = cv_now n 1, tx_updated_at = cv_now n 1, tx_completed_steps = [], tx_journal = [],
      tx_lease_fence = u64_param params ''leaseFence'', tx_evidence = [], tx_error = None\<rparr>"

definition transaction_begin :: "cenv \<Rightarrow> json \<Rightarrow> json step" where
  "transaction_begin n params c =
     sbind (lift_res c (required_text params ''idempotencyKey'')) (\<lambda>c key.
     case List.find (\<lambda>t. tx_idempotency_key t = key) (fs_transactions (c_state c)) of
       Some existing \<Rightarrow>
         (c, Ok (jobj [(''transaction'', enc_transaction (cv_codec n) existing), (''reused'', JBool True)]))
     | None \<Rightarrow>
         sbind (lift_res c (required_text params ''workspaceSessionId'')) (\<lambda>c ws.
         sbind (lift_res c (required_text params ''target'')) (\<lambda>c target.
         sbind (lift_res c (required_text params ''generationId'')) (\<lambda>c gid.
         let t = new_transaction n key ws target gid params
         in persist_then n 1 (jobj [(''transaction'', enc_transaction (cv_codec n) t), (''reused'', JBool False)])
              (upd_state (\<lambda>st. st\<lparr>fs_transactions := fs_transactions st @ [t]\<rparr>) c)))))"

definition find_transaction :: "controller \<Rightarrow> string \<Rightarrow> activation_transaction option" where
  "find_transaction c i = List.find (\<lambda>t. tx_id t = i) (fs_transactions (c_state c))"

definition transaction_get :: "cenv \<Rightarrow> json \<Rightarrow> json step" where
  "transaction_get n params c =
     sbind (lift_res c (required_text params ''transactionId'')) (\<lambda>c i.
       (c, case find_transaction c i of
             Some x \<Rightarrow> Ok (enc_transaction (cv_codec n) x)
           | None \<Rightarrow> Err (rpc_error_new ''TRANSACTION_NOT_FOUND'' (''unknown transaction: '' @ i))))"

definition transaction_list :: "cenv \<Rightarrow> json step" where
  "transaction_list n c = (c, Ok (JArr (map (enc_transaction (cv_codec n)) (fs_transactions (c_state c)))))"

definition step_finished :: "transaction_step_state \<Rightarrow> bool" where
  "step_finished s \<longleftrightarrow> s \<in> {StepSucceeded, StepFailed, StepCompensated, StepOutcomeUnknown}"

definition journal_entry ::
  "cenv \<Rightarrow> json \<Rightarrow> string \<Rightarrow> transaction_step_state \<Rightarrow> activation_transaction \<Rightarrow> transaction_journal_entry" where
  "journal_entry n params step_name step_state t =
     \<lparr>je_sequence = of_nat (length (tx_journal t)) + 1, je_step = step_name, je_state = step_state,
      je_attempt = ucast (u64_param_or params ''attempt'' 1),
      je_started_at = u64_param_or params ''startedAt'' (cv_now n 1),
      je_finished_at = (if step_finished step_state then Some (cv_now n 1) else None),
      je_input_digest = text_param params ''inputDigest'', je_output_digest = text_param params ''outputDigest'',
      je_executor_id = text_param params ''executorId'', je_fence = u64_param params ''fence'',
      je_details = json_param_or params ''details'' JNull\<rparr>"

definition step_outcome :: "string \<Rightarrow> transaction_step_state \<Rightarrow> activation_transaction \<Rightarrow> activation_transaction" where
  "step_outcome step_name step_state t =
     (case step_state of
        StepStarted \<Rightarrow> t\<lparr>tx_state := TxRunning\<rparr>
      | StepSucceeded \<Rightarrow>
          let t = (if step_name \<in> set (tx_completed_steps t) then t
                   else t\<lparr>tx_completed_steps := tx_completed_steps t @ [step_name]\<rparr>)
          in if step_name = ''activate'' then t\<lparr>tx_state := TxActivated\<rparr> else t
      | StepFailed \<Rightarrow> t\<lparr>tx_state := TxFailed\<rparr>
      | StepOutcomeUnknown \<Rightarrow> t\<lparr>tx_state := TxOutcomeUnknown\<rparr>
      | StepCompensated \<Rightarrow> t\<lparr>tx_state := TxRolledBack\<rparr>
      | StepPlanned \<Rightarrow> t)"

definition record_step ::
  "cenv \<Rightarrow> json \<Rightarrow> string \<Rightarrow> transaction_step_state \<Rightarrow> activation_transaction \<Rightarrow> activation_transaction" where
  "record_step n params step_name step_state t =
     (let t = t\<lparr>tx_journal := tx_journal t @ [journal_entry n params step_name step_state t],
                tx_updated_at := cv_now n 1\<rparr>;
          t = (case text_param params ''previousGenerationId'' of
                 Some previous \<Rightarrow> if step_name = ''activate'' then t\<lparr>tx_previous_generation_id := Some previous\<rparr> else t
               | None \<Rightarrow> t)
      in step_outcome step_name step_state t)"

definition record_transaction ::
  "cenv \<Rightarrow> json \<Rightarrow> string \<Rightarrow> string \<Rightarrow> transaction_step_state \<Rightarrow> activation_transaction \<Rightarrow> json step" where
  "record_transaction n params i step_name step_state t c =
     (let f = record_step n params step_name step_state
      in persist_then n 1 (enc_transaction (cv_codec n) (f t))
           (upd_state (\<lambda>st. st\<lparr>fs_transactions := update_first (\<lambda>x. tx_id x = i) f (fs_transactions st)\<rparr>) c))"

definition transaction_record :: "cenv \<Rightarrow> json \<Rightarrow> json step" where
  "transaction_record n params c =
     sbind (lift_res c (required_text params ''transactionId'')) (\<lambda>c i.
     sbind (lift_res c (required_text params ''step'')) (\<lambda>c step_name.
     sbind (lift_res c (required_value (dec_step_state (cv_codec n)) params ''state'')) (\<lambda>c step_state.
     case find_transaction c i of
       None \<Rightarrow> (c, Err (rpc_error_new ''TRANSACTION_NOT_FOUND'' (''unknown transaction: '' @ i)))
     | Some t \<Rightarrow>
         (case (tx_lease_fence t, u64_param params ''fence'') of
            (Some expected, Some actual) \<Rightarrow>
              if expected \<noteq> actual
              then (c, Err (rpc_error_new ''STALE_FENCING_TOKEN''
                      (''transaction fence is '' @ show_u64 expected @ '', request used '' @ show_u64 actual)))
              else record_transaction n params i step_name step_state t c
          | _ \<Rightarrow> record_transaction n params i step_name step_state t c))))"

section \<open>Handoff documents\<close>

definition handoff_create :: "cenv \<Rightarrow> json \<Rightarrow> json step" where
  "handoff_create n params c =
     sbind (lift_res c (from_value ''INVALID_PARAMS'' (dec_handoff (cv_codec n)) params)) (\<lambda>c h.
     let h = (if ho_id h = [] then h\<lparr>ho_id := ''handoff_'' @ cv_uuid n 0\<rparr> else h);
         h = (if ho_created_at h = 0 then h\<lparr>ho_created_at := cv_now n 1\<rparr> else h)
     in persist_then n 1 (enc_handoff (cv_codec n) h)
          (upd_state (\<lambda>st. st\<lparr>fs_handoffs := fs_handoffs st @ [h]\<rparr>) c))"

definition find_handoff :: "controller \<Rightarrow> string \<Rightarrow> handoff option" where
  "find_handoff c i = List.find (\<lambda>h. ho_id h = i) (fs_handoffs (c_state c))"

definition handoff_get :: "cenv \<Rightarrow> json \<Rightarrow> json step" where
  "handoff_get n params c =
     sbind (lift_res c (required_text params ''handoffId'')) (\<lambda>c i.
       (c, case find_handoff c i of
             Some x \<Rightarrow> Ok (enc_handoff (cv_codec n) x)
           | None \<Rightarrow> Err (rpc_error_new ''HANDOFF_NOT_FOUND'' (''unknown handoff: '' @ i))))"

definition handoff_list :: "cenv \<Rightarrow> json step" where
  "handoff_list n c = (c, Ok (JArr (map (enc_handoff (cv_codec n)) (fs_handoffs (c_state c)))))"

definition handoff_advance :: "cenv \<Rightarrow> string \<Rightarrow> json \<Rightarrow> json step" where
  "handoff_advance n action params c =
     sbind (lift_res c (required_text params ''handoffId'')) (\<lambda>c i.
     case find_handoff c i of
       None \<Rightarrow> (c, Err (rpc_error_new ''HANDOFF_NOT_FOUND'' (''unknown handoff: '' @ i)))
     | Some h \<Rightarrow>
         if action = ''handoff.acknowledge'' \<and> ho_acknowledged_at h \<noteq> None
         then (c, Err (rpc_error_new ''HANDOFF_ALREADY_ACKNOWLEDGED'' (''handoff already acknowledged: '' @ i)))
         else if action \<noteq> ''handoff.acknowledge'' \<and> ho_acknowledged_at h = None
         then (c, Err (rpc_error_new ''HANDOFF_NOT_ACKNOWLEDGED'' ''handoff must be acknowledged before completion''))
         else
         let f = (if action = ''handoff.acknowledge'' then (\<lambda>h. h\<lparr>ho_acknowledged_at := Some (cv_now n 1)\<rparr>)
                  else (\<lambda>h. h\<lparr>ho_completed_at := Some (cv_now n 1)\<rparr>))
         in persist_then n 1 (enc_handoff (cv_codec n) (f h))
              (upd_state (\<lambda>st. st\<lparr>fs_handoffs := update_first (\<lambda>h. ho_id h = i) f (fs_handoffs st)\<rparr>) c))"

section \<open>Leases\<close>

definition lease_status :: "cenv \<Rightarrow> json \<Rightarrow> json step" where
  "lease_status n params c =
     sbind (lift_res c (required_text params ''resource'')) (\<lambda>c resource.
       (c, Ok (jopt (enc_lease (cv_codec n)) (get_lease (c_leases c) resource))))"

definition lease_then :: "cenv \<Rightarrow> (lease_table \<Rightarrow> lease_table \<times> (lease_error, lease) outcome) \<Rightarrow> json step" where
  "lease_then n f c =
     sbind (with_leases f c) (\<lambda>c l. persist_then n 1 (enc_lease (cv_codec n) l) c)"

definition lease_acquire :: "cenv \<Rightarrow> string \<Rightarrow> json \<Rightarrow> json step" where
  "lease_acquire n action params c =
     sbind (lift_res c (required_text params ''resource'')) (\<lambda>c resource.
     sbind (lift_res c (required_text params ''owner'')) (\<lambda>c owner.
       lease_then n (acquire (cv_now n 1) (cv_uuid n 0) (cv_uuid n 1)
         (if starts_with ''driver'' action then Driver else Resource) resource owner
         (u64_param_or params ''ttlMs'' 300000)) c))"

definition lease_renew :: "cenv \<Rightarrow> json \<Rightarrow> json step" where
  "lease_renew n params c =
     sbind (lift_res c (required_text params ''resource'')) (\<lambda>c resource.
     sbind (lift_res c (required_text params ''owner'')) (\<lambda>c owner.
     sbind (lift_res c (required_text params ''token'')) (\<lambda>c token.
       lease_then n (renew (cv_now n 1) (cv_now n 2) resource owner token (u64_param_or params ''ttlMs'' 300000)) c)))"

definition driver_handoff :: "cenv \<Rightarrow> json \<Rightarrow> json step" where
  "driver_handoff n params c =
     sbind (lift_res c (required_text params ''resource'')) (\<lambda>c resource.
     sbind (lift_res c (required_text params ''owner'')) (\<lambda>c owner.
     sbind (lift_res c (required_text params ''token'')) (\<lambda>c token.
     sbind (lift_res c (required_text params ''target'')) (\<lambda>c target.
       lease_then n (handoff_lease (cv_now n 1) (cv_now n 2) resource owner token target) c))))"

definition driver_take :: "cenv \<Rightarrow> json \<Rightarrow> json step" where
  "driver_take n params c =
     sbind (lift_res c (required_text params ''resource'')) (\<lambda>c resource.
     sbind (lift_res c (required_text params ''owner'')) (\<lambda>c owner.
     let ttl_ms = u64_param_or params ''ttlMs'' 300000
     in lease_then n (\<lambda>t.
          if get_lease t resource \<noteq> None then take_handoff (cv_now n 1) (cv_uuid n 0) resource owner ttl_ms t
          else acquire (cv_now n 1) (cv_uuid n 0) (cv_uuid n 1) Driver resource owner ttl_ms t) c))"

definition lease_release :: "cenv \<Rightarrow> json \<Rightarrow> json step" where
  "lease_release n params c =
     sbind (lift_res c (required_text params ''resource'')) (\<lambda>c resource.
     sbind (lift_res c (required_text params ''owner'')) (\<lambda>c owner.
     sbind (lift_res c (required_text params ''token'')) (\<lambda>c token.
       lease_then n (release (cv_now n 1) resource owner token) c)))"

definition port_list :: "cenv \<Rightarrow> json step" where
  "port_list n c =
     (c, Ok (JArr (map (enc_lease (cv_codec n))
        (filter (\<lambda>l. starts_with ''port:'' (l_resource l)) (lease_snapshot (c_leases c))))))"

text \<open>
  The loop of \<open>port.allocate\<close>: the first port that is not leased and that the executor finds
  free. \<open>k\<close> numbers the turns.
\<close>

fun port_loop ::
  "cenv \<Rightarrow> string \<Rightarrow> executor_endpoint \<Rightarrow> string \<Rightarrow> u64 \<Rightarrow> nat \<Rightarrow> nat list \<Rightarrow> controller \<Rightarrow> controller \<times> json option rpc" where
  "port_loop n executor_id endpoint owner ttl_ms k [] c = (c, Ok None)"
| "port_loop n executor_id endpoint owner ttl_ms k (port # ports) c =
     (let resource = ''port:'' @ executor_id @ '':'' @ show_nat port
      in case acquire (cv_now n (2 * k + 1)) (cv_uuid n (2 * k)) (cv_uuid n (2 * k + 1)) Resource resource owner ttl_ms
                (c_leases c) of
           (t, Err (LeaseActive _ _)) \<Rightarrow>
             port_loop n executor_id endpoint owner ttl_ms (Suc k) ports (c\<lparr>c_leases := t\<rparr>)
         | (t, Err e) \<Rightarrow> (c\<lparr>c_leases := t\<rparr>, Err (map_lease_error e))
         | (t, Panic) \<Rightarrow> (c\<lparr>c_leases := t\<rparr>, Panic)
         | (t, Ok l) \<Rightarrow>
             let c = c\<lparr>c_leases := t\<rparr>;
                 available = (case call_executor n (Suc k) endpoint ''port.check'' (jobj [(''port'', jnat port)]) of
                    Inl _ \<Rightarrow> False
                  | Inr r \<Rightarrow> Option.bind (Option.bind (rs_result r) (\<lambda>v. jget v ''available'')) as_bool = Some True)
             in if available
                then sbind (persist n 1 c) (\<lambda>c _.
                       (c, Ok (Some (jobj [(''executorId'', JStr executor_id), (''port'', jnat port),
                                           (''lease'', enc_lease (cv_codec n) l)]))))
                else port_loop n executor_id endpoint owner ttl_ms (Suc k) ports
                       (c\<lparr>c_leases := fst (release (cv_now n (2 * k + 2)) resource owner (l_token l) t)\<rparr>))"

definition port_allocate :: "cenv \<Rightarrow> json \<Rightarrow> json step" where
  "port_allocate n params c =
     sbind (lift_res c (required_text params ''executorId'')) (\<lambda>c executor_id.
     sbind (lift_res c (required_text params ''owner'')) (\<lambda>c owner.
     let first = u64_param_or params ''start'' 20000; final = u64_param_or params ''end'' 40000
     in if first = 0 \<or> final > 65535 \<or> first > final
        then (c, Err (rpc_error_new ''INVALID_PARAMS'' ''invalid port range''))
        else
        sbind (lift_res c (ok_or (find_executor c executor_id)
                 (rpc_error_new ''EXECUTOR_NOT_FOUND'' ''executor not found''))) (\<lambda>c ex.
        sbind (port_loop n executor_id (ex_endpoint ex) owner (u64_param_or params ''ttlMs'' 300000) 0
                 [unat first..<Suc (unat final)] c) (\<lambda>c found.
          (c, case found of
                Some v \<Rightarrow> Ok v
              | None \<Rightarrow> Err (rpc_error_new ''PORT_UNAVAILABLE''
                          (''no available port in '' @ show_u64 first @ ''..='' @ show_u64 final)))))))"

section \<open>Tasks\<close>

definition TASK_LIST_DEFAULT_LIMIT :: nat where
  "TASK_LIST_DEFAULT_LIMIT = 100"

definition TASK_LIST_MAX_LIMIT :: nat where
  "TASK_LIST_MAX_LIMIT = 200"

definition TASK_SUMMARY_TEXT_LIMIT :: nat where
  "TASK_SUMMARY_TEXT_LIMIT = 512"

text \<open>A character of UTF-8 text is its first byte and the continuation bytes after it.\<close>

definition continuation_byte :: "char \<Rightarrow> bool" where
  "continuation_byte b = (128 \<le> (of_char b :: nat) \<and> (of_char b :: nat) < 192)"

fun take_chars :: "nat \<Rightarrow> string \<Rightarrow> string" where
  "take_chars k [] = []"
| "take_chars k (b # bs) =
     (if continuation_byte b then b # take_chars k bs
      else case k of 0 \<Rightarrow> [] | Suc j \<Rightarrow> b # take_chars j bs)"

definition bounded_text :: "string \<Rightarrow> string" where
  "bounded_text s = take_chars TASK_SUMMARY_TEXT_LIMIT s"

definition task_summary :: "codec \<Rightarrow> task \<Rightarrow> json" where
  "task_summary cd task =
     jobj
       [(''id'', JStr (bounded_text (t_id task))),
        (''correlationId'', jopt (JStr \<circ> bounded_text) (t_correlation_id task)),
        (''requestId'', jopt (JStr \<circ> bounded_text) (t_request_id task)),
        (''workspaceSessionId'', JStr (bounded_text (t_workspace_session_id task))),
        (''executorId'', JStr (bounded_text (t_executor_id task))),
        (''capability'', JStr (bounded_text (t_capability task))),
        (''idempotencyKey'', JStr (bounded_text (t_idempotency_key task))),
        (''state'', JStr (task_state_name (t_state task))),
        (''attempt'', ju64 (ucast (t_attempt task))),
        (''revision'', ju64 (t_revision task)),
        (''createdAt'', ju64 (t_created_at task)),
        (''updatedAt'', ju64 (t_updated_at task)),
        (''inputBytes'', jopt (ju64 \<circ> pr_bytes) (t_input_ref task)),
        (''outputBytes'', jopt (ju64 \<circ> pr_bytes) (t_output_ref task)),
        (''hasOutput'', JBool (t_output task \<noteq> None)),
        (''error'', jopt (\<lambda>e. jobj [(''code'', JStr (bounded_text (tf_code e))),
            (''message'', JStr (bounded_text (tf_message e))), (''retryable'', JBool (tf_retryable e))])
          (t_error task)),
        (''eventCount'', jnat (length (t_events task))),
        (''inputRef'', jopt (enc_payload_ref cd) (t_input_ref task)),
        (''outputRef'', jopt (enc_payload_ref cd) (t_output_ref task))]"

definition bounded_task_page_from_table ::
  "codec \<Rightarrow> task_table \<Rightarrow> string option \<Rightarrow> nat \<Rightarrow> nat \<Rightarrow> json" where
  "bounded_task_page_from_table cd t state_filter limit cursor =
     (let (n, page) = page_by cursor limit
            (\<lambda>task. case state_filter of None \<Rightarrow> True | Some st \<Rightarrow> task_state_name (t_state task) = st) t;
          items = map (task_summary cd) page;
          upto = min (cursor + length items) n
      in jobj [(''tasks'', JArr items), (''total'', jnat n), (''cursor'', jnat cursor), (''limit'', jnat limit),
               (''nextCursor'', if upto < n then jnat upto else JNull)])"

definition task_submit :: "cenv \<Rightarrow> json \<Rightarrow> json step" where
  "task_submit n params c =
     sbind (lift_res c (required_text params ''workspaceSessionId'')) (\<lambda>c ws.
     sbind (lift_res c (required_text params ''executorId'')) (\<lambda>c ex.
     sbind (lift_res c (required_text params ''capability'')) (\<lambda>c cap.
     sbind (lift_res c (required_text params ''idempotencyKey'')) (\<lambda>c key.
     sbind (with_tasks (submit_traced (cv_now n 1) (cv_now n 2) (cv_uuid n 0) ws ex cap
              (json_param_or params ''input'' JNull) key (fst (current_trace n)) (snd (current_trace n))) c)
       (\<lambda>c (task, reused).
     sbind (persist n 1 c) (\<lambda>c _.
     sbind (lift_res c (task_with_payload (cv_payload n) (c_files c) task)) (\<lambda>c task.
       (c, Ok (jobj [(''task'', enc_task (cv_codec n) task), (''reused'', JBool reused)])))))))))"

definition task_not_found :: "string \<Rightarrow> rpc_error" where
  "task_not_found i = rpc_error_new ''TASK_NOT_FOUND'' (''unknown task: '' @ i)"

definition task_get :: "cenv \<Rightarrow> json \<Rightarrow> json step" where
  "task_get n params c =
     sbind (lift_res c (required_text params ''taskId'')) (\<lambda>c i.
     sbind (lift_res c (ok_or (get_task (c_tasks c) i) (task_not_found i))) (\<lambda>c task.
     sbind (lift_res c (task_with_payload (cv_payload n) (c_files c) task)) (\<lambda>c task.
       (c, Ok (enc_task (cv_codec n) task)))))"

text \<open>\<open>str::parse::<u64>\<close>: an optional plus sign and digits, within 64 bits.\<close>

definition parse_u64 :: "string \<Rightarrow> u64 option" where
  "parse_u64 s =
     (let ds = (case s of b # bs \<Rightarrow> if b = CHR ''+'' then bs else s | [] \<Rightarrow> []);
          v = foldl (\<lambda>a b. 10 * a + (of_char b - 48)) (0 :: nat) ds
      in if ds \<noteq> [] \<and> list_all (\<lambda>b. 48 \<le> (of_char b :: nat) \<and> (of_char b :: nat) \<le> 57) ds \<and> v < 2 ^ 64
         then Some (of_nat v) else None)"

definition task_list :: "cenv \<Rightarrow> json \<Rightarrow> json step" where
  "task_list n params c =
     (let limit = max 1 (min TASK_LIST_MAX_LIMIT
            (case u64_param params ''limit'' of Some l \<Rightarrow> unat l | None \<Rightarrow> TASK_LIST_DEFAULT_LIMIT));
          cursor = (case Option.bind (jget params ''cursor'')
                        (\<lambda>v. or_else (as_u64 v) (Option.bind (as_str v) parse_u64)) of
                      Some k \<Rightarrow> unat k | None \<Rightarrow> 0)
      in if Option.bind (jget params ''includeDetails'') as_bool = Some True
         then (c, Err (rpc_error_new ''TASK_DETAILS_EXPLICIT'' ''use task.get for one complete task payload''))
         else (c, Ok (bounded_task_page_from_table (cv_codec n) (c_tasks c) (text_param params ''state'') limit cursor)))"

definition task_events :: "cenv \<Rightarrow> json \<Rightarrow> json step" where
  "task_events n params c =
     sbind (lift_res c (required_text params ''taskId'')) (\<lambda>c i.
     sbind (lift_res c (ok_or (get_task (c_tasks c) i) (task_not_found i))) (\<lambda>c task.
       (c, Ok (jobj [(''taskId'', JStr i), (''events'', JArr (map (enc_task_event (cv_codec n)) (t_events task)))]))))"

text \<open>
  \<open>task.wait\<close> looks at the table again and again until the deadline: \<open>polls\<close> are the tables it
  finds, the last one at or after the deadline.
\<close>

fun wait_loop :: "cenv \<Rightarrow> string \<Rightarrow> payload_files \<Rightarrow> task_table list \<Rightarrow> json rpc" where
  "wait_loop n i files [] =
     Err (rpc_error_new ''TASK_WAIT_TIMEOUT'' (''task '' @ i @ '' did not finish before timeout''))"
| "wait_loop n i files (t # polls) =
     and_then (ok_or (get_task t i) (task_not_found i)) (\<lambda>task.
       if terminal (t_state task)
       then and_then (task_with_payload (cv_payload n) files task) (\<lambda>task. Ok (enc_task (cv_codec n) task))
       else wait_loop n i files polls)"

definition task_wait :: "cenv \<Rightarrow> json \<Rightarrow> json step" where
  "task_wait n params c =
     sbind (lift_res c (required_text params ''taskId'')) (\<lambda>c i.
       (c, wait_loop n i (c_files c) (c_tasks c # cv_polls n)))"

definition task_prune :: "cenv \<Rightarrow> json \<Rightarrow> json step" where
  "task_prune n params c =
     (let cutoff = u64_param_or params ''before'' (cv_now n 1);
          (t, removed) = prune_terminal_before cutoff (c_tasks c)
      in persist_then n 1
           (jobj [(''pruned'', jnat (length removed)), (''taskIds'', JArr (map (JStr \<circ> t_id) removed))])
           (c\<lparr>c_tasks := t\<rparr>))"

definition task_transition :: "cenv \<Rightarrow> json \<Rightarrow> json step" where
  "task_transition n params c =
     sbind (lift_res c (required_value (dec_task_state (cv_codec n)) params ''state'')) (\<lambda>c st.
     sbind (lift_res c (required_text params ''taskId'')) (\<lambda>c i.
     sbind (with_tasks (transition (cv_now n 1) (cv_now n 2) i st (jget params ''output'') None) c) (\<lambda>c task.
       persist_then n 1 (enc_task (cv_codec n) task) c)))"

end
