(* ===== verification/Controller_Queries.thy ===== *)
theory Controller_Queries
  imports Controller_Records
begin

text \<open>
  The requests of the controller that only report: \<open>ping\<close>, \<open>status\<close>, \<open>doctor\<close>,
  \<open>dashboard.snapshot\<close>, \<open>fabric.context\<close> and \<open>capability.describe\<close>, with the judgement of
  an executor's availability that keeps transport details out of the answer.
\<close>

definition controller_status :: "cenv \<Rightarrow> controller \<Rightarrow> json" where
  "controller_status n c =
     jobj [(''id'', JStr (c_id c)), (''status'', JStr ''ready''), (''runtimeVersion'', JStr (cv_version n)),
           (''pid'', ju64 (cv_pid n))]"

definition ping :: "cenv \<Rightarrow> json step" where
  "ping n c = (c, Ok (jobj [(''controller'', controller_status n c)]))"

section \<open>Availability of an executor\<close>

definition unavailable_executor_probe :: "string \<Rightarrow> json" where
  "unavailable_executor_probe ec =
     jobj [(''available'', JBool False), (''status'', JStr ''unreachable''),
           (''probe'', jobj [(''status'', JStr ''failed''), (''errorCode'', JStr ec), (''scope'', JStr ''executor-route'')])]"

definition is_ascii_uppercase :: "char \<Rightarrow> bool" where
  "is_ascii_uppercase b = (65 \<le> (of_char b :: nat) \<and> (of_char b :: nat) \<le> 90)"

definition is_ascii_digit :: "char \<Rightarrow> bool" where
  "is_ascii_digit b = (48 \<le> (of_char b :: nat) \<and> (of_char b :: nat) \<le> 57)"

definition presentable_code :: "string \<Rightarrow> bool" where
  "presentable_code ec \<longleftrightarrow>
     ec \<noteq> [] \<and> length ec \<le> 64 \<and> is_ascii_uppercase (hd ec) \<and>
     list_all (\<lambda>b. is_ascii_uppercase b \<or> is_ascii_digit b \<or> b = CHR ''_'') ec"

definition probe_failure_code :: "executor_endpoint \<Rightarrow> call_error \<Rightarrow> string" where
  "probe_failure_code endpoint e =
     (case ce_kind e of
        Some KindNotFound \<Rightarrow>
          (case endpoint of
             EpLocal _ \<Rightarrow> ''EXECUTOR_ENDPOINT_NOT_FOUND''
           | _ \<Rightarrow> if ce_json e then ''INVALID_EXECUTOR_RESPONSE'' else ''EXECUTOR_TRANSPORT_FAILED'')
      | Some KindConnectionRefused \<Rightarrow> ''EXECUTOR_ENDPOINT_UNAVAILABLE''
      | Some KindAddrNotAvailable \<Rightarrow> ''EXECUTOR_ENDPOINT_UNAVAILABLE''
      | Some KindTimedOut \<Rightarrow> ''EXECUTOR_PROBE_TIMEOUT''
      | Some KindWouldBlock \<Rightarrow> ''EXECUTOR_PROBE_TIMEOUT''
      | Some KindUnexpectedEof \<Rightarrow> ''EXECUTOR_CONNECTION_CLOSED''
      | Some KindConnectionReset \<Rightarrow> ''EXECUTOR_CONNECTION_CLOSED''
      | Some KindConnectionAborted \<Rightarrow> ''EXECUTOR_CONNECTION_CLOSED''
      | Some KindBrokenPipe \<Rightarrow> ''EXECUTOR_CONNECTION_CLOSED''
      | _ \<Rightarrow> if ce_json e then ''INVALID_EXECUTOR_RESPONSE'' else ''EXECUTOR_TRANSPORT_FAILED'')"

definition executor_availability_result :: "executor_endpoint \<Rightarrow> call_error + response \<Rightarrow> json" where
  "executor_availability_result endpoint response =
     (case response of
        Inr r \<Rightarrow>
          if rs_ok r
          then (case rs_result r of
                  Some v \<Rightarrow> if as_object v \<noteq> None \<and> as_bool (jidx v ''available'') \<noteq> None then v
                            else unavailable_executor_probe ''INVALID_AVAILABILITY_RESPONSE''
                | None \<Rightarrow> unavailable_executor_probe ''INVALID_AVAILABILITY_RESPONSE'')
          else unavailable_executor_probe
                 (case rs_error r of
                    Some e \<Rightarrow> if presentable_code (code e) then code e else ''EXECUTOR_PROBE_FAILED''
                  | None \<Rightarrow> ''EXECUTOR_PROBE_FAILED'')
      | Inl e \<Rightarrow> unavailable_executor_probe (probe_failure_code endpoint e))"

section \<open>Reports\<close>

definition context_capability :: "codec \<Rightarrow> bool \<Rightarrow> capability_descriptor \<Rightarrow> json" where
  "context_capability cd requested cap =
     (if requested
      then jobj [(''name'', JStr (cd_name cap)), (''effect'', enc_effect cd (cd_effect cap)),
                 (''requiredExecutorFeatures'', JArr (map JStr (cd_required_executor_features cap))),
                 (''locks'', JArr (map (enc_lock cd) (cd_locks cap))), (''timeoutMs'', ju64 (cd_timeout_ms cap))]
      else JStr (cd_name cap))"

fun context_nodes :: "cenv \<Rightarrow> json \<Rightarrow> nat \<Rightarrow> executor_entry list \<Rightarrow> json list" where
  "context_nodes n params k [] = []"
| "context_nodes n params k (ex # exs) =
     (let requested_executor = text_param params ''executorId'';
          requested_capability = text_param params ''capability'';
          resources = (case Option.bind (jget params ''resources'') as_array of Some xs \<Rightarrow> xs | None \<Rightarrow> []);
          capabilities = map (context_capability (cv_codec n) (requested_capability \<noteq> None))
            (filter (\<lambda>cap. case requested_capability of None \<Rightarrow> True | Some nm \<Rightarrow> nm = cd_name cap)
               (ex_capabilities ex))
      in if (case requested_executor of Some i \<Rightarrow> i \<noteq> md_id (ex_metadata ex) | None \<Rightarrow> False)
            \<or> (requested_capability \<noteq> None \<and> capabilities = [])
         then context_nodes n params k exs
         else
           let availability = executor_availability_result (ex_endpoint ex)
                 (call_executor n k (ex_endpoint ex) ''availability'' (jobj [(''resources'', JArr resources)]));
               observed = (if eq_str (jidx availability ''status'') ''unreachable'' then HealthOffline else ex_health ex)
           in jobj [(''executorId'', JStr (md_id (ex_metadata ex))),
                    (''health'', enc_health (cv_codec n) observed),
                    (''registeredHealth'', enc_health (cv_codec n) (ex_health ex)),
                    (''availability'', availability),
                    (''capabilityCount'', jnat (length (ex_capabilities ex))),
                    (''capabilities'', JArr capabilities)]
              # context_nodes n params (Suc k) exs)"

definition fabric_context :: "cenv \<Rightarrow> json \<Rightarrow> json step" where
  "fabric_context n params c =
     (c, Ok (jobj
       [(''controllerId'', JStr (c_id c)),
        (''taskOwnership'', JStr ''this Controller owns tasks submitted by its local Agent''),
        (''executionAuthority'', JStr ''each target Executor owns node-local resource admission and queue state''),
        (''executors'', JArr (context_nodes n params 1 (fs_executors (c_state c))))]))"

definition capability_describe :: "cenv \<Rightarrow> json \<Rightarrow> json step" where
  "capability_describe n params c =
     sbind (lift_res c (required_text params ''executorId'')) (\<lambda>c executor_id.
     sbind (lift_res c (required_text params ''capability'')) (\<lambda>c capability_name.
     sbind (lift_res c (ok_or (find_executor c executor_id)
              (rpc_error_new ''EXECUTOR_NOT_FOUND'' (''unknown executor: '' @ executor_id)))) (\<lambda>c ex.
       (c, case List.find (\<lambda>cap. cd_name cap = capability_name) (ex_capabilities ex) of
             Some cap \<Rightarrow> Ok (enc_capability (cv_codec n) cap)
           | None \<Rightarrow> Err (rpc_error_new ''CAPABILITY_NOT_FOUND''
                       (''executor '' @ executor_id @ '' does not provide '' @ capability_name))))))"

definition socket_health :: "cenv \<Rightarrow> executor_endpoint \<Rightarrow> health_status \<Rightarrow> health_status" where
  "socket_health n endpoint h =
     (case endpoint of
        EpLocal socket \<Rightarrow> if cv_unix n then (if cv_exists n socket then HealthReady else HealthOffline) else h
      | _ \<Rightarrow> h)"

definition refresh_local_endpoint_health ::
  "cenv \<Rightarrow> controller_peer list \<times> executor_entry list \<Rightarrow> controller_peer list \<times> executor_entry list" where
  "refresh_local_endpoint_health n = (\<lambda>(peers, exs).
     (map (\<lambda>p. p\<lparr>cp_health := socket_health n (cp_endpoint p) (cp_health p)\<rparr>) peers,
      map (\<lambda>e. e\<lparr>ex_health := socket_health n (ex_endpoint e) (ex_health e)\<rparr>) exs))"

definition status :: "cenv \<Rightarrow> json step" where
  "status n c =
     (let (peers, exs) = refresh_local_endpoint_health n (fs_controllers (c_state c), fs_executors (c_state c))
      in (c, Ok (jobj
           [(''controller'', controller_status n c),
            (''controllers'', JArr (map (enc_controller (cv_codec n)) peers)),
            (''executors'', JArr (map (enc_executor (cv_codec n)) exs)),
            (''leases'', JArr (map (enc_lease (cv_codec n)) (lease_snapshot (c_leases c)))),
            (''tasks'', bounded_task_page_from_table (cv_codec n) (c_tasks c) None TASK_LIST_DEFAULT_LIMIT 0)])))"

fun doctor_checks :: "cenv \<Rightarrow> nat \<Rightarrow> executor_entry list \<Rightarrow> json list" where
  "doctor_checks n k [] = []"
| "doctor_checks n k (ex # exs) =
     (case call_executor n k (ex_endpoint ex) ''status'' JNull of
        Inr r \<Rightarrow>
          if rs_ok r
          then jobj [(''executorId'', JStr (md_id (ex_metadata ex))), (''status'', JStr ''ready''),
                     (''capabilities'', jnat (length (ex_capabilities ex)))]
          else jobj [(''executorId'', JStr (md_id (ex_metadata ex))), (''status'', JStr ''failed''),
                     (''error'', jopt (enc_rpc_error (cv_codec n)) (rs_error r))]
      | Inl e \<Rightarrow> jobj [(''executorId'', JStr (md_id (ex_metadata ex))), (''status'', JStr ''offline''),
                     (''error'', JStr (ce_text e))])
     # doctor_checks n (Suc k) exs"

definition doctor :: "cenv \<Rightarrow> json step" where
  "doctor n c =
     (let checks = doctor_checks n 1 (fs_executors (c_state c))
      in (c, Ok (jobj
           [(''healthy'', JBool (list_all (\<lambda>v. eq_str (jidx v ''status'') ''ready'') checks)),
            (''controller'', controller_status n c), (''checks'', JArr checks)])))"

definition dashboard_snapshot :: "cenv \<Rightarrow> json step" where
  "dashboard_snapshot n c =
     (let st = c_state c; cd = cv_codec n
      in (c, Ok (jobj
           [(''generatedAt'', ju64 (cv_now n 1)), (''controller'', controller_status n c),
            (''controllers'', JArr (map (enc_controller cd) (fs_controllers st))),
            (''sessions'', JArr (map (enc_session cd) (fs_sessions st))),
            (''executors'', JArr (map (enc_executor cd) (fs_executors st))),
            (''leases'', JArr (map (enc_lease cd) (lease_snapshot (c_leases c)))),
            (''tasks'', JArr (map (enc_task cd) (task_snapshot (c_tasks c)))),
            (''artifacts'', JArr (map (enc_artifact cd) (fs_artifacts st))),
            (''generations'', JArr (map (enc_generation cd) (fs_generations st))),
            (''transactions'', JArr (map (enc_transaction cd) (fs_transactions st))),
            (''agents'', JArr (map (enc_agent cd) (fs_agents st))),
            (''handoffs'', JArr (map (enc_handoff cd) (fs_handoffs st)))])))"

end
