(* ===== verification/Controller_Relay.thy ===== *)
theory Controller_Relay
  imports Controller_Records
begin

text \<open>
  \<open>artifact.transfer\<close>: the controller relays an artifact from one executor to another in
  chunks, under a lease on the destination (\<open>relay_artifact\<close>, \<open>relay_archive\<close> and
  \<open>transfer_error\<close> in \<open>controller.rs\<close>). The state of the loops is the number of the next call;
  telemetry events are left out. \<open>cv_elapsed\<close> gives the measured durations and \<open>cv_rounds\<close> the
  number of manifests read before the stability deadline.
\<close>

definition transfer_error :: "string \<Rightarrow> u64 \<Rightarrow> u64 \<Rightarrow> rpc_error \<Rightarrow> rpc_error" where
  "transfer_error stage offset chunks e =
     e\<lparr>details := jobj
         [(''stage'', JStr stage), (''failureOffset'', ju64 offset), (''transferredBytes'', ju64 offset),
          (''chunks'', ju64 chunks), (''retryCount'', ju64 0), (''cause'', details e)]\<rparr>"

definition relay_call :: "cenv \<Rightarrow> controller \<Rightarrow> string \<Rightarrow> string \<Rightarrow> json \<Rightarrow> nat \<Rightarrow> nat \<times> json rpc" where
  "relay_call n c ex action params k = (Suc k, call_registered_executor n k c ex action params)"

section \<open>The archive\<close>

record relay_job =
  rj_source :: string
  rj_destination :: string
  rj_path :: string
  rj_staging :: string
  rj_authority :: json

text \<open>The loop over the chunks of the archive; its result is the final offset, the number of chunks and the
  length of the encoded data.\<close>

function archive_loop ::
  "cenv \<Rightarrow> controller \<Rightarrow> relay_job \<Rightarrow> string \<Rightarrow> u64 \<Rightarrow> u64 \<Rightarrow> u64 \<Rightarrow> u64 \<Rightarrow> nat \<Rightarrow> nat \<times> (u64 \<times> u64 \<times> u64) rpc" where
  "archive_loop n c j token archive_size offset chunks encoded k =
     (if offset < archive_size
      then case relay_call n c (rj_source j) ''artifact.relay.archive.read''
                  (jobj [(''token'', JStr token), (''offset'', ju64 offset), (''limit'', ju64 (8 * 1024 * 1024))]) k of
             (k, Err e) \<Rightarrow> (k, Err (transfer_error ''reading'' offset chunks e))
           | (k, Panic) \<Rightarrow> (k, Panic)
           | (k, Ok chunk) \<Rightarrow>
               (case u64_param chunk ''bytes'' of
                  None \<Rightarrow> (k, Err (rpc_error_new ''INVALID_ARTIFACT'' ''archive chunk has no byte count''))
                | Some bytes \<Rightarrow>
                    if bytes = 0
                    then (k, Err (transfer_error ''reading'' offset chunks
                            (rpc_error_new ''ARTIFACT_TRANSFER_FAILED'' ''unexpected EOF while reading archive'')))
                    else case relay_call n c (rj_destination j) ''artifact.relay.archive.write''
                                (jobj [(''destination'', JStr (rj_path j)), (''staging'', JStr (rj_staging j)),
                                       (''offset'', ju64 offset), (''data'', jidx chunk ''data''),
                                       (''_authority'', rj_authority j)]) k of
                           (k, Err e) \<Rightarrow> (k, Err (transfer_error ''writing'' offset (chunks + 1) e))
                         | (k, Panic) \<Rightarrow> (k, Panic)
                         | (k, Ok _) \<Rightarrow>
                             archive_loop n c j token archive_size (sat_add offset bytes) (chunks + 1)
                               (encoded + (case text_param chunk ''data'' of Some d \<Rightarrow> of_nat (length d) | None \<Rightarrow> 0)) k)
      else (k, Ok (offset, chunks, encoded)))"
  by pat_completeness auto
termination
  by (relation "measure (\<lambda>(n, c, j, token, archive_size, offset, chunks, encoded, k). unat archive_size - unat offset)")
     (auto intro: sat_add_closer)

definition throughput :: "u64 \<Rightarrow> u64 \<Rightarrow> u64" where
  "throughput archive_size duration =
     (if duration = 0 then archive_size * 1000
      else (if unat archive_size * 1000 < 2 ^ 64 then archive_size * 1000 else u64_max) div duration)"

definition archive_transfer ::
  "cenv \<Rightarrow> controller \<Rightarrow> relay_job \<Rightarrow> string \<Rightarrow> string \<Rightarrow> string \<Rightarrow> u64 \<Rightarrow> u64 \<Rightarrow> u64 \<Rightarrow> nat \<Rightarrow> nat \<times> json rpc" where
  "archive_transfer n c j mode token expected_digest archive_size sz files k =
     sbind (case relay_call n c (rj_destination j) ''artifact.relay.archive.prepare''
              (jobj [(''destination'', JStr (rj_path j)), (''staging'', JStr (rj_staging j)),
                     (''_authority'', rj_authority j)]) k of
              (k, r) \<Rightarrow> (k, map_err (transfer_error ''preparing'' 0 0) r)) (\<lambda>k _.
     sbind (archive_loop n c j token archive_size 0 0 0 k) (\<lambda>k (offset, chunks, encoded).
     sbind (case relay_call n c (rj_destination j) ''artifact.relay.archive.commit''
              (jobj [(''destination'', JStr (rj_path j)), (''staging'', JStr (rj_staging j)),
                     (''expectedDigest'', JStr expected_digest), (''archiveSize'', ju64 archive_size),
                     (''size'', ju64 sz), (''files'', ju64 files), (''_authority'', rj_authority j)]) k of
              (k, r) \<Rightarrow> (k, map_err (transfer_error ''committing'' offset chunks) r)) (\<lambda>k committed.
       (k, Ok (jobj
          [(''source'', jobj [(''executorId'', JStr (rj_source j))]),
           (''destination'', jobj [(''executorId'', JStr (rj_destination j)), (''path'', JStr (rj_path j))]),
           (''mode'', JStr mode), (''transport'', JStr ''archive''), (''compression'', JStr ''gzip''),
           (''archiveSize'', ju64 archive_size), (''digest'', jidx committed ''digest''),
           (''size'', jidx committed ''size''), (''files'', jidx committed ''files''),
           (''transfer'', jobj
             [(''rawBytes'', ju64 sz), (''archiveBytes'', ju64 archive_size), (''transferredBytes'', ju64 offset),
              (''encodedBytes'', ju64 encoded), (''chunks'', ju64 chunks), (''chunkSize'', ju64 (8 * 1024 * 1024)),
              (''retryCount'', ju64 0), (''relayDurationMs'', ju64 (cv_elapsed n 0)),
              (''commitDurationMs'', ju64 (cv_elapsed n 1)),
              (''throughputBytesPerSecond'', ju64 (throughput archive_size (cv_elapsed n 0)))])])))))"

section \<open>The lease around a transfer\<close>

text \<open>
  Both kinds of transfer take a lease on the destination for an hour, make it durable, run, give
  the lease back and save again. Save \<open>1\<close> follows the acquisition, save \<open>2\<close> the release.
\<close>

definition relay_resource :: "string \<Rightarrow> string" where
  "relay_resource destination_path = ''artifact-relay:'' @ destination_path"

definition with_relay_lease ::
  "cenv \<Rightarrow> string \<Rightarrow> string \<Rightarrow> string \<Rightarrow> nat \<Rightarrow> (controller \<Rightarrow> relay_job \<Rightarrow> nat \<Rightarrow> nat \<times> json rpc) \<Rightarrow> controller
     \<Rightarrow> controller \<times> (nat \<times> json) rpc" where
  "with_relay_lease n source_executor destination_executor destination_path k body c =
     (let resource = relay_resource destination_path;
          owner = ''controller:'' @ c_id c
      in sbind (with_leases (acquire (cv_now n 1) (cv_uuid n 0) (cv_uuid n 1) Resource resource owner 3600000) c) (\<lambda>c l.
         sbind (persist n 1 c) (\<lambda>c _.
         let j = \<lparr>rj_source = source_executor, rj_destination = destination_executor, rj_path = destination_path,
                  rj_staging = destination_path @ ''.machine-fabric-relay-'' @ cv_uuid n 2,
                  rj_authority = JArr [jobj [(''controllerId'', JStr (c_id c)), (''resource'', JStr resource),
                                             (''fence'', ju64 (l_fence l))]]\<rparr>;
             (k, result) = body c j k
         in if result = Panic then (c, Panic)
            else sbind (persist n 2 (c\<lparr>c_leases := fst (release (cv_now n 2) resource owner (l_token l) (c_leases c))\<rparr>))
                   (\<lambda>c _. (c, and_then result (\<lambda>v. Ok (k, v)))))))"

definition relay_archive ::
  "cenv \<Rightarrow> string \<Rightarrow> string \<Rightarrow> string \<Rightarrow> string \<Rightarrow> json \<Rightarrow> nat \<Rightarrow> controller \<Rightarrow> controller \<times> (nat \<times> json) rpc" where
  "relay_archive n source_executor destination_executor destination_path mode archive k c =
     sbind (lift_res c (required_text archive ''token'')) (\<lambda>c token.
     sbind (lift_res c (required_text archive ''digest'')) (\<lambda>c expected_digest.
     sbind (lift_res c (ok_or (u64_param archive ''archiveSize'')
              (rpc_error_new ''INVALID_ARTIFACT'' ''archive size is required''))) (\<lambda>c archive_size.
     sbind (lift_res c (ok_or (u64_param archive ''size'')
              (rpc_error_new ''INVALID_ARTIFACT'' ''artifact size is required''))) (\<lambda>c sz.
     sbind (lift_res c (ok_or (u64_param archive ''files'')
              (rpc_error_new ''INVALID_ARTIFACT'' ''artifact file count is required''))) (\<lambda>c files.
       with_relay_lease n source_executor destination_executor destination_path k
         (\<lambda>c j. archive_transfer n c j mode token expected_digest archive_size sz files) c)))))"

section \<open>File by file\<close>

text \<open>The manifest is read again until two readings agree or the deadline has passed.\<close>

fun stable_manifest :: "cenv \<Rightarrow> controller \<Rightarrow> string \<Rightarrow> string \<Rightarrow> nat \<Rightarrow> json \<Rightarrow> nat \<Rightarrow> nat \<times> json rpc" where
  "stable_manifest n c source_executor source_path rounds manifest k =
     sbind (relay_call n c source_executor ''artifact.relay.manifest'' (jobj [(''path'', JStr source_path)]) k)
       (\<lambda>k next.
          if jget next ''digest'' = jget manifest ''digest'' \<and> jget next ''entries'' = jget manifest ''entries''
          then (k, Ok next)
          else case rounds of
                 0 \<Rightarrow> (k, Err (rpc_error_new ''ARTIFACT_NOT_STABLE'' ''source artifact changed during the stability window''))
               | Suc r \<Rightarrow> stable_manifest n c source_executor source_path r next k)"

function file_loop ::
  "cenv \<Rightarrow> controller \<Rightarrow> relay_job \<Rightarrow> string \<Rightarrow> string \<Rightarrow> u64 \<Rightarrow> u64 \<Rightarrow> nat \<Rightarrow> nat \<times> unit rpc" where
  "file_loop n c j source_path relative sz offset k =
     (if offset < sz
      then case relay_call n c (rj_source j) ''artifact.relay.read''
                  (jobj [(''path'', JStr source_path), (''relativePath'', JStr relative), (''offset'', ju64 offset),
                         (''limit'', ju64 (1024 * 1024))]) k of
             (k, Err e) \<Rightarrow> (k, Err e)
           | (k, Panic) \<Rightarrow> (k, Panic)
           | (k, Ok chunk) \<Rightarrow>
               (case u64_param chunk ''bytes'' of
                  None \<Rightarrow> (k, Err (rpc_error_new ''INVALID_ARTIFACT'' ''relay chunk has no byte count''))
                | Some bytes \<Rightarrow>
                    if bytes = 0
                    then (k, Err (rpc_error_new ''ARTIFACT_TRANSFER_FAILED'' (''unexpected EOF while reading '' @ relative)))
                    else case relay_call n c (rj_destination j) ''artifact.relay.write''
                                (jobj [(''destination'', JStr (rj_path j)), (''staging'', JStr (rj_staging j)),
                                       (''relativePath'', JStr relative), (''offset'', ju64 offset),
                                       (''data'', jidx chunk ''data''), (''_authority'', rj_authority j)]) k of
                           (k, Err e) \<Rightarrow> (k, Err e)
                         | (k, Panic) \<Rightarrow> (k, Panic)
                         | (k, Ok _) \<Rightarrow> file_loop n c j source_path relative sz (sat_add offset bytes) k)
      else (k, Ok ()))"
  by pat_completeness auto
termination
  by (relation "measure (\<lambda>(n, c, j, source_path, relative, sz, offset, k). unat sz - unat offset)")
     (auto intro: sat_add_closer)

fun relay_entries :: "cenv \<Rightarrow> controller \<Rightarrow> relay_job \<Rightarrow> string \<Rightarrow> json list \<Rightarrow> nat \<Rightarrow> nat \<times> unit rpc" where
  "relay_entries n c j source_path [] k = (k, Ok ())"
| "relay_entries n c j source_path (entry # entries) k =
     sbind (lift_res k (required_text entry ''kind'')) (\<lambda>k kind.
     if kind \<noteq> ''file'' then relay_entries n c j source_path entries k
     else
     sbind (lift_res k (required_text entry ''path'')) (\<lambda>k relative.
     sbind (lift_res k (ok_or (u64_param entry ''size'')
              (rpc_error_new ''INVALID_ARTIFACT'' ''file size is required''))) (\<lambda>k sz.
     sbind (file_loop n c j source_path relative sz 0 k) (\<lambda>k _.
       relay_entries n c j source_path entries k))))"

definition file_transfer ::
  "cenv \<Rightarrow> string \<Rightarrow> string \<Rightarrow> string \<Rightarrow> json list \<Rightarrow> controller \<Rightarrow> relay_job \<Rightarrow> nat \<Rightarrow> nat \<times> json rpc" where
  "file_transfer n source_path mode expected_digest entries c j k =
     sbind (relay_call n c (rj_destination j) ''artifact.relay.prepare''
              (jobj [(''destination'', JStr (rj_path j)), (''staging'', JStr (rj_staging j)),
                     (''entries'', JArr entries), (''_authority'', rj_authority j)]) k) (\<lambda>k _.
     sbind (relay_entries n c j source_path entries k) (\<lambda>k _.
     sbind (relay_call n c (rj_destination j) ''artifact.relay.commit''
              (jobj [(''destination'', JStr (rj_path j)), (''staging'', JStr (rj_staging j)),
                     (''expectedDigest'', JStr expected_digest), (''_authority'', rj_authority j)]) k) (\<lambda>k committed.
       (k, Ok (jobj
          [(''source'', jobj [(''executorId'', JStr (rj_source j)), (''path'', JStr source_path)]),
           (''destination'', jobj [(''executorId'', JStr (rj_destination j)), (''path'', JStr (rj_path j))]),
           (''mode'', JStr mode), (''digest'', jidx committed ''digest''), (''size'', jidx committed ''size''),
           (''files'', jidx committed ''files'')])))))"

definition has_empty_file :: "json list \<Rightarrow> bool" where
  "has_empty_file entries =
     list_ex (\<lambda>entry. text_param entry ''kind'' = Some ''file'' \<and> u64_param entry ''size'' = Some 0) entries"

definition relay_files ::
  "cenv \<Rightarrow> json \<Rightarrow> string \<Rightarrow> string \<Rightarrow> string \<Rightarrow> string \<Rightarrow> string \<Rightarrow> nat \<Rightarrow> json step" where
  "relay_files n params source_executor source_path destination_executor destination_path mode k c =
     (case sbind (relay_call n c source_executor ''artifact.relay.manifest'' (jobj [(''path'', JStr source_path)]) k)
             (\<lambda>k manifest. stable_manifest n c source_executor source_path (cv_rounds n) manifest k) of
        (k, r) \<Rightarrow>
     sbind (lift_res c r) (\<lambda>c manifest.
     sbind (lift_res c (ok_or (Option.bind (jget manifest ''entries'') as_array)
              (rpc_error_new ''INVALID_ARTIFACT'' ''source manifest has no entries''))) (\<lambda>c entries.
     if Option.bind (jget params ''rejectEmptyFiles'') as_bool = Some True \<and> has_empty_file entries
     then (c, Err (rpc_error_new ''ARTIFACT_INCOMPLETE'' ''source artifact contains an empty file''))
     else
     sbind (lift_res c (required_text manifest ''digest'')) (\<lambda>c expected_digest.
     sbind (with_relay_lease n source_executor destination_executor destination_path k
              (file_transfer n source_path mode expected_digest entries) c) (\<lambda>c (_, v). (c, Ok v))))))"

section \<open>The request\<close>

text \<open>After an archive transfer the source is asked to remove the archive; the outcome of that call is ignored.\<close>

definition set_total_duration :: "cenv \<Rightarrow> json \<Rightarrow> json rpc" where
  "set_total_duration n v =
     (case jset (jidx v ''transfer'') ''totalDurationMs'' (ju64 (cv_elapsed n 2)) of
        None \<Rightarrow> Panic
      | Some t \<Rightarrow> (case jset v ''transfer'' t of Some v \<Rightarrow> Ok v | None \<Rightarrow> Panic))"

definition relay_artifact :: "cenv \<Rightarrow> json \<Rightarrow> json step" where
  "relay_artifact n params c =
     sbind (lift_res c (ok_or (jget params ''source'') (rpc_error_new ''INVALID_PARAMS'' ''source is required''))) (\<lambda>c source.
     sbind (lift_res c (ok_or (jget params ''destination'')
              (rpc_error_new ''INVALID_PARAMS'' ''destination is required''))) (\<lambda>c destination.
     sbind (lift_res c (required_text source ''executorId'')) (\<lambda>c source_executor.
     sbind (lift_res c (required_text source ''path'')) (\<lambda>c source_path.
     sbind (lift_res c (required_text destination ''executorId'')) (\<lambda>c destination_executor.
     sbind (lift_res c (required_text destination ''path'')) (\<lambda>c destination_path.
     let mode = (case text_param params ''mode'' of Some m \<Rightarrow> m | None \<Rightarrow> ''mirror'')
     in if mode \<noteq> ''mirror''
        then (c, Err (rpc_error_new ''INVALID_PARAMS'' ''Controller artifact relay currently requires mode=mirror''))
        else case relay_call n c source_executor ''artifact.relay.archive.create'' (jobj [(''path'', JStr source_path)]) 1 of
               (k, Ok archive) \<Rightarrow>
                 sbind (lift_res c (required_text archive ''token'')) (\<lambda>c token.
                 case relay_archive n source_executor destination_executor destination_path mode archive k c of
                   (c, Ok (k, v)) \<Rightarrow> (c, set_total_duration n v)
                 | (c, Err e) \<Rightarrow> (c, Err e)
                 | (c, Panic) \<Rightarrow> (c, Panic))
             | (k, Panic) \<Rightarrow> (c, Panic)
             | (k, Err e) \<Rightarrow>
                 if code e = ''UNKNOWN_ACTION''
                 then relay_files n params source_executor source_path destination_executor destination_path mode k c
                 else (c, Err e)))))))"

end
