(* ===== verification/Controller_Invoke.thy ===== *)
theory Controller_Invoke
  imports Controller_Records
begin

text \<open>
  \<open>capability.invoke\<close> (\<open>controller.rs\<close>): the controller checks the session's authority, the
  driver's lease, the input's schema and, for dangerous commands, a one-time approval; it records
  a task under the caller's idempotency key, calls the executor and records the outcome. The
  request is one function, composed of the part before the call (\<open>invoke_admit\<close>) and the part
  after it (\<open>invoke_finish\<close>).
\<close>

section \<open>Dangerous commands\<close>

text \<open>
  \<open>Path::file_name\<close> on Unix: the last component, when it is a normal one. Empty components and
  dots are skipped, a leading dot is a component of its own.
\<close>

fun split_slash :: "string \<Rightarrow> string \<Rightarrow> string list" where
  "split_slash acc [] = [rev acc]"
| "split_slash acc (b # bs) = (if b = CHR ''/'' then rev acc # split_slash [] bs else split_slash (b # acc) bs)"

definition path_file_name :: "string \<Rightarrow> string option" where
  "path_file_name p =
     (case rev (filter (\<lambda>s. s \<noteq> [] \<and> s \<noteq> ''.'') (split_slash [] p)) of
        [] \<Rightarrow> None
      | s # _ \<Rightarrow> if s = ''..'' then None else Some s)"

definition dangerous_programs :: "string list" where
  "dangerous_programs = [''rm'', ''sudo'', ''su'', ''dd'', ''mkfs'']"

definition command_requires_approval :: "json \<Rightarrow> bool" where
  "command_requires_approval input =
     (case Option.bind (jget input ''argv'') as_array of
        Some (v # _) \<Rightarrow>
          (case Option.bind (as_str v) path_file_name of
             Some name \<Rightarrow> name \<in> set dangerous_programs
           | None \<Rightarrow> False)
      | _ \<Rightarrow> False)"

definition command_digest :: "cenv \<Rightarrow> json \<Rightarrow> string rpc" where
  "command_digest n input =
     and_then (ok_or (jget input ''cwd'') (rpc_error_new ''INVALID_PARAMS'' ''cwd is required'')) (\<lambda>cwd.
     and_then (ok_or (jget input ''argv'') (rpc_error_new ''INVALID_PARAMS'' ''argv is required'')) (\<lambda>argv.
     case pe_to_vec (cv_payload n) (jobj [(''cwd'', cwd), (''argv'', argv)]) of
       Ok bytes \<Rightarrow> Ok (pe_sha (cv_payload n) bytes)
     | Err e \<Rightarrow> Err (rpc_error_new ''INVALID_PARAMS'' e)
     | Panic \<Rightarrow> Panic))"

definition command_capabilities :: "string list" where
  "command_capabilities = [''process.start'', ''command.run'', ''artifact.build'', ''agent.start'']"

definition approval_valid :: "u64 \<Rightarrow> string \<Rightarrow> string \<Rightarrow> approval \<Rightarrow> bool" where
  "approval_valid now digest owner a \<longleftrightarrow>
     ap_digest a = digest \<and> ap_owner a = owner \<and> ap_state a = ApprovalApproved \<and>
     (case ap_expires_at a of Some expires \<Rightarrow> now < expires | None \<Rightarrow> False)"

definition use_approval :: "cenv \<Rightarrow> json \<Rightarrow> string \<Rightarrow> json \<Rightarrow> json step" where
  "use_approval n params owner input c =
     sbind (lift_res c (command_digest n input)) (\<lambda>c digest.
     sbind (lift_res c (required_text params ''approvalId'')) (\<lambda>c i.
     sbind (lift_res c (ok_or (find_approval c i) (rpc_error_new ''APPROVAL_NOT_FOUND'' ''approval not found''))) (\<lambda>c a.
     if \<not> approval_valid (cv_now n 2) digest owner a
     then (c, Err (rpc_error_new ''APPROVAL_INVALID'' ''approval does not authorize this exact command''))
     else
     let c = change_approval i (\<lambda>a. a\<lparr>ap_state := ApprovalConsumed, ap_consumed_at := Some (cv_now n 3)\<rparr>) c
     in case jset input ''approvalDigest'' (JStr digest) of
          None \<Rightarrow> (c, Panic)
        | Some input \<Rightarrow> sbind (persist n 1 c) (\<lambda>c _. (c, Ok input)))))"

section \<open>Before the call\<close>

record invocation =
  iv_executor :: executor_entry
  iv_contract :: capability_descriptor
  iv_session :: string
  iv_input :: json
  iv_task :: task

datatype invoke_start = InvokeReply json | InvokeRun invocation

definition own_session :: "string \<Rightarrow> unit step" where
  "own_session ws c =
     sbind (lift_res c (ok_or (Option.bind (find_session c ws) ws_authority)
              (rpc_error_new ''SESSION_NOT_FOUND'' (''unknown session: '' @ ws)))) (\<lambda>c authority.
     if sa_controller_id authority \<noteq> c_id c
     then (c, Err (rpc_error_new ''NOT_SESSION_AUTHORITY'' (''session is owned by '' @ sa_controller_id authority)))
     else (c, Ok ()))"

definition drive_session :: "cenv \<Rightarrow> json \<Rightarrow> string \<Rightarrow> string \<Rightarrow> effect \<Rightarrow> unit step" where
  "drive_session n params ws owner eff c =
     (if eff = ReadOnly then (c, Ok ())
      else sbind (lift_res c (required_text params ''driverToken'')) (\<lambda>c token.
           sbind (lift_res c (map_err map_lease_error
                    (validate (cv_now n 1) (''workspace:'' @ ws) owner token (c_leases c)))) (\<lambda>c _. (c, Ok ()))))"

text \<open>What happens to a task that the idempotency key already names.\<close>

definition resume_task :: "cenv \<Rightarrow> capability_descriptor \<Rightarrow> json \<Rightarrow> task \<Rightarrow> (json + task) step" where
  "resume_task n contract input task c =
     (if t_state task = Succeeded
      then sbind (lift_res c (task_with_payload (cv_payload n) (c_files c) task)) (\<lambda>c task.
             (c, Ok (Inl (jobj [(''task'', enc_task (cv_codec n) task), (''reused'', JBool True),
                                (''result'', case t_output task of Some v \<Rightarrow> v | None \<Rightarrow> JNull)]))))
      else if t_state task \<in> {Failed, TimedOut, OutcomeUnknown} \<and> t_attempt task < rp_max_attempts (cd_retry contract)
      then sbind (lift_res c (task_with_payload (cv_payload n) (c_files c) task)) (\<lambda>c restored.
             if t_input restored \<noteq> input
             then (c, Err (rpc_error_new ''TASK_RETRY_INPUT_MISMATCH'' ''retry input differs from the original task''))
             else sbind (with_tasks (retry_with_input (cv_now n 6) (cv_now n 7) (t_id task) (t_input restored)) c)
                    (\<lambda>c task. (c, Ok (Inr task))))
      else if t_state task \<in> {Queued, Running}
      then (c, Err (rpc_error_new ''TASK_IN_PROGRESS'' (''task '' @ t_id task @ '' is already in progress'')))
      else (c, Err (rpc_error_new ''TASK_RETRY_EXHAUSTED'' (''task '' @ t_id task @ '' exhausted retry policy''))))"

definition start_task :: "cenv \<Rightarrow> executor_entry \<Rightarrow> capability_descriptor \<Rightarrow> string \<Rightarrow> json \<Rightarrow> task \<Rightarrow> invoke_start step" where
  "start_task n ex contract ws input task c =
     sbind (with_tasks (transition (cv_now n 8) (cv_now n 9) (t_id task) Running None None) c) (\<lambda>c task.
     if cd_effect contract = ReadOnly
     then (c, Ok (InvokeRun \<lparr>iv_executor = ex, iv_contract = contract, iv_session = ws, iv_input = input, iv_task = task\<rparr>))
     else case jset input ''_workspaceSessionId'' (JStr ws) of
            None \<Rightarrow> (c, Panic)
          | Some input \<Rightarrow>
              (c, Ok (InvokeRun \<lparr>iv_executor = ex, iv_contract = contract, iv_session = ws, iv_input = input,
                                 iv_task = task\<rparr>)))"

definition record_task ::
  "cenv \<Rightarrow> executor_entry \<Rightarrow> capability_descriptor \<Rightarrow> string \<Rightarrow> string \<Rightarrow> string \<Rightarrow> json \<Rightarrow> invoke_start step" where
  "record_task n ex contract ws executor_id key input c =
     sbind (with_tasks (submit_traced (cv_now n 4) (cv_now n 5) (cv_uuid n 0) ws executor_id (cd_name contract) input key
              (fst (current_trace n)) (snd (current_trace n))) c) (\<lambda>c (task, reused).
     if reused
     then sbind (resume_task n contract input task c) (\<lambda>c r.
            case r of
              Inl v \<Rightarrow> (c, Ok (InvokeReply v))
            | Inr task \<Rightarrow> start_task n ex contract ws input task c)
     else start_task n ex contract ws input task c)"

definition invoke_admit :: "cenv \<Rightarrow> json \<Rightarrow> invoke_start step" where
  "invoke_admit n params c =
     sbind (lift_res c (required_text params ''executorId'')) (\<lambda>c executor_id.
     sbind (lift_res c (required_text params ''capability'')) (\<lambda>c capability_name.
     sbind (lift_res c (required_text params ''workspaceSessionId'')) (\<lambda>c ws.
     sbind (own_session ws c) (\<lambda>c _.
     sbind (lift_res c (required_text params ''owner'')) (\<lambda>c owner.
     sbind (lift_res c (required_text params ''idempotencyKey'')) (\<lambda>c key.
     sbind (lift_res c (ok_or (find_executor c executor_id)
              (rpc_error_new ''EXECUTOR_NOT_FOUND'' (''unknown executor: '' @ executor_id)))) (\<lambda>c ex.
     sbind (lift_res c (ok_or (List.find (\<lambda>cap. cd_name cap = capability_name) (ex_capabilities ex))
              (rpc_error_new ''CAPABILITY_NOT_FOUND'' (''executor does not provide '' @ capability_name)))) (\<lambda>c contract.
     sbind (drive_session n params ws owner (cd_effect contract) c) (\<lambda>c _.
     let input = json_param_or params ''input'' (jobj [])
     in sbind (lift_res c (validate_schema (cv_text n) (cd_input_schema contract) input ''input'')) (\<lambda>c _.
        sbind (if capability_name \<in> set command_capabilities \<and> command_requires_approval input
               then use_approval n params owner input c else (c, Ok input)) (\<lambda>c input.
          record_task n ex contract ws executor_id key input c)))))))))))"

section \<open>After the call\<close>

text \<open>
  The loop that waits for a process to become ready: \<open>polls\<close> are the answers to \<open>process.get\<close>
  before the deadline.
\<close>

definition readiness_state :: "json \<Rightarrow> string option" where
  "readiness_state result = Option.bind (Option.bind (jget result ''readiness'') (\<lambda>v. jget v ''state'')) as_str"

fun readiness_loop :: "string \<Rightarrow> (call_error + response) list \<Rightarrow> json \<Rightarrow> json rpc" where
  "readiness_loop process_id polls result =
     (let readiness = readiness_state result; process_state = text_param result ''state''
      in if readiness = Some ''ready'' then Ok result
         else if readiness = Some ''failed'' \<or> readiness = Some ''timeout'' \<or> process_state \<noteq> Some ''running''
         then Err (rpc_error_new ''PROCESS_NOT_READY''
                (''process readiness ended in '' @
                 (case or_else readiness process_state of Some s \<Rightarrow> s | None \<Rightarrow> ''unknown'')))
         else case polls of
                [] \<Rightarrow> Err ((rpc_error_new ''READINESS_TIMEOUT'' (''process did not become ready: '' @ process_id))
                          \<lparr>retryable := True\<rparr>)
              | p # polls \<Rightarrow>
                  (case p of
                     Inl e \<Rightarrow> Err (unavailable ''EXECUTOR_UNAVAILABLE'' False e)
                   | Inr r \<Rightarrow>
                       and_then (response_value ''EXECUTOR_FAILED'' ''process.get failed'' r)
                         (readiness_loop process_id polls)))"

definition wait_for_process_readiness :: "cenv \<Rightarrow> json \<Rightarrow> json \<Rightarrow> json rpc" where
  "wait_for_process_readiness n input result =
     and_then (required_text input ''processId'') (\<lambda>process_id.
       readiness_loop process_id (cv_process_polls n) result)"

definition artifact_from_result ::
  "u64 \<Rightarrow> string \<Rightarrow> json \<Rightarrow> json \<Rightarrow> string \<Rightarrow> string \<Rightarrow> string \<Rightarrow> artifact option" where
  "artifact_from_result now capability input result ws executor_id task_id =
     Option.bind (if capability = ''artifact.build'' then jget result ''artifact''
                  else if capability = ''artifact.describe'' \<or> capability = ''artifact.transfer'' then Some result
                  else None) (\<lambda>v.
     Option.bind (text_param v ''digest'') (\<lambda>digest.
     Option.bind (Option.bind (or_else (jget v ''path'') (jget v ''destination'')) as_str) (\<lambda>p.
       Some \<lparr>ar_digest = digest,
             ar_artifact_type = (case text_param input ''artifactType'' of Some s \<Rightarrow> s | None \<Rightarrow> ''generic''),
             ar_schema = ''machine-fabric.dev/artifact/v1'', ar_size = u64_param_or v ''size'' 0,
             ar_locations = [LocFile executor_id p],
             ar_provenance = \<lparr>pv_workspace_session_id = ws, pv_task_id = Some task_id,
               pv_source_digests = (case text_param input ''digest'' of Some d \<Rightarrow> [d] | None \<Rightarrow> []),
               pv_attributes = []\<rparr>,
             ar_created_at = now\<rparr>)))"

text \<open>A failed call: the task is marked failed, whatever that attempt returns, and the state saved.\<close>

definition fail_task :: "cenv \<Rightarrow> task \<Rightarrow> bool \<Rightarrow> rpc_error \<Rightarrow> json step" where
  "fail_task n task again e c =
     sbind (persist n 2 (c\<lparr>c_tasks := fst (transition (cv_now n 10) (cv_now n 11) (t_id task) Failed None
               (Some \<lparr>tf_code = code e, tf_message = message e, tf_retryable = again, tf_details = details e\<rparr>)
               (c_tasks c))\<rparr>))
       (\<lambda>c _. (c, Err e))"

definition register_agent :: "invocation \<Rightarrow> json \<Rightarrow> unit step" where
  "register_agent iv result c =
     (if cd_name (iv_contract iv) = ''agent.start''
      then sbind (lift_res c (required_text (iv_input iv) ''agentId'')) (\<lambda>c i.
           sbind (lift_res c (required_text (iv_input iv) ''role'')) (\<lambda>c role.
             (upd_state (store_agent
                \<lparr>ag_id = i, ag_workspace_session_id = iv_session iv, ag_executor_id = md_id (ex_metadata (iv_executor iv)),
                 ag_role = role,
                 ag_provider = (case text_param (iv_input iv) ''provider'' of Some s \<Rightarrow> s | None \<Rightarrow> ''process''),
                 ag_state = AgentRunning, ag_metadata = result\<rparr>) c, Ok ())))
      else if cd_name (iv_contract iv) = ''agent.stop''
      then (change_agent (case text_param (iv_input iv) ''agentId'' of Some s \<Rightarrow> s | None \<Rightarrow> [])
              (\<lambda>a. a\<lparr>ag_state := AgentStopped, ag_metadata := result\<rparr>) c, Ok ())
      else (c, Ok ()))"

definition complete_task :: "cenv \<Rightarrow> invocation \<Rightarrow> json \<Rightarrow> json step" where
  "complete_task n iv result c =
     (let capability_name = cd_name (iv_contract iv)
      in sbind (with_tasks (transition (cv_now n 10) (cv_now n 11) (t_id (iv_task iv)) Succeeded
                  (Some (retained_task_output capability_name result)) None) c) (\<lambda>c task.
         let c = (case artifact_from_result (cv_now n 12) capability_name (iv_input iv) result (iv_session iv)
                         (md_id (ex_metadata (iv_executor iv))) (t_id task) of
                    Some a \<Rightarrow> upd_state (store_artifact a) c
                  | None \<Rightarrow> c)
         in sbind (register_agent iv result c) (\<lambda>c _.
              persist_then n 2 (jobj [(''task'', enc_task (cv_codec n) task), (''reused'', JBool False),
                                      (''result'', result)]) c)))"

definition invoke_finish :: "cenv \<Rightarrow> invocation \<Rightarrow> call_error + response \<Rightarrow> json step" where
  "invoke_finish n iv answer c =
     (case answer of
        Inl e \<Rightarrow> fail_task n (iv_task iv) True (rpc_error_new ''EXECUTOR_UNAVAILABLE'' (ce_text e)) c
      | Inr r \<Rightarrow>
          if rs_ok r
          then let result = (case rs_result r of Some v \<Rightarrow> v | None \<Rightarrow> JNull)
               in case (if cd_name (iv_contract iv) = ''process.start''
                           \<and> Option.bind (jget (iv_input iv) ''waitReady'') as_bool = Some True
                        then wait_for_process_readiness n (iv_input iv) result else Ok result) of
                    Err e \<Rightarrow> fail_task n (iv_task iv) (retryable e) e c
                  | Panic \<Rightarrow> (c, Panic)
                  | Ok result \<Rightarrow>
                      (case validate_schema (cv_text n) (cd_output_schema (iv_contract iv)) result ''output'' of
                         Err e \<Rightarrow> fail_task n (iv_task iv) False e c
                       | Panic \<Rightarrow> (c, Panic)
                       | Ok _ \<Rightarrow> complete_task n iv result c)
          else let e = (case rs_error r of Some e \<Rightarrow> e | None \<Rightarrow> rpc_error_new ''EXECUTOR_FAILED'' ''executor failed'')
               in fail_task n (iv_task iv) (retryable e) e c)"

definition capability_invoke :: "cenv \<Rightarrow> json \<Rightarrow> json step" where
  "capability_invoke n params c =
     sbind (invoke_admit n params c) (\<lambda>c r.
       case r of
         InvokeReply v \<Rightarrow> (c, Ok v)
       | InvokeRun iv \<Rightarrow>
           invoke_finish n iv (call_executor n 1 (ex_endpoint (iv_executor iv)) (cd_name (iv_contract iv)) (iv_input iv)) c)"

end
