(* ===== verification/Controller_Dispatch.thy ===== *)
theory Controller_Dispatch
  imports Controller_Queries Controller_Relay Controller_Invoke
begin

text \<open>
  \<open>Controller::dispatch\<close> and \<open>Controller::handle\<close>: the request is sent to an executor, forwarded to
  the controller that owns the session, or answered by the handler of its action.
\<close>

text \<open>The arms of the match, in the order of the source; an arm for two actions is two entries.\<close>

definition handlers :: "cenv \<Rightarrow> string \<Rightarrow> json \<Rightarrow> (string \<times> json step) list" where
  "handlers n action params =
     [(''ping'', ping n), (''fabric.context'', fabric_context n params),
      (''capability.describe'', capability_describe n params), (''status'', status n),
      (''executor.list'', executor_list n), (''controller.list'', controller_list n),
      (''executor.unregister'', executor_unregister n params),
      (''controller.unregister'', controller_unregister n params),
      (''controller.register'', controller_register n params), (''controller.call'', controller_call n params),
      (''doctor'', doctor n), (''dashboard.snapshot'', dashboard_snapshot n),
      (''session.put'', session_put n params), (''session.accept-handoff'', session_accept_handoff n params),
      (''session.handoff'', session_handoff n params), (''session.get'', session_get n params),
      (''session.list'', session_list n), (''session.transition'', session_transition n params),
      (''artifact.put'', artifact_put n params), (''artifact.get'', artifact_get n params),
      (''artifact.list'', artifact_list n), (''artifact.transfer'', relay_artifact n params),
      (''generation.put'', generation_put n params), (''generation.get'', generation_get n params),
      (''generation.list'', generation_list n), (''agent.put'', agent_put n params),
      (''agent.get'', agent_get n params), (''agent.list'', agent_list n),
      (''agent.transition'', agent_transition n params), (''executor.put'', executor_put n params),
      (''executor.register'', executor_register n params), (''executor.remove'', executor_remove n params),
      (''executor.call'', executor_call n params), (''approval.request'', approval_request n params),
      (''approval.list'', approval_list n), (''approval.approve'', approval_decide n action params),
      (''approval.revoke'', approval_decide n action params),
      (''capability.invoke'', capability_invoke n params),
      (''driver.status'', lease_status n params), (''lease.status'', lease_status n params),
      (''driver.acquire'', lease_acquire n action params), (''lease.acquire'', lease_acquire n action params),
      (''driver.renew'', lease_renew n params), (''lease.renew'', lease_renew n params),
      (''driver.handoff'', driver_handoff n params), (''driver.take'', driver_take n params),
      (''driver.release'', lease_release n params), (''lease.release'', lease_release n params),
      (''task.submit'', task_submit n params), (''task.get'', task_get n params), (''task.list'', task_list n params),
      (''task.events'', task_events n params), (''task.wait'', task_wait n params),
      (''task.prune'', task_prune n params), (''task.transition'', task_transition n params),
      (''port.list'', port_list n), (''port.allocate'', port_allocate n params),
      (''transaction.begin'', transaction_begin n params), (''transaction.get'', transaction_get n params),
      (''transaction.list'', transaction_list n), (''transaction.record'', transaction_record n params),
      (''handoff.create'', handoff_create n params), (''handoff.get'', handoff_get n params),
      (''handoff.list'', handoff_list n), (''handoff.acknowledge'', handoff_advance n action params),
      (''handoff.complete'', handoff_advance n action params)]"

definition dispatch :: "cenv \<Rightarrow> string \<Rightarrow> json \<Rightarrow> json step" where
  "dispatch n action params c =
     (if starts_with ''desktop.'' action
      then sbind (lift_res c (required_text params ''executorId'')) (\<lambda>c executor_id.
             lift_res c (call_registered_executor n 1 c executor_id action params))
      else sbind (lift_res c (route_session_action n action params c)) (\<lambda>c routed.
        case routed of
          Some v \<Rightarrow> (c, Ok v)
        | None \<Rightarrow>
            (case map_of (handlers n action params) action of
               Some h \<Rightarrow> h c
             | None \<Rightarrow> (c, Err (rpc_error_new ''UNKNOWN_ACTION'' (''unknown action: '' @ action))))))"

definition request_trace :: "request \<Rightarrow> string \<times> string" where
  "request_trace rq =
     (case rq_correlation_id rq of Some i \<Rightarrow> i | None \<Rightarrow> rq_request_id rq, rq_request_id rq)"

text \<open>\<open>None\<close>: the thread that handles the request panics.\<close>

definition controller_handle :: "cenv \<Rightarrow> request \<Rightarrow> controller \<Rightarrow> controller \<times> response option" where
  "controller_handle n rq c =
     (let n = n\<lparr>cv_trace := Some (request_trace rq)\<rparr>
      in if c_poisoned c then (c, None)
         else
         let (t, reaped) = reap_expired (cv_now n 0) (c_leases c);
             c = c\<lparr>c_leases := t\<rparr>;
             (c, result) = (if reaped = [] then dispatch n (rq_action rq) (rq_params rq) c
                            else sbind (persist n 0 c) (\<lambda>c _. dispatch n (rq_action rq) (rq_params rq) c))
         in (c, case result of
                  Ok v \<Rightarrow> Some (response_success (rq_request_id rq) v)
                | Err e \<Rightarrow> Some (response_failure (rq_request_id rq) e)
                | Panic \<Rightarrow> None))"

end
