(* ===== verification/Controller_Effects.thy ===== *)
theory Controller_Effects
  imports Controller_Dispatch
begin

text \<open>
  What the requests of the controller can do to its state. \<open>quiet\<close> lists the elementary changes
  with the guards under which the handlers make them; every request other than \<open>session.put\<close>,
  \<open>session.accept-handoff\<close> and \<open>session.handoff\<close> is a sequence of them. A property of the state
  is then proved once per elementary change, not once per request.
\<close>

section \<open>Elementary changes\<close>

definition lease_change :: "controller \<Rightarrow> lease_op \<Rightarrow> controller" where
  "lease_change c e = c\<lparr>c_leases := lease_step (c_leases c) e\<rparr>"

definition task_change :: "controller \<Rightarrow> task_op \<Rightarrow> controller" where
  "task_change c e = c\<lparr>c_tasks := task_step (c_tasks c) e\<rparr>"

definition generation_admitted :: "controller \<Rightarrow> generation \<Rightarrow> bool" where
  "generation_admitted c g \<longleftrightarrow>
     (\<forall>old. find_generation c (g_id g) = Some old \<longrightarrow>
        g_workspace_session_id old = g_workspace_session_id g \<and> g_root old = g_root g \<and>
        bl_digest (g_baseline old) = bl_digest (g_baseline g) \<and>
        generation_transition_allowed (g_state old) (g_state g))"

definition add_transaction :: "activation_transaction \<Rightarrow> controller \<Rightarrow> controller" where
  "add_transaction t = upd_state (\<lambda>st. st\<lparr>fs_transactions := fs_transactions st @ [t]\<rparr>)"

definition change_transaction ::
  "string \<Rightarrow> (activation_transaction \<Rightarrow> activation_transaction) \<Rightarrow> controller \<Rightarrow> controller" where
  "change_transaction i f =
     upd_state (\<lambda>st. st\<lparr>fs_transactions := update_first (\<lambda>x. tx_id x = i) f (fs_transactions st)\<rparr>)"

definition add_handoff :: "handoff \<Rightarrow> controller \<Rightarrow> controller" where
  "add_handoff h = upd_state (\<lambda>st. st\<lparr>fs_handoffs := fs_handoffs st @ [h]\<rparr>)"

definition change_handoff :: "string \<Rightarrow> (handoff \<Rightarrow> handoff) \<Rightarrow> controller \<Rightarrow> controller" where
  "change_handoff i f = upd_state (\<lambda>st. st\<lparr>fs_handoffs := update_first (\<lambda>h. ho_id h = i) f (fs_handoffs st)\<rparr>)"

definition add_approval :: "approval \<Rightarrow> controller \<Rightarrow> controller" where
  "add_approval a = upd_state (\<lambda>st. st\<lparr>fs_approvals := fs_approvals st @ [a]\<rparr>)"

definition touch_session :: "string \<Rightarrow> session_state \<Rightarrow> u64 \<Rightarrow> controller \<Rightarrow> controller" where
  "touch_session i st now =
     upd_state (\<lambda>s. s\<lparr>fs_sessions := update_first (\<lambda>x. md_id (ws_metadata x) = i)
       (\<lambda>x. x\<lparr>ws_state := st, ws_metadata := (ws_metadata x)\<lparr>md_updated_at := now\<rparr>\<rparr>) (fs_sessions s)\<rparr>)"

inductive quiet :: "controller \<Rightarrow> controller \<Rightarrow> bool" where
  q_save: "quiet c (fst (persist n k c))"
| q_lease: "quiet c (lease_change c e)"
| q_task: "quiet c (task_change c e)"
| q_poison: "quiet c (c\<lparr>c_poisoned := True\<rparr>)"
| q_artifact: "quiet c (upd_state (store_artifact a) c)"
| q_generation: "generation_admitted c g \<Longrightarrow> quiet c (upd_state (store_generation g) c)"
| q_agent: "quiet c (upd_state (store_agent a) c)"
| q_agent_change: "(\<And>a. ag_id (f a) = ag_id a \<and> ag_workspace_session_id (f a) = ag_workspace_session_id a) \<Longrightarrow>
    quiet c (change_agent i f c)"
| q_executor: "quiet c (upd_state (store_executor e) c)"
| q_executor_gone: "quiet c (upd_state (remove_executor i) c)"
| q_controller: "quiet c (upd_state (store_controller p) c)"
| q_controller_gone: "quiet c (upd_state (remove_controller i) c)"
| q_approval: "ap_state a = ApprovalPending \<Longrightarrow> quiet c (add_approval a c)"
| q_approve: "find_approval c i = Some a \<Longrightarrow> ap_state a = ApprovalPending \<Longrightarrow>
    quiet c (change_approval i (approved n params) c)"
| q_revoke: "quiet c (change_approval i (\<lambda>a. a\<lparr>ap_state := ApprovalRevoked\<rparr>) c)"
| q_consume: "quiet c (change_approval i (\<lambda>a. a\<lparr>ap_state := ApprovalConsumed, ap_consumed_at := Some now\<rparr>) c)"
| q_transaction: "tx_journal t = [] \<Longrightarrow> tx_completed_steps t = [] \<Longrightarrow> tx_state t = TxPlanned \<Longrightarrow> quiet c (add_transaction t c)"
| q_journal: "quiet c (change_transaction i (record_step n params step_name step_state) c)"
| q_handoff: "quiet c (add_handoff h c)"
| q_acknowledge: "find_handoff c i = Some h \<Longrightarrow> ho_acknowledged_at h = None \<Longrightarrow>
    quiet c (change_handoff i (\<lambda>h. h\<lparr>ho_acknowledged_at := Some now\<rparr>) c)"
| q_complete: "find_handoff c i = Some h \<Longrightarrow> ho_acknowledged_at h \<noteq> None \<Longrightarrow>
    quiet c (change_handoff i (\<lambda>h. h\<lparr>ho_completed_at := Some now\<rparr>) c)"
| q_session: "quiet c (touch_session i st now c)"

section \<open>Sequences of changes\<close>

lemma sbind_path:
  assumes "R\<^sup>*\<^sup>* c (fst m)" "\<And>x. R\<^sup>*\<^sup>* c (fst m) \<Longrightarrow> snd m = Ok x \<Longrightarrow> R\<^sup>*\<^sup>* c (fst (k (fst m) x))"
  shows "R\<^sup>*\<^sup>* c (fst (sbind m k))"
proof (cases m)
  case (Pair c' r)
  then show ?thesis using assms by (cases r) auto
qed

lemma check_path:
  assumes "R\<^sup>*\<^sup>* c c'" "\<And>x. r = Ok x \<Longrightarrow> R\<^sup>*\<^sup>* c (fst (k c' x))"
  shows "R\<^sup>*\<^sup>* c (fst (sbind (lift_res c' r) k))"
  using assms by (cases r) (auto simp: lift_res_def)

lemma fst_lift_res [simp]: "fst (lift_res c r) = c"
  by (cases r) (auto simp: lift_res_def)

lemma quiet_then [intro]: "quiet\<^sup>*\<^sup>* c c' \<Longrightarrow> quiet c' c'' \<Longrightarrow> quiet\<^sup>*\<^sup>* c c''"
  by (rule rtranclp.rtrancl_into_rtrancl)

lemma path_persist: "quiet\<^sup>*\<^sup>* c c' \<Longrightarrow> quiet\<^sup>*\<^sup>* c (fst (persist n k c'))"
  using q_save by blast

lemma path_persist_then: "quiet\<^sup>*\<^sup>* c c' \<Longrightarrow> quiet\<^sup>*\<^sup>* c (fst (persist_then n k v c'))"
  unfolding persist_then_def by (rule sbind_path) (auto intro: path_persist)

lemma path_with_leases:
  "quiet\<^sup>*\<^sup>* c c' \<Longrightarrow> fst (f (c_leases c')) = lease_step (c_leases c') e \<Longrightarrow> quiet\<^sup>*\<^sup>* c (fst (with_leases f c'))"
  using q_lease [of c' e] by (auto simp: with_leases_def lease_change_def split: prod.splits)

lemma path_with_tasks:
  "quiet\<^sup>*\<^sup>* c c' \<Longrightarrow> fst (f (c_tasks c')) = task_step (c_tasks c') e \<Longrightarrow> quiet\<^sup>*\<^sup>* c (fst (with_tasks f c'))"
  using q_task [of c' e] by (auto simp: with_tasks_def task_change_def split: prod.splits)

lemma path_lease_then:
  "quiet\<^sup>*\<^sup>* c c' \<Longrightarrow> fst (f (c_leases c')) = lease_step (c_leases c') e \<Longrightarrow> quiet\<^sup>*\<^sup>* c (fst (lease_then n f c'))"
  unfolding lease_then_def
  by (rule sbind_path) (auto intro: path_with_leases path_persist_then)

lemma quiet_once: "quiet c c' \<Longrightarrow> quiet\<^sup>*\<^sup>* c c'"
  by blast

lemmas once =
  q_poison [THEN quiet_once] q_artifact [THEN quiet_once] q_generation [THEN quiet_once]
  q_agent [THEN quiet_once] q_agent_change [THEN quiet_once] q_executor [THEN quiet_once]
  q_executor_gone [THEN quiet_once] q_controller [THEN quiet_once] q_controller_gone [THEN quiet_once]
  q_approval [THEN quiet_once] q_approve [THEN quiet_once] q_revoke [THEN quiet_once]
  q_consume [THEN quiet_once] q_transaction [THEN quiet_once] q_journal [THEN quiet_once]
  q_handoff [THEN quiet_once] q_acknowledge [THEN quiet_once] q_complete [THEN quiet_once]
  q_session [THEN quiet_once]

lemmas once_folded =
  q_approval [THEN quiet_once, unfolded add_approval_def] q_session [THEN quiet_once, unfolded touch_session_def]
  q_transaction [THEN quiet_once, unfolded add_transaction_def]
  q_journal [THEN quiet_once, unfolded change_transaction_def]
  q_handoff [THEN quiet_once, unfolded add_handoff_def]
  q_acknowledge [THEN quiet_once, unfolded change_handoff_def]
  q_complete [THEN quiet_once, unfolded change_handoff_def]

lemma branch_path:
  "(b \<Longrightarrow> R\<^sup>*\<^sup>* c (fst x)) \<Longrightarrow> (\<not> b \<Longrightarrow> R\<^sup>*\<^sup>* c (fst y)) \<Longrightarrow> R\<^sup>*\<^sup>* c (fst (if b then x else y))"
  "(z = None \<Longrightarrow> R\<^sup>*\<^sup>* c (fst x)) \<Longrightarrow> (\<And>v. z = Some v \<Longrightarrow> R\<^sup>*\<^sup>* c (fst (f v))) \<Longrightarrow>
     R\<^sup>*\<^sup>* c (fst (case z of None \<Rightarrow> x | Some v \<Rightarrow> f v))"
  "R\<^sup>*\<^sup>* c c' \<Longrightarrow> R\<^sup>*\<^sup>* c (fst (c', r))"
  by (auto split: option.split)

lemmas path_rules = rtranclp.rtrancl_refl check_path branch_path path_persist_then path_persist

section \<open>The handlers\<close>

lemma quiet_queries:
  "quiet\<^sup>*\<^sup>* c (fst (ping n c))" "quiet\<^sup>*\<^sup>* c (fst (fabric_context n params c))"
  "quiet\<^sup>*\<^sup>* c (fst (capability_describe n params c))" "quiet\<^sup>*\<^sup>* c (fst (status n c))"
  "quiet\<^sup>*\<^sup>* c (fst (executor_list n c))" "quiet\<^sup>*\<^sup>* c (fst (controller_list n c))"
  "quiet\<^sup>*\<^sup>* c (fst (controller_call n params c))" "quiet\<^sup>*\<^sup>* c (fst (doctor n c))"
  "quiet\<^sup>*\<^sup>* c (fst (dashboard_snapshot n c))" "quiet\<^sup>*\<^sup>* c (fst (session_get n params c))"
  "quiet\<^sup>*\<^sup>* c (fst (session_list n c))" "quiet\<^sup>*\<^sup>* c (fst (artifact_get n params c))"
  "quiet\<^sup>*\<^sup>* c (fst (artifact_list n c))" "quiet\<^sup>*\<^sup>* c (fst (generation_get n params c))"
  "quiet\<^sup>*\<^sup>* c (fst (generation_list n c))" "quiet\<^sup>*\<^sup>* c (fst (agent_get n params c))"
  "quiet\<^sup>*\<^sup>* c (fst (agent_list n c))" "quiet\<^sup>*\<^sup>* c (fst (approval_list n c))"
  "quiet\<^sup>*\<^sup>* c (fst (lease_status n params c))" "quiet\<^sup>*\<^sup>* c (fst (task_get n params c))"
  "quiet\<^sup>*\<^sup>* c (fst (task_list n params c))" "quiet\<^sup>*\<^sup>* c (fst (task_events n params c))"
  "quiet\<^sup>*\<^sup>* c (fst (task_wait n params c))" "quiet\<^sup>*\<^sup>* c (fst (port_list n c))"
  "quiet\<^sup>*\<^sup>* c (fst (transaction_get n params c))" "quiet\<^sup>*\<^sup>* c (fst (transaction_list n c))"
  "quiet\<^sup>*\<^sup>* c (fst (handoff_get n params c))" "quiet\<^sup>*\<^sup>* c (fst (handoff_list n c))"
  unfolding ping_def fabric_context_def capability_describe_def status_def executor_list_def controller_list_def
    controller_call_def doctor_def dashboard_snapshot_def session_get_def session_list_def artifact_get_def
    artifact_list_def generation_get_def generation_list_def agent_get_def agent_list_def approval_list_def
    lease_status_def task_get_def task_list_def task_events_def task_wait_def port_list_def transaction_get_def
    transaction_list_def handoff_get_def handoff_list_def
  by (auto intro!: check_path simp: Let_def split: prod.splits)

lemma quiet_records:
  "quiet\<^sup>*\<^sup>* c (fst (artifact_put n params c))" "quiet\<^sup>*\<^sup>* c (fst (agent_put n params c))"
  "quiet\<^sup>*\<^sup>* c (fst (executor_put n params c))" "quiet\<^sup>*\<^sup>* c (fst (executor_register n params c))"
  "quiet\<^sup>*\<^sup>* c (fst (controller_register n params c))" "quiet\<^sup>*\<^sup>* c (fst (executor_remove n params c))"
  "quiet\<^sup>*\<^sup>* c (fst (executor_unregister n params c))" "quiet\<^sup>*\<^sup>* c (fst (controller_unregister n params c))"
  unfolding artifact_put_def agent_put_def executor_put_def executor_register_def controller_register_def
    executor_remove_def executor_unregister_def controller_unregister_def Let_def
  by (intro path_rules once)+

lemma quiet_generation_put: "quiet\<^sup>*\<^sup>* c (fst (generation_put n params c))"
  unfolding generation_put_def
  by (auto intro!: path_rules once simp: generation_admitted_def split: if_splits)

lemma quiet_agent_transition: "quiet\<^sup>*\<^sup>* c (fst (agent_transition n params c))"
  unfolding agent_transition_def
  by (auto intro!: path_rules once split: option.splits)

lemma quiet_session_transition: "quiet\<^sup>*\<^sup>* c (fst (session_transition n params c))"
  unfolding session_transition_def
  by (auto intro!: path_rules once_folded simp: Let_def split: option.splits)

lemma quiet_approvals:
  "quiet\<^sup>*\<^sup>* c (fst (approval_request n params c))" "quiet\<^sup>*\<^sup>* c (fst (approval_decide n action params c))"
proof -
  show "quiet\<^sup>*\<^sup>* c (fst (approval_request n params c))"
    unfolding approval_request_def Let_def by (intro path_rules once_folded; simp)
  have "quiet\<^sup>*\<^sup>* c (change_approval i (if b then approved n params else (\<lambda>a. a\<lparr>ap_state := ApprovalRevoked\<rparr>)) c)"
    if "find_approval c i = Some a" "b \<longrightarrow> ap_state a = ApprovalPending" for b i a
    using that by (auto intro: once)
  then show "quiet\<^sup>*\<^sup>* c (fst (approval_decide n action params c))"
    unfolding approval_decide_def Let_def by (intro path_rules; blast)
qed

lemma quiet_executor_call: "quiet\<^sup>*\<^sup>* c (fst (executor_call n params c))"
proof -
  have "quiet\<^sup>*\<^sup>* c (fst (add_authority n params v c))" for v
    unfolding add_authority_def
    by (auto intro!: path_rules once split: option.splits)
  then show ?thesis
    unfolding executor_call_def by (auto intro!: check_path sbind_path)
qed

lemma quiet_leases:
  "quiet\<^sup>*\<^sup>* c (fst (lease_acquire n action params c))" "quiet\<^sup>*\<^sup>* c (fst (lease_renew n params c))"
  "quiet\<^sup>*\<^sup>* c (fst (driver_handoff n params c))" "quiet\<^sup>*\<^sup>* c (fst (lease_release n params c))"
  unfolding lease_acquire_def lease_renew_def driver_handoff_def lease_release_def
  by (auto intro!: check_path intro: path_lease_then lease_step.simps [symmetric])

lemma quiet_driver_take: "quiet\<^sup>*\<^sup>* c (fst (driver_take n params c))"
proof -
  have "quiet\<^sup>*\<^sup>* c (fst (lease_then n (\<lambda>t. if get_lease t r \<noteq> None then take_handoff now u r own ttl t
          else acquire now u u' Driver r own ttl t) c))" for now u u' r own ttl
    by (rule path_lease_then [where e = "if get_lease (c_leases c) r \<noteq> None then OpTakeHandoff now u r own ttl
          else OpAcquire now u u' Driver r own ttl"]) auto
  then show ?thesis unfolding driver_take_def by (auto intro!: check_path simp: Let_def)
qed

lemma quiet_transactions:
  "quiet\<^sup>*\<^sup>* c (fst (transaction_begin n params c))" "quiet\<^sup>*\<^sup>* c (fst (transaction_record n params c))"
  unfolding transaction_begin_def transaction_record_def record_transaction_def
  by (auto intro!: path_rules once_folded simp: Let_def new_transaction_def split: option.splits)

lemma quiet_handoffs:
  "quiet\<^sup>*\<^sup>* c (fst (handoff_create n params c))" "quiet\<^sup>*\<^sup>* c (fst (handoff_advance n action params c))"
  unfolding handoff_create_def handoff_advance_def
  by (auto intro!: path_rules once_folded simp: Let_def split: option.splits)

lemma path_task_ops:
  assumes "quiet\<^sup>*\<^sup>* c c'"
  shows "quiet\<^sup>*\<^sup>* c (fst (with_tasks (submit_traced n1 n2 uid ws ex cap inp key corr req) c'))"
    "quiet\<^sup>*\<^sup>* c (fst (with_tasks (transition n1 n2 i st out err) c'))"
    "quiet\<^sup>*\<^sup>* c (fst (with_tasks (retry_with_input n1 n2 i inp) c'))"
    "quiet\<^sup>*\<^sup>* c (c'\<lparr>c_tasks := fst (transition n1 n2 i st out err (c_tasks c'))\<rparr>)"
    "quiet\<^sup>*\<^sup>* c (c'\<lparr>c_tasks := fst (prune_terminal_before cutoff (c_tasks c'))\<rparr>)"
  using path_with_tasks [OF assms, where e = "TSubmit n1 n2 uid ws ex cap inp key corr req"]
    path_with_tasks [OF assms, where e = "TTransition n1 n2 i st out err"]
    path_with_tasks [OF assms, where e = "TRetryInput n1 n2 i inp"]
    q_task [of c' "TTransition n1 n2 i st out err"] q_task [of c' "TPrune cutoff"] assms
  by (auto simp: task_change_def)

text \<open>After a change that is not a mere check, the rest runs from an arbitrary state on the path.\<close>

lemma bind_path:
  assumes "quiet\<^sup>*\<^sup>* c (fst m)" "\<And>c' x. quiet\<^sup>*\<^sup>* c c' \<Longrightarrow> snd m = Ok x \<Longrightarrow> quiet\<^sup>*\<^sup>* c (fst (k c' x))"
  shows "quiet\<^sup>*\<^sup>* c (fst (sbind m k))"
  using assms by (auto intro: sbind_path)

lemmas bind_rules =
  bind_path [where m = "persist n k c'" for n k c'] bind_path [where m = "with_tasks f c'" for f c']
  bind_path [where m = "with_leases f c'" for f c']

lemma quiet_tasks:
  "quiet\<^sup>*\<^sup>* c (fst (task_submit n params c))" "quiet\<^sup>*\<^sup>* c (fst (task_prune n params c))"
  "quiet\<^sup>*\<^sup>* c (fst (task_transition n params c))"
  unfolding task_submit_def task_prune_def task_transition_def Let_def case_prod_unfold
  by (intro check_path bind_rules path_persist path_persist_then path_task_ops rtranclp.rtrancl_refl; simp)+

lemma path_lease_ops:
  assumes "quiet\<^sup>*\<^sup>* c c'"
  shows "quiet\<^sup>*\<^sup>* c (fst (with_leases (acquire now u u' kind r own ttl) c'))"
    "quiet\<^sup>*\<^sup>* c (c'\<lparr>c_leases := fst (acquire now u u' kind r own ttl (c_leases c'))\<rparr>)"
    "quiet\<^sup>*\<^sup>* c (c'\<lparr>c_leases := fst (release now r own tok (c_leases c'))\<rparr>)"
  using path_with_leases [OF assms, where e = "OpAcquire now u u' kind r own ttl"]
    q_lease [of c' "OpAcquire now u u' kind r own ttl"] q_lease [of c' "OpRelease now r own tok"] assms
  by (auto simp: lease_change_def)

lemma path_port_loop:
  "quiet\<^sup>*\<^sup>* c c' \<Longrightarrow> quiet\<^sup>*\<^sup>* c (fst (port_loop n executor_id endpoint owner ttl_ms k ports c'))"
proof (induction ports arbitrary: k c')
  case (Cons port ports)
  let ?r = "''port:'' @ executor_id @ '':'' @ show_nat port"
  obtain t r where a: "acquire (cv_now n (2 * k + 1)) (cv_uuid n (2 * k)) (cv_uuid n (2 * k + 1)) Resource ?r owner ttl_ms
      (c_leases c') = (t, r)" by fastforce
  have t: "quiet\<^sup>*\<^sup>* c (c'\<lparr>c_leases := t\<rparr>)"
    using path_lease_ops(2) [OF Cons.prems, of "cv_now n (2 * k + 1)" "cv_uuid n (2 * k)" "cv_uuid n (2 * k + 1)"
        Resource ?r owner ttl_ms] a by simp
  note u = path_lease_ops(3) [OF t, simplified]
  show ?case
  proof (cases r)
    case (Err e)
    then show ?thesis using a t Cons.IH by (cases e) (simp_all add: Let_def)
  next
    case (Ok l)
    show ?thesis
      unfolding port_loop.simps Let_def a Ok
      using Cons.IH [OF u] by (auto simp: intro!: bind_rules path_persist t)
  qed (use a t in \<open>simp add: Let_def\<close>)
qed simp

lemma quiet_port_allocate: "quiet\<^sup>*\<^sup>* c (fst (port_allocate n params c))"
proof -
  have "quiet\<^sup>*\<^sup>* c (fst (sbind (port_loop n i e own ttl k ps c) (\<lambda>c found. (c, f found))))" for i e own ttl k ps f
    by (rule bind_path) (auto intro: path_port_loop)
  then show ?thesis unfolding port_allocate_def Let_def by (intro path_rules)
qed

lemma path_relay_lease:
  "quiet\<^sup>*\<^sup>* c c' \<Longrightarrow> quiet\<^sup>*\<^sup>* c (fst (with_relay_lease n s d p k body c'))"
  unfolding with_relay_lease_def Let_def case_prod_unfold
  by (intro bind_rules branch_path path_lease_ops path_persist; assumption?)

lemma path_relay_archive:
  "quiet\<^sup>*\<^sup>* c c' \<Longrightarrow> quiet\<^sup>*\<^sup>* c (fst (relay_archive n s d p m archive k c'))"
  unfolding relay_archive_def by (intro check_path path_relay_lease; simp)

lemma path_relay_files:
  "quiet\<^sup>*\<^sup>* c c' \<Longrightarrow> quiet\<^sup>*\<^sup>* c (fst (relay_files n params s sp d p m k c'))"
  unfolding relay_files_def case_prod_unfold
  by (intro check_path branch_path bind_path path_relay_lease; simp)

lemma quiet_relay_artifact: "quiet\<^sup>*\<^sup>* c (fst (relay_artifact n params c))"
proof -
  have "quiet\<^sup>*\<^sup>* c (fst (case relay_archive n s d p m archive k c of
          (c, Ok (k, v)) \<Rightarrow> (c, set_total_duration n v) | (c, Err e) \<Rightarrow> (c, Err e) | (c, Panic) \<Rightarrow> (c, Panic)))"
    for s d p m archive k
    using path_relay_archive [of c c n s d p m archive k] by (auto split: prod.split outcome.split)
  then show ?thesis
    unfolding relay_artifact_def Let_def relay_call_def
    by (auto intro!: check_path path_relay_files split: outcome.split)
qed

section \<open>Invocations\<close>

lemma path_use_approval: "quiet\<^sup>*\<^sup>* c c' \<Longrightarrow> quiet\<^sup>*\<^sup>* c (fst (use_approval n params owner input c'))"
  unfolding use_approval_def Let_def
  by (intro check_path branch_path bind_rules path_persist; auto intro: q_consume)

lemma path_start_task: "quiet\<^sup>*\<^sup>* c c' \<Longrightarrow> quiet\<^sup>*\<^sup>* c (fst (start_task n ex contract ws input task c'))"
  unfolding start_task_def by (intro bind_rules path_task_ops branch_path; simp)

lemma path_resume_task: "quiet\<^sup>*\<^sup>* c c' \<Longrightarrow> quiet\<^sup>*\<^sup>* c (fst (resume_task n contract input task c'))"
  unfolding resume_task_def by (intro branch_path check_path bind_rules path_task_ops; simp)

lemma path_record_task: "quiet\<^sup>*\<^sup>* c c' \<Longrightarrow> quiet\<^sup>*\<^sup>* c (fst (record_task n ex contract ws i key input c'))"
  unfolding record_task_def case_prod_unfold
  by (intro bind_rules branch_path path_task_ops path_start_task; assumption?)
     (auto intro!: bind_path path_resume_task path_start_task split: sum.split)

lemma own_session_state: "fst (own_session ws c) = c"
  by (cases "Option.bind (find_session c ws) ws_authority") (auto simp: own_session_def lift_res_def ok_or_def)

lemma drive_session_state: "fst (drive_session n params ws owner eff c) = c"
  unfolding drive_session_def
  by (cases "required_text params ''driverToken''";
      cases "map_err map_lease_error (validate (cv_now n 1) (''workspace:'' @ ws) owner (case required_text params ''driverToken'' of Ok x \<Rightarrow> x | _ \<Rightarrow> []) (c_leases c))")
     (auto simp: lift_res_def)

lemma path_invoke_admit: "quiet\<^sup>*\<^sup>* c c' \<Longrightarrow> quiet\<^sup>*\<^sup>* c (fst (invoke_admit n params c'))"
  unfolding invoke_admit_def Let_def
  by (intro check_path bind_path path_record_task path_use_approval branch_path;
      simp add: own_session_state drive_session_state)

lemma path_fail_task: "quiet\<^sup>*\<^sup>* c c' \<Longrightarrow> quiet\<^sup>*\<^sup>* c (fst (fail_task n task again e c'))"
  unfolding fail_task_def by (intro bind_rules path_persist path_task_ops; simp)

lemma path_complete_task: "quiet\<^sup>*\<^sup>* c c' \<Longrightarrow> quiet\<^sup>*\<^sup>* c (fst (complete_task n iv result c'))"
proof -
  assume p: "quiet\<^sup>*\<^sup>* c c'"
  have stop: "quiet c'' (change_agent i (\<lambda>a. a\<lparr>ag_state := AgentStopped, ag_metadata := result\<rparr>) c'')" for i c''
    by (rule q_agent_change) simp
  have agent: "quiet\<^sup>*\<^sup>* c (fst (register_agent iv result c''))" if "quiet\<^sup>*\<^sup>* c c''" for c''
    unfolding register_agent_def using that
    by (auto intro!: branch_path check_path intro: q_agent stop)
  have artifact: "quiet\<^sup>*\<^sup>* c (case a of Some a \<Rightarrow> upd_state (store_artifact a) c'' | None \<Rightarrow> c'')" if "quiet\<^sup>*\<^sup>* c c''" for a c''
    using that by (auto intro: q_artifact split: option.split)
  show ?thesis
    unfolding complete_task_def Let_def
    by (intro bind_rules bind_path [where m = "register_agent iv result c''" for c''] path_task_ops path_persist_then
        agent artifact p; assumption?)
qed

lemma path_invoke_finish: "quiet\<^sup>*\<^sup>* c c' \<Longrightarrow> quiet\<^sup>*\<^sup>* c (fst (invoke_finish n iv answer c'))"
  unfolding invoke_finish_def Let_def
  by (auto intro!: path_fail_task path_complete_task split: sum.split outcome.split)

lemma quiet_capability_invoke: "quiet\<^sup>*\<^sup>* c (fst (capability_invoke n params c))"
  unfolding capability_invoke_def
  by (rule bind_path) (auto intro!: path_invoke_admit path_invoke_finish split: invoke_start.split)

section \<open>Every request\<close>

definition session_changes :: "string list" where
  "session_changes = [''session.put'', ''session.accept-handoff'', ''session.handoff'']"

lemmas quiet_handler =
  quiet_queries quiet_records quiet_generation_put quiet_agent_transition quiet_session_transition quiet_approvals
  quiet_executor_call quiet_leases quiet_driver_take quiet_transactions quiet_handoffs quiet_tasks
  quiet_port_allocate quiet_relay_artifact quiet_capability_invoke

lemma handlers_quiet:
  "list_all (\<lambda>(a, h). quiet\<^sup>*\<^sup>* c (fst (h c)) \<or> a \<in> set session_changes) (handlers n action params)"
  unfolding handlers_def by (simp add: quiet_handler session_changes_def)

lemma dispatch_handler:
  assumes "map_of (handlers n action params) action = Some h" "action \<notin> set session_changes"
  shows "quiet\<^sup>*\<^sup>* c (fst (h c))"
  using handlers_quiet [of c n action params] map_of_SomeD [OF assms(1)] assms(2) by (auto simp: list_all_iff)

lemma dispatch_quiet: "action \<notin> set session_changes \<Longrightarrow> quiet\<^sup>*\<^sup>* c (fst (dispatch n action params c))"
  unfolding dispatch_def by (auto intro!: check_path dest: dispatch_handler split: option.split)

section \<open>Requests that change sessions\<close>

definition session_authority_of :: "controller \<Rightarrow> string \<Rightarrow> session_authority option" where
  "session_authority_of c i = Option.bind (find_session c i) ws_authority"

definition own_authority :: "controller \<Rightarrow> session_authority" where
  "own_authority c = \<lparr>sa_controller_id = c_id c, sa_epoch = 1, sa_pending_controller_id = None\<rparr>"

definition bundle_store :: "(fabric_state \<Rightarrow> fabric_state) \<Rightarrow> bool" where
  "bundle_store f \<longleftrightarrow>
     f \<in> range store_task_entry \<union> range store_artifact \<union> range store_generation \<union> range store_transaction \<union>
         range store_agent \<union> range store_handoff"

text \<open>
  \<open>c_put\<close> stores a session with the authority it already has, \<open>c_claim\<close> one for which the request named no
  authority; \<open>c_accept\<close> takes a session over with a higher epoch; \<open>c_mark\<close> notes that a handoff is pending and
  \<open>c_leave\<close> gives the session away.
\<close>

inductive steady :: "controller \<Rightarrow> controller \<Rightarrow> bool" where
  c_quiet: "quiet c c' \<Longrightarrow> steady c c'"
| c_put: "ws_authority s = Some a \<Longrightarrow> sa_controller_id a = c_id c \<Longrightarrow>
    session_authority_of c (md_id (ws_metadata s)) = Some a \<Longrightarrow> steady c (put_session s c)"
| c_claim: "ws_authority s = Some (own_authority c) \<Longrightarrow> steady c (put_session s c)"
| c_mark: "session_authority_of c (md_id (ws_metadata s)) = Some a \<Longrightarrow> sa_controller_id a = c_id c \<Longrightarrow>
    sa_pending_controller_id a = None \<Longrightarrow> ws_authority s = Some (a\<lparr>sa_pending_controller_id := Some t\<rparr>) \<Longrightarrow>
    steady c (put_session s c)"
| c_leave: "session_authority_of c (md_id (ws_metadata s)) = Some a \<Longrightarrow> sa_controller_id a = c_id c \<Longrightarrow>
    sa_pending_controller_id a = Some t \<Longrightarrow>
    ws_authority s = Some \<lparr>sa_controller_id = t, sa_epoch = sat_add (sa_epoch a) 1, sa_pending_controller_id = None\<rparr> \<Longrightarrow>
    steady c (put_session s c)"

text \<open>Only \<open>session.accept-handoff\<close> does more: it takes records from another controller.\<close>

inductive change :: "controller \<Rightarrow> controller \<Rightarrow> bool" where
  c_steady: "steady c c' \<Longrightarrow> change c c'"
| c_accept: "ws_authority s = Some a \<Longrightarrow> sa_controller_id a = c_id c \<Longrightarrow>
    (\<And>b. session_authority_of c (md_id (ws_metadata s)) = Some b \<Longrightarrow> sa_epoch b < sa_epoch a) \<Longrightarrow>
    change c (put_session s c)"
| c_bundle: "bundle_store f \<Longrightarrow> change c (upd_state f c)"
| c_reload: "change c (reload_tasks c)"

lemma quiet_steady: "quiet\<^sup>*\<^sup>* c c' \<Longrightarrow> steady\<^sup>*\<^sup>* c c'"
  by (induction rule: rtranclp_induct) (auto intro: c_quiet rtranclp.rtrancl_into_rtrancl)

lemma steady_change: "steady\<^sup>*\<^sup>* c c' \<Longrightarrow> change\<^sup>*\<^sup>* c c'"
  by (induction rule: rtranclp_induct) (auto intro: c_steady rtranclp.rtrancl_into_rtrancl)

lemma steady_persist: "steady\<^sup>*\<^sup>* c c' \<Longrightarrow> steady\<^sup>*\<^sup>* c (fst (persist n k c'))"
  by (auto intro: c_quiet q_save rtranclp.rtrancl_into_rtrancl)

lemma steady_persist_then: "steady\<^sup>*\<^sup>* c c' \<Longrightarrow> steady\<^sup>*\<^sup>* c (fst (persist_then n k v c'))"
  unfolding persist_then_def by (rule sbind_path) (auto intro: steady_persist)

lemma change_persist: "change\<^sup>*\<^sup>* c c' \<Longrightarrow> change\<^sup>*\<^sup>* c (fst (persist n k c'))"
  by (auto intro: c_steady c_quiet q_save rtranclp.rtrancl_into_rtrancl)

lemma change_persist_then: "change\<^sup>*\<^sup>* c c' \<Longrightarrow> change\<^sup>*\<^sup>* c (fst (persist_then n k v c'))"
  unfolding persist_then_def by (rule sbind_path) (auto intro: change_persist)

lemma change_then: "change\<^sup>*\<^sup>* c c' \<Longrightarrow> change c' c'' \<Longrightarrow> change\<^sup>*\<^sup>* c c''"
  by (rule rtranclp.rtrancl_into_rtrancl)

lemma find_upsert_by:
  "List.find (\<lambda>y. key y = i) (upsert_by (\<lambda>y. key y = key x) x xs) =
     (if i = key x then Some x else List.find (\<lambda>y. key y = i) xs)"
  by (induction xs) auto

lemma session_authority_put [simp]:
  "session_authority_of (put_session s c) i =
     (if i = md_id (ws_metadata s) then ws_authority s else session_authority_of c i)"
  by (simp add: session_authority_of_def find_session_def put_session_def upd_state_def
      find_upsert_by [where key = "\<lambda>x. md_id (ws_metadata x)"])

lemma c_id_updates [simp]: "c_id (upd_state f c) = c_id c" "c_id (put_session s c) = c_id c"
  by (simp_all add: put_session_def upd_state_def)

lemma session_put_steady: "steady\<^sup>*\<^sup>* c (fst (session_put n params c))"
  unfolding session_put_def Let_def
  by (intro check_path steady_persist_then rtranclp.rtrancl_refl)
     (auto simp: session_authority_of_def own_authority_def split: option.splits if_splits
        intro!: r_into_rtranclp intro: c_put c_claim)

lemma fold_path:
  assumes "\<And>x. bundle_store (store x)"
  shows "change\<^sup>*\<^sup>* c c' \<Longrightarrow> change\<^sup>*\<^sup>* c (upd_state (fold store xs) c')"
proof (induction xs arbitrary: c')
  case (Cons x xs)
  have "upd_state (fold store (x # xs)) c' = upd_state (fold store xs) (upd_state (store x) c')"
    by (simp add: upd_state_def)
  then show ?case using Cons assms c_bundle change_then by metis
qed (simp add: upd_state_def)

lemma take_array_change:
  assumes "\<And>x. bundle_store (store x)" "change\<^sup>*\<^sup>* c c'"
  shows "change\<^sup>*\<^sup>* c (fst (take_array cd dec params key store c'))"
  unfolding take_array_def using assms by (auto intro!: check_path fold_path)

lemma take_bundle_change: "change\<^sup>*\<^sup>* c c' \<Longrightarrow> change\<^sup>*\<^sup>* c (fst (take_bundle cd params c'))"
  unfolding take_bundle_def
  by (auto simp: bundle_store_def intro!: sbind_path take_array_change)

lemma accept_store_change:
  assumes "change\<^sup>*\<^sup>* c (put_session s c')"
  shows "change\<^sup>*\<^sup>* c (fst (accept_store n params s c'))"
  unfolding accept_store_def
  by (auto intro!: sbind_path take_bundle_change change_persist_then assms intro: change_then c_reload)

lemma session_accept_change: "change\<^sup>*\<^sup>* c (fst (session_accept_handoff n params c))"
proof -
  have acc: "change\<^sup>*\<^sup>* c (fst (accept_store n params s c))"
    if "ws_authority s = Some a" "sa_controller_id a = c_id c"
      "\<And>b. session_authority_of c (md_id (ws_metadata s)) = Some b \<Longrightarrow> sa_epoch b < sa_epoch a" for s a
    by (rule accept_store_change) (use c_accept [OF that] in blast)
  show ?thesis
    unfolding session_accept_handoff_def
    by (auto intro!: check_path branch_path split: option.splits) (rule acc; auto simp: session_authority_of_def not_le)+
qed

lemma c_state_persist [simp]: "c_state (fst (persist n k c)) = c_state c" "c_id (fst (persist n k c)) = c_id c"
  by (auto simp: persist_def split: prod.split outcome.split option.split)

lemma session_authority_persist [simp]: "session_authority_of (fst (persist n k c)) = session_authority_of c"
  by (simp add: session_authority_of_def find_session_def fun_eq_iff)

lemma find_session_id: "find_session c i = Some s \<Longrightarrow> md_id (ws_metadata s) = i"
  by (auto simp: find_session_def find_Some_iff)

lemma handoff_mark_steady:
  assumes "find_session c i = Some s" "ws_authority s = Some a" "sa_controller_id a = c_id c"
    "sa_pending_controller_id a = None \<or> sa_pending_controller_id a = Some t"
  shows "steady\<^sup>*\<^sup>* c (fst (handoff_mark n t s a c))"
    "handoff_mark n t s a c = (c', Ok s') \<Longrightarrow>
      c_id c' = c_id c \<and> md_id (ws_metadata s') = i \<and>
      session_authority_of c' i = Some (a\<lparr>sa_pending_controller_id := Some t\<rparr>)"
proof -
  let ?m = "s\<lparr>ws_authority := Some \<lparr>sa_controller_id = c_id c, sa_epoch = sa_epoch a, sa_pending_controller_id = Some t\<rparr>\<rparr>"
  have i: "md_id (ws_metadata s) = i" using assms(1) by (rule find_session_id)
  have m: "\<lparr>sa_controller_id = c_id c, sa_epoch = sa_epoch a, sa_pending_controller_id = Some t\<rparr> =
      a\<lparr>sa_pending_controller_id := Some t\<rparr>"
    using assms(3) by simp
  have au: "session_authority_of c i = Some a" using assms(1,2) by (simp add: session_authority_of_def)
  have "steady c (put_session ?m c)" if "sa_pending_controller_id a = None"
    by (rule c_mark [where a = a and t = t]) (use assms(3) i au that in simp_all)
  then show "steady\<^sup>*\<^sup>* c (fst (handoff_mark n t s a c))"
    unfolding handoff_mark_def Let_def by (auto intro!: sbind_path steady_persist)
  assume h: "handoff_mark n t s a c = (c', Ok s')"
  show "c_id c' = c_id c \<and> md_id (ws_metadata s') = i \<and>
      session_authority_of c' i = Some (a\<lparr>sa_pending_controller_id := Some t\<rparr>)"
  proof (cases "sa_pending_controller_id a")
    case None
    then have c': "c' = fst (persist n 1 (put_session ?m c))" "s' = ?m"
      using h by (auto simp: handoff_mark_def Let_def sbind_Ok)
    show ?thesis unfolding c' using i m by simp
  next
    case (Some p)
    then show ?thesis using h assms(4) i au by (auto simp: handoff_mark_def)
  qed
qed

lemma handoff_prepare_steady: "steady\<^sup>*\<^sup>* c (fst (handoff_prepare n params c))"
proof -
  have mark: "steady\<^sup>*\<^sup>* c (fst (sbind (handoff_mark n t s a c) (\<lambda>c s. (c, f c s))))"
    if "find_session c i = Some s" "ws_authority s = Some a" "sa_controller_id a = c_id c"
      "sa_pending_controller_id a = None \<or> sa_pending_controller_id a = Some t" for i s a t f
    by (rule sbind_path) (simp_all add: handoff_mark_steady(1) [OF that])
  show ?thesis
    unfolding handoff_prepare_def Let_def
    by (auto intro!: check_path branch_path split: option.splits if_splits) (rule mark; simp)+
qed

text \<open>A prepared handoff: the session is marked as pending and the plan gives it to the target.\<close>

definition handoff_planned :: "controller \<Rightarrow> handoff_plan \<Rightarrow> bool" where
  "handoff_planned c plan \<longleftrightarrow>
     (\<exists>a t. session_authority_of c (md_id (ws_metadata (hp_session plan))) = Some a \<and> sa_controller_id a = c_id c \<and>
        sa_pending_controller_id a = Some t \<and>
        ws_authority (hp_session plan) =
          Some \<lparr>sa_controller_id = t, sa_epoch = sat_add (sa_epoch a) 1, sa_pending_controller_id = None\<rparr>)"

lemma handoff_prepare_plan:
  assumes "handoff_prepare n params c = (c', Ok plan)"
  shows "handoff_planned c' plan"
proof -
  obtain i t s a s' where s: "find_session c i = Some s" "ws_authority s = Some a" "sa_controller_id a = c_id c"
      "sa_pending_controller_id a = None \<or> sa_pending_controller_id a = Some t"
    and m: "handoff_mark n t s a c = (c', Ok s')"
    and plan: "hp_session plan = s'\<lparr>ws_authority := Some \<lparr>sa_controller_id = t, sa_epoch = sat_add (sa_epoch a) 1,
        sa_pending_controller_id = None\<rparr>, ws_metadata := (ws_metadata s')\<lparr>md_updated_at := cv_now n 1\<rparr>\<rparr>"
    using assms unfolding handoff_prepare_def Let_def
    by (auto simp: sbind_Ok lift_res_def split: if_splits option.splits)
  show ?thesis
    using handoff_mark_steady(2) [OF s m] s(3) plan unfolding handoff_planned_def by auto
qed

lemma handoff_commit_steady: "handoff_planned c plan \<Longrightarrow> steady\<^sup>*\<^sup>* c (fst (handoff_commit n (hp_session plan) c))"
  unfolding handoff_commit_def handoff_planned_def
  by (intro steady_persist_then r_into_rtranclp) (auto intro: c_leave)

lemma session_handoff_steady: "steady\<^sup>*\<^sup>* c (fst (session_handoff n params c))"
proof (cases "handoff_prepare n params c")
  case (Pair c' r)
  have p: "steady\<^sup>*\<^sup>* c c'" using handoff_prepare_steady [of c n params] Pair by simp
  show ?thesis
  proof (cases r)
    case (Ok plan)
    have "steady\<^sup>*\<^sup>* c (fst (handoff_commit n (hp_session plan) c'))"
      using p handoff_commit_steady [OF handoff_prepare_plan] Pair Ok by (metis rtranclp_trans)
    then show ?thesis
      unfolding session_handoff_def using Pair Ok p
      by (auto intro!: check_path split: sum.split)
  qed (use p Pair in \<open>simp_all add: session_handoff_def\<close>)
qed

lemma dispatch_steady:
  assumes "action \<noteq> ''session.accept-handoff''"
  shows "steady\<^sup>*\<^sup>* c (fst (dispatch n action params c))"
proof (cases "action \<in> set session_changes")
  case False
  then show ?thesis using dispatch_quiet quiet_steady by blast
next
  case True
  have "steady\<^sup>*\<^sup>* c (fst (h c))" if "map_of (handlers n action params) action = Some h" for h
    using True that assms
    by (auto simp: session_changes_def handlers_def intro: session_put_steady session_handoff_steady)
  then show ?thesis
    unfolding dispatch_def by (auto intro!: check_path split: option.split)
qed

lemma dispatch_change: "change\<^sup>*\<^sup>* c (fst (dispatch n action params c))"
proof (cases "action = ''session.accept-handoff''")
  case False
  then show ?thesis using dispatch_steady steady_change by blast
next
  case True
  have "change\<^sup>*\<^sup>* c (fst (h c))" if "map_of (handlers n action params) action = Some h" for h
    using True that by (auto simp: handlers_def intro: session_accept_change)
  then show ?thesis
    unfolding dispatch_def by (auto intro!: check_path split: option.split)
qed

text \<open>What holds of the dispatch of a request and of elementary changes holds of its handling.\<close>

lemma handle_path:
  assumes "\<And>n c. R\<^sup>*\<^sup>* c (fst (dispatch n (rq_action rq) (rq_params rq) c))" "\<And>c c'. quiet c c' \<Longrightarrow> R c c'"
  shows "R\<^sup>*\<^sup>* c (fst (controller_handle n rq c))"
proof -
  let ?n = "n\<lparr>cv_trace := Some (request_trace rq)\<rparr>"
  let ?d = "dispatch ?n (rq_action rq) (rq_params rq)"
  have reap: "R\<^sup>*\<^sup>* c (c\<lparr>c_leases := fst (reap_expired now (c_leases c))\<rparr>)" for now
    using assms(2) [OF q_lease [of c "OpReap now"]] by (auto simp: lease_change_def)
  have run: "R\<^sup>*\<^sup>* c (fst (?d c'))" if "R\<^sup>*\<^sup>* c c'" for c'
    using that assms(1) [of c'] by (rule rtranclp_trans)
  have save: "R\<^sup>*\<^sup>* c (fst (persist ?n 0 c'))" if "R\<^sup>*\<^sup>* c c'" for c'
    using that assms(2) [OF q_save] by (rule rtranclp.rtrancl_into_rtrancl)
  have "R\<^sup>*\<^sup>* c (fst (sbind (persist ?n 0 c') (\<lambda>c _. ?d c)))" if "R\<^sup>*\<^sup>* c c'" for c'
    by (rule sbind_path) (auto intro: save that run)
  then show ?thesis
    unfolding controller_handle_def Let_def case_prod_unfold using reap run by auto
qed

lemma handle_steady:
  "rq_action rq \<noteq> ''session.accept-handoff'' \<Longrightarrow> steady\<^sup>*\<^sup>* c (fst (controller_handle n rq c))"
  by (rule handle_path) (auto intro: dispatch_steady c_quiet)

section \<open>Properties\<close>


end
