(* ===== verification/Controller_Samples.thy ===== *)
theory Controller_Samples
  imports Controller_Dispatch
begin

text \<open>
  A small controller and its surroundings, on which the properties of the controller are evaluated:
  one session, one executor with two capabilities, one approved command, and a driver's lease.
\<close>

definition demo_codec :: codec where
  "demo_codec =
     \<lparr>dec_session = (\<lambda>_. Inl ''session''), enc_session = (\<lambda>_. JNull), dec_session_state = (\<lambda>_. Inl ''state''),
      dec_task = (\<lambda>_. Inl ''task''), enc_task = (\<lambda>t. JStr (t_id t)), dec_task_state = (\<lambda>_. Inl ''state''),
      enc_task_event = (\<lambda>_. JNull), enc_payload_ref = (\<lambda>_. JNull),
      dec_artifact = (\<lambda>_. Inl ''artifact''), enc_artifact = (\<lambda>_. JNull),
      dec_generation = (\<lambda>_. Inl ''generation''), enc_generation = (\<lambda>_. JNull),
      dec_transaction = (\<lambda>_. Inl ''transaction''), enc_transaction = (\<lambda>_. JNull), dec_step_state = (\<lambda>_. Inl ''step''),
      dec_agent = (\<lambda>_. Inl ''agent''), enc_agent = (\<lambda>_. JNull), dec_agent_state = (\<lambda>_. Inl ''state''),
      dec_handoff = (\<lambda>_. Inl ''handoff''), enc_handoff = (\<lambda>_. JNull),
      dec_executor = (\<lambda>_. Inl ''executor''), enc_executor = (\<lambda>_. JNull), dec_endpoint = (\<lambda>_. Inl ''endpoint''),
      dec_capability = (\<lambda>_. Inl ''capability''), enc_capability = (\<lambda>_. JNull), enc_lock = (\<lambda>_. JNull),
      enc_effect = (\<lambda>_. JNull), enc_health = (\<lambda>_. JNull), enc_controller = (\<lambda>_. JNull), enc_approval = (\<lambda>_. JNull),
      enc_lease = (\<lambda>_. JNull), enc_rpc_error = (\<lambda>_. JNull),
      not_a_sequence = (\<lambda>_. ''not a sequence''), not_a_string = (\<lambda>_. ''not a string''), debug_text = (\<lambda>s. s)\<rparr>"

definition demo_payload :: payload_env where
  "demo_payload =
     \<lparr>pe_dir = ''fabric'', pe_name = ''state.json'', pe_sha = (\<lambda>_. ''digest''), pe_to_vec = (\<lambda>_. Ok ''null''),
      pe_from_slice = (\<lambda>_. Ok JNull), pe_read_fault = (\<lambda>_. None), pe_write_fault = (\<lambda>_. None), pe_unix = True\<rparr>"

definition demo_env :: cenv where
  "demo_env =
     \<lparr>cv_codec = demo_codec, cv_payload = demo_payload, cv_text = \<lparr>text_of = (\<lambda>_. ''json''), show_f64 = (\<lambda>_. ''1'')\<rparr>,
      cv_now = (\<lambda>k. 100), cv_uuid = (\<lambda>_. ''u''),
      cv_call = (\<lambda>_ _ _. Inl \<lparr>ce_text = ''refused'', ce_kind = Some KindConnectionRefused, ce_json = False\<rparr>),
      cv_save = (\<lambda>_. None), cv_trace = None, cv_exists = (\<lambda>_. True), cv_unix = True, cv_version = ''1'', cv_pid = 1,
      cv_polls = [], cv_process_polls = [], cv_elapsed = (\<lambda>_. 0), cv_rounds = 0\<rparr>"

definition demo_metadata :: "string \<Rightarrow> metadata" where
  "demo_metadata i = \<lparr>md_id = i, md_labels = [], md_created_at = 1, md_updated_at = 1\<rparr>"

definition demo_session :: workspace_session where
  "demo_session =
     \<lparr>ws_api_version = ''v1'', ws_metadata = demo_metadata ''s'', ws_objective = ''demo'', ws_state = SessionActive,
      ws_authority = Some \<lparr>sa_controller_id = ''me'', sa_epoch = 1, sa_pending_controller_id = None\<rparr>\<rparr>"

definition demo_capability :: "string \<Rightarrow> effect \<Rightarrow> capability_descriptor" where
  "demo_capability name eff =
     \<lparr>cd_name = name, cd_version = ''1'', cd_input_schema = jobj [], cd_output_schema = jobj [],
      cd_required_executor_features = [], cd_locks = [],
      cd_idempotency = \<lparr>ic_key_fields = [], ic_retention_ms = 60000\<rparr>, cd_timeout_ms = 1000,
      cd_retry = retry_policy_default, cd_rollback = RollbackNone,
      cd_health_check = HealthCheckNone, cd_emitted_evidence = [], cd_effect = eff\<rparr>"

definition demo_executor :: executor_entry where
  "demo_executor =
     \<lparr>ex_api_version = ''v1'', ex_metadata = demo_metadata ''e'', ex_endpoint = EpLocal ''e.sock'',
      ex_capabilities = [demo_capability ''command.run'' Mutating, demo_capability ''fs.read'' ReadOnly],
      ex_allowed_roots = [], ex_health = HealthReady\<rparr>"

definition demo_approval :: approval where
  "demo_approval =
     \<lparr>ap_id = ''a'', ap_digest = ''digest'', ap_owner = ''o'', ap_reason = ''demo'', ap_state = ApprovalApproved,
      ap_created_at = 1, ap_approved_at = Some 1, ap_consumed_at = None, ap_expires_at = Some 1000\<rparr>"

definition demo_lease :: lease where
  "demo_lease =
     \<lparr>l_id = ''l'', l_kind = Driver, l_resource = ''workspace:s'', l_owner = ''o'', l_token = ''t'', l_fence = 1,
      l_acquired_at = 1, l_updated_at = 1, l_expires_at = 1000, l_handoff_to = None\<rparr>"

definition demo_controller :: controller where
  "demo_controller =
     \<lparr>c_id = ''me'',
      c_state = fabric_state_default\<lparr>fs_controller_id := Some ''me'', fs_sessions := [demo_session],
        fs_executors := [demo_executor], fs_approvals := [demo_approval]\<rparr>,
      c_leases = \<lparr>leases = [(''workspace:s'', demo_lease)], fences = [(''workspace:s'', 1)]\<rparr>,
      c_tasks = task_table_default, c_disk = None, c_files = (\<lambda>_. None), c_poisoned = False\<rparr>"

definition demo_invoke :: "string \<Rightarrow> json \<Rightarrow> string \<Rightarrow> json" where
  "demo_invoke cap input key =
     jobj [(''executorId'', JStr ''e''), (''capability'', JStr cap), (''workspaceSessionId'', JStr ''s''),
           (''owner'', JStr ''o''), (''idempotencyKey'', JStr key), (''driverToken'', JStr ''t''),
           (''approvalId'', JStr ''a''), (''input'', input)]"

definition demo_command :: "string \<Rightarrow> json" where
  "demo_command p = jobj [(''cwd'', JStr ''/w''), (''argv'', JArr [JStr p, JStr ''x''])]"

end
