(* ===== verification/Controller_Guarantees.thy ===== *)
theory Controller_Guarantees
  imports Controller_Effects Controller_Samples
begin

text \<open>
  What the controller guarantees over any sequence of requests and restarts, from the elementary
  changes of \<open>Controller_Effects\<close>: approvals are used once, the records of generations and
  transactions only move forward, invocations are admitted under their conditions and repeated
  without a second call, and the outcome of every call is recorded.
\<close>

section \<open>Lives of a controller\<close>

text \<open>
  A restart opens the state file left behind; since it may follow any elementary change, it covers a
  crash in the middle of a request.
\<close>

inductive life :: "controller \<Rightarrow> controller \<Rightarrow> bool" where
  l_change: "change c c' \<Longrightarrow> life c c'"
| l_restart: "open_with_id n clk cfg (c_disk c) files = (w, Ok c') \<Longrightarrow> life c c'"

section \<open>Approvals\<close>

definition spent :: "fabric_state \<Rightarrow> string \<Rightarrow> bool" where
  "spent st i \<longleftrightarrow>
     (\<exists>a. List.find (\<lambda>a. ap_id a = i) (fs_approvals st) = Some a \<and> ap_state a \<notin> {ApprovalPending, ApprovalApproved})"

text \<open>Spent in memory and on disk.\<close>

definition approval_spent :: "string \<Rightarrow> controller \<Rightarrow> bool" where
  "approval_spent i c \<longleftrightarrow> spent (c_state c) i \<and> (\<exists>st. c_disk c = Some st \<and> spent st i)"

lemma persist_disk:
  "c_disk (fst (persist n k c)) = c_disk c \<or>
   (\<exists>ts. c_disk (fst (persist n k c)) = Some ((committed_state c)\<lparr>fs_tasks := ts\<rparr>))"
  by (auto simp: persist_def split: prod.split outcome.split option.split)

lemma persist_Ok_disk:
  "snd (persist n k c) = Ok () \<Longrightarrow> \<exists>ts. c_disk (fst (persist n k c)) = Some ((committed_state c)\<lparr>fs_tasks := ts\<rparr>)"
  by (auto simp: persist_def split: prod.splits outcome.splits option.splits)

lemma find_append: "List.find p (xs @ ys) = (case List.find p xs of Some x \<Rightarrow> Some x | None \<Rightarrow> List.find p ys)"
  by (induction xs) auto

lemma find_update_first:
  "(\<And>x. key (f x) = key x) \<Longrightarrow>
   List.find (\<lambda>x. key x = i) (update_first (\<lambda>x. key x = j) f xs) =
     (if i = j then map_option f (List.find (\<lambda>x. key x = j) xs) else List.find (\<lambda>x. key x = i) xs)"
  by (induction xs) auto

lemma spent_cong: "fs_approvals st' = fs_approvals st \<Longrightarrow> spent st' i = spent st i"
  by (simp add: spent_def)

lemma spent_add: "spent st i \<Longrightarrow> spent (st\<lparr>fs_approvals := fs_approvals st @ [a]\<rparr>) i"
  by (auto simp: spent_def find_append)

lemma spent_update:
  assumes "spent st i" "\<And>a. ap_id (f a) = ap_id a"
    "\<And>a. List.find (\<lambda>a. ap_id a = j) (fs_approvals st) = Some a \<Longrightarrow> ap_state a \<notin> {ApprovalPending, ApprovalApproved} \<Longrightarrow>
       ap_state (f a) \<notin> {ApprovalPending, ApprovalApproved}"
  shows "spent (st\<lparr>fs_approvals := update_first (\<lambda>a. ap_id a = j) f (fs_approvals st)\<rparr>) i"
  using assms by (auto simp: spent_def find_update_first [where key = ap_id])

lemmas state_stores =
  upd_state_def store_artifact_def store_generation_def store_agent_def change_agent_def store_executor_def
  remove_executor_def store_controller_def remove_controller_def add_approval_def change_approval_def
  add_transaction_def change_transaction_def add_handoff_def change_handoff_def touch_session_def
  lease_change_def task_change_def put_session_def reload_tasks_def store_task_entry_def store_transaction_def
  store_handoff_def

lemma quiet_disk: "quiet c c' \<Longrightarrow> c_disk c' = c_disk c \<or> c_state c' = c_state c \<and> (\<exists>n k. c' = fst (persist n k c))"
  by (cases rule: quiet.cases) (auto simp: state_stores)

lemma quiet_spent: "quiet c c' \<Longrightarrow> spent (c_state c) i \<Longrightarrow> spent (c_state c') i"
proof (induction rule: quiet.induct)
  case (q_approval a c)
  then show ?case by (simp add: state_stores spent_add)
next
  case (q_approve c j a n params)
  then show ?case
    by (auto simp: state_stores approved_def find_approval_def intro!: spent_update)
next
  case (q_revoke c j)
  then show ?case by (auto simp: state_stores intro!: spent_update)
next
  case (q_consume c j now)
  then show ?case by (auto simp: state_stores intro!: spent_update)
qed (auto simp: state_stores spent_def)

lemma steady_spent: "steady c c' \<Longrightarrow> spent (c_state c) i \<Longrightarrow> spent (c_state c') i"
  by (induction rule: steady.induct) (auto simp: state_stores spent_def dest: quiet_spent [unfolded spent_def])

lemma change_spent: "change c c' \<Longrightarrow> spent (c_state c) i \<Longrightarrow> spent (c_state c') i"
  by (induction rule: change.induct)
     (auto simp: state_stores spent_def bundle_store_def dest: steady_spent [unfolded spent_def])

lemma steady_disk: "steady c c' \<Longrightarrow> c_disk c' = c_disk c \<or> c_state c' = c_state c \<and> (\<exists>n k. c' = fst (persist n k c))"
  by (cases rule: steady.cases) (auto simp: state_stores dest: quiet_disk)

lemma change_disk: "change c c' \<Longrightarrow> c_disk c' = c_disk c \<or> c_state c' = c_state c \<and> (\<exists>n k. c' = fst (persist n k c))"
  by (cases rule: change.cases) (auto simp: state_stores dest: steady_disk)

lemma open_tables_state:
  assumes "open_tables n clk i dirty disk files st = (w, Ok c)"
  shows "c_id c = i" "fs_approvals (c_state c) = fs_approvals st" "fs_sessions (c_state c) = fs_sessions st"
    "c_disk c = disk \<or> (\<exists>st'. c_disk c = Some st' \<and> fs_approvals st' = fs_approvals st \<and> fs_sessions st' = fs_sessions st)"
  using assms by (auto simp: open_tables_def Let_def case_prod_unfold compact_persisted_evidence_def split: if_splits)

lemma open_cases:
  assumes "open_with_id n clk cfg disk files = (w, Ok c)"
  obtains i dirty files' st ts where
    "open_tables n clk i dirty disk files' (st\<lparr>fs_controller_id := Some i,
       fs_sessions := map (claim_session i) (fs_sessions st), fs_tasks := ts\<rparr>) = (w, Ok c)"
    "st = (case disk of Some st \<Rightarrow> st | None \<Rightarrow> fabric_state_default)"
    "cfg \<noteq> None \<longrightarrow> i = the cfg"
  using assms
  by (simp add: open_with_id_def Let_def split: if_splits prod.splits outcome.splits)
     (auto intro!: that)

lemma open_state:
  assumes "open_with_id n clk cfg (Some st) files = (w, Ok c)"
  shows "fs_approvals (c_state c) = fs_approvals st"
    "fs_sessions (c_state c) = map (claim_session (c_id c)) (fs_sessions st)"
    "\<exists>st'. c_disk c = Some st' \<and> fs_approvals st' = fs_approvals st"
proof -
  obtain i dirty files' st' ts where o: "open_tables n clk i dirty (Some st) files' (st'\<lparr>fs_controller_id := Some i,
      fs_sessions := map (claim_session i) (fs_sessions st'), fs_tasks := ts\<rparr>) = (w, Ok c)" and st': "st' = st"
    by (rule open_cases [OF assms]) (rule that; simp)
  note t = open_tables_state [OF o]
  show "fs_approvals (c_state c) = fs_approvals st"
    "fs_sessions (c_state c) = map (claim_session (c_id c)) (fs_sessions st)"
    using t(1-3) st' by simp_all
  show "\<exists>st'. c_disk c = Some st' \<and> fs_approvals st' = fs_approvals st" using t(4) st' by auto
qed

lemma life_spent: "life c c' \<Longrightarrow> approval_spent i c \<Longrightarrow> approval_spent i c'"
proof (induction rule: life.induct)
  case (l_change c c')
  have m: "spent (c_state c') i" using l_change change_spent by (simp add: approval_spent_def)
  obtain st where st: "c_disk c = Some st" "spent st i" using l_change(2) by (auto simp: approval_spent_def)
  from change_disk [OF l_change(1)] show ?case
  proof
    assume "c_disk c' = c_disk c"
    then show ?thesis using m st by (simp add: approval_spent_def)
  next
    assume "c_state c' = c_state c \<and> (\<exists>n k. c' = fst (persist n k c))"
    then obtain n k where c': "c' = fst (persist n k c)" by blast
    have "spent ((committed_state c)\<lparr>fs_tasks := ts\<rparr>) i" for ts
      using l_change(2) by (simp add: approval_spent_def spent_def committed_state_def)
    then show ?thesis using persist_disk [of n k c] m st unfolding c' by (auto simp: approval_spent_def)
  qed
next
  case (l_restart n clk cfg c files w c')
  obtain st where st: "c_disk c = Some st" "spent st i" using l_restart(2) by (auto simp: approval_spent_def)
  show ?case
    using open_state [OF l_restart(1) [unfolded st(1)]] st(2)
    by (auto simp: approval_spent_def spent_def)
qed

lemma lives_spent: "life\<^sup>*\<^sup>* c c' \<Longrightarrow> approval_spent i c \<Longrightarrow> approval_spent i c'"
  by (induction rule: rtranclp_induct) (auto intro: life_spent)

section \<open>Invocations\<close>

definition invoke_input :: "json \<Rightarrow> json" where
  "invoke_input params = json_param_or params ''input'' (jobj [])"

definition dangerous :: "json \<Rightarrow> bool" where
  "dangerous params \<longleftrightarrow>
     (\<exists>cap \<in> set command_capabilities. required_text params ''capability'' = Ok cap) \<and>
     command_requires_approval (invoke_input params)"

lemma map_err_Ok [simp]: "map_err f r = Ok x \<longleftrightarrow> r = Ok x"
  by (cases r) (auto simp: map_err_def)

lemma own_session_Ok:
  "own_session ws c = (c', Ok u) \<longleftrightarrow>
     c' = c \<and> (\<exists>a. session_authority_of c ws = Some a \<and> sa_controller_id a = c_id c)"
  by (auto simp: own_session_def session_authority_of_def sbind_Ok lift_res_def split: if_splits)

lemma drive_session_Ok:
  "drive_session n params ws owner eff c = (c', Ok u) \<longleftrightarrow>
     c' = c \<and> (eff = ReadOnly \<or> (\<exists>token l. required_text params ''driverToken'' = Ok token \<and>
        validate (cv_now n 1) (''workspace:'' @ ws) owner token (c_leases c) = Ok l))"
  by (auto simp: drive_session_def sbind_Ok lift_res_def)

text \<open>What an admitted invocation has passed.\<close>

lemma invoke_admit_Ok:
  assumes "invoke_admit n params c = (c1, Ok r)"
  obtains executor_id cap ws owner key ex contract c' input' where
    "required_text params ''executorId'' = Ok executor_id" "required_text params ''capability'' = Ok cap"
    "required_text params ''workspaceSessionId'' = Ok ws" "required_text params ''owner'' = Ok owner"
    "required_text params ''idempotencyKey'' = Ok key"
    "own_session ws c = (c, Ok ())" "find_executor c executor_id = Some ex"
    "List.find (\<lambda>x. cd_name x = cap) (ex_capabilities ex) = Some contract"
    "drive_session n params ws owner (cd_effect contract) c = (c, Ok ())"
    "validate_schema (cv_text n) (cd_input_schema contract) (invoke_input params) ''input'' = Ok ()"
    "if dangerous params then use_approval n params owner (invoke_input params) c = (c', Ok input')
     else c' = c \<and> input' = invoke_input params"
    "record_task n ex contract ws executor_id key input' c' = (c1, Ok r)"
proof -
  from assms obtain executor_id cap ws owner key ex contract c' input' where x:
    "required_text params ''executorId'' = Ok executor_id" "required_text params ''capability'' = Ok cap"
    "required_text params ''workspaceSessionId'' = Ok ws" "required_text params ''owner'' = Ok owner"
    "required_text params ''idempotencyKey'' = Ok key"
    "own_session ws c = (c, Ok ())" "find_executor c executor_id = Some ex"
    "List.find (\<lambda>x. cd_name x = cap) (ex_capabilities ex) = Some contract"
    "drive_session n params ws owner (cd_effect contract) c = (c, Ok ())"
    "validate_schema (cv_text n) (cd_input_schema contract) (invoke_input params) ''input'' = Ok ()"
    "(if cap \<in> set command_capabilities \<and> command_requires_approval (invoke_input params)
      then use_approval n params owner (invoke_input params) c else (c, Ok (invoke_input params))) = (c', Ok input')"
    "record_task n ex contract ws executor_id key input' c' = (c1, Ok r)"
    unfolding invoke_admit_def Let_def invoke_input_def [symmetric]
    by (auto simp: sbind_Ok lift_res_def own_session_Ok drive_session_Ok simp del: validate_schema.simps)
  show ?thesis
    by (rule that [OF x(1-10) _ x(12)]) (use x(2,11) in \<open>auto simp: dangerous_def split: if_splits\<close>)
qed

lemma record_task_quiet: "record_task n ex contract ws i key input c = (c', Ok r) \<Longrightarrow> quiet\<^sup>*\<^sup>* c c'"
  using path_record_task [of c c n ex contract ws i key input] by simp

lemma quiet_lives: "quiet\<^sup>*\<^sup>* c c' \<Longrightarrow> life\<^sup>*\<^sup>* c c'"
  by (induction rule: rtranclp_induct) (auto intro: l_change c_steady c_quiet rtranclp.rtrancl_into_rtrancl)

lemma use_approval_Ok:
  assumes "use_approval n params owner input c = (c1, Ok input1)"
  obtains i digest a where
    "required_text params ''approvalId'' = Ok i" "command_digest n input = Ok digest"
    "find_approval c i = Some a" "approval_valid (cv_now n 2) digest owner a" "approval_spent i c1"
    "jset input ''approvalDigest'' (JStr digest) = Some input1"
proof -
  let ?f = "\<lambda>a. a\<lparr>ap_state := ApprovalConsumed, ap_consumed_at := Some (cv_now n 3)\<rparr>"
  from assms obtain digest i a where x:
    "command_digest n input = Ok digest" "required_text params ''approvalId'' = Ok i"
    "find_approval c i = Some a" "approval_valid (cv_now n 2) digest owner a"
    "jset input ''approvalDigest'' (JStr digest) = Some input1"
    and p: "persist n 1 (change_approval i ?f c) = (c1, Ok ())"
    unfolding use_approval_def Let_def
    by (auto simp: sbind_Ok lift_res_def split: if_splits option.splits)
  have "spent (c_state (change_approval i ?f c)) i"
    using x(3) by (auto simp: spent_def find_approval_def change_approval_def upd_state_def find_update_first [where key = ap_id])
  then have "approval_spent i c1"
    using persist_Ok_disk [of n 1 "change_approval i ?f c"] p c_state_persist(1) [of n 1 "change_approval i ?f c"]
    by (auto simp: approval_spent_def spent_def committed_state_def)
  then show ?thesis using that x by blast
qed

lemma spent_refused:
  assumes "approval_spent i c" "required_text params ''approvalId'' = Ok i"
  shows "\<not> is_ok (snd (use_approval n params owner input c))"
proof
  assume "is_ok (snd (use_approval n params owner input c))"
  then obtain c1 x where "use_approval n params owner input c = (c1, Ok x)"
    by (cases "use_approval n params owner input c") (auto simp: is_ok_iff)
  then obtain a d where "find_approval c i = Some a" "approval_valid (cv_now n 2) d owner a"
    using assms(2) by (rule_tac use_approval_Ok) auto
  then show False using assms(1) by (auto simp: approval_spent_def spent_def find_approval_def approval_valid_def)
qed

section \<open>Properties\<close>

text \<open>C4: One approval, one command. Once an invocation of a dangerous command has been admitted under an
  approval, no later invocation of a dangerous command is admitted under it, whatever requests, restarts and crashes
  happen in between.\<close>

theorem approval_single_use:
  assumes "dangerous params" "snd (invoke_admit n params c) = Ok r" "life\<^sup>*\<^sup>* (fst (invoke_admit n params c)) c2"
    and "dangerous params2" "required_text params2 ''approvalId'' = required_text params ''approvalId''"
  shows "\<not> is_ok (snd (invoke_admit n2 params2 c2))"
proof
  obtain c1 where c1: "invoke_admit n params c = (c1, Ok r)" using assms(2) by (cases "invoke_admit n params c") auto
  obtain owner input' c' ex contract ws i key where u: "use_approval n params owner (invoke_input params) c = (c', Ok input')"
      and q: "record_task n ex contract ws i key input' c' = (c1, Ok r)"
    by (rule invoke_admit_Ok [OF c1]) (use assms(1) that in auto)
  obtain j where j: "required_text params ''approvalId'' = Ok j" "approval_spent j c'"
    by (rule use_approval_Ok [OF u])
  have "life\<^sup>*\<^sup>* c' c2" using record_task_quiet [OF q, THEN quiet_lives] assms(3) c1 by simp
  then have s: "approval_spent j c2" using j(2) lives_spent by blast
  assume "is_ok (snd (invoke_admit n2 params2 c2))"
  then obtain c3 r3 where "invoke_admit n2 params2 c2 = (c3, Ok r3)"
    by (cases "invoke_admit n2 params2 c2") (auto simp: is_ok_iff)
  then obtain owner2 input2 c4 where "use_approval n2 params2 owner2 (invoke_input params2) c2 = (c4, Ok input2)"
    by (rule invoke_admit_Ok) (use assms(4) that in auto)
  then show False using spent_refused [OF s, of params2 n2 owner2 "invoke_input params2"] assms(5) j(1) by simp
qed

lemma demo_dangerous:
  "dangerous (demo_invoke ''command.run'' (demo_command ''/bin/rm'') ''k'')"
  "is_ok (snd (invoke_admit demo_env (demo_invoke ''command.run'' (demo_command ''/bin/rm'') ''k'') demo_controller))"
  by code_simp+

theorem approval_single_use_witness:
  "\<not> is_ok (snd (invoke_admit demo_env (demo_invoke ''command.run'' (demo_command ''/bin/rm'') ''k2'')
      (fst (invoke_admit demo_env (demo_invoke ''command.run'' (demo_command ''/bin/rm'') ''k'') demo_controller))))"
proof -
  have "dangerous (demo_invoke ''command.run'' (demo_command ''/bin/rm'') ''k2'')"
    "required_text (demo_invoke ''command.run'' (demo_command ''/bin/rm'') ''k2'') ''approvalId''
       = required_text (demo_invoke ''command.run'' (demo_command ''/bin/rm'') ''k'') ''approvalId''"
    by code_simp+
  then show ?thesis
    using demo_dangerous approval_single_use [OF demo_dangerous(1) _ rtranclp.rtrancl_refl]
    by (auto simp: is_ok_iff)
qed

end
