(* ===== verification/Controller_Histories.thy ===== *)
theory Controller_Histories
  imports Controller_Guarantees "HOL-Library.Sublist"
begin

text \<open>
  The records of generations, activation transactions and handoff documents over sequences of
  requests. Each kind of record has a relation that says how it may develop; the locale
  \<open>record_history\<close> lifts it from the elementary changes of \<open>Controller_Effects\<close> to requests and
  their sequences.
\<close>

section \<open>Sequences of requests\<close>

definition run_requests :: "(cenv \<times> request) list \<Rightarrow> controller \<Rightarrow> controller" where
  "run_requests rqs c = foldl (\<lambda>c (n, rq). fst (controller_handle n rq c)) c rqs"

text \<open>Sequences that take nothing over from another controller.\<close>

definition local_requests :: "(cenv \<times> request) list \<Rightarrow> bool" where
  "local_requests rqs \<longleftrightarrow> list_all (\<lambda>(n, rq). rq_action rq \<noteq> ''session.accept-handoff'') rqs"

section \<open>How records develop\<close>

definition generation_develops :: "generation \<Rightarrow> generation \<Rightarrow> bool" where
  "generation_develops g g' \<longleftrightarrow>
     g_workspace_session_id g' = g_workspace_session_id g \<and> g_root g' = g_root g \<and>
     bl_digest (g_baseline g') = bl_digest (g_baseline g) \<and>
     generation_transition_allowed\<^sup>*\<^sup>* (g_state g) (g_state g')"

definition transaction_develops :: "activation_transaction \<Rightarrow> activation_transaction \<Rightarrow> bool" where
  "transaction_develops t t' \<longleftrightarrow>
     tx_workspace_session_id t' = tx_workspace_session_id t \<and> tx_idempotency_key t' = tx_idempotency_key t \<and>
     tx_target t' = tx_target t \<and> tx_generation_id t' = tx_generation_id t \<and> tx_lease_fence t' = tx_lease_fence t \<and>
     prefix (tx_journal t) (tx_journal t') \<and> prefix (tx_completed_steps t) (tx_completed_steps t')"

definition handoff_develops :: "handoff \<Rightarrow> handoff \<Rightarrow> bool" where
  "handoff_develops h h' \<longleftrightarrow>
     h' = h\<lparr>ho_acknowledged_at := ho_acknowledged_at h', ho_completed_at := ho_completed_at h'\<rparr> \<and>
     (ho_acknowledged_at h \<noteq> None \<longrightarrow> ho_acknowledged_at h' = ho_acknowledged_at h) \<and>
     (ho_completed_at h \<noteq> None \<longrightarrow> ho_completed_at h' \<noteq> None) \<and>
     (ho_completed_at h = None \<and> ho_completed_at h' \<noteq> None \<longrightarrow> ho_acknowledged_at h' \<noteq> None)"

section \<open>From elementary changes to sequences of requests\<close>

locale record_history =
  fixes find_record :: "controller \<Rightarrow> string \<Rightarrow> 'r option"
    and develops :: "'r \<Rightarrow> 'r \<Rightarrow> bool"
  assumes develops_refl: "develops r r"
    and develops_trans: "develops r r' \<Longrightarrow> develops r' r'' \<Longrightarrow> develops r r''"
    and steady_develops: "steady c c' \<Longrightarrow> find_record c i = Some r \<Longrightarrow> \<exists>r'. find_record c' i = Some r' \<and> develops r r'"
begin

lemma path_develops:
  "steady\<^sup>*\<^sup>* c c' \<Longrightarrow> find_record c i = Some r \<Longrightarrow> \<exists>r'. find_record c' i = Some r' \<and> develops r r'"
proof (induction rule: rtranclp_induct)
  case base
  then show ?case using develops_refl by blast
next
  case (step c' c'')
  then show ?case using steady_develops develops_trans by blast
qed

lemma requests_develop:
  "local_requests rqs \<Longrightarrow> find_record c i = Some r \<Longrightarrow>
   \<exists>r'. find_record (run_requests rqs c) i = Some r' \<and> develops r r'"
proof (induction rqs arbitrary: c r)
  case Nil
  then show ?case using develops_refl by (simp add: run_requests_def)
next
  case (Cons q rqs)
  obtain n rq where q: "q = (n, rq)" by (cases q)
  have l: "local_requests rqs" and a: "rq_action rq \<noteq> ''session.accept-handoff''"
    using Cons.prems(1) by (auto simp: local_requests_def q)
  obtain r' where r': "find_record (fst (controller_handle n rq c)) i = Some r'" "develops r r'"
    using path_develops [OF handle_steady [OF a] Cons.prems(2)] by blast
  show ?case
    using Cons.IH [OF l r'(1)] r'(2) develops_trans by (auto simp: run_requests_def q)
qed

end

section \<open>The records of the controller\<close>

lemma fs_stores [simp]:
  "fs_generations (c_state (fst (persist n k c))) = fs_generations (c_state c)"
  "fs_transactions (c_state (fst (persist n k c))) = fs_transactions (c_state c)"
  "fs_handoffs (c_state (fst (persist n k c))) = fs_handoffs (c_state c)"
  by (simp_all add: c_state_persist)

lemma quiet_generations:
  assumes "quiet c c'" "find_generation c i = Some g"
  shows "\<exists>g'. find_generation c' i = Some g' \<and> generation_develops g g'"
  using assms
proof (cases rule: quiet.cases)
  case (q_generation g')
  then show ?thesis using assms(2)
    by (cases "g_id g' = i")
       (auto simp: find_generation_def generation_develops_def generation_admitted_def state_stores
         find_upsert_by [where key = g_id])
qed (auto simp: find_generation_def generation_develops_def state_stores)

lemma steady_generations:
  assumes "steady c c'" "find_generation c i = Some g"
  shows "\<exists>g'. find_generation c' i = Some g' \<and> generation_develops g g'"
  using assms
proof (cases rule: steady.cases)
  case c_quiet
  then show ?thesis using quiet_generations assms(2) by blast
qed (auto simp: find_generation_def generation_develops_def state_stores)

lemma record_step_develops: "transaction_develops t (record_step n params step st t)"
  by (auto simp: transaction_develops_def record_step_def step_outcome_def Let_def
      split: option.split transaction_step_state.split)

lemma record_step_id [simp]: "tx_id (record_step n params step st t) = tx_id t"
  by (auto simp: record_step_def step_outcome_def Let_def split: option.split transaction_step_state.split)

lemma transaction_develops_refl: "transaction_develops t t"
  by (simp add: transaction_develops_def)

lemma quiet_keeps_transactions:
  assumes "quiet c c'" "find_transaction c i = Some t"
  shows "\<exists>t'. find_transaction c' i = Some t' \<and> transaction_develops t t'"
  using assms
proof (cases rule: quiet.cases)
  case (q_journal j n params step st)
  then show ?thesis using assms(2) record_step_develops transaction_develops_refl
    by (auto simp: find_transaction_def state_stores find_update_first [where key = tx_id])
qed (auto simp: find_transaction_def state_stores transaction_develops_refl find_append)

lemma steady_transactions:
  assumes "steady c c'" "find_transaction c i = Some t"
  shows "\<exists>t'. find_transaction c' i = Some t' \<and> transaction_develops t t'"
  using assms
proof (cases rule: steady.cases)
  case c_quiet
  then show ?thesis using quiet_keeps_transactions assms(2) by blast
qed (auto simp: find_transaction_def state_stores transaction_develops_refl)

lemma handoff_develops_refl: "handoff_develops h h"
  by (auto simp: handoff_develops_def)

lemma quiet_keeps_handoffs:
  assumes "quiet c c'" "find_handoff c i = Some h"
  shows "\<exists>h'. find_handoff c' i = Some h' \<and> handoff_develops h h'"
  using assms
proof (cases rule: quiet.cases)
  case (q_acknowledge j h' now)
  then show ?thesis using assms(2)
    by (auto simp: find_handoff_def state_stores find_update_first [where key = ho_id] handoff_develops_def)
next
  case (q_complete j h' now)
  then show ?thesis using assms(2)
    by (auto simp: find_handoff_def state_stores find_update_first [where key = ho_id] handoff_develops_def)
qed (auto simp: find_handoff_def state_stores handoff_develops_refl find_append)

lemma steady_handoffs:
  assumes "steady c c'" "find_handoff c i = Some h"
  shows "\<exists>h'. find_handoff c' i = Some h' \<and> handoff_develops h h'"
  using assms
proof (cases rule: steady.cases)
  case c_quiet
  then show ?thesis using quiet_keeps_handoffs assms(2) by blast
qed (auto simp: find_handoff_def state_stores handoff_develops_refl)

interpretation generations: record_history find_generation generation_develops
proof
  show "generation_develops r r" for r by (simp add: generation_develops_def)
  show "generation_develops r r''" if "generation_develops r r'" "generation_develops r' r''" for r r' r''
    using that by (auto simp: generation_develops_def)
qed (rule steady_generations)

interpretation transactions: record_history find_transaction transaction_develops
proof
  show "transaction_develops r r''" if "transaction_develops r r'" "transaction_develops r' r''" for r r' r''
    using that by (auto simp: transaction_develops_def)
qed (auto intro: transaction_develops_refl steady_transactions)

interpretation handoffs: record_history find_handoff handoff_develops
proof
  show "handoff_develops r r''" if "handoff_develops r r'" "handoff_develops r' r''" for r r' r''
    using that by (cases r; cases r'; cases r'') (auto simp: handoff_develops_def)
qed (auto intro: handoff_develops_refl steady_handoffs)

section \<open>Samples\<close>

definition demo_generation :: "generation_state \<Rightarrow> generation" where
  "demo_generation st =
     \<lparr>g_id = ''g'', g_workspace_session_id = ''s'', g_application_type = ''app'', g_root = ''/g'', g_state = st,
      g_baseline = \<lparr>bl_digest = ''bd'', bl_source = ''b'', bl_identifier = None, bl_version = None, bl_attributes = []\<rparr>,
      g_applied_artifacts = [], g_digest = ''gd'', g_created_at = 1, g_activated_at = None, g_validation = None, g_finalization = None, g_smoke = None,
      g_failure = None\<rparr>"

definition demo_transaction :: activation_transaction where
  "demo_transaction =
     \<lparr>tx_id = ''x'', tx_workspace_session_id = ''s'', tx_idempotency_key = ''k'', tx_target = ''/app'',
      tx_generation_id = ''g'', tx_previous_generation_id = None, tx_state = TxPlanned, tx_created_at = 1,
      tx_updated_at = 1, tx_completed_steps = [], tx_journal = [], tx_lease_fence = Some 1, tx_evidence = [],
      tx_error = None\<rparr>"

definition demo_handoff :: handoff where
  "demo_handoff =
     \<lparr>ho_id = ''h'', ho_workspace_session_id = ''s'', ho_objective = ''review'',
      ho_from = \<lparr>ref_agent_id = Some ''a'', ref_role = ''author''\<rparr>, ho_to = \<lparr>ref_agent_id = Some ''b'', ref_role = ''reviewer''\<rparr>,
      ho_artifacts = [], ho_evidence = [], ho_completed_actions = [], ho_pending_actions = [],
      ho_acceptance_criteria = [], ho_constraints = [], ho_blockers = [], ho_created_at = 1,
      ho_acknowledged_at = None, ho_completed_at = None\<rparr>"

definition demo_recorded :: controller where
  "demo_recorded = demo_controller\<lparr>c_state := (c_state demo_controller)
     \<lparr>fs_generations := [demo_generation GenSmokePassed], fs_transactions := [demo_transaction],
      fs_handoffs := [demo_handoff]\<rparr>\<rparr>"

definition demo_rpc :: "string \<Rightarrow> json \<Rightarrow> request" where
  "demo_rpc action params = request_new ''r'' action params"

definition demo_requests :: "(cenv \<times> request) list" where
  "demo_requests =
     [(demo_env\<lparr>cv_codec := demo_codec\<lparr>dec_generation := (\<lambda>_. Inr (demo_generation GenActive))\<rparr>\<rparr>,
       demo_rpc ''generation.put'' (jobj [])),
      (demo_env\<lparr>cv_codec := demo_codec\<lparr>dec_step_state := (\<lambda>_. Inr StepSucceeded)\<rparr>\<rparr>,
       demo_rpc ''transaction.record''
         (jobj [(''transactionId'', JStr ''x''), (''step'', JStr ''activate''), (''state'', JStr ''succeeded'')])),
      (demo_env, demo_rpc ''handoff.acknowledge'' (jobj [(''handoffId'', JStr ''h'')]))]"

section \<open>Properties\<close>

text \<open>C29: Generations only move forward. Over any sequence of requests that takes no session over, a generation
  keeps its session, root and baseline, and its state follows the life cycle from reserved to active and superseded;
  a failed or superseded generation stays so, and an active one can only be superseded.\<close>

theorem generation_lifecycle:
  assumes "local_requests rqs" "find_generation c i = Some g"
  shows "\<exists>g'. find_generation (run_requests rqs c) i = Some g' \<and>
    g_workspace_session_id g' = g_workspace_session_id g \<and> g_root g' = g_root g \<and>
    bl_digest (g_baseline g') = bl_digest (g_baseline g) \<and>
    generation_transition_allowed\<^sup>*\<^sup>* (g_state g) (g_state g') \<and>
    (g_state g \<in> {GenFailed, GenSuperseded} \<longrightarrow> g_state g' = g_state g) \<and>
    (g_state g = GenActive \<longrightarrow> g_state g' \<in> {GenActive, GenSuperseded})"
proof -
  have path: "(a \<in> {GenFailed, GenSuperseded} \<longrightarrow> b = a) \<and> (a = GenActive \<longrightarrow> b \<in> {GenActive, GenSuperseded})"
    if "generation_transition_allowed\<^sup>*\<^sup>* a b" for a b
    using that by (induction rule: rtranclp_induct) (auto simp: generation_transition_allowed_def)
  obtain g' where g': "find_generation (run_requests rqs c) i = Some g'" "generation_develops g g'"
    using generations.requests_develop [OF assms] by blast
  show ?thesis
    using g' path [of "g_state g" "g_state g'"] by (auto simp: generation_develops_def)
qed

text \<open>C30: The journal of a transaction is append-only. Over any sequence of requests that takes no session over, a
  transaction keeps its identity, target, generation and fence, and the entries of its journal and its completed
  steps are never changed, removed or reordered.\<close>

theorem journal_append_only:
  assumes "local_requests rqs" "find_transaction c i = Some t"
  shows "\<exists>t' es ss. find_transaction (run_requests rqs c) i = Some t' \<and>
    tx_idempotency_key t' = tx_idempotency_key t \<and> tx_target t' = tx_target t \<and>
    tx_generation_id t' = tx_generation_id t \<and> tx_lease_fence t' = tx_lease_fence t \<and>
    tx_journal t' = tx_journal t @ es \<and> tx_completed_steps t' = tx_completed_steps t @ ss"
  using transactions.requests_develop [OF assms] by (auto simp: transaction_develops_def prefix_def)

text \<open>Handoff documents are acknowledged before they are completed. Over any sequence of requests that takes
  no session over, a document keeps its content, the time of its acknowledgement is set once, its completion is
  never undone, and it is completed only after an acknowledgement.\<close>

theorem handoff_document_order:
  assumes "local_requests rqs" "find_handoff c i = Some h" "ho_acknowledged_at h = None \<longrightarrow> ho_completed_at h = None"
  shows "\<exists>h'. find_handoff (run_requests rqs c) i = Some h' \<and>
    ho_objective h' = ho_objective h \<and> ho_evidence h' = ho_evidence h \<and> ho_pending_actions h' = ho_pending_actions h \<and>
    (ho_acknowledged_at h \<noteq> None \<longrightarrow> ho_acknowledged_at h' = ho_acknowledged_at h) \<and>
    (ho_completed_at h \<noteq> None \<longrightarrow> ho_completed_at h' \<noteq> None) \<and>
    (ho_acknowledged_at h' = None \<longrightarrow> ho_completed_at h' = None)"
proof -
  obtain h' where h': "find_handoff (run_requests rqs c) i = Some h'" "handoff_develops h h'"
    using handoffs.requests_develop [OF assms(1,2)] by blast
  have "ho_objective h' = ho_objective h" "ho_evidence h' = ho_evidence h" "ho_pending_actions h' = ho_pending_actions h"
    using h'(2) by (cases h; cases h'; simp add: handoff_develops_def)+
  then show ?thesis using h' assms(3) by (auto simp: handoff_develops_def)
qed

lemma demo_local:
  "local_requests demo_requests" "find_generation demo_recorded ''g'' = Some (demo_generation GenSmokePassed)"
  "find_transaction demo_recorded ''x'' = Some demo_transaction" "find_handoff demo_recorded ''h'' = Some demo_handoff"
  by code_simp+

theorem generation_lifecycle_witness:
  "\<exists>g'. find_generation (run_requests demo_requests demo_recorded) ''g'' = Some g' \<and> g_root g' = ''/g''"
  using generation_lifecycle [OF demo_local(1,2)] by (auto simp: demo_generation_def)

theorem journal_append_only_witness:
  "\<exists>t'. find_transaction (run_requests demo_requests demo_recorded) ''x'' = Some t' \<and> tx_target t' = ''/app''"
  using journal_append_only [OF demo_local(1,3)] by (auto simp: demo_transaction_def)

theorem handoff_document_order_witness:
  "\<exists>h'. find_handoff (run_requests demo_requests demo_recorded) ''h'' = Some h' \<and> ho_objective h' = ''review''"
  using handoff_document_order [OF demo_local(1,4)] by (auto simp: demo_handoff_def)

end
