(* ===== verification/Controller_Calls.thy ===== *)
theory Controller_Calls
  imports Controller_Guarantees
begin

text \<open>
  Calls of capabilities: what holds of an invocation the controller passes on to an executor, what
  a repeated invocation does, and what is recorded of the outcome.
\<close>

section \<open>The task of a running invocation\<close>

definition running_task :: "invocation \<Rightarrow> controller \<Rightarrow> bool" where
  "running_task iv c \<longleftrightarrow>
     (\<exists>task. get_task (c_tasks c) (t_id (iv_task iv)) = Some task \<and> t_state task = Running)"

definition settled_task :: "invocation \<Rightarrow> controller \<Rightarrow> bool" where
  "settled_task iv c \<longleftrightarrow>
     (\<exists>task. get_task (c_tasks c) (t_id (iv_task iv)) = Some task \<and> t_state task \<in> {Succeeded, Failed})"

lemma replace_keeps_state:
  "\<exists>task'. get_task (fst (replace_input_ref_if_unchanged j rv m r t)) i = Some task' \<and> t_state task' = t_state task \<and> t_id task' = t_id task"
  "\<exists>task'. get_task (fst (replace_output_ref_if_unchanged j rv m r t)) i = Some task' \<and> t_state task' = t_state task \<and> t_id task' = t_id task"
  if "get_task t i = Some task"
  using that
  by (auto simp: replace_input_ref_if_unchanged_def replace_output_ref_if_unchanged_def get_task_def bt_get_insert
      split: option.splits)

lemma update_keeps_state:
  assumes "get_task t i = Some task"
  shows "\<exists>task'. get_task (apply_update t u) i = Some task' \<and> t_state task' = t_state task \<and> t_id task' = t_id task"
proof -
  let ?t = "case pu_input u of
     Some (marker, r) \<Rightarrow> fst (replace_input_ref_if_unchanged (pu_id u) (pu_revision u) marker r t) | None \<Rightarrow> t"
  have "\<exists>task1. get_task ?t i = Some task1 \<and> t_state task1 = t_state task \<and> t_id task1 = t_id task"
    using assms replace_keeps_state(1) [OF assms] by (cases "pu_input u") auto
  then obtain task1 where 1: "get_task ?t i = Some task1" "t_state task1 = t_state task" "t_id task1 = t_id task"
    by blast
  show ?thesis
    unfolding apply_update_def Let_def using 1 replace_keeps_state(2) [OF 1(1)] by (cases "pu_output u") auto
qed

lemma updates_keep_state:
  "get_task t i = Some task \<Longrightarrow>
   \<exists>task'. get_task (foldl apply_update t us) i = Some task' \<and> t_state task' = t_state task \<and> t_id task' = t_id task"
proof (induction us arbitrary: t task)
  case (Cons u us)
  then show ?case using update_keeps_state [OF Cons.prems, of u] by fastforce
qed simp

lemma persist_keeps_state:
  assumes "get_task (c_tasks c) i = Some task"
  shows "\<exists>task'. get_task (c_tasks (fst (persist n k c))) i = Some task' \<and> t_state task' = t_state task \<and> t_id task' = t_id task"
  using assms updates_keep_state [OF assms]
  by (auto simp: persist_def split: prod.split outcome.split option.split)

lemma settled_persist: "settled_task iv c \<Longrightarrow> settled_task iv (fst (persist n k c))"
  unfolding settled_task_def using persist_keeps_state by fastforce

lemma settled_upd [simp]: "settled_task iv (upd_state f c) = settled_task iv c" "settled_task iv (change_agent i g c) = settled_task iv c"
  by (auto simp: settled_task_def upd_state_def change_agent_def)

lemma settled_bind:
  "settled_task iv (fst m) \<Longrightarrow> (\<And>x. settled_task iv (fst m) \<Longrightarrow> snd m = Ok x \<Longrightarrow> settled_task iv (fst (k (fst m) x))) \<Longrightarrow>
   settled_task iv (fst (sbind m k))"
  by (cases m; cases "snd m") auto

lemma settled_persist_then: "settled_task iv c \<Longrightarrow> settled_task iv (fst (persist_then n k v c))"
  unfolding persist_then_def by (rule settled_bind) (auto intro: settled_persist)

lemma transition_settles:
  "running_task iv c \<Longrightarrow> st \<in> {Succeeded, Failed} \<Longrightarrow>
   settled_task iv (c\<lparr>c_tasks := fst (transition n1 n2 (t_id (iv_task iv)) st out err (c_tasks c))\<rparr>)"
  by (auto simp: running_task_def settled_task_def transition_def get_task_def bt_get_insert Let_def)

lemma fail_task_settles: "running_task iv c \<Longrightarrow> settled_task iv (fst (fail_task n (iv_task iv) again e c))"
  unfolding fail_task_def by (rule settled_bind) (auto intro: settled_persist transition_settles)

lemma register_agent_settles: "settled_task iv c \<Longrightarrow> settled_task iv (fst (register_agent iv result c))"
  unfolding register_agent_def by (auto intro!: settled_bind)

lemma complete_task_settles:
  assumes "running_task iv c"
  shows "settled_task iv (fst (complete_task n iv result c))"
  unfolding complete_task_def Let_def
proof (rule settled_bind)
  show ok: "settled_task iv (fst (with_tasks (transition (cv_now n 10) (cv_now n 11) (t_id (iv_task iv)) Succeeded
      (Some (retained_task_output (cd_name (iv_contract iv)) result)) None) c))"
    using transition_settles [OF assms] by (simp add: with_tasks_def split: prod.splits) (metis fst_conv)
qed (auto intro!: settled_bind settled_persist_then register_agent_settles split: option.split)

lemma readiness_outcome: "readiness_loop process_id polls result \<noteq> Panic"
  by (induction process_id polls result rule: readiness_loop.induct)
     (subst readiness_loop.simps, auto simp: Let_def response_value_def simp del: readiness_loop.simps
        split: list.split sum.split)

lemma wait_outcome: "wait_for_process_readiness n input result \<noteq> Panic"
  by (auto simp: wait_for_process_readiness_def required_text_def readiness_outcome simp del: readiness_loop.simps
      split: option.split)

lemma invoke_finish_settles:
  assumes "running_task iv c"
  shows "settled_task iv (fst (invoke_finish n iv answer c))"
  unfolding invoke_finish_def Let_def
  using assms wait_outcome validate_refuses(1)
  by (auto simp: refuses_def simp del: validate_schema.simps intro!: fail_task_settles complete_task_settles
      split: sum.split outcome.split)

section \<open>Admission\<close>

lemma with_tasks_Ok:
  "with_tasks f c = (c', Ok x) \<longleftrightarrow> (\<exists>t. f (c_tasks c) = (t, Ok x) \<and> c' = c\<lparr>c_tasks := t\<rparr>)"
  by (auto simp: with_tasks_def split: prod.splits)

lemma start_task_Run:
  assumes "start_task n ex contract ws input task c = (c1, Ok (InvokeRun iv))" "get_task (c_tasks c) (t_id task) = Some task"
  shows "iv_executor iv = ex" "iv_contract iv = contract" "iv_session iv = ws" "running_task iv c1"
  using assms
  by (auto simp: start_task_def sbind_Ok with_tasks_Ok transition_def get_task_def bt_get_insert Let_def running_task_def
      split: option.splits if_splits)

lemma resume_task_Inr:
  assumes "resume_task n contract input task c = (c1, Ok (Inr task'))" "get_task (c_tasks c) (t_id task) = Some task"
  shows "get_task (c_tasks c1) (t_id task') = Some task'"
  using assms
  by (auto simp: resume_task_def sbind_Ok lift_res_def with_tasks_Ok retry_with_input_def retry_def get_task_def
      bt_get_insert Let_def split: option.splits if_splits)

lemma submit_Ok:
  assumes "submit_traced n1 n2 uid ws ex cap inp key corr req t = (t', Ok (task, reused))" "task_inv t"
  shows "get_task t' (t_id task) = Some task"
    "reused \<longleftrightarrow> bt_get (idempotency t) (scoped_idempotency_key ws ex cap key) \<noteq> None"
    "reused \<Longrightarrow> t' = t \<and> bt_get (idempotency t) (scoped_idempotency_key ws ex cap key) = Some (t_id task)"
  using assms task_invD(3) [OF assms(2)]
  by (auto simp: submit_traced_def get_task_def bt_get_insert Let_def split: option.splits)

lemma record_task_Run:
  assumes "record_task n ex contract ws i key input c = (c1, Ok (InvokeRun iv))" "task_inv (c_tasks c)"
  shows "iv_executor iv = ex \<and> iv_contract iv = contract \<and> iv_session iv = ws \<and> running_task iv c1"
proof -
  from assms(1) obtain t task reused where sub: "submit_traced (cv_now n 4) (cv_now n 5) (cv_uuid n 0) ws i (cd_name contract) input key
      (fst (current_trace n)) (snd (current_trace n)) (c_tasks c) = (t, Ok (task, reused))"
    and rest: "(if reused then sbind (resume_task n contract input task (c\<lparr>c_tasks := t\<rparr>)) (\<lambda>c r.
            case r of Inl v \<Rightarrow> (c, Ok (InvokeReply v)) | Inr task \<Rightarrow> start_task n ex contract ws input task c)
        else start_task n ex contract ws input task (c\<lparr>c_tasks := t\<rparr>)) = (c1, Ok (InvokeRun iv))"
    by (auto simp: record_task_def sbind_Ok with_tasks_Ok)
  note got = submit_Ok(1) [OF sub assms(2)]
  show ?thesis
  proof (cases reused)
    case True
    with rest obtain c' a where a: "resume_task n contract input task (c\<lparr>c_tasks := t\<rparr>) = (c', Ok a)"
      "(case a of Inl v \<Rightarrow> (c', Ok (InvokeReply v)) | Inr task \<Rightarrow> start_task n ex contract ws input task c')
         = (c1, Ok (InvokeRun iv))"
      by (auto simp: sbind_Ok)
    then obtain task' where r: "resume_task n contract input task (c\<lparr>c_tasks := t\<rparr>) = (c', Ok (Inr task'))"
      "start_task n ex contract ws input task' c' = (c1, Ok (InvokeRun iv))"
      by (cases a) auto
    have "get_task (c_tasks c') (t_id task') = Some task'"
      by (rule resume_task_Inr [OF r(1)]) (simp add: got)
    then show ?thesis using start_task_Run [OF r(2)] by simp
  next
    case False
    with rest have "start_task n ex contract ws input task (c\<lparr>c_tasks := t\<rparr>) = (c1, Ok (InvokeRun iv))" by simp
    from start_task_Run [OF this] got show ?thesis by simp
  qed
qed

lemma persist_task_inv: "task_inv (c_tasks c) \<Longrightarrow> task_inv (c_tasks (fst (persist n k c)))"
proof -
  have "task_inv (apply_update t u)" if "task_inv t" for t u
    using that by (auto simp: apply_update_def Let_def replace_input_inv replace_output_inv split: option.split)
  then have "task_inv (foldl apply_update t us)" if "task_inv t" for t us
    using that by (induction us arbitrary: t) auto
  then show "task_inv (c_tasks c) \<Longrightarrow> task_inv (c_tasks (fst (persist n k c)))"
    by (auto simp: persist_def split: prod.split outcome.split option.split)
qed

lemma use_approval_tasks:
  assumes "use_approval n params owner input c = (c1, Ok input1)" "task_inv (c_tasks c)"
  shows "task_inv (c_tasks c1)"
proof -
  from assms(1) obtain i f where "persist n 1 (change_approval i f c) = (c1, Ok ())"
    unfolding use_approval_def Let_def by (auto simp: sbind_Ok lift_res_def split: if_splits option.splits)
  then show ?thesis
    using persist_task_inv [of "change_approval i f c" n 1] assms(2) by (simp add: change_approval_def upd_state_def)
qed

lemma record_task_reused:
  assumes "record_task n ex contract ws i key input c = (c1, Ok r)"
    and "bt_get (idempotency (c_tasks c)) (scoped_idempotency_key ws i (cd_name contract) key) = Some j"
    and "get_task (c_tasks c) j = Some task" "t_state task = Succeeded"
  shows "c1 = c \<and> (\<exists>task'. task_with_payload (cv_payload n) (c_files c) task = Ok task' \<and>
    r = InvokeReply (jobj [(''task'', enc_task (cv_codec n) task'), (''reused'', JBool True),
                           (''result'', case t_output task' of Some v \<Rightarrow> v | None \<Rightarrow> JNull)]))"
proof -
  have "submit_traced n1 n2 uid ws i (cd_name contract) inp key corr req (c_tasks c) = (c_tasks c, Ok (task, True))"
    for n1 n2 uid inp corr req
    using assms(2,3) by (simp add: submit_traced_def get_task_def)
  then show ?thesis
    using assms(1,4) by (auto simp: record_task_def resume_task_def sbind_Ok with_tasks_Ok lift_res_def)
qed

lemma cenv_no_call:
  "cv_payload (n\<lparr>cv_call := f\<rparr>) = cv_payload n" "cv_now (n\<lparr>cv_call := f\<rparr>) = cv_now n"
  "cv_save (n\<lparr>cv_call := f\<rparr>) = cv_save n" "cv_codec (n\<lparr>cv_call := f\<rparr>) = cv_codec n"
  "cv_trace (n\<lparr>cv_call := f\<rparr>) = cv_trace n" "cv_uuid (n\<lparr>cv_call := f\<rparr>) = cv_uuid n"
  "cv_text (n\<lparr>cv_call := f\<rparr>) = cv_text n"
  by simp_all

lemma no_call:
  "persist (n\<lparr>cv_call := f\<rparr>) k c = persist n k c" "command_digest (n\<lparr>cv_call := f\<rparr>) input = command_digest n input"
  "drive_session (n\<lparr>cv_call := f\<rparr>) params ws owner eff c = drive_session n params ws owner eff c"
  "current_trace (n\<lparr>cv_call := f\<rparr>) = current_trace n"
  "resume_task (n\<lparr>cv_call := f\<rparr>) contract input task c = resume_task n contract input task c"
  "start_task (n\<lparr>cv_call := f\<rparr>) ex contract ws input task c = start_task n ex contract ws input task c"
  unfolding persist_def state_path_def command_digest_def drive_session_def current_trace_def resume_task_def
    start_task_def cenv_no_call by (rule refl)+

lemma no_call_steps:
  "use_approval (n\<lparr>cv_call := f\<rparr>) params owner input c = use_approval n params owner input c"
  "record_task (n\<lparr>cv_call := f\<rparr>) ex contract ws i key input c = record_task n ex contract ws i key input c"
  unfolding use_approval_def record_task_def no_call cenv_no_call by (rule refl)+

lemma admit_no_call: "invoke_admit (n\<lparr>cv_call := f\<rparr>) params c = invoke_admit n params c"
  unfolding invoke_admit_def no_call no_call_steps cenv_no_call by (rule refl)

text \<open>The task of an admitted invocation is recorded as running.\<close>

lemma invoke_admit_running:
  assumes "invoke_admit n params c = (c1, Ok (InvokeRun iv))" "task_inv (c_tasks c)"
  shows "running_task iv c1"
proof -
  obtain i ws owner key ex contract c' input' where
    appr: "if dangerous params then use_approval n params owner (invoke_input params) c = (c', Ok input')
     else c' = c \<and> input' = invoke_input params"
    and rec: "record_task n ex contract ws i key input' c' = (c1, Ok (InvokeRun iv))"
    by (rule invoke_admit_Ok [OF assms(1)])
  have "task_inv (c_tasks c')" using appr assms(2) use_approval_tasks by (auto split: if_splits)
  from record_task_Run [OF rec this] show ?thesis by simp
qed

section \<open>Samples\<close>

definition demo_saved :: controller where
  "demo_saved = demo_controller\<lparr>c_disk := Some (committed_state demo_controller)\<rparr>"

definition demo_remove :: json where
  "demo_remove = demo_invoke ''command.run'' (demo_command ''/bin/rm'') ''k''"

definition demo_write :: json where
  "demo_write = demo_invoke ''command.run'' (demo_command ''/bin/cp'') ''k''"

definition demo_answered :: cenv where
  "demo_answered = demo_env\<lparr>cv_call := (\<lambda>_ _ rq. Inr (response_success (rq_request_id rq) (JStr ''done'')))\<rparr>"

definition demo_task :: task where
  "demo_task = transitioned 3 3 Succeeded (Some (JStr ''done'')) None (transitioned 2 2 Running None None
     (new_task 1 1 ''u'' ''s'' ''e'' ''command.run'' (demo_command ''/bin/cp'') ''k'' None None))"

definition demo_written :: controller where
  "demo_written = demo_saved\<lparr>c_tasks := from_tasks [demo_task]\<rparr>"

definition calls_executor :: "invoke_start rpc \<Rightarrow> bool" where
  "calls_executor r = (case r of Ok (InvokeRun _) \<Rightarrow> True | _ \<Rightarrow> False)"

lemma calls_executor_cases:
  assumes "calls_executor (snd (invoke_admit n params c))"
  obtains c1 iv where "invoke_admit n params c = (c1, Ok (InvokeRun iv))"
  using assms
  by (cases "invoke_admit n params c") (auto simp: calls_executor_def split: outcome.splits invoke_start.splits)

lemma demo_tasks_inv: "task_inv (c_tasks demo_controller)" "task_inv (c_tasks demo_saved)"
  by (simp_all add: demo_controller_def demo_saved_def)

section \<open>Properties\<close>

text \<open>C3: Nothing is called unchecked. When \<open>capability.invoke\<close> goes on to call an executor, this controller is
  the session's authority, the executor is registered and offers the capability, a change is made by the holder of
  the session's driver lease, the input conforms to the capability's schema, a dangerous command has an approval of
  exactly this command for this owner, approved, unexpired and not yet used, and the task is recorded as running.\<close>

theorem invoke_guarded:
  assumes "invoke_admit n params c = (c1, Ok (InvokeRun iv))" "task_inv (c_tasks c)"
  shows "\<exists>i cap ws owner.
    required_text params ''executorId'' = Ok i \<and> required_text params ''capability'' = Ok cap \<and>
    required_text params ''workspaceSessionId'' = Ok ws \<and> required_text params ''owner'' = Ok owner \<and>
    (\<exists>a. session_authority_of c ws = Some a \<and> sa_controller_id a = c_id c) \<and> iv_session iv = ws \<and>
    find_executor c i = Some (iv_executor iv) \<and> iv_contract iv \<in> set (ex_capabilities (iv_executor iv)) \<and>
    cd_name (iv_contract iv) = cap \<and>
    (cd_effect (iv_contract iv) \<noteq> ReadOnly \<longrightarrow>
       (\<exists>token l. required_text params ''driverToken'' = Ok token \<and>
          validate (cv_now n 1) (''workspace:'' @ ws) owner token (c_leases c) = Ok l)) \<and>
    conforms (cd_input_schema (iv_contract iv)) (invoke_input params) \<and>
    (dangerous params \<longrightarrow>
       (\<exists>j a digest. required_text params ''approvalId'' = Ok j \<and> find_approval c j = Some a \<and>
          command_digest n (invoke_input params) = Ok digest \<and> approval_valid (cv_now n 2) digest owner a)) \<and>
    running_task iv c1"
proof -
  obtain i cap ws owner key ex contract c' input' where x:
    "required_text params ''executorId'' = Ok i" "required_text params ''capability'' = Ok cap"
    "required_text params ''workspaceSessionId'' = Ok ws" "required_text params ''owner'' = Ok owner"
    "own_session ws c = (c, Ok ())" "find_executor c i = Some ex"
    "List.find (\<lambda>x. cd_name x = cap) (ex_capabilities ex) = Some contract"
    "drive_session n params ws owner (cd_effect contract) c = (c, Ok ())"
    "validate_schema (cv_text n) (cd_input_schema contract) (invoke_input params) ''input'' = Ok ()"
    and appr: "if dangerous params then use_approval n params owner (invoke_input params) c = (c', Ok input')
     else c' = c \<and> input' = invoke_input params"
    and rec: "record_task n ex contract ws i key input' c' = (c1, Ok (InvokeRun iv))"
    by (rule invoke_admit_Ok [OF assms(1)])
  have "task_inv (c_tasks c')" using appr assms(2) use_approval_tasks by (auto split: if_splits)
  note run = record_task_Run [OF rec this]
  have "contract \<in> set (ex_capabilities ex)" "cd_name contract = cap" using x(7) by (auto simp: find_Some_iff)
  moreover have "\<exists>j a digest. required_text params ''approvalId'' = Ok j \<and> find_approval c j = Some a \<and>
      command_digest n (invoke_input params) = Ok digest \<and> approval_valid (cv_now n 2) digest owner a" if "dangerous params"
    by (rule use_approval_Ok [of n params owner "invoke_input params" c c' input']) (use appr that in auto)
  ultimately show ?thesis
    using x run by (auto simp: own_session_Ok drive_session_Ok validate_iff_conforms simp del: validate_schema.simps)
qed


text \<open>C24: The outcome of every call is recorded. However the executor answers (no connection, an error, a process
  that does not become ready, an output that violates its schema, a success) and whether or not the following
  writes of the state file work, the task of the invocation is no longer running when the request ends.\<close>

theorem invoke_settles:
  assumes "invoke_admit n params c = (c1, Ok (InvokeRun iv))" "task_inv (c_tasks c)"
  shows "settled_task iv (fst (capability_invoke n params c))"
  using invoke_finish_settles [OF invoke_admit_running [OF assms]] by (simp add: capability_invoke_def assms(1))

theorem invoke_guarded_witness:
  "\<exists>c1 iv. invoke_admit demo_env demo_remove demo_controller = (c1, Ok (InvokeRun iv)) \<and>
     conforms (cd_input_schema (iv_contract iv)) (invoke_input demo_remove) \<and> running_task iv c1"
proof -
  have "calls_executor (snd (invoke_admit demo_env demo_remove demo_controller))" by code_simp
  then obtain c1 iv where a: "invoke_admit demo_env demo_remove demo_controller = (c1, Ok (InvokeRun iv))"
    by (rule calls_executor_cases)
  show ?thesis using invoke_guarded [OF a demo_tasks_inv(1)] a by blast
qed

theorem invoke_settles_witness:
  "\<exists>c1 iv. invoke_admit demo_answered demo_write demo_saved = (c1, Ok (InvokeRun iv)) \<and> settled_task iv (fst (capability_invoke demo_answered demo_write demo_saved))"
proof -
  have "calls_executor (snd (invoke_admit demo_answered demo_write demo_saved))" by code_simp
  then obtain c1 iv where a: "invoke_admit demo_answered demo_write demo_saved = (c1, Ok (InvokeRun iv))"
    by (rule calls_executor_cases)
  show ?thesis using invoke_settles [OF a demo_tasks_inv(2)] a by blast
qed

lemma demo_done:
  "\<not> dangerous demo_write" "is_ok (snd (invoke_admit demo_env demo_write demo_written))"
  "required_text demo_write ''workspaceSessionId'' = Ok ''s''" "required_text demo_write ''executorId'' = Ok ''e''"
  "required_text demo_write ''capability'' = Ok ''command.run''" "required_text demo_write ''idempotencyKey'' = Ok ''k''"
  "bt_get (idempotency (c_tasks demo_written)) (scoped_idempotency_key ''s'' ''e'' ''command.run'' ''k'') = Some ''task_u''"
  "map_option t_state (get_task (c_tasks demo_written) ''task_u'') = Some Succeeded"
  by code_simp+


section \<open>An interrupted call\<close>

text \<open>
  The task of an invocation that needs no approval is not on disk when the executor is called: a controller that
  stops during the call reopens without it, and the repeated request, with the same idempotency key, calls the
  executor a second time.
\<close>

lemma disk_bind:
  "c_disk (fst m) = d \<Longrightarrow> (\<And>x. c_disk (fst m) = d \<Longrightarrow> c_disk (fst (k (fst m) x)) = d) \<Longrightarrow> c_disk (fst (sbind m k)) = d"
  by (cases m; cases "snd m") auto

lemma disk_tasks: "c_disk (fst (with_tasks f c)) = c_disk c"
  by (simp add: with_tasks_def split: prod.split)

lemma start_task_disk: "c_disk (fst (start_task n ex contract ws input task c)) = c_disk c"
  unfolding start_task_def by (rule disk_bind) (auto simp: disk_tasks split: option.split)

lemma resume_task_disk: "c_disk (fst (resume_task n contract input task c)) = c_disk c"
  unfolding resume_task_def by (auto intro!: disk_bind simp: disk_tasks)

lemma record_task_disk: "c_disk (fst (record_task n ex contract ws i key input c)) = c_disk c"
  unfolding record_task_def case_prod_unfold
  by (rule disk_bind) (auto intro!: disk_bind simp: disk_tasks start_task_disk resume_task_disk split: sum.split)

theorem call_unrecorded:
  assumes "\<not> dangerous params" "invoke_admit n params c = (c1, Ok r)"
  shows "c_disk c1 = c_disk c"
proof -
  obtain ex contract ws i key where "record_task n ex contract ws i key (invoke_input params) c = (c1, Ok r)"
    by (rule invoke_admit_Ok [OF assms(2)]) (use assms(1) that in auto)
  then show ?thesis using record_task_disk [of n ex contract ws i key "invoke_input params" c] by simp
qed

theorem interrupted_call_repeats:
  "\<exists>c1 w c2. fst (invoke_admit demo_env demo_write demo_saved) = c1 \<and>
     calls_executor (snd (invoke_admit demo_env demo_write demo_saved)) \<and>
     open_with_id demo_env (\<lambda>_. 100) None (c_disk c1) (c_files c1) = (w, Ok c2) \<and>
     calls_executor (snd (invoke_admit demo_env demo_write c2))"
proof -
  let ?c1 = "fst (invoke_admit demo_env demo_write demo_saved)"
  let ?o = "open_with_id demo_env (\<lambda>_. 100) None (c_disk ?c1) (c_files ?c1)"
  have "calls_executor (snd (invoke_admit demo_env demo_write demo_saved))"
    "case snd ?o of Ok c2 \<Rightarrow> calls_executor (snd (invoke_admit demo_env demo_write c2)) | _ \<Rightarrow> False"
    by code_simp+
  then show ?thesis by (cases ?o; cases "snd ?o") auto
qed

end
