(* ===== verification/Session_Protocol.thy ===== *)
theory Session_Protocol
  imports Schema_Types
begin

text \<open>
  The handoff of one workspace session between controllers, as a protocol on what the controllers
  believe: each holds at most one authority record for the session, handoffs in flight carry the
  record the target is to hold. This is the abstract specification that the controllers refine
  (\<open>Session_Fabric\<close>).
\<close>

record protocol =
  holds :: "string \<Rightarrow> session_authority option"
  sent :: "session_authority set"
  accepted :: "session_authority set"

definition fresh_protocol :: protocol where
  "fresh_protocol = \<lparr>holds = (\<lambda>_. None), sent = {}, accepted = {}\<rparr>"

definition transferred :: "session_authority \<Rightarrow> string \<Rightarrow> session_authority" where
  "transferred a t = \<lparr>sa_controller_id = t, sa_epoch = sat_add (sa_epoch a) 1, sa_pending_controller_id = None\<rparr>"

definition older :: "session_authority option \<Rightarrow> u64 \<Rightarrow> bool" where
  "older v e \<longleftrightarrow> (case v of None \<Rightarrow> True | Some a \<Rightarrow> sa_epoch a < e)"

inductive protocol_step :: "protocol \<Rightarrow> protocol \<Rightarrow> bool" where
  p_create: "(\<And>z. holds p z = None) \<Longrightarrow> sent p = {} \<Longrightarrow>
    protocol_step p (p\<lparr>holds := (holds p)(x := Some \<lparr>sa_controller_id = x, sa_epoch = 1, sa_pending_controller_id = None\<rparr>)\<rparr>)"
| p_mark: "holds p x = Some a \<Longrightarrow> sa_controller_id a = x \<Longrightarrow> sa_pending_controller_id a = None \<Longrightarrow>
    protocol_step p (p\<lparr>holds := (holds p)(x := Some (a\<lparr>sa_pending_controller_id := Some t\<rparr>))\<rparr>)"
| p_send: "holds p x = Some a \<Longrightarrow> sa_controller_id a = x \<Longrightarrow> sa_pending_controller_id a = Some t \<Longrightarrow> sa_epoch a < u64_max \<Longrightarrow>
    protocol_step p (p\<lparr>sent := insert (transferred a t) (sent p)\<rparr>)"
| p_accept: "a \<in> sent p \<Longrightarrow> older (holds p (sa_controller_id a)) (sa_epoch a) \<Longrightarrow>
    protocol_step p (p\<lparr>holds := (holds p)(sa_controller_id a := Some a)\<rparr>)"
| p_confirm: "a \<in> sent p \<Longrightarrow> holds p (sa_controller_id a) = Some a \<Longrightarrow>
    protocol_step p (p\<lparr>accepted := insert a (accepted p)\<rparr>)"
| p_commit: "holds p x = Some a \<Longrightarrow> sa_controller_id a = x \<Longrightarrow> sa_pending_controller_id a = Some t \<Longrightarrow>
    sa_epoch a < u64_max \<Longrightarrow> transferred a t \<in> accepted p \<Longrightarrow>
    protocol_step p (p\<lparr>holds := (holds p)(x := Some (transferred a t))\<rparr>)"

text \<open>A controller serves the session when it holds the record in its own name and no handoff is pending.\<close>

definition serving :: "protocol \<Rightarrow> string \<Rightarrow> bool" where
  "serving p x \<longleftrightarrow> (\<exists>a. holds p x = Some a \<and> sa_controller_id a = x \<and> sa_pending_controller_id a = None)"

text \<open>The claims made anywhere in the system: who owns the session in which epoch.\<close>

definition claim_of :: "session_authority \<Rightarrow> u64 \<times> string" where
  "claim_of a = (sa_epoch a, sa_controller_id a)"

definition known :: "protocol \<Rightarrow> (u64 \<times> string) set" where
  "known p = claim_of ` ({a. \<exists>z. holds p z = Some a} \<union> sent p)"

section \<open>The invariant\<close>

text \<open>
  Epochs name owners uniquely; the record a controller holds in its own name is the newest one,
  unless it is pending and its transfer has been sent; a claim that has a newer one has reached
  its owner; accepted records and records about others have reached their owners.
\<close>

definition reached :: "protocol \<Rightarrow> u64 \<times> string \<Rightarrow> bool" where
  "reached p k \<longleftrightarrow> (\<exists>b. holds p (snd k) = Some b \<and> fst k \<le> sa_epoch b)"

definition one_owner :: "protocol \<Rightarrow> bool" where
  "one_owner p \<longleftrightarrow> (\<forall>e x y. (e, x) \<in> known p \<and> (e, y) \<in> known p \<longrightarrow> x = y)"

definition newest :: "protocol \<Rightarrow> session_authority \<Rightarrow> bool" where
  "newest p a \<longleftrightarrow> (\<forall>k \<in> known p. fst k \<le> sa_epoch a)"

definition leaving :: "protocol \<Rightarrow> session_authority \<Rightarrow> bool" where
  "leaving p a \<longleftrightarrow>
     (\<exists>t. sa_pending_controller_id a = Some t \<and> sa_epoch a < u64_max \<and> transferred a t \<in> sent p)"

definition owners_newest :: "protocol \<Rightarrow> bool" where
  "owners_newest p \<longleftrightarrow> (\<forall>x a. holds p x = Some a \<and> sa_controller_id a = x \<longrightarrow> newest p a \<or> leaving p a)"

definition old_reached :: "protocol \<Rightarrow> bool" where
  "old_reached p \<longleftrightarrow> (\<forall>k \<in> known p. \<forall>k' \<in> known p. fst k < fst k' \<longrightarrow> reached p k)"

definition accepted_reached :: "protocol \<Rightarrow> bool" where
  "accepted_reached p \<longleftrightarrow> (\<forall>a \<in> accepted p. a \<in> sent p \<and> reached p (claim_of a))"

definition others_reached :: "protocol \<Rightarrow> bool" where
  "others_reached p \<longleftrightarrow> (\<forall>x a. holds p x = Some a \<and> sa_controller_id a \<noteq> x \<longrightarrow> reached p (claim_of a))"

definition protocol_inv :: "protocol \<Rightarrow> bool" where
  "protocol_inv p \<longleftrightarrow> one_owner p \<and> owners_newest p \<and> old_reached p \<and> accepted_reached p \<and> others_reached p"

lemma knownI [intro]: "holds p z = Some a \<Longrightarrow> claim_of a \<in> known p" "a \<in> sent p \<Longrightarrow> claim_of a \<in> known p"
  by (auto simp: known_def)

lemma claim_of_simps [simp]: "fst (claim_of a) = sa_epoch a" "snd (claim_of a) = sa_controller_id a"
  by (simp_all add: claim_of_def)

lemma transferred_simps [simp]:
  "sa_controller_id (transferred a t) = t" "sa_pending_controller_id (transferred a t) = None"
  "sa_epoch (transferred a t) = sat_add (sa_epoch a) 1"
  by (simp_all add: transferred_def)

lemma later_epoch: "sa_epoch a < u64_max \<Longrightarrow> sa_epoch a < sat_add (sa_epoch a) 1"
  by (rule sat_add_one_gt) auto

text \<open>What a step that moves one holder to a claim already known, with a later epoch, preserves.\<close>

lemma known_move:
  "claim_of a' \<in> known p \<Longrightarrow> holds p' = (holds p)(x := Some a') \<Longrightarrow> sent p' = sent p \<Longrightarrow> known p' \<subseteq> known p"
  by (auto simp: known_def split: if_splits)

lemma reached_move:
  assumes "reached p k" "\<And>b. holds p x = Some b \<Longrightarrow> sa_epoch b \<le> sa_epoch a'" "holds p' = (holds p)(x := Some a')"
  shows "reached p' k"
  using assms by (fastforce simp: reached_def)

lemma move_inv:
  assumes inv: "protocol_inv p" and k: "claim_of a' \<in> known p"
    and mono: "\<And>b. holds p x = Some b \<Longrightarrow> sa_epoch b \<le> sa_epoch a'"
    and p': "holds p' = (holds p)(x := Some a')" "sent p' = sent p"
    and acc: "\<And>a. a \<in> accepted p' \<Longrightarrow> a \<in> accepted p \<or> a \<in> sent p \<and> reached p' (claim_of a)"
    and own: "sa_controller_id a' = x \<Longrightarrow> newest p a'" and other: "sa_controller_id a' \<noteq> x \<Longrightarrow> reached p (claim_of a')"
  shows "protocol_inv p'"
proof -
  have sub: "known p' \<subseteq> known p" by (rule known_move [OF k p'])
  have r: "reached p k \<Longrightarrow> reached p' k" for k by (rule reached_move [OF _ mono p'(1)])
  have n: "newest p a \<Longrightarrow> newest p' a" for a using sub by (auto simp: newest_def)
  have l: "leaving p' a = leaving p a" for a by (simp add: leaving_def p'(2))
  have "one_owner p'" using inv sub unfolding protocol_inv_def one_owner_def by blast
  moreover have "owners_newest p'"
    using inv own n unfolding protocol_inv_def owners_newest_def l p'(1) by auto
  moreover have "old_reached p'" using inv sub r unfolding protocol_inv_def old_reached_def by blast
  moreover have "accepted_reached p'"
    using inv acc r unfolding protocol_inv_def accepted_reached_def p'(2) by blast
  moreover have "others_reached p'"
    using inv other r unfolding protocol_inv_def others_reached_def p'(1) by auto
  ultimately show ?thesis by (simp add: protocol_inv_def)
qed

lemma fresh_inv: "protocol_inv fresh_protocol"
  by (simp add: protocol_inv_def fresh_protocol_def known_def one_owner_def owners_newest_def old_reached_def
      accepted_reached_def others_reached_def)

lemma create_inv:
  assumes "protocol_inv p" "\<And>z. holds p z = None" "sent p = {}" "sa_controller_id a = x"
  shows "protocol_inv (p\<lparr>holds := (holds p)(x := Some a)\<rparr>)" (is "protocol_inv ?p")
proof -
  have k: "known ?p = {claim_of a}" using assms(2,3) by (auto simp: known_def)
  have "accepted p = {}" using assms(1,3) by (auto simp: protocol_inv_def accepted_reached_def)
  then show ?thesis
    using assms unfolding protocol_inv_def one_owner_def owners_newest_def newest_def old_reached_def k
    by (auto simp: accepted_reached_def others_reached_def claim_of_def)
qed

lemma mark_inv:
  assumes inv: "protocol_inv p" and h: "holds p x = Some a" "sa_controller_id a = x" "sa_pending_controller_id a = None"
  shows "protocol_inv (p\<lparr>holds := (holds p)(x := Some (a\<lparr>sa_pending_controller_id := Some t\<rparr>))\<rparr>)"
proof (rule move_inv [OF inv, where x = x and a' = "a\<lparr>sa_pending_controller_id := Some t\<rparr>"])
  have "newest p a" using inv h by (auto simp: protocol_inv_def owners_newest_def leaving_def)
  then show "newest p (a\<lparr>sa_pending_controller_id := Some t\<rparr>)" by (simp add: newest_def)
  have "claim_of (a\<lparr>sa_pending_controller_id := Some t\<rparr>) = claim_of a" by (simp add: claim_of_def)
  then show "claim_of (a\<lparr>sa_pending_controller_id := Some t\<rparr>) \<in> known p" using h(1) by auto
qed (use h in auto)

lemma accept_inv:
  assumes inv: "protocol_inv p" and a: "a \<in> sent p" "older (holds p (sa_controller_id a)) (sa_epoch a)"
  shows "protocol_inv (p\<lparr>holds := (holds p)(sa_controller_id a := Some a)\<rparr>)"
proof (rule move_inv [OF inv, where x = "sa_controller_id a" and a' = a])
  have "\<not> reached p (claim_of a)" using a(2) by (auto simp: reached_def older_def)
  moreover have "claim_of a \<in> known p" using a(1) by auto
  ultimately show "newest p a"
    using inv by (force simp: protocol_inv_def old_reached_def newest_def)
qed (use a in \<open>auto simp: older_def reached_def\<close>)

lemma confirm_inv:
  assumes inv: "protocol_inv p" and a: "a \<in> sent p" "holds p (sa_controller_id a) = Some a"
  shows "protocol_inv (p\<lparr>accepted := insert a (accepted p)\<rparr>)"
proof -
  have "known (p\<lparr>accepted := insert a (accepted p)\<rparr>) = known p" by (simp add: known_def)
  then show ?thesis
    using inv a by (simp add: protocol_inv_def one_owner_def owners_newest_def newest_def leaving_def old_reached_def
        accepted_reached_def others_reached_def reached_def)
qed

lemma commit_inv:
  assumes inv: "protocol_inv p" and h: "holds p x = Some a" "sa_controller_id a = x" "sa_epoch a < u64_max"
    and acc: "transferred a t \<in> accepted p"
  shows "protocol_inv (p\<lparr>holds := (holds p)(x := Some (transferred a t))\<rparr>)"
proof (rule move_inv [OF inv, where x = x and a' = "transferred a t"])
  have r: "reached p (claim_of (transferred a t))" and s: "transferred a t \<in> sent p"
    using inv acc by (auto simp: protocol_inv_def accepted_reached_def)
  show "claim_of (transferred a t) \<in> known p" using s by auto
  show "reached p (claim_of (transferred a t))" by (rule r)
  show "newest p (transferred a t)" if "sa_controller_id (transferred a t) = x"
    using r that h later_epoch [OF h(3)] by (auto simp: reached_def)
  show "sa_epoch b \<le> sa_epoch (transferred a t)" if "holds p x = Some b" for b
    using that h later_epoch [OF h(3)] by simp
qed auto

lemma send_inv:
  assumes inv: "protocol_inv p" and h: "holds p x = Some a" "sa_controller_id a = x" "sa_pending_controller_id a = Some t"
    "sa_epoch a < u64_max"
  shows "protocol_inv (p\<lparr>sent := insert (transferred a t) (sent p)\<rparr>)" (is "protocol_inv ?p")
proof (cases "transferred a t \<in> sent p")
  case True
  then have "?p = p" by (simp add: insert_absorb)
  then show ?thesis using inv by simp
next
  case False
  have k: "known ?p = insert (claim_of (transferred a t)) (known p)" by (auto simp: known_def)
  have top: "fst k \<le> sa_epoch a" if "k \<in> known p" for k
    using inv h(1,2) that False by (force simp: protocol_inv_def owners_newest_def leaving_def newest_def h(3))
  have new: "sa_epoch a < sat_add (sa_epoch a) 1" by (rule later_epoch [OF h(4)])
  have ax: "(sa_epoch a, x) \<in> known p" using h(1,2) by (metis claim_of_def knownI(1))
  have r: "reached ?p k = reached p k" for k by (simp add: reached_def)
  have "one_owner ?p"
    using inv top new unfolding protocol_inv_def one_owner_def k by (force simp: claim_of_def)
  moreover have "owners_newest ?p"
    unfolding owners_newest_def
  proof (intro allI impI)
    fix y b assume b: "holds ?p y = Some b \<and> sa_controller_id b = y"
    show "newest ?p b \<or> leaving ?p b"
    proof (cases "leaving p b")
      case True
      then show ?thesis by (auto simp: leaving_def)
    next
      case False
      then have "newest p b" using inv b by (auto simp: protocol_inv_def owners_newest_def)
      then have "sa_epoch a \<le> sa_epoch b" using ax by (force simp: newest_def)
      moreover have by': "(sa_epoch b, y) \<in> known p" using b by (metis claim_of_def knownI(1) protocol.select_convs(1) protocol.surjective protocol.update_convs(2))
      ultimately have "sa_epoch b = sa_epoch a" using top by force
      then have "y = x" using inv ax by' by (auto simp: protocol_inv_def one_owner_def)
      then have "b = a" using b h(1) by simp
      then show ?thesis using h by (auto simp: leaving_def)
    qed
  qed
  moreover have "old_reached ?p"
  proof -
    have "reached p k" if "k \<in> known p" for k
    proof (cases "fst k < sa_epoch a")
      case True
      then show ?thesis using inv that ax by (force simp: protocol_inv_def old_reached_def)
    next
      case False
      then have "fst k = sa_epoch a" using top [OF that] by (simp add: le_less)
      then have "snd k = x" using inv ax that by (cases k) (auto simp: protocol_inv_def one_owner_def)
      then show ?thesis using h(1) \<open>fst k = sa_epoch a\<close> by (auto simp: reached_def)
    qed
    moreover have "\<not> fst (claim_of (transferred a t)) < fst k" if "k \<in> known ?p" for k
    proof -
      have "fst k \<le> sa_epoch a \<or> fst k = sat_add (sa_epoch a) 1"
        using that top [of k] unfolding k by auto
      then show ?thesis using new by auto
    qed
    ultimately show ?thesis unfolding old_reached_def r k by (auto simp: k)
  qed
  moreover have "accepted_reached ?p" "others_reached ?p"
    using inv by (auto simp: protocol_inv_def accepted_reached_def others_reached_def r)
  ultimately show ?thesis by (simp add: protocol_inv_def)
qed

lemma protocol_step_inv: "protocol_step p p' \<Longrightarrow> protocol_inv p \<Longrightarrow> protocol_inv p'"
  by (induction rule: protocol_step.induct)
     (auto intro: create_inv mark_inv send_inv accept_inv confirm_inv commit_inv)

lemma protocol_reach_inv: "protocol_step\<^sup>*\<^sup>* fresh_protocol p \<Longrightarrow> protocol_inv p"
  by (induction rule: rtranclp_induct) (auto intro: fresh_inv protocol_step_inv)

section \<open>What the invariant gives\<close>

lemma serving_unique:
  assumes inv: "protocol_inv p" and "serving p x" "serving p y"
  shows "x = y"
proof -
  obtain a b where ab: "holds p x = Some a" "sa_controller_id a = x" "newest p a"
      "holds p y = Some b" "sa_controller_id b = y" "newest p b"
    using assms unfolding serving_def protocol_inv_def owners_newest_def leaving_def by fastforce
  have k: "claim_of a \<in> known p" "claim_of b \<in> known p" using ab by auto
  have "sa_epoch a = sa_epoch b" using ab k by (force simp: newest_def)
  then show ?thesis using inv k ab by (auto simp: protocol_inv_def one_owner_def claim_of_def)
qed

text \<open>Following the records from controller to controller, the epochs grow until the owner is reached.\<close>

lemma forward_progress:
  assumes inv: "protocol_inv p" and "holds p x = Some a" "sa_controller_id a \<noteq> x"
  shows "\<exists>b. holds p (sa_controller_id a) = Some b \<and> (sa_controller_id b = sa_controller_id a \<or> sa_epoch a < sa_epoch b)"
proof -
  obtain b where b: "holds p (sa_controller_id a) = Some b" "sa_epoch a \<le> sa_epoch b"
    using assms by (auto simp: protocol_inv_def others_reached_def reached_def)
  show ?thesis
  proof (cases "sa_epoch a = sa_epoch b")
    case True
    have "claim_of a \<in> known p" "claim_of b \<in> known p" using assms(2) b by auto
    then have "sa_controller_id b = sa_controller_id a"
      using inv True by (auto simp: protocol_inv_def one_owner_def claim_of_def)
    then show ?thesis using b by blast
  qed (use b in force)
qed

end
