(* ===== verification/Session_Fabric.thy ===== *)
theory Session_Fabric
  imports Controller_Histories Controller_Calls Session_Protocol
begin

text \<open>
  Several controllers that hand a session over to each other. A fabric has a controller under each
  name, the handoffs that are under way, and every bundle ever sent; bundles may be delivered late,
  more than once, or never, replies may be lost, and controllers stop and reopen from their state
  file. The controllers refine the protocol of \<open>Session_Protocol\<close> as long as the writes of the
  state file that the session requests make succeed (\<open>durable\<close>) and bundles are decoded to what
  was encoded.
\<close>

section \<open>What a controller knows of a session\<close>

definition session_record :: "fabric_state \<Rightarrow> string \<Rightarrow> session_authority option option" where
  "session_record st i = map_option ws_authority (List.find (\<lambda>s. md_id (ws_metadata s) = i) (fs_sessions st))"

text \<open>Memory and state file agree on the session.\<close>

definition durable :: "string \<Rightarrow> controller \<Rightarrow> bool" where
  "durable i c \<longleftrightarrow>
     session_record (c_state c) i \<noteq> Some None \<and>
     session_record (case c_disk c of Some st \<Rightarrow> st | None \<Rightarrow> fabric_state_default) i = session_record (c_state c) i"

definition serves :: "string \<Rightarrow> controller \<Rightarrow> bool" where
  "serves i c =
     (case session_authority_of c i of
        Some a \<Rightarrow> sa_controller_id a = c_id c \<and> sa_pending_controller_id a = None
      | None \<Rightarrow> False)"

section \<open>The fabric\<close>

record fabric =
  nodes :: "string \<Rightarrow> controller"
  under_way :: "(string \<times> handoff_plan) set"
  mail :: "handoff_plan set"
  confirmed :: "handoff_plan set"

definition at_node :: "fabric \<Rightarrow> string \<Rightarrow> controller \<Rightarrow> fabric" where
  "at_node F x c = F\<lparr>nodes := (nodes F)(x := c)\<rparr>"

definition idle :: "fabric \<Rightarrow> string \<Rightarrow> bool" where
  "idle F x \<longleftrightarrow> (\<forall>plan. (x, plan) \<notin> under_way F)"

text \<open>
  The steps, for one session \<open>i\<close>. The gate of the session keeps a controller from starting,
  accepting or storing while its own handoff of the session is under way. A session is created by
  a \<open>session.put\<close> without authority only while nobody knows it.
\<close>

inductive fabric_step :: "string \<Rightarrow> fabric \<Rightarrow> fabric \<Rightarrow> bool" for i where
  f_request: "rq_action rq \<notin> set session_changes \<Longrightarrow>
    fabric_step i F (at_node F x (fst (controller_handle n rq (nodes F x))))"
| f_create: "session_put n params (nodes F x) = (c', r) \<Longrightarrow> durable i c' \<Longrightarrow> idle F x \<Longrightarrow>
    (\<And>z. session_record (c_state (nodes F z)) i = None) \<Longrightarrow> mail F = {} \<Longrightarrow>
    fabric_step i F (at_node F x c')"
| f_put: "session_put n params (nodes F x) = (c', r) \<Longrightarrow> durable i c' \<Longrightarrow>
    (\<And>s. dec_session (cv_codec n) params = Inr s \<Longrightarrow> md_id (ws_metadata s) = i \<Longrightarrow> ws_authority s \<noteq> None) \<Longrightarrow>
    fabric_step i F (at_node F x c')"
| f_start: "handoff_prepare n params (nodes F x) = (c', Ok plan) \<Longrightarrow> durable i c' \<Longrightarrow> idle F x \<Longrightarrow>
    required_text params ''sessionId'' = Ok i \<Longrightarrow>
    (\<And>a. session_authority_of (nodes F x) i = Some a \<Longrightarrow> sa_epoch a < u64_max) \<Longrightarrow>
    fabric_step i F ((at_node F x c')\<lparr>under_way := insert (x, plan) (under_way F), mail := insert plan (mail F)\<rparr>)"
| f_refused: "handoff_prepare n params (nodes F x) = (c', r) \<Longrightarrow> \<not> is_ok r \<Longrightarrow> durable i c' \<Longrightarrow>
    fabric_step i F (at_node F x c')"
| f_deliver: "plan \<in> mail F \<Longrightarrow> idle F y \<Longrightarrow>
    required_value (dec_session (cv_codec n)) (hp_bundle plan) ''session'' = Ok (hp_session plan) \<Longrightarrow>
    session_accept_handoff n (hp_bundle plan) (nodes F y) = (c', r) \<Longrightarrow> durable i c' \<Longrightarrow>
    fabric_step i F (at_node F y c')"
| f_reply: "plan \<in> mail F \<Longrightarrow> idle F y \<Longrightarrow>
    required_value (dec_session (cv_codec n)) (hp_bundle plan) ''session'' = Ok (hp_session plan) \<Longrightarrow>
    session_accept_handoff n (hp_bundle plan) (nodes F y) = (c', Ok v) \<Longrightarrow> durable i c' \<Longrightarrow>
    fabric_step i F ((at_node F y c')\<lparr>confirmed := insert plan (confirmed F)\<rparr>)"
| f_commit: "(x, plan) \<in> under_way F \<Longrightarrow> plan \<in> confirmed F \<Longrightarrow>
    handoff_commit n (hp_session plan) (nodes F x) = (c', r) \<Longrightarrow> durable i c' \<Longrightarrow>
    fabric_step i F ((at_node F x c')\<lparr>under_way := under_way F - {(x, plan)}\<rparr>)"
| f_abort: "fabric_step i F (F\<lparr>under_way := under_way F - {(x, plan)}\<rparr>)"
| f_other_handoff: "required_text params ''sessionId'' \<noteq> Ok i \<Longrightarrow>
    fabric_step i F (at_node F x (fst (session_handoff n params (nodes F x))))"
| f_other_accept:
    "(\<And>s. required_value (dec_session (cv_codec n)) params ''session'' = Ok s \<Longrightarrow> md_id (ws_metadata s) \<noteq> i) \<Longrightarrow>
    fabric_step i F (at_node F x (fst (session_accept_handoff n params (nodes F x))))"
| f_restart: "open_with_id n clk cfg (c_disk (nodes F x)) files = (w, Ok c') \<Longrightarrow> c_id c' = x \<Longrightarrow>
    fabric_step i F ((at_node F x c')\<lparr>under_way := {(z, plan) \<in> under_way F. z \<noteq> x}\<rparr>)"

definition fabric_start :: "string \<Rightarrow> fabric \<Rightarrow> bool" where
  "fabric_start i F \<longleftrightarrow>
     (\<forall>x. c_id (nodes F x) = x \<and> durable i (nodes F x) \<and> session_record (c_state (nodes F x)) i = None) \<and>
     under_way F = {} \<and> mail F = {} \<and> confirmed F = {}"

text \<open>The protocol state of a fabric.\<close>

definition protocol_of :: "string \<Rightarrow> fabric \<Rightarrow> protocol" where
  "protocol_of i F =
     \<lparr>holds = (\<lambda>x. session_authority_of (nodes F x) i),
      sent = {a. \<exists>plan \<in> mail F. ws_authority (hp_session plan) = Some a},
      accepted = {a. \<exists>plan \<in> confirmed F. ws_authority (hp_session plan) = Some a}\<rparr>"

section \<open>Changes that do not concern the session\<close>

definition apart :: "string \<Rightarrow> controller \<Rightarrow> controller \<Rightarrow> bool" where
  "apart i c c' \<longleftrightarrow>
     c_id c' = c_id c \<and> session_record (c_state c') i = session_record (c_state c) i \<and> (durable i c \<longrightarrow> durable i c')"

lemma apart_star: "(apart i)\<^sup>*\<^sup>* c c' \<Longrightarrow> apart i c c'"
  by (induction rule: rtranclp_induct) (auto simp: apart_def)

lemma authority_record: "session_authority_of c i = Option.bind (session_record (c_state c) i) (\<lambda>a. a)"
  by (cases "List.find (\<lambda>s. md_id (ws_metadata s) = i) (fs_sessions (c_state c))")
     (simp_all add: session_authority_of_def session_record_def find_session_def)

lemma record_put:
  "session_record (c_state (put_session s c)) i =
     (if i = md_id (ws_metadata s) then Some (ws_authority s) else session_record (c_state c) i)"
  by (simp add: session_record_def put_session_def upd_state_def find_upsert_by [where key = "\<lambda>x. md_id (ws_metadata x)"])

lemma record_committed [simp]: "session_record ((committed_state c)\<lparr>fs_tasks := ts\<rparr>) i = session_record (c_state c) i"
  by (simp add: session_record_def committed_state_def)

lemma apart_persist: "apart i c (fst (persist n k c))"
  using persist_disk [of n k c] by (auto simp: apart_def durable_def)

lemma apart_put: "md_id (ws_metadata s) \<noteq> i \<Longrightarrow> apart i c (put_session s c)"
  by (auto simp: apart_def durable_def record_put) (simp_all add: put_session_def upd_state_def)

lemma apart_sessions:
  "fs_sessions (c_state c') = fs_sessions (c_state c) \<Longrightarrow> c_id c' = c_id c \<Longrightarrow> c_disk c' = c_disk c \<Longrightarrow> apart i c c'"
  by (simp add: apart_def durable_def session_record_def)

lemma apart_touch: "apart i c (touch_session j st now c)"
proof -
  have "session_record (c_state (touch_session j st now c)) i = session_record (c_state c) i"
    by (auto simp: touch_session_def upd_state_def session_record_def
        find_update_first [where key = "\<lambda>x. md_id (ws_metadata x)"] option.map_comp comp_def)
  then show ?thesis by (simp add: apart_def durable_def) (simp add: touch_session_def upd_state_def)
qed

lemma quiet_apart: "quiet c c' \<Longrightarrow> apart i c c'"
proof (induction rule: quiet.induct)
  case (q_save c n k)
  show ?case by (rule apart_persist)
next
  case (q_session c j st now)
  show ?case by (rule apart_touch)
qed (auto intro!: apart_sessions simp: state_stores)

lemma apart_refl [intro!]: "apart i c c"
  by (simp add: apart_def)

lemma apart_trans: "apart i c c' \<Longrightarrow> apart i c' c'' \<Longrightarrow> apart i c c''"
  by (simp add: apart_def)

lemma quiet_apart_star: "quiet\<^sup>*\<^sup>* c c' \<Longrightarrow> apart i c c'"
  by (induction rule: rtranclp_induct) (auto intro: quiet_apart apart_trans)

lemma bundle_apart:
  assumes "bundle_store f"
  shows "apart i c (upd_state f c)"
  using assms by (intro apart_sessions) (auto simp: bundle_store_def state_stores)

lemma apart_path:
  "(apart i)\<^sup>*\<^sup>* c c' \<Longrightarrow> (apart i)\<^sup>*\<^sup>* c (fst (persist n k c'))"
  by (erule rtranclp.rtrancl_into_rtrancl) (rule apart_persist)

lemma apart_persist_then: "(apart i)\<^sup>*\<^sup>* c c' \<Longrightarrow> (apart i)\<^sup>*\<^sup>* c (fst (persist_then n k v c'))"
  unfolding persist_then_def by (rule sbind_path) (auto intro: apart_path)

lemma request_apart:
  assumes "rq_action rq \<notin> set session_changes"
  shows "apart i c (fst (controller_handle n rq c))"
  by (rule apart_star, rule handle_path)
     (use dispatch_quiet [OF assms] in \<open>blast intro: quiet_apart_star quiet_apart\<close>)+

lemma apart_put_path: "md_id (ws_metadata s) \<noteq> i \<Longrightarrow> (apart i)\<^sup>*\<^sup>* c (put_session s c)"
  by (rule r_into_rtranclp) (rule apart_put)

lemma mark_apart:
  "md_id (ws_metadata s) \<noteq> i \<Longrightarrow> (apart i)\<^sup>*\<^sup>* c (fst (handoff_mark n t s a c))"
  unfolding handoff_mark_def Let_def
  by (auto intro!: sbind_path apart_path apart_put_path)

lemma mark_session:
  "handoff_mark n t s a c = (c', Ok s') \<Longrightarrow> ws_metadata s' = ws_metadata s"
  by (auto simp: handoff_mark_def Let_def sbind_Ok split: if_splits)

definition moved :: "session_authority \<Rightarrow> string \<Rightarrow> u64 \<Rightarrow> workspace_session \<Rightarrow> workspace_session" where
  "moved a t now s = s\<lparr>ws_authority := Some (transferred a t), ws_metadata := (ws_metadata s)\<lparr>md_updated_at := now\<rparr>\<rparr>"

lemma checked:
  "sbind (lift_res c r) k = (c', q) \<Longrightarrow> \<not> (c' = c \<and> \<not> is_ok q) \<Longrightarrow> \<exists>x. r = Ok x \<and> k c x = (c', q)"
  by (cases r) (auto simp: lift_res_def)

lemma handoff_prepare_cases:
  assumes "handoff_prepare n params c = (c', r)"
  obtains (refused) "c' = c" "\<not> is_ok r"
  | (marked) j t s a f where "required_text params ''sessionId'' = Ok j" "find_session c j = Some s" "ws_authority s = Some a"
      "sa_controller_id a = c_id c" "sa_pending_controller_id a = None \<or> sa_pending_controller_id a = Some t"
      "sbind (handoff_mark n t s a c) (\<lambda>c s. (c, Ok (f c s))) = (c', r)"
      "\<And>c s. hp_session (f c s) = moved a t (cv_now n 1) s"
proof (cases "c' = c \<and> \<not> is_ok r")
  case False
  obtain j t s a and target :: controller_peer where x: "required_text params ''sessionId'' = Ok j" "find_session c j = Some s" "ws_authority s = Some a"
      "sa_controller_id a = c_id c" "\<not> (case sa_pending_controller_id a of Some p \<Rightarrow> p \<noteq> t | None \<Rightarrow> False)"
      "sbind (handoff_mark n t s a c) (\<lambda>c s. (c, Ok \<lparr>hp_endpoint = cp_endpoint target, hp_session = moved a t (cv_now n 1) s,
          hp_bundle = session_bundle (cv_codec n) (moved a t (cv_now n 1) s) c\<rparr>)) = (c', r)"
    using assms unfolding handoff_prepare_def Let_def moved_def transferred_def
    by (auto simp del: One_nat_def dest!: checked [OF _ False] split: if_splits) (use False in auto)
  show ?thesis
    by (rule marked [OF x(1-4) _ x(6)]) (use x(5) in \<open>auto split: option.splits\<close>)
qed (auto intro: refused)

lemma persist_failed: "\<not> is_ok (snd (persist n k c)) \<Longrightarrow> c_disk (fst (persist n k c)) = c_disk c"
  by (auto simp: persist_def split: prod.splits outcome.splits option.splits)

lemma durable_disk:
  "durable i c \<Longrightarrow> durable i c' \<Longrightarrow> c_disk c' = c_disk c \<Longrightarrow> session_record (c_state c') i = session_record (c_state c) i"
  by (simp add: durable_def)

lemma failed_first:
  "\<not> is_ok (snd (sbind m (\<lambda>c y. (c, Ok x)))) \<Longrightarrow> fst (sbind m (\<lambda>c y. (c, Ok x))) = fst m \<and> \<not> is_ok (snd m)"
  by (cases m; cases "snd m") auto

lemma mark_failed:
  assumes "\<not> is_ok (snd (handoff_mark n t s a c))"
  shows "\<exists>m. fst (handoff_mark n t s a c) = fst (persist n 1 (put_session m c)) \<and> \<not> is_ok (snd (persist n 1 (put_session m c)))"
proof (cases "sa_pending_controller_id a = None")
  case True
  show ?thesis
    using assms unfolding handoff_mark_def Let_def if_P [OF True] by (blast dest: failed_first)
next
  case False
  have "is_ok (snd (handoff_mark n t s a c))" unfolding handoff_mark_def if_not_P [OF False] by simp
  then show ?thesis using assms by blast
qed

text \<open>A refused handoff leaves the session as it was, unless the pending mark could not be saved.\<close>

lemma prepare_refused:
  assumes "handoff_prepare n params c = (c', r)" "\<not> is_ok r" "durable i c" "durable i c'"
  shows "c_id c' = c_id c \<and> session_record (c_state c') i = session_record (c_state c) i"
  using assms(1)
proof (cases rule: handoff_prepare_cases)
  case (marked j t s a f)
  have "\<not> is_ok (snd (handoff_mark n t s a c))" "c' = fst (handoff_mark n t s a c)"
    using marked(6) assms(2) by (auto elim!: sbind_cases)
  then obtain m where c': "c' = fst (persist n 1 (put_session m c))" "\<not> is_ok (snd (persist n 1 (put_session m c)))"
    using mark_failed by metis
  have "c_disk c' = c_disk c"
    using persist_failed [OF c'(2)] c'(1) by (simp add: put_session_def upd_state_def)
  then show ?thesis using durable_disk [OF assms(3,4)] c'(1) by simp
qed simp

lemma prepare_Ok:
  assumes "handoff_prepare n params c = (c', Ok plan)" "required_text params ''sessionId'' = Ok i"
  obtains a t where "session_authority_of c i = Some a" "sa_controller_id a = c_id c"
    "sa_pending_controller_id a = None \<or> sa_pending_controller_id a = Some t"
    "session_authority_of c' i = Some (a\<lparr>sa_pending_controller_id := Some t\<rparr>)" "c_id c' = c_id c"
    "ws_authority (hp_session plan) = Some (transferred a t)" "md_id (ws_metadata (hp_session plan)) = i"
  using assms(1)
proof (cases rule: handoff_prepare_cases)
  case (marked j t s a f)
  obtain s' where m: "handoff_mark n t s a c = (c', Ok s')" "plan = f c' s'"
    using marked(6) by (auto simp: sbind_Ok)
  have j: "j = i" using marked(1) assms(2) by simp
  note x = handoff_mark_steady(2) [OF marked(2-5) m(1)]
  show ?thesis
    by (rule that [of a t]) (use marked x m(2) j in \<open>auto simp: session_authority_of_def moved_def\<close>)
qed simp

lemma prepare_apart:
  assumes "required_text params ''sessionId'' \<noteq> Ok i"
  shows "(apart i)\<^sup>*\<^sup>* c (fst (handoff_prepare n params c))"
    "snd (handoff_prepare n params c) = Ok plan \<Longrightarrow> md_id (ws_metadata (hp_session plan)) \<noteq> i"
proof -
  obtain c' r where p: "handoff_prepare n params c = (c', r)" by (cases "handoff_prepare n params c")
  from p show "(apart i)\<^sup>*\<^sup>* c (fst (handoff_prepare n params c))"
  proof (cases rule: handoff_prepare_cases)
    case (marked j t s a f)
    have "md_id (ws_metadata s) \<noteq> i" using marked(1,2) assms find_session_id by auto
    then have "(apart i)\<^sup>*\<^sup>* c (fst (sbind (handoff_mark n t s a c) (\<lambda>c s. (c, Ok (f c s)))))"
      by (auto intro!: sbind_path mark_apart)
    then show ?thesis using marked(6) p by simp
  qed (simp add: p)
  show "md_id (ws_metadata (hp_session plan)) \<noteq> i" if ok: "snd (handoff_prepare n params c) = Ok plan"
    using p
  proof (cases rule: handoff_prepare_cases)
    case (marked j t s a f)
    obtain s' where "handoff_mark n t s a c = (c', Ok s')" "plan = f c' s'"
      using marked(6) ok p by (auto simp: sbind_Ok)
    then show ?thesis
      using marked(1,2,7) assms find_session_id [of c j s] mark_session by (auto simp: moved_def)
  qed (use ok p in simp)
qed

lemma other_handoff_apart:
  assumes "required_text params ''sessionId'' \<noteq> Ok i"
  shows "apart i c (fst (session_handoff n params c))"
proof (rule apart_star, unfold session_handoff_def, rule sbind_path)
  show p: "(apart i)\<^sup>*\<^sup>* c (fst (handoff_prepare n params c))" by (rule prepare_apart [OF assms])
  fix plan assume "snd (handoff_prepare n params c) = Ok plan"
  then have "md_id (ws_metadata (hp_session plan)) \<noteq> i" by (rule prepare_apart(2) [OF assms])
  then have "(apart i)\<^sup>*\<^sup>* c (fst (handoff_commit n (hp_session plan) (fst (handoff_prepare n params c))))"
    unfolding handoff_commit_def using p
    by (intro apart_persist_then) (metis apart_put rtranclp.rtrancl_into_rtrancl)
  then show "(apart i)\<^sup>*\<^sup>* c (fst (case call_executor n 1 (hp_endpoint plan) ''session.accept-handoff'' (hp_bundle plan) of
      Inl e \<Rightarrow> (fst (handoff_prepare n params c), Err (unavailable ''CONTROLLER_UNAVAILABLE'' False e))
    | Inr r \<Rightarrow> sbind (lift_res (fst (handoff_prepare n params c))
        (response_value ''HANDOFF_REJECTED'' ''target rejected session handoff'' r)) (\<lambda>c _. handoff_commit n (hp_session plan) c)))"
    using p by (auto intro!: check_path split: sum.split)
qed

section \<open>Storing and accepting\<close>

lemma fst_persist_then: "fst (persist_then n k v c) = fst (persist n k c)"
  unfolding persist_then_def by (cases "persist n k c"; cases "snd (persist n k c)") auto

lemma put_cases:
  assumes "session_put n params c = (c', r)"
  obtains (unchanged) "c' = c"
  | (claimed) s where "dec_session (cv_codec n) params = Inr s" "ws_authority s = None"
      "c' = fst (persist n 1 (put_session (s\<lparr>ws_authority := Some (own_authority c)\<rparr>) c))"
  | (kept) s a where "dec_session (cv_codec n) params = Inr s" "ws_authority s = Some a"
      "session_authority_of c (md_id (ws_metadata s)) = Some a" "c' = fst (persist n 1 (put_session s c))"
proof (cases "dec_session (cv_codec n) params")
  case (Inl e)
  then show ?thesis using assms unchanged by (auto simp: session_put_def from_value_def lift_res_def)
next
  case (Inr s)
  have fst': "c' = fst (session_put n params c)" using assms by simp
  show ?thesis
  proof (cases "ws_authority s")
    case None
    show ?thesis
      by (rule claimed [OF Inr None])
         (use Inr None in \<open>simp add: fst' session_put_def from_value_def lift_res_def own_authority_def fst_persist_then\<close>)
  next
    case (Some a)
    show ?thesis
    proof (cases "sa_controller_id a = c_id c \<and> session_authority_of c (md_id (ws_metadata s)) = Some a")
      case True
      show ?thesis
        by (rule kept [OF Inr Some])
           (use Inr Some True in \<open>simp_all add: fst' session_put_def from_value_def lift_res_def session_authority_of_def
              fst_persist_then\<close>)
    next
      case False
      show ?thesis
        by (rule unchanged)
           (use Inr Some False in \<open>auto simp: fst' session_put_def from_value_def lift_res_def session_authority_of_def Let_def\<close>)
    qed
  qed
qed

lemma take_bundle_path: "(apart i)\<^sup>*\<^sup>* c c' \<Longrightarrow> (apart i)\<^sup>*\<^sup>* c (fst (take_bundle cd params c'))"
proof -
  have arr: "(apart i)\<^sup>*\<^sup>* c (fst (take_array cd dec params key store c'))"
    if "\<And>x. bundle_store (store x)" "(apart i)\<^sup>*\<^sup>* c c'" for cd c' key and dec :: "'x decoder" and store
  proof -
    have "apart i c' (upd_state (fold store xs) c')" for xs
      using that(1)
    proof (induction xs arbitrary: c')
      case (Cons x xs)
      have "upd_state (fold store (x # xs)) c' = upd_state (fold store xs) (upd_state (store x) c')"
        by (simp add: upd_state_def)
      then show ?case using Cons bundle_apart apart_trans by metis
    qed (simp add: upd_state_def apart_refl)
    then show ?thesis
      unfolding take_array_def using that(2) by (auto intro!: check_path intro: rtranclp.rtrancl_into_rtrancl)
  qed
  show "(apart i)\<^sup>*\<^sup>* c c' \<Longrightarrow> (apart i)\<^sup>*\<^sup>* c (fst (take_bundle cd params c'))"
    unfolding take_bundle_def by (auto simp: bundle_store_def intro!: sbind_path arr)
qed

lemma apart_reload: "apart i c (reload_tasks c)"
  by (rule apart_sessions) (simp_all add: state_stores)

lemma apart_reload_path: "(apart i)\<^sup>*\<^sup>* c c' \<Longrightarrow> (apart i)\<^sup>*\<^sup>* c (reload_tasks c')"
  by (erule rtranclp.rtrancl_into_rtrancl) (rule apart_reload)

lemma accept_store_apart: "apart i (put_session s c) (fst (accept_store n params s c))"
  unfolding accept_store_def
  by (rule apart_star, intro sbind_path take_bundle_path rtranclp.rtrancl_refl apart_persist_then apart_reload_path)

lemma accept_cases:
  assumes "session_accept_handoff n params c = (c', r)"
    and "required_value (dec_session (cv_codec n)) params ''session'' = Ok s" "ws_authority s = Some b"
  obtains (same) "c' = c" "is_ok r \<Longrightarrow> sa_controller_id b = c_id c \<and> session_authority_of c (md_id (ws_metadata s)) = Some b"
  | (taken) "sa_controller_id b = c_id c" "older (session_authority_of c (md_id (ws_metadata s))) (sa_epoch b)"
      "c' = fst (accept_store n params s c)"
proof (cases "sa_controller_id b = c_id c")
  case False
  show ?thesis by (rule same) (use assms False in \<open>auto simp: session_accept_handoff_def lift_res_def\<close>)
next
  case True
  show ?thesis
  proof (cases "find_session c (md_id (ws_metadata s))")
    case None
    show ?thesis
      by (rule taken)
         (use assms True None in \<open>auto simp: session_accept_handoff_def lift_res_def older_def session_authority_of_def\<close>)
  next
    case (Some e)
    have au: "session_authority_of c (md_id (ws_metadata s)) = ws_authority e" by (simp add: session_authority_of_def Some)
    show ?thesis
    proof (cases "ws_authority e = Some b \<or> (\<exists>a. ws_authority e = Some a \<and> sa_epoch b \<le> sa_epoch a)")
      case True': True
      show ?thesis
        by (rule same) (use assms True True' Some au in \<open>auto simp: session_accept_handoff_def lift_res_def split: if_splits\<close>)
    next
      case False
      show ?thesis
        by (rule taken)
           (use assms True False Some au in
             \<open>auto simp: session_accept_handoff_def lift_res_def older_def not_le split: if_splits option.splits\<close>)
    qed
  qed
qed

section \<open>Reopening\<close>

lemma claim_session_simps [simp]:
  "md_id (ws_metadata (claim_session j s)) = md_id (ws_metadata s)"
  "ws_authority s \<noteq> None \<Longrightarrow> ws_authority (claim_session j s) = ws_authority s"
  by (auto simp: claim_session_def)

lemma record_claimed:
  assumes "session_record st i \<noteq> Some None"
  shows "session_record (st'\<lparr>fs_sessions := map (claim_session j) (fs_sessions st)\<rparr>) i = session_record st i"
proof -
  have "List.find (\<lambda>s. md_id (ws_metadata s) = i) (map (claim_session j) xs) =
      map_option (claim_session j) (List.find (\<lambda>s. md_id (ws_metadata s) = i) xs)" for xs
    by (induction xs) auto
  then show ?thesis using assms
    by (cases "List.find (\<lambda>s. md_id (ws_metadata s) = i) (fs_sessions st)") (auto simp: session_record_def)
qed

lemma record_cong: "fs_sessions st = fs_sessions st' \<Longrightarrow> session_record st i = session_record st' i"
  by (simp add: session_record_def)

lemma restart_record:
  assumes "open_with_id n clk cfg (c_disk c) files = (w, Ok c')" "durable i c"
  shows "session_record (c_state c') i = session_record (c_state c) i \<and> durable i c'"
proof -
  obtain j dirty files' st ts where o: "open_tables n clk j dirty (c_disk c) files' (st\<lparr>fs_controller_id := Some j,
      fs_sessions := map (claim_session j) (fs_sessions st), fs_tasks := ts\<rparr>) = (w, Ok c')"
    and st: "st = (case c_disk c of Some st \<Rightarrow> st | None \<Rightarrow> fabric_state_default)"
    by (rule open_cases [OF assms(1)]) (rule that; assumption)
  note t = open_tables_state [OF o]
  let ?claimed = "st\<lparr>fs_sessions := map (claim_session j) (fs_sessions st)\<rparr>"
  have rec: "session_record st i = session_record (c_state c) i" "session_record st i \<noteq> Some None"
    using assms(2) by (auto simp: durable_def st)
  have cl: "session_record ?claimed i = session_record st i" by (rule record_claimed [OF rec(2)])
  have m: "session_record (c_state c') i = session_record st i"
    using record_cong [of "c_state c'" ?claimed i] t(3) cl by simp
  have "session_record (case c_disk c' of Some st \<Rightarrow> st | None \<Rightarrow> fabric_state_default) i = session_record st i"
    using t(4)
  proof
    assume "c_disk c' = c_disk c"
    then show ?thesis by (simp add: st)
  next
    assume "\<exists>st'. c_disk c' = Some st' \<and> fs_approvals st' = fs_approvals (st\<lparr>fs_controller_id := Some j,
        fs_sessions := map (claim_session j) (fs_sessions st), fs_tasks := ts\<rparr>) \<and>
      fs_sessions st' = fs_sessions (st\<lparr>fs_controller_id := Some j,
        fs_sessions := map (claim_session j) (fs_sessions st), fs_tasks := ts\<rparr>)"
    then obtain st' where "c_disk c' = Some st'" "fs_sessions st' = fs_sessions ?claimed" by auto
    then show ?thesis using cl record_cong [of st' ?claimed i] by simp
  qed
  then show ?thesis using m rec by (simp add: durable_def)
qed

section \<open>The refinement\<close>

definition on_way :: "string \<Rightarrow> controller \<Rightarrow> handoff_plan \<Rightarrow> bool" where
  "on_way i c plan \<longleftrightarrow>
     (\<exists>a t. session_authority_of c i = Some a \<and> sa_controller_id a = c_id c \<and> sa_pending_controller_id a = Some t \<and>
        sa_epoch a < u64_max \<and> ws_authority (hp_session plan) = Some (transferred a t))"

definition fabric_inv :: "string \<Rightarrow> fabric \<Rightarrow> bool" where
  "fabric_inv i F \<longleftrightarrow>
     (\<forall>x. c_id (nodes F x) = x \<and> durable i (nodes F x)) \<and>
     (\<forall>plan \<in> mail F. md_id (ws_metadata (hp_session plan)) = i \<and> ws_authority (hp_session plan) \<noteq> None) \<and>
     confirmed F \<subseteq> mail F \<and>
     (\<forall>x plan. (x, plan) \<in> under_way F \<longrightarrow> on_way i (nodes F x) plan) \<and>
     (\<forall>x plan plan'. (x, plan) \<in> under_way F \<and> (x, plan') \<in> under_way F \<longrightarrow> plan = plan')"

lemma at_node_simps [simp]:
  "nodes (at_node F x c) = (nodes F)(x := c)" "under_way (at_node F x c) = under_way F"
  "mail (at_node F x c) = mail F" "confirmed (at_node F x c) = confirmed F"
  by (simp_all add: at_node_def)

lemma inv_apart:
  assumes "fabric_inv i F" "apart i (nodes F x) c'"
  shows "fabric_inv i (at_node F x c') \<and> protocol_of i (at_node F x c') = protocol_of i F"
proof -
  have "session_authority_of c' i = session_authority_of (nodes F x) i" "c_id c' = c_id (nodes F x)"
    using assms(2) by (simp_all add: apart_def authority_record)
  then show ?thesis
    using assms by (auto simp: fabric_inv_def protocol_of_def on_way_def apart_def fun_eq_iff)
qed

lemma inv_idle:
  assumes "fabric_inv i F" "idle F x" "c_id c' = x" "durable i c'"
  shows "fabric_inv i (at_node F x c')"
  using assms by (auto simp: fabric_inv_def idle_def)

lemma protocol_at_node:
  "protocol_of i (at_node F x c') =
     (protocol_of i F)\<lparr>holds := (holds (protocol_of i F))(x := session_authority_of c' i)\<rparr>"
  by (auto simp: protocol_of_def fun_eq_iff)

lemma authority_recordD: "session_authority_of c i = Some a \<Longrightarrow> session_record (c_state c) i = Some (Some a)"
  by (auto simp: authority_record bind_eq_Some_conv)

lemma put_apart:
  assumes "session_put n params c = (c', r)" "durable i c'"
    and "\<And>s. dec_session (cv_codec n) params = Inr s \<Longrightarrow> md_id (ws_metadata s) = i \<Longrightarrow> ws_authority s \<noteq> None"
  shows "apart i c c'"
  using assms(1)
proof (cases rule: put_cases)
  case (claimed s)
  then have "md_id (ws_metadata s) \<noteq> i" using assms(3) by blast
  then show ?thesis unfolding claimed(3) by (intro apart_trans [OF apart_put apart_persist]) simp
next
  case (kept s a)
  show ?thesis
  proof (cases "md_id (ws_metadata s) = i")
    case True
    then show ?thesis
      using kept assms(2) authority_recordD [of c i a] by (simp add: apart_def record_put)
  next
    case False
    then show ?thesis unfolding kept(4) by (intro apart_trans [OF apart_put apart_persist])
  qed
qed auto

text \<open>Each step keeps the invariant of the fabric and is a sequence of protocol steps.\<close>

definition refines :: "string \<Rightarrow> fabric \<Rightarrow> fabric \<Rightarrow> bool" where
  "refines i F F' \<longleftrightarrow> fabric_inv i F' \<and> protocol_step\<^sup>*\<^sup>* (protocol_of i F) (protocol_of i F')"

lemma apart_refines: "fabric_inv i F \<Longrightarrow> apart i (nodes F x) c' \<Longrightarrow> refines i F (at_node F x c')"
  using inv_apart by (simp add: refines_def)

lemma create_refines:
  assumes inv: "fabric_inv i F" and put: "session_put n params (nodes F x) = (c', r)" "durable i c'" "idle F x"
    and fresh: "\<And>z. session_record (c_state (nodes F z)) i = None" "mail F = {}"
  shows "refines i F (at_node F x c')"
  using put(1)
proof (cases rule: put_cases)
  case unchanged
  then show ?thesis using apart_refines [OF inv] by (simp add: apart_refl)
next
  case (kept s a)
  have "md_id (ws_metadata s) \<noteq> i" using kept(3) authority_recordD fresh(1) by fastforce
  then have "apart i (nodes F x) c'" unfolding kept(4) by (intro apart_trans [OF apart_put apart_persist])
  then show ?thesis by (rule apart_refines [OF inv])
next
  case (claimed s)
  show ?thesis
  proof (cases "md_id (ws_metadata s) = i")
    case False
    then have "apart i (nodes F x) c'" unfolding claimed(3) by (intro apart_trans [OF apart_put apart_persist]) simp
    then show ?thesis by (rule apart_refines [OF inv])
  next
    case True
    have x: "c_id (nodes F x) = x" using inv by (simp add: fabric_inv_def)
    have c': "c_id c' = x" "session_authority_of c' i = Some \<lparr>sa_controller_id = x, sa_epoch = 1, sa_pending_controller_id = None\<rparr>"
      unfolding claimed(3) using True x by (simp_all add: own_authority_def)
    have none: "holds (protocol_of i F) z = None" for z
      using fresh(1) [of z] by (simp add: protocol_of_def authority_record)
    have "protocol_step (protocol_of i F) (protocol_of i (at_node F x c'))"
      unfolding protocol_at_node c'(2) by (rule p_create) (use none fresh(2) in \<open>auto simp: protocol_of_def\<close>)
    then show ?thesis using inv_idle [OF inv put(3) c'(1) put(2)] by (simp add: refines_def r_into_rtranclp)
  qed
qed

lemma start_refines:
  assumes inv: "fabric_inv i F" and p: "handoff_prepare n params (nodes F x) = (c', Ok plan)" "durable i c'" "idle F x"
    "required_text params ''sessionId'' = Ok i" "\<And>a. session_authority_of (nodes F x) i = Some a \<Longrightarrow> sa_epoch a < u64_max"
  shows "refines i F ((at_node F x c')\<lparr>under_way := insert (x, plan) (under_way F), mail := insert plan (mail F)\<rparr>)"
    (is "refines i F ?F")
proof -
  have x: "c_id (nodes F x) = x" using inv by (simp add: fabric_inv_def)
  obtain a t where a: "session_authority_of (nodes F x) i = Some a" "sa_controller_id a = c_id (nodes F x)"
      "sa_pending_controller_id a = None \<or> sa_pending_controller_id a = Some t"
      "session_authority_of c' i = Some (a\<lparr>sa_pending_controller_id := Some t\<rparr>)" "c_id c' = c_id (nodes F x)"
      "ws_authority (hp_session plan) = Some (transferred a t)" "md_id (ws_metadata (hp_session plan)) = i"
    by (rule prepare_Ok [OF p(1,4)])
  let ?a = "a\<lparr>sa_pending_controller_id := Some t\<rparr>"
  have e: "sa_epoch a < u64_max" using p(5) a(1) by simp
  have tr: "transferred ?a t = transferred a t" by (simp add: transferred_def)
  have "fabric_inv i (at_node F x c')" using inv_idle [OF inv p(3) _ p(2)] a(5) x by simp
  moreover have "on_way i c' plan" using a e x tr by (auto simp: on_way_def)
  ultimately have inv': "fabric_inv i ?F" using p(3) a(6,7) by (auto simp: fabric_inv_def idle_def)
  have 1: "protocol_step\<^sup>*\<^sup>* (protocol_of i F) (protocol_of i (at_node F x c'))"
  proof (cases "sa_pending_controller_id a = None")
    case True
    have "protocol_step (protocol_of i F) (protocol_of i (at_node F x c'))"
      unfolding protocol_at_node a(4)
      by (rule p_mark) (use a(1,2) x True in \<open>auto simp: protocol_of_def\<close>)
    then show ?thesis by (rule r_into_rtranclp)
  next
    case False
    then have "?a = a" using a(3) by auto
    then have "protocol_of i (at_node F x c') = protocol_of i F"
      using a(1,4) by (auto simp: protocol_of_def fun_eq_iff)
    then show ?thesis by simp
  qed
  have "protocol_of i ?F = (protocol_of i (at_node F x c'))\<lparr>sent := insert (transferred a t) (sent (protocol_of i (at_node F x c')))\<rparr>"
    using a(6) by (auto simp: protocol_of_def)
  moreover have "protocol_step (protocol_of i (at_node F x c'))
      ((protocol_of i (at_node F x c'))\<lparr>sent := insert (transferred ?a t) (sent (protocol_of i (at_node F x c')))\<rparr>)"
    by (rule p_send [where x = x]) (use a(2,4) x e in \<open>auto simp: protocol_of_def\<close>)
  ultimately show ?thesis using 1 inv' tr by (simp add: refines_def rtranclp.rtrancl_into_rtrancl)
qed

lemma deliver_refines:
  assumes inv: "fabric_inv i F" and d: "plan \<in> mail F" "idle F y"
    "required_value (dec_session (cv_codec n)) (hp_bundle plan) ''session'' = Ok (hp_session plan)"
    "session_accept_handoff n (hp_bundle plan) (nodes F y) = (c', r)" "durable i c'"
  shows "refines i F (at_node F y c')"
    and "is_ok r \<Longrightarrow> \<exists>b. ws_authority (hp_session plan) = Some b \<and> sa_controller_id b = y \<and> session_authority_of c' i = Some b"
proof -
  have y: "c_id (nodes F y) = y" using inv by (simp add: fabric_inv_def)
  obtain b where b: "md_id (ws_metadata (hp_session plan)) = i" "ws_authority (hp_session plan) = Some b"
    using inv d(1) by (auto simp: fabric_inv_def)
  have "refines i F (at_node F y c') \<and> (is_ok r \<longrightarrow> sa_controller_id b = y \<and> session_authority_of c' i = Some b)"
    using d(4,3) b(2)
  proof (cases rule: accept_cases)
    case same
    then show ?thesis using apart_refines [OF inv, of y c'] y b(1) by (auto simp: apart_refl)
  next
    case taken
    have c': "apart i (put_session (hp_session plan) (nodes F y)) c'" unfolding taken(3) by (rule accept_store_apart)
    then have v: "session_authority_of c' i = Some b" "c_id c' = y"
      using b y by (simp_all add: apart_def authority_record record_put)
    have "b \<in> sent (protocol_of i F)" using d(1) b(2) by (auto simp: protocol_of_def)
    moreover have "older (holds (protocol_of i F) (sa_controller_id b)) (sa_epoch b)"
      using taken(1,2) b(1) y by (simp add: protocol_of_def)
    ultimately have "protocol_step (protocol_of i F) ((protocol_of i F)\<lparr>holds := (holds (protocol_of i F))(sa_controller_id b := Some b)\<rparr>)"
      by (rule p_accept)
    then have "protocol_step (protocol_of i F) (protocol_of i (at_node F y c'))"
      unfolding protocol_at_node v(1) using taken(1) y by simp
    then show ?thesis
      using inv_idle [OF inv d(2) v(2) d(5)] taken(1) y v(1) by (simp add: refines_def r_into_rtranclp)
  qed
  then show "refines i F (at_node F y c')"
    "is_ok r \<Longrightarrow> \<exists>b. ws_authority (hp_session plan) = Some b \<and> sa_controller_id b = y \<and> session_authority_of c' i = Some b"
    using b(2) by auto
qed

lemma reply_refines:
  assumes inv: "fabric_inv i F" and d: "plan \<in> mail F" "idle F y"
    "required_value (dec_session (cv_codec n)) (hp_bundle plan) ''session'' = Ok (hp_session plan)"
    "session_accept_handoff n (hp_bundle plan) (nodes F y) = (c', Ok v)" "durable i c'"
  shows "refines i F ((at_node F y c')\<lparr>confirmed := insert plan (confirmed F)\<rparr>)" (is "refines i F ?F")
proof -
  have r: "refines i F (at_node F y c')" by (rule deliver_refines(1) [OF inv d])
  obtain b where b: "ws_authority (hp_session plan) = Some b" "sa_controller_id b = y" "session_authority_of c' i = Some b"
    using deliver_refines(2) [OF inv d] by auto
  have "fabric_inv i ?F" using r d(1) by (auto simp: refines_def fabric_inv_def)
  moreover have "protocol_of i ?F = (protocol_of i (at_node F y c'))\<lparr>accepted := insert b (accepted (protocol_of i (at_node F y c')))\<rparr>"
    using b(1) by (auto simp: protocol_of_def)
  moreover have "protocol_step (protocol_of i (at_node F y c'))
      ((protocol_of i (at_node F y c'))\<lparr>accepted := insert b (accepted (protocol_of i (at_node F y c')))\<rparr>)"
    by (rule p_confirm) (use b d(1) in \<open>auto simp: protocol_of_def\<close>)
  ultimately show ?thesis using r unfolding refines_def by (metis rtranclp.rtrancl_into_rtrancl)
qed

lemma commit_refines:
  assumes inv: "fabric_inv i F" and p: "(x, plan) \<in> under_way F" "plan \<in> confirmed F"
    "handoff_commit n (hp_session plan) (nodes F x) = (c', r)" "durable i c'"
  shows "refines i F ((at_node F x c')\<lparr>under_way := under_way F - {(x, plan)}\<rparr>)" (is "refines i F ?F")
proof -
  have x: "c_id (nodes F x) = x" and m: "md_id (ws_metadata (hp_session plan)) = i" and o: "on_way i (nodes F x) plan"
    and u: "\<And>plan'. (x, plan') \<in> under_way F \<Longrightarrow> plan' = plan"
    using inv p by (auto simp: fabric_inv_def)
  obtain a t where a: "session_authority_of (nodes F x) i = Some a" "sa_controller_id a = x" "sa_pending_controller_id a = Some t"
      "sa_epoch a < u64_max" "ws_authority (hp_session plan) = Some (transferred a t)"
    using o x by (auto simp: on_way_def)
  have "c' = fst (persist n 2 (put_session (hp_session plan) (nodes F x)))"
    using p(3) fst_persist_then by (metis fst_conv handoff_commit_def)
  then have c': "c_id c' = x" "session_authority_of c' i = Some (transferred a t)" using x m a(5) by simp_all
  have "fabric_inv i ?F" using inv u p(4) c'(1) by (auto simp: fabric_inv_def)
  moreover have "protocol_of i ?F = protocol_of i (at_node F x c')" by (simp add: protocol_of_def)
  moreover have "protocol_step (protocol_of i F) (protocol_of i (at_node F x c'))"
    unfolding protocol_at_node c'(2)
    by (rule p_commit) (use a p(2) in \<open>auto simp: protocol_of_def\<close>)
  ultimately show ?thesis by (simp add: refines_def r_into_rtranclp)
qed

lemma other_accept_apart:
  assumes "\<And>s. required_value (dec_session (cv_codec n)) params ''session'' = Ok s \<Longrightarrow> md_id (ws_metadata s) \<noteq> i"
  shows "apart i c (fst (session_accept_handoff n params c))"
proof (cases "required_value (dec_session (cv_codec n)) params ''session''")
  case (Ok s)
  have "apart i c (fst (accept_store n params s c))"
    by (rule apart_trans [OF apart_put accept_store_apart]) (use assms Ok in blast)
  then show ?thesis
    by (cases "ws_authority s")
       (auto simp: session_accept_handoff_def Ok lift_res_def apart_refl split: option.split)
qed (simp_all add: session_accept_handoff_def lift_res_def apart_refl)

lemma fabric_step_refines: "fabric_step i F F' \<Longrightarrow> fabric_inv i F \<Longrightarrow> refines i F F'"
proof (induction rule: fabric_step.induct)
  case (f_restart n clk cfg F x files w c')
  have "c_id (nodes F x) = x" "durable i (nodes F x)" using f_restart by (simp_all add: fabric_inv_def)
  then have a: "apart i (nodes F x) c'" using restart_record [OF f_restart(1)] f_restart(2) by (simp add: apart_def)
  have "fabric_inv i (at_node F x c')" "protocol_of i (at_node F x c') = protocol_of i F"
    using inv_apart [OF f_restart(3) a] by simp_all
  moreover have "protocol_of i ((at_node F x c')\<lparr>under_way := {(z, plan) \<in> under_way F. z \<noteq> x}\<rparr>) = protocol_of i (at_node F x c')"
    by (simp add: protocol_of_def)
  ultimately show ?case using f_restart(3) by (auto simp: refines_def fabric_inv_def)
next
  case (f_abort F x plan)
  then show ?case by (auto simp: refines_def fabric_inv_def protocol_of_def)
next
  case (f_refused n params F x c' r)
  have "durable i (nodes F x)" using f_refused by (simp add: fabric_inv_def)
  then have "apart i (nodes F x) c'"
    using prepare_refused [OF f_refused(1,2) _ f_refused(3)] f_refused(3) by (simp add: apart_def)
  then show ?case by (rule apart_refines [OF f_refused(4)])
qed (auto intro: apart_refines request_apart create_refines put_apart start_refines deliver_refines(1) reply_refines
      commit_refines other_handoff_apart other_accept_apart)

lemma fabric_start_inv: "fabric_start i F \<Longrightarrow> fabric_inv i F \<and> protocol_of i F = fresh_protocol"
  by (auto simp: fabric_start_def fabric_inv_def protocol_of_def fresh_protocol_def authority_record)

lemma fabric_reach:
  assumes "fabric_start i F0" "(fabric_step i)\<^sup>*\<^sup>* F0 F"
  shows "fabric_inv i F \<and> protocol_step\<^sup>*\<^sup>* fresh_protocol (protocol_of i F)"
  using assms(2)
proof (induction rule: rtranclp_induct)
  case base
  then show ?case using fabric_start_inv [OF assms(1)] by simp
next
  case (step F F')
  then show ?case using fabric_step_refines [OF step(2)] by (auto simp: refines_def intro: rtranclp_trans)
qed

lemma serves_serving: "fabric_inv i F \<Longrightarrow> serves i (nodes F x) = serving (protocol_of i F) x"
  by (auto simp: serves_def serving_def protocol_of_def fabric_inv_def split: option.splits)

section \<open>Forwarding\<close>

text \<open>A controller that is not the authority of a session forwards its requests to the controller its record names.\<close>

definition forwards :: "string \<Rightarrow> fabric \<Rightarrow> string \<Rightarrow> string \<Rightarrow> bool" where
  "forwards i F x y \<longleftrightarrow> (\<exists>a. session_authority_of (nodes F x) i = Some a \<and> sa_controller_id a = y \<and> y \<noteq> x)"

definition owner :: "string \<Rightarrow> fabric \<Rightarrow> string \<Rightarrow> bool" where
  "owner i F x \<longleftrightarrow> (\<exists>a. session_authority_of (nodes F x) i = Some a \<and> sa_controller_id a = x)"

lemma forward_reaches:
  assumes inv: "protocol_inv (protocol_of i F)"
  shows "session_authority_of (nodes F x) i = Some a \<Longrightarrow> \<exists>y. (forwards i F)\<^sup>*\<^sup>* x y \<and> owner i F y"
proof (induction "2 ^ 64 - unat (sa_epoch a)" arbitrary: x a rule: less_induct)
  case less
  show ?case
  proof (cases "sa_controller_id a = x")
    case True
    then show ?thesis using less.prems by (auto simp: owner_def)
  next
    case False
    let ?y = "sa_controller_id a"
    have f: "forwards i F x ?y" using less.prems False by (auto simp: forwards_def)
    obtain b where b: "session_authority_of (nodes F ?y) i = Some b" "sa_controller_id b = ?y \<or> sa_epoch a < sa_epoch b"
      using forward_progress [OF inv, of x a] less.prems False by (auto simp: protocol_of_def)
    show ?thesis
    proof (cases "sa_controller_id b = ?y")
      case True
      then have "owner i F ?y" using b(1) by (auto simp: owner_def)
      then show ?thesis using f by blast
    next
      case False
      then have "2 ^ 64 - unat (sa_epoch b) < 2 ^ 64 - unat (sa_epoch a)"
        using b(2) unsigned_less [of "sa_epoch b", where ?'a = nat] by (simp add: word_less_nat_alt)
      then obtain z where "(forwards i F)\<^sup>*\<^sup>* ?y z" "owner i F z" using less.hyps b(1) by blast
      then show ?thesis using f by (meson converse_rtranclp_into_rtranclp)
    qed
  qed
qed

section \<open>Properties\<close>

text \<open>The condition under which \<open>capability.invoke\<close> for the session, sent to this controller, makes it call an
  executor: the request is neither refused nor forwarded by the routing, and it is admitted.\<close>

definition calls_in_session :: "string \<Rightarrow> cenv \<Rightarrow> json \<Rightarrow> controller \<Rightarrow> bool" where
  "calls_in_session i n params c \<longleftrightarrow>
     required_text params ''workspaceSessionId'' = Ok i \<and>
     route_session_action n ''capability.invoke'' params c = Ok None \<and> calls_executor (snd (invoke_admit n params c))"

lemma calls_serves:
  assumes "calls_in_session i n params c"
  shows "serves i c"
proof -
  have i: "required_text params ''workspaceSessionId'' = Ok i" using assms by (simp add: calls_in_session_def)
  obtain c1 iv where "invoke_admit n params c = (c1, Ok (InvokeRun iv))"
    using assms calls_executor_cases unfolding calls_in_session_def by blast
  then obtain a where a: "session_authority_of c i = Some a" "sa_controller_id a = c_id c"
    using i by (auto elim!: invoke_admit_Ok simp: own_session_Ok)
  have "session_id_for_action ''capability.invoke'' params c = Some i"
    using i by (auto simp: session_id_for_action_def or_else_def required_text_def split: option.splits if_splits)
  moreover obtain s where "find_session c i = Some s" "ws_authority s = Some a"
    using a(1) by (auto simp: session_authority_of_def bind_eq_Some_conv)
  ultimately have "sa_pending_controller_id a = None"
    using assms by (auto simp: calls_in_session_def route_session_action_def Let_def split: option.splits)
  then show ?thesis using a by (auto simp: serves_def)
qed




section \<open>Samples\<close>

definition demo_node :: "string \<Rightarrow> controller" where
  "demo_node x = demo_controller\<lparr>c_id := x, c_state := (c_state demo_controller)\<lparr>fs_sessions := []\<rparr>\<rparr>"

definition demo_fabric :: fabric where
  "demo_fabric = \<lparr>nodes = demo_node, under_way = {}, mail = {}, confirmed = {}\<rparr>"

definition demo_create :: cenv where
  "demo_create = demo_env\<lparr>cv_codec := demo_codec\<lparr>dec_session := (\<lambda>_. Inr (demo_session\<lparr>ws_authority := None\<rparr>))\<rparr>\<rparr>"

definition demo_created :: controller where
  "demo_created = fst (session_put demo_create JNull (demo_node ''me''))"

lemma demo_fabric_start: "fabric_start ''s'' demo_fabric"
  by (simp add: fabric_start_def demo_fabric_def demo_node_def durable_def session_record_def demo_controller_def
      fabric_state_default_def)

lemma demo_fabric_step: "fabric_step ''s'' demo_fabric (at_node demo_fabric ''me'' demo_created)"
proof (rule f_create)
  show "session_put demo_create JNull (nodes demo_fabric ''me'') = (demo_created, snd (session_put demo_create JNull (demo_node ''me'')))"
    by (simp add: demo_created_def demo_fabric_def)
  show "durable ''s'' demo_created" by code_simp
  show "session_record (c_state (nodes demo_fabric z)) ''s'' = None" for z
    using demo_fabric_start by (simp add: fabric_start_def)
qed (simp_all add: demo_fabric_def idle_def)

lemma demo_fabric_reach: "(fabric_step ''s'')\<^sup>*\<^sup>* demo_fabric (at_node demo_fabric ''me'' demo_created)"
  using demo_fabric_step by (rule r_into_rtranclp)

lemma demo_created_calls: "calls_in_session ''s'' demo_env (demo_invoke ''command.run'' (demo_command ''/bin/cp'') ''k'') demo_created"
  by code_simp




end
