(* ===== verification/Session_Failures.thy ===== *)
theory Session_Failures
  imports Session_Fabric
begin

text \<open>
  What the guarantees of the other theories do not cover, because the code does not give it: a
  failed write of the state file during a handoff, a \<open>session.put\<close> without authority for a
  session that is already known, the tasks a controller has when it takes a session over, and a
  request that panics while it holds a lock.
\<close>

section \<open>Handoffs whose writes fail\<close>

definition demo_move :: json where
  "demo_move = jobj [(''sessionId'', JStr ''s''), (''targetControllerId'', JStr ''you'')]"

definition demo_source :: controller where
  "demo_source =
     (let c = demo_controller\<lparr>c_state := (c_state demo_controller)\<lparr>fs_controllers :=
          [\<lparr>cp_api_version = ''v1'', cp_metadata = demo_metadata ''you'', cp_endpoint = EpLocal ''you.sock'',
            cp_health = HealthReady\<rparr>]\<rparr>\<rparr>
      in c\<lparr>c_disk := Some (committed_state c)\<rparr>)"

definition demo_moved :: workspace_session where
  "demo_moved = moved \<lparr>sa_controller_id = ''me'', sa_epoch = 1, sa_pending_controller_id = None\<rparr> ''you'' 100 demo_session"

definition demo_receive :: cenv where
  "demo_receive = demo_env\<lparr>cv_codec := demo_codec\<lparr>dec_session := (\<lambda>_. Inr demo_moved)\<rparr>\<rparr>"

definition demo_full_disk :: "cenv \<Rightarrow> cenv" where
  "demo_full_disk n = n\<lparr>cv_save := (\<lambda>_. Some ''no space left on device'')\<rparr>"

text \<open>The handoff after the mark could not be saved, and again after the disk works.\<close>

definition demo_tried :: controller where
  "demo_tried = fst (session_handoff (demo_full_disk demo_env) demo_move demo_source)"

definition demo_target :: controller where
  "demo_target = fst (session_accept_handoff demo_receive
     (case handoff_prepare demo_env demo_move demo_tried of (c, Ok plan) \<Rightarrow> hp_bundle plan | _ \<Rightarrow> JNull) (demo_node ''you''))"

definition demo_restarted :: "controller option" where
  "demo_restarted =
     (case open_with_id demo_env (\<lambda>_. 100) None (c_disk (fst (handoff_prepare demo_env demo_move demo_tried))) (\<lambda>_. None) of
        (_, Ok c) \<Rightarrow> Some c | _ \<Rightarrow> None)"

text \<open>
  A handoff whose first attempt cannot save the pending mark leaves the mark in memory; the second attempt does not
  save it again, so after the target has accepted, a restart of the source brings it back as the authority: two
  controllers serve the session.
\<close>

theorem split_brain:
  "code (case snd (session_handoff (demo_full_disk demo_env) demo_move demo_source) of Err e \<Rightarrow> e) = ''STATE_WRITE_FAILED''"
  "is_ok (snd (handoff_prepare demo_env demo_move demo_tried))"
  "list_ex (\<lambda>c. serves ''s'' c \<and> c_id c = ''me'') (case demo_restarted of Some c \<Rightarrow> [c] | None \<Rightarrow> [])"
  "serves ''s'' demo_target" "c_id demo_target = ''you''"
  by code_simp+

text \<open>
  When the target cannot save the session it accepts, the request fails; the repeated request finds the session in
  memory and succeeds without saving it. The source gives the session up, and a restart of the target loses it.
\<close>

definition demo_unsaved :: controller where
  "demo_unsaved = fst (session_accept_handoff (demo_full_disk demo_receive) (jobj [(''session'', JNull)]) (demo_node ''you''))"

theorem accept_retry_unsaved:
  "\<not> is_ok (snd (session_accept_handoff (demo_full_disk demo_receive) (jobj [(''session'', JNull)]) (demo_node ''you'')))"
  "is_ok (snd (session_accept_handoff demo_receive (jobj [(''session'', JNull)]) demo_unsaved))"
  "c_disk (fst (session_accept_handoff demo_receive (jobj [(''session'', JNull)]) demo_unsaved)) = c_disk (demo_node ''you'')"
  by code_simp+

section \<open>Taking a session\<close>

text \<open>
  \<open>session.put\<close> without an authority makes the controller the authority of the session in epoch 1, also when the
  session has been handed over to another controller or a handoff is pending.
\<close>

theorem put_takes_session:
  assumes "dec_session (cv_codec n) params = Inr s" "ws_authority s = None"
  shows "serves (md_id (ws_metadata s)) (fst (session_put n params c))"
  using assms by (simp add: session_put_def from_value_def lift_res_def fst_persist_then serves_def)

definition demo_busy :: controller where
  "demo_busy = (demo_node ''you'')\<lparr>c_tasks := from_tasks [demo_task]\<rparr>"

text \<open>A controller that takes a session over loses the tasks of its other sessions.\<close>

theorem accept_drops_tasks:
  "get_task (c_tasks demo_busy) (t_id demo_task) = Some demo_task"
  "is_ok (snd (session_accept_handoff demo_receive (jobj [(''session'', JNull)]) demo_busy))"
  "get_task (c_tasks (fst (session_accept_handoff demo_receive (jobj [(''session'', JNull)]) demo_busy))) (t_id demo_task) = None"
  by code_simp+

section \<open>A poisoned lock\<close>

text \<open>C40: \<open>executor.call\<close> with leases and parameters that are neither an object nor null panics while it holds the
  lock of the lease table; from then on the handling of every request panics.\<close>

theorem executor_call_poisons:
  assumes "required_text params ''executorId'' = Ok i" "find_executor c i = Some ex" "required_text params ''action'' = Ok action"
    and "jget params ''params'' = Some v" "as_object v = None" "v \<noteq> JNull"
    and "lease_params params = Some items" "call_authorities (\<lambda>k. cv_now n (Suc k)) (c_id c) (c_leases c) items = Ok authorities"
  shows "snd (executor_call n params c) = Panic \<and>
    controller_handle n' rq (fst (executor_call n params c)) = (fst (executor_call n params c), None)"
proof -
  have "jset v ''_authority'' (JArr authorities) = None" using assms(5,6) by (simp add: jset_None_iff)
  then have "executor_call n params c = (c\<lparr>c_poisoned := True\<rparr>, Panic)"
    using assms by (simp add: executor_call_def add_authority_def json_param_or_def lift_res_def)
  then show ?thesis by (simp add: controller_handle_def)
qed

definition demo_poison :: json where
  "demo_poison = jobj [(''executorId'', JStr ''e''), (''action'', JStr ''fs.write''), (''params'', JStr ''text''), (''leases'', JArr [])]"

theorem executor_call_poisons_witness:
  "\<exists>c. c = fst (executor_call demo_env demo_poison demo_controller) \<and>
       controller_handle demo_env (demo_rpc ''ping'' JNull) c = (c, None)"
proof -
  have p: "required_text demo_poison ''executorId'' = Ok ''e''" "find_executor demo_controller ''e'' = Some demo_executor"
    "required_text demo_poison ''action'' = Ok ''fs.write''" "jget demo_poison ''params'' = Some (JStr ''text'')"
    "as_object (JStr ''text'') = None" "JStr ''text'' \<noteq> JNull" "lease_params demo_poison = Some []"
    "call_authorities (\<lambda>k. cv_now demo_env (Suc k)) (c_id demo_controller) (c_leases demo_controller) [] = Ok []"
    by code_simp+
  show ?thesis using executor_call_poisons [OF p] by blast
qed

end
