(* ===== verification/Rust_Path.thy ===== *)
theory Rust_Path
  imports Fabric_Prelude "HOL-Library.Sublist"
begin

text \<open>
  Paths as the program uses them (\<open>std::path\<close> on Unix). A path is the sequence of its
  components, which is what the library compares, joins, splits and walks; \<open>components\<close> reads it
  from its text and \<open>display\<close> prints it. A repeated separator and a \<open>.\<close> inside a path are dropped
  by the library when it reads the components, and are not kept in the printed path here.
\<close>

datatype component = RootDir | CurDir | ParentDir | Normal string

type_synonym path = "component list"

section \<open>Operations\<close>

fun split_slash :: "string \<Rightarrow> string list" where
  "split_slash [] = [[]]"
| "split_slash (c # cs) =
     (if c = CHR ''/'' then [] # split_slash cs
      else case split_slash cs of s # ss \<Rightarrow> (c # s) # ss | [] \<Rightarrow> [[c]])"

definition piece :: "string \<Rightarrow> path" where
  "piece s = (if s = [] \<or> s = ''.'' then [] else if s = ''..'' then [ParentDir] else [Normal s])"

text \<open>Only a \<open>.\<close> at the start of a relative path is a component.\<close>

definition components :: "string \<Rightarrow> path" where
  "components text =
     (case split_slash text of
        [] \<Rightarrow> []
      | s # ss \<Rightarrow>
          (if s = [] \<and> ss \<noteq> [] then [RootDir] else if s = ''.'' then [CurDir] else piece s)
          @ concat (map piece ss))"

fun component_text :: "component \<Rightarrow> string" where
  "component_text RootDir = []"
| "component_text CurDir = ''.''"
| "component_text ParentDir = ''..''"
| "component_text (Normal n) = n"

fun display_rest :: "path \<Rightarrow> string" where
  "display_rest [] = []"
| "display_rest (c # cs) = ''/'' @ component_text c @ display_rest cs"

fun display :: "path \<Rightarrow> string" where
  "display [] = []"
| "display (RootDir # cs) = (if cs = [] then ''/'' else display_rest cs)"
| "display (c # cs) = component_text c @ display_rest cs"

definition is_absolute :: "path \<Rightarrow> bool" where
  "is_absolute p = (case p of RootDir # _ \<Rightarrow> True | _ \<Rightarrow> False)"

definition file_name :: "path \<Rightarrow> string option" where
  "file_name p = (case rev p of Normal n # _ \<Rightarrow> Some n | _ \<Rightarrow> None)"

definition parent :: "path \<Rightarrow> path option" where
  "parent p = (case rev p of [] \<Rightarrow> None | RootDir # _ \<Rightarrow> None | _ # cs \<Rightarrow> Some (rev cs))"

text \<open>\<open>join\<close> and \<open>push\<close>: an absolute path takes the place of the first.\<close>

definition join :: "path \<Rightarrow> path \<Rightarrow> path" where
  "join p q = (if is_absolute q then q else if p = [] then q else p @ dropWhile (\<lambda>c. c = CurDir) q)"

definition join_text :: "path \<Rightarrow> string \<Rightarrow> path" where
  "join_text p s = join p (components s)"

text \<open>\<open>path.starts_with(root)\<close>.\<close>

definition starts_with :: "path \<Rightarrow> path \<Rightarrow> bool" where
  "starts_with p root = prefix root p"

text \<open>\<open>with_extension\<close> replaces what follows the last dot of the file name, unless the dot is its first character.\<close>

fun last_dot :: "string \<Rightarrow> nat option" where
  "last_dot [] = None"
| "last_dot (c # cs) =
     (case last_dot cs of Some i \<Rightarrow> Some (Suc i) | None \<Rightarrow> if c = CHR ''.'' then Some 0 else None)"

definition file_stem :: "string \<Rightarrow> string" where
  "file_stem name = (case last_dot name of Some (Suc i) \<Rightarrow> take (Suc i) name | _ \<Rightarrow> name)"

definition extension :: "string \<Rightarrow> string option" where
  "extension name = (case last_dot name of Some (Suc i) \<Rightarrow> Some (drop (Suc (Suc i)) name) | _ \<Rightarrow> None)"

definition with_extension :: "path \<Rightarrow> string \<Rightarrow> path" where
  "with_extension p ext =
     (case file_name p of
        None \<Rightarrow> p
      | Some n \<Rightarrow> butlast p @ [Normal (file_stem n @ (if ext = [] then [] else ''.'' @ ext))])"

text \<open>The path of a list of names below the root.\<close>

definition rooted :: "string list \<Rightarrow> path" where
  "rooted ns = RootDir # map Normal ns"

definition is_rooted :: "path \<Rightarrow> bool" where
  "is_rooted p \<longleftrightarrow> (case p of RootDir # cs \<Rightarrow> list_all (\<lambda>c. case c of Normal _ \<Rightarrow> True | _ \<Rightarrow> False) cs | _ \<Rightarrow> False)"

section \<open>Laws\<close>

named_theorems path_simps \<open>evaluation of path operations\<close>

lemma starts_with_refl [simp]: "starts_with p p"
  by (simp add: starts_with_def)

lemma starts_with_trans: "starts_with p q \<Longrightarrow> starts_with q r \<Longrightarrow> starts_with p r"
  unfolding starts_with_def by (rule prefix_order.trans)

lemma starts_with_antisym: "starts_with p q \<Longrightarrow> starts_with q p \<Longrightarrow> p = q"
  by (simp add: starts_with_def prefix_order.antisym)

lemma starts_with_append [simp]: "starts_with (p @ q) p"
  by (simp add: starts_with_def)

lemma starts_with_iff: "starts_with p root \<longleftrightarrow> (\<exists>rest. p = root @ rest)"
  by (auto simp: starts_with_def prefix_def)

text \<open>Two roots of one path are comparable.\<close>

lemma starts_with_linear: "starts_with p q \<Longrightarrow> starts_with p r \<Longrightarrow> starts_with q r \<or> starts_with r q"
  unfolding starts_with_def using prefix_same_cases by blast

lemma is_absolute_rooted [simp, path_simps]: "is_absolute (rooted ns)"
  by (simp add: is_absolute_def rooted_def)

lemma is_absolute_iff: "is_absolute p \<longleftrightarrow> (\<exists>cs. p = RootDir # cs)"
  by (auto simp: is_absolute_def split: list.splits component.splits)

lemma is_rooted_iff: "is_rooted p \<longleftrightarrow> (\<exists>ns. p = rooted ns)"
proof
  assume r: "is_rooted p"
  then obtain cs where p: "p = RootDir # cs" and all: "list_all (\<lambda>c. case c of Normal _ \<Rightarrow> True | _ \<Rightarrow> False) cs"
    by (auto simp: is_rooted_def split: list.splits component.splits)
  from all have "\<exists>ns. cs = map Normal ns"
  proof (induction cs)
    case (Cons c cs)
    then obtain ns n where "cs = map Normal ns" "c = Normal n" by (auto split: component.splits)
    then show ?case by (intro exI [of _ "n # ns"]) simp
  qed simp
  then show "\<exists>ns. p = rooted ns" by (auto simp: p rooted_def)
next
  show "\<exists>ns. p = rooted ns \<Longrightarrow> is_rooted p" by (auto simp: is_rooted_def rooted_def list_all_iff)
qed

lemma rooted_inject [simp]: "rooted ns = rooted ms \<longleftrightarrow> ns = ms"
proof -
  have "inj Normal" by (simp add: inj_on_def)
  then show ?thesis by (simp add: rooted_def inj_map_eq_map)
qed

lemma rooted_append: "rooted ns @ map Normal ms = rooted (ns @ ms)"
  by (simp add: rooted_def)

lemma starts_with_rooted [simp, path_simps]: "starts_with (rooted ns) (rooted ms) \<longleftrightarrow> prefix ms ns"
proof -
  have "inj Normal" by (simp add: inj_on_def)
  then show ?thesis
    by (auto simp: starts_with_def rooted_def prefix_def map_eq_append_conv inj_map_eq_map)
qed

lemma file_name_rooted [simp, path_simps]:
  "file_name (rooted ns) = (if ns = [] then None else Some (last ns))"
  by (cases ns rule: rev_cases) (simp_all add: file_name_def rooted_def)

lemma parent_rooted [simp, path_simps]:
  "parent (rooted ns) = (if ns = [] then None else Some (rooted (butlast ns)))"
  by (cases ns rule: rev_cases) (simp_all add: parent_def rooted_def)

lemma parent_length: "parent p = Some q \<Longrightarrow> length q < length p"
  by (cases p rule: rev_cases) (auto simp: parent_def split: component.splits)

end
