(* ===== verification/Path_Policy.thy ===== *)
theory Path_Policy
  imports Rust_Path Execution_Resources
begin

text \<open>
  Which files a request may touch (\<open>path_policy.rs\<close>, and \<open>checked_path\<close>, \<open>read_path_denied\<close>,
  \<open>application_path\<close> and \<open>atomic_temporary_path\<close> of \<open>executor.rs\<close>), for the Unix builds. What
  the program asks the file system for (whether a path exists, its canonical form, whether it is
  a directory) is the record \<open>file_view\<close>, over which the theorems quantify.
\<close>

record file_view =
  fv_exists :: "path \<Rightarrow> bool"
  fv_canonicalize :: "path \<Rightarrow> (string, path) outcome"
  fv_is_dir :: "path \<Rightarrow> bool"

section \<open>Path policy\<close>

datatype path_access = ReadAccess | WriteAccess

record desktop_path_policy =
  read_denied :: "path list"
  write_allowed :: "path list"
  logical_write_allowed :: "path list"
  managed_mappings :: "(path \<times> path) list"

definition path_invalid :: "string \<Rightarrow> 'a rpc" where
  "path_invalid reason = Err (rpc_error_new ''PATH_INVALID'' reason)"

fun logical_loop :: "path \<Rightarrow> path \<Rightarrow> path rpc" where
  "logical_loop result [] = Ok result"
| "logical_loop result (CurDir # cs) = logical_loop result cs"
| "logical_loop result (ParentDir # cs) =
     (if file_name result = None then path_invalid ''path escapes its filesystem root''
      else case parent result of
             None \<Rightarrow> path_invalid ''path escapes its filesystem root''
           | Some p \<Rightarrow> logical_loop p cs)"
| "logical_loop result (Normal n # cs) = logical_loop (result @ [Normal n]) cs"
| "logical_loop result (RootDir # cs) = logical_loop [RootDir] cs"

definition logical_path :: "path \<Rightarrow> path rpc" where
  "logical_path p =
     (if \<not> is_absolute p then path_invalid ''path must be absolute'' else logical_loop [] p)"

text \<open>The loop of \<open>resolve_path\<close>: up to an ancestor that exists, collecting the missing names.\<close>

function missing_loop :: "file_view \<Rightarrow> path \<Rightarrow> string list \<Rightarrow> (path \<times> string list) rpc" where
  "missing_loop v ancestor missing =
     (if fv_exists v ancestor then Ok (ancestor, missing)
      else case file_name ancestor of
             None \<Rightarrow> path_invalid ''path has no existing ancestor''
           | Some name \<Rightarrow>
               if name = ''.'' \<or> name = ''..'' then path_invalid ''path contains unresolved traversal''
               else (case parent ancestor of
                       None \<Rightarrow> path_invalid ''path has no existing ancestor''
                     | Some up \<Rightarrow> missing_loop v up (missing @ [name])))"
  by pat_completeness auto
termination by (relation "measure (\<lambda>(v, p, m). length p)") (auto dest: parent_length)

declare missing_loop.simps [simp del]

definition resolve_path :: "file_view \<Rightarrow> path \<Rightarrow> path rpc" where
  "resolve_path v p =
     (if \<not> is_absolute p then path_invalid ''path must be absolute''
      else if ParentDir \<in> set p then path_invalid ''path contains parent traversal''
      else if fv_exists v p
      then (case fv_canonicalize v p of
              Ok q \<Rightarrow> Ok q | Err e \<Rightarrow> path_invalid (display p @ '': '' @ e) | Panic \<Rightarrow> Panic)
      else and_then (missing_loop v p []) (\<lambda>(ancestor, missing).
             case fv_canonicalize v ancestor of
               Ok q \<Rightarrow> Ok (q @ map Normal (rev missing))
             | Err e \<Rightarrow> path_invalid (display p @ '': '' @ e)
             | Panic \<Rightarrow> Panic))"

definition is_within :: "path \<Rightarrow> path \<Rightarrow> bool" where
  "is_within p base = starts_with p base"

definition same_path :: "path \<Rightarrow> path \<Rightarrow> bool" where
  "same_path l r =
     (case (logical_path l, logical_path r) of
        (Ok a, Ok b) \<Rightarrow> is_within a b \<and> is_within b a
      | _ \<Rightarrow> False)"

definition add_read_root :: "file_view \<Rightarrow> path \<Rightarrow> path list \<Rightarrow> path list rpc" where
  "add_read_root v p roots =
     (if \<not> is_absolute p then Err (rpc_error_new ''INVALID_ROOT'' ''read-deny root must be absolute'')
      else let roots = (if p \<in> set roots then roots else roots @ [p])
           in case resolve_path v p of
                Ok resolved \<Rightarrow> Ok (if resolved \<in> set roots then roots else roots @ [resolved])
              | Panic \<Rightarrow> Panic
              | Err _ \<Rightarrow> Ok roots)"

fun add_read_roots :: "file_view \<Rightarrow> path list \<Rightarrow> path list \<Rightarrow> path list rpc" where
  "add_read_roots v [] roots = Ok roots"
| "add_read_roots v (p # ps) roots = and_then (add_read_root v p roots) (add_read_roots v ps)"

text \<open>Pushes a write root below the home directory, and its logical form.\<close>

fun add_write_roots ::
  "file_view \<Rightarrow> path \<Rightarrow> path \<Rightarrow> string list \<Rightarrow> path list \<times> path list \<Rightarrow> (path list \<times> path list) rpc" where
  "add_write_roots v original_home home [] acc = Ok acc"
| "add_write_roots v original_home home (relative # rs) (writes, logicals) =
     and_then (resolve_path v (join_text home relative)) (\<lambda>w.
     and_then (logical_path (join_text original_home relative)) (\<lambda>l.
       add_write_roots v original_home home rs (writes @ [w], logicals @ [l])))"

definition secret_directories :: "string list" where
  "secret_directories =
     [''.ssh'', ''.gnupg'', ''.aws'', ''.azure'', ''.kube'', ''.docker'', ''.config/gcloud'', ''.config/gh'', ''.netrc'', ''.npmrc'']"

definition work_directories :: "string list" where
  "work_directories =
     [''Code'', ''Workspace'', ''Downloads'', ''Documents'', ''Desktop'', ''Pictures'', ''.cache'', ''.local/state'',
      ''.local/share'', ''.config'']"

definition macos_secrets :: "string list" where
  "macos_secrets =
     [''/private/etc'', ''/private/var/db'', ''/private/var/root'', ''/Library/Keychains'', ''/System/Library/Keychains'', ''/dev'']"

definition macos_secret_directories :: "string list" where
  "macos_secret_directories = [''Library/Keychains'', ''Library/Application Support/com.apple.TCC'']"

definition macos_work_directories :: "string list" where
  "macos_work_directories =
     [''Applications'', ''Library/Caches'', ''Library/Application Support'', ''Library/Preferences'', ''Library/Logs'']"

definition both_homes :: "path \<Rightarrow> path \<Rightarrow> string list \<Rightarrow> path list" where
  "both_homes original_home home rs = concat (map (\<lambda>r. [join_text original_home r, join_text home r]) rs)"

text \<open>The \<open>XDG\<close> directories from the environment that lie below the home directory.\<close>

fun add_xdg_roots :: "file_view \<Rightarrow> path \<Rightarrow> path option list \<Rightarrow> path list \<times> path list \<Rightarrow> (path list \<times> path list) rpc" where
  "add_xdg_roots v home [] acc = Ok acc"
| "add_xdg_roots v home (None # vs) acc = add_xdg_roots v home vs acc"
| "add_xdg_roots v home (Some base # vs) (writes, logicals) =
     (if is_absolute base
      then and_then (resolve_path v base) (\<lambda>base.
             if is_within base home
             then and_then (logical_path base) (\<lambda>l. add_xdg_roots v home vs (writes @ [base], logicals @ [l]))
             else add_xdg_roots v home vs (writes, logicals))
      else add_xdg_roots v home vs (writes, logicals))"

text \<open>\<open>DesktopPathPolicy::new\<close>; \<open>xdg\<close> holds the values of \<open>XDG_CACHE_HOME\<close>, \<open>XDG_STATE_HOME\<close> and \<open>XDG_CONFIG_HOME\<close>.\<close>

definition policy_new :: "file_view \<Rightarrow> platform \<Rightarrow> path option list \<Rightarrow> path \<Rightarrow> desktop_path_policy rpc" where
  "policy_new v plat xdg original_home =
     (case fv_canonicalize v original_home of
        Err e \<Rightarrow> Err (rpc_error_new ''INVALID_ROOT'' (display original_home @ '': '' @ e))
      | Panic \<Rightarrow> Panic
      | Ok home \<Rightarrow>
          and_then (add_read_roots v (both_homes original_home home secret_directories) []) (\<lambda>denied.
          and_then (add_write_roots v original_home home work_directories ([], [])) (\<lambda>writes.
          and_then
            (if plat = MacOS
             then and_then (add_read_roots v (map components macos_secrets @
                              both_homes original_home home macos_secret_directories) denied) (\<lambda>denied.
                  and_then (add_write_roots v original_home home macos_work_directories writes) (\<lambda>writes.
                    Ok (denied, writes)))
             else Ok (denied, writes)) (\<lambda>(denied, writes).
          and_then (add_xdg_roots v home xdg writes) (\<lambda>(writes, logicals).
            Ok \<lparr>read_denied = denied, write_allowed = writes, logical_write_allowed = logicals,
                managed_mappings = []\<rparr>)))))"

definition policy_check :: "desktop_path_policy \<Rightarrow> path \<Rightarrow> path_access \<Rightarrow> unit rpc" where
  "policy_check pol p access =
     (if list_ex (is_within p) (read_denied pol)
      then Err (rpc_error_new ''PATH_READ_DENIED'' (display p @ '' is in a protected system or credential path''))
      else if access = WriteAccess \<and> \<not> list_ex (is_within p) (write_allowed pol)
      then Err (rpc_error_new ''PATH_WRITE_DENIED'' (display p @ '' is outside executor write roots''))
      else Ok ())"

definition overlaps :: "path \<Rightarrow> path \<times> path \<Rightarrow> bool" where
  "overlaps logical m = (is_within logical (fst m) \<or> is_within (fst m) logical)"

fun verify_mappings ::
  "file_view \<Rightarrow> desktop_path_policy \<Rightarrow> (path \<times> path) list \<Rightarrow> (path \<times> path) list \<Rightarrow> (path \<times> path) list rpc" where
  "verify_mappings v pol verified [] = Ok verified"
| "verify_mappings v pol verified ((logical, physical) # ms) =
     and_then (logical_path logical) (\<lambda>logical.
     and_then (resolve_path v physical) (\<lambda>physical.
     and_then (policy_check pol logical ReadAccess) (\<lambda>_.
     and_then (policy_check pol physical ReadAccess) (\<lambda>_.
     let invalid = Err (rpc_error_new ''INVALID_ROOT'' ''invalid or overlapping managed path mapping'')
     in if \<not> list_ex (is_within logical) (logical_write_allowed pol) \<or> \<not> fv_is_dir v logical \<or> \<not> fv_is_dir v physical
        then invalid
        else and_then (resolve_path v logical) (\<lambda>resolved.
          if \<not> same_path resolved physical \<or> list_ex (overlaps logical) verified
          then invalid
          else verify_mappings v pol (verified @ [(logical, physical)]) ms)))))"

definition register_mappings ::
  "file_view \<Rightarrow> (path \<times> path) list \<Rightarrow> desktop_path_policy \<Rightarrow> desktop_path_policy \<times> unit rpc" where
  "register_mappings v ms pol =
     (case verify_mappings v pol [] ms of
        Ok verified \<Rightarrow> (pol\<lparr>managed_mappings := verified\<rparr>, Ok ())
      | Err e \<Rightarrow> (pol, Err e)
      | Panic \<Rightarrow> (pol, Panic))"

text \<open>The loop of \<open>check_resolved\<close> over the mappings: \<open>Some ()\<close> when a mapping admits the write.\<close>

fun mapping_loop :: "file_view \<Rightarrow> path \<Rightarrow> path \<Rightarrow> (path \<times> path) list \<Rightarrow> unit option rpc" where
  "mapping_loop v logical resolved [] = Ok None"
| "mapping_loop v logical resolved ((base, target) # ms) =
     and_then (logical_path target) (\<lambda>physical_root.
     case (if is_within logical base then Some base
           else if is_within logical physical_root then Some physical_root else None) of
       None \<Rightarrow> mapping_loop v logical resolved ms
     | Some matched_root \<Rightarrow>
         let expected = target @ drop (length matched_root) logical;
             changed = Err (rpc_error_new ''PATH_WRITE_DENIED''
                         ''managed mapping changed or contains an unregistered redirect'')
         in and_then (resolve_path v base) (\<lambda>current.
              if \<not> same_path current target \<or> \<not> same_path resolved expected then changed else Ok (Some ())))"

definition check_resolved ::
  "file_view \<Rightarrow> desktop_path_policy \<Rightarrow> path \<Rightarrow> path \<Rightarrow> path_access \<Rightarrow> unit rpc" where
  "check_resolved v pol logical resolved access =
     and_then (policy_check pol logical ReadAccess) (\<lambda>_.
     and_then (policy_check pol resolved ReadAccess) (\<lambda>_.
     and_then (logical_path logical) (\<lambda>logical.
     and_then (policy_check pol logical ReadAccess) (\<lambda>_.
     and_then (if access = WriteAccess then mapping_loop v logical resolved (managed_mappings pol) else Ok None)
       (\<lambda>mapped. case mapped of Some _ \<Rightarrow> Ok () | None \<Rightarrow> policy_check pol resolved access)))))"

section \<open>Paths of a request\<close>

record executor_paths =
  allowed_roots :: "path list"
  desktop_policy :: "desktop_path_policy option"

definition io_failure :: "string \<Rightarrow> path \<Rightarrow> string \<Rightarrow> rpc_error" where
  "io_failure cd p e = rpc_error_new cd (display p @ '': '' @ e)"

text \<open>\<open>checked_path\<close> after it has read the parameter; \<open>write_path(&json!({"path": p}), "path", _)\<close> checks a path the
  executor has made itself, which JSON carries as its text.\<close>

definition checked_of :: "file_view \<Rightarrow> executor_paths \<Rightarrow> path \<Rightarrow> bool \<Rightarrow> path_access \<Rightarrow> path rpc" where
  "checked_of v ex p must_exist access =
     and_then (case desktop_policy ex of Some pol \<Rightarrow> policy_check pol p ReadAccess | None \<Rightarrow> Ok ()) (\<lambda>_.
     and_then (if desktop_policy ex \<noteq> None then logical_path p else Ok p) (\<lambda>p.
     if must_exist \<and> \<not> fv_exists v p then Err (io_failure ''PATH_INVALID'' p ''entity not found'')
     else and_then (resolve_path v p) (\<lambda>checked.
       case desktop_policy ex of
         Some pol \<Rightarrow> and_then (check_resolved v pol p checked access) (\<lambda>_. Ok checked)
       | None \<Rightarrow>
           if \<not> list_ex (starts_with checked) (allowed_roots ex)
           then Err (rpc_error_new ''PATH_OUTSIDE_ALLOWED_ROOTS'' (display checked @ '' is outside executor roots''))
           else Ok checked)))"

definition checked_path ::
  "file_view \<Rightarrow> executor_paths \<Rightarrow> json \<Rightarrow> string \<Rightarrow> bool \<Rightarrow> path_access \<Rightarrow> path rpc" where
  "checked_path v ex params key must_exist access =
     and_then (ok_or (Option.bind (jget params key) as_str)
                (rpc_error_new ''INVALID_PARAMS'' (key @ '' is required'')))
       (\<lambda>raw. checked_of v ex (components raw) must_exist access)"

definition read_param :: "file_view \<Rightarrow> executor_paths \<Rightarrow> json \<Rightarrow> string \<Rightarrow> bool \<Rightarrow> path rpc" where
  "read_param v ex params key must_exist = checked_path v ex params key must_exist ReadAccess"

definition write_path :: "file_view \<Rightarrow> executor_paths \<Rightarrow> json \<Rightarrow> string \<Rightarrow> bool \<Rightarrow> path rpc" where
  "write_path v ex params key must_exist = checked_path v ex params key must_exist WriteAccess"

definition write_path_of :: "file_view \<Rightarrow> executor_paths \<Rightarrow> path \<Rightarrow> bool \<Rightarrow> path rpc" where
  "write_path_of v ex p must_exist = checked_of v ex p must_exist WriteAccess"

definition read_path_of :: "file_view \<Rightarrow> executor_paths \<Rightarrow> path \<Rightarrow> bool \<Rightarrow> path rpc" where
  "read_path_of v ex p must_exist = checked_of v ex p must_exist ReadAccess"

definition atomic_temporary_path :: "file_view \<Rightarrow> executor_paths \<Rightarrow> nat \<Rightarrow> json \<Rightarrow> path \<Rightarrow> path rpc" where
  "atomic_temporary_path v ex pid params destination =
     and_then (required_str params ''path'') (\<lambda>raw.
     and_then (write_path_of v ex (with_extension (components raw) (''fabric.'' @ show_nat pid @ ''.tmp'')) False) (\<lambda>temporary.
       if parent temporary \<noteq> parent destination
       then Err (rpc_error_new ''PATH_WRITE_DENIED'' ''atomic temporary directory differs from checked destination'')
       else Ok temporary))"

definition read_path_denied :: "file_view \<Rightarrow> executor_paths \<Rightarrow> path \<Rightarrow> bool rpc" where
  "read_path_denied v ex p =
     (case desktop_policy ex of
        None \<Rightarrow> Ok False
      | Some pol \<Rightarrow>
          if \<not> is_ok (policy_check pol p ReadAccess) then Ok True
          else and_then (resolve_path v p) (\<lambda>checked. Ok (\<not> is_ok (policy_check pol checked ReadAccess))))"

definition application_path :: "file_view \<Rightarrow> platform \<Rightarrow> executor_paths \<Rightarrow> json \<Rightarrow> string \<Rightarrow> path rpc" where
  "application_path v plat ex params key =
     and_then (required_str params key) (\<lambda>raw.
     and_then (case desktop_policy ex of Some pol \<Rightarrow> policy_check pol (components raw) ReadAccess | None \<Rightarrow> Ok ()) (\<lambda>_.
     case fv_canonicalize v (components raw) of
       Err e \<Rightarrow> Err (io_failure ''PATH_INVALID'' (components raw) e)
     | Panic \<Rightarrow> Panic
     | Ok checked \<Rightarrow>
         (case desktop_policy ex of
            Some pol \<Rightarrow> and_then (policy_check pol checked ReadAccess) (\<lambda>_. Ok checked)
          | None \<Rightarrow>
              let managed = list_ex (starts_with checked) (allowed_roots ex);
                  system_application = plat = MacOS \<and> starts_with checked (components ''/Applications'') \<and>
                    Option.bind (file_name checked) extension = Some ''app''
              in if \<not> managed \<and> \<not> system_application
                 then Err (rpc_error_new ''PATH_OUTSIDE_APPLICATION_ROOTS''
                        (display checked @ '' is outside managed roots and /Applications''))
                 else Ok checked)))"

section \<open>Logical paths\<close>

text \<open>The names left after each \<open>..\<close> has removed the name before it.\<close>

fun lexical :: "string list \<Rightarrow> path \<Rightarrow> string list option" where
  "lexical ns [] = Some ns"
| "lexical ns (Normal n # cs) = lexical (ns @ [n]) cs"
| "lexical ns (ParentDir # cs) = (if ns = [] then None else lexical (butlast ns) cs)"
| "lexical ns (CurDir # cs) = lexical ns cs"
| "lexical ns (RootDir # cs) = lexical [] cs"

definition normals :: "path \<Rightarrow> nat" where
  "normals p = length (filter (\<lambda>c. case c of Normal _ \<Rightarrow> True | _ \<Rightarrow> False) p)"

definition parents :: "path \<Rightarrow> nat" where
  "parents p = length (filter (\<lambda>c. c = ParentDir) p)"

lemma path_invalid_simps [simp]: "path_invalid r \<noteq> Ok a" "path_invalid r \<noteq> Panic"
  by (simp_all add: path_invalid_def)

lemma logical_loop_lexical:
  "logical_loop (rooted ns) cs =
     (case lexical ns cs of Some ms \<Rightarrow> Ok (rooted ms) | None \<Rightarrow> path_invalid ''path escapes its filesystem root'')"
proof (induction ns cs rule: lexical.induct)
  case (2 ns n cs)
  then show ?case by (simp add: rooted_append [of ns "[n]", simplified])
next
  case (5 ns cs)
  then show ?case by (simp add: rooted_def)
qed auto

lemma logical_path_lexical:
  "logical_path (RootDir # cs) =
     (case lexical [] cs of Some ms \<Rightarrow> Ok (rooted ms) | None \<Rightarrow> path_invalid ''path escapes its filesystem root'')"
  using logical_loop_lexical [of "[]" cs] by (simp add: logical_path_def is_absolute_def rooted_def)

lemma logical_path_rooted [simp]: "logical_path (rooted ns) = Ok (rooted ns)"
proof -
  have "lexical ms (map Normal ns) = Some (ms @ ns)" for ms by (induction ns arbitrary: ms) auto
  then show ?thesis using logical_path_lexical [of "map Normal ns"] by (simp add: rooted_def)
qed

lemma logical_path_relative: "\<not> is_absolute p \<Longrightarrow> logical_path p = path_invalid ''path must be absolute''"
  by (simp add: logical_path_def)

lemma logical_path_cases:
  obtains (relative) "\<not> is_absolute p" "logical_path p = path_invalid ''path must be absolute''"
  | (escapes) cs where "p = RootDir # cs" "lexical [] cs = None"
      "logical_path p = path_invalid ''path escapes its filesystem root''"
  | (normal) cs ns where "p = RootDir # cs" "lexical [] cs = Some ns" "logical_path p = Ok (rooted ns)"
proof (cases "is_absolute p")
  case True
  then obtain cs where "p = RootDir # cs" by (auto simp: is_absolute_iff)
  then show thesis by (cases "lexical [] cs") (auto simp: logical_path_lexical intro: escapes normal)
qed (auto simp: logical_path_relative intro: relative)

lemma logical_path_not_Panic: "logical_path p \<noteq> Panic"
  by (cases p rule: logical_path_cases) (simp_all add: path_invalid_def)

lemma logical_path_Ok:
  assumes "logical_path p = Ok q"
  obtains cs ns where "p = RootDir # cs" "lexical [] cs = Some ns" "q = rooted ns"
  using assms by (cases p rule: logical_path_cases) (simp_all add: path_invalid_def)

lemma all_le_Suc: "(\<forall>k \<le> Suc m. P k) \<longleftrightarrow> P 0 \<and> (\<forall>k \<le> m. P (Suc k))"
  using All_less_Suc2 [of "Suc m" P] by (simp add: less_Suc_eq_le)

lemma counts [simp]:
  "normals [] = 0" "parents [] = 0"
  "normals (Normal n # cs) = Suc (normals cs)" "parents (Normal n # cs) = parents cs"
  "normals (ParentDir # cs) = normals cs" "parents (ParentDir # cs) = Suc (parents cs)"
  "normals (CurDir # cs) = normals cs" "parents (CurDir # cs) = parents cs"
  by (simp_all add: normals_def parents_def)

lemma lexical_Some_iff:
  assumes "RootDir \<notin> set cs"
  shows "lexical ns cs \<noteq> None \<longleftrightarrow> (\<forall>k \<le> length cs. parents (take k cs) \<le> length ns + normals (take k cs))"
  using assms
proof (induction ns cs rule: lexical.induct)
  case (3 ns cs)
  then show ?case by (cases ns rule: rev_cases) (auto simp: all_le_Suc)
qed (simp_all add: all_le_Suc)

lemma components_root_first: "RootDir \<notin> set (tl (components text))"
proof -
  have body: "RootDir \<notin> set (concat (map piece ss))" for ss by (induction ss) (auto simp: piece_def)
  have tail: "RootDir \<notin> set xs \<Longrightarrow> RootDir \<notin> set (tl xs)" for xs :: path by (cases xs) auto
  have "RootDir \<notin> set (tl (piece s @ concat (map piece ss)))" for s ss
    using body [of "s # ss"] by (intro tail) simp
  then show ?thesis using body by (auto simp: components_def split: list.splits)
qed

lemma lexical_components:
  assumes "components text = RootDir # cs"
  shows "lexical [] cs \<noteq> None \<longleftrightarrow> (\<forall>k. parents (take k (components text)) \<le> normals (take k (components text)))"
proof -
  have root [simp]: "parents (RootDir # xs) = parents xs" "normals (RootDir # xs) = normals xs" for xs
    by (simp_all add: parents_def normals_def)
  have "(\<forall>k. parents (take k (components text)) \<le> normals (take k (components text)))
      \<longleftrightarrow> (\<forall>k. parents (take k cs) \<le> normals (take k cs))"
    unfolding assms by (metis root take0 take_Suc_Cons counts(1,2) order_refl not0_implies_Suc)
  also have "\<dots> \<longleftrightarrow> (\<forall>k \<le> length cs. parents (take k cs) \<le> normals (take k cs))"
    by (metis le_cases take_all take_all_iff order_refl)
  finally show ?thesis
    using lexical_Some_iff [of cs "[]"] components_root_first [of "text"] by (simp add: assms)
qed

text \<open>\<open>logical_path\<close> rejects exactly the texts that are not absolute or in which some \<open>..\<close> has no name before
  it to remove; the path it returns consists of names only, and applying it again changes nothing.\<close>

theorem logical_path_normalizes:
  "case logical_path (components text) of
     Ok q \<Rightarrow> is_rooted q \<and> logical_path q = Ok q \<and> is_absolute (components text) \<and>
       (\<forall>k. parents (take k (components text)) \<le> normals (take k (components text)))
   | Err e \<Rightarrow> (if is_absolute (components text)
       then \<exists>k. normals (take k (components text)) < parents (take k (components text)) else True)
   | Panic \<Rightarrow> False"
proof (cases "components text" rule: logical_path_cases)
  case relative
  then show ?thesis by (simp add: path_invalid_def)
next
  case (escapes cs)
  then show ?thesis using lexical_components [OF escapes(1)] by (auto simp: path_invalid_def not_le [symmetric])
next
  case (normal cs ns)
  then show ?thesis
    using lexical_components [OF normal(1)] by (auto simp: is_rooted_iff is_absolute_iff)
qed

section \<open>Confinement\<close>

definition denied :: "desktop_path_policy \<Rightarrow> path \<Rightarrow> bool" where
  "denied pol p = list_ex (is_within p) (read_denied pol)"

lemma policy_check_Ok [simp]:
  "policy_check pol p access = Ok u \<longleftrightarrow>
     \<not> denied pol p \<and> (access = WriteAccess \<longrightarrow> list_ex (is_within p) (write_allowed pol))"
  by (auto simp: policy_check_def denied_def)

text \<open>The write goes through a mapping: the requested path and the resolved one lie at the same place
  below the two sides of the mapping, and the logical side still leads to the physical one.\<close>

definition through_mapping :: "file_view \<Rightarrow> path \<Rightarrow> path \<Rightarrow> path \<times> path \<Rightarrow> bool" where
  "through_mapping v logical resolved m \<longleftrightarrow>
     (\<exists>rest. (logical = fst m @ rest \<or> (\<exists>t. logical_path (snd m) = Ok t \<and> logical = t @ rest)) \<and>
        same_path resolved (snd m @ rest)) \<and>
     (\<exists>current. resolve_path v (fst m) = Ok current \<and> same_path current (snd m))"

lemma mapping_loop_Some:
  "mapping_loop v logical resolved ms = Ok (Some u) \<Longrightarrow> \<exists>m \<in> set ms. through_mapping v logical resolved m"
proof (induction v logical resolved ms rule: mapping_loop.induct)
  case (2 v logical resolved base target ms)
  obtain t where t: "logical_path target = Ok t" using 2(2) by (auto simp: and_then_Ok_iff)
  have through: "through_mapping v logical resolved (base, target)"
    if "is_within logical r" "r = base \<or> r = t" "resolve_path v base = Ok current" "same_path current target"
      "same_path resolved (target @ drop (length r) logical)" for r current
    using that t by (auto simp: through_mapping_def is_within_def starts_with_iff)
  show ?case
  proof (cases "is_within logical base \<or> is_within logical t")
    case True
    then show ?thesis
      using 2(2) t through by (auto simp: and_then_Ok_iff Let_def split: if_splits)
  next
    case False
    then show ?thesis using 2(2) 2(1) [of t] t by auto
  qed
qed simp

lemma check_resolved_Ok:
  assumes "check_resolved v pol logical resolved access = Ok ()" "logical_path logical = Ok l"
  shows "\<not> denied pol logical" "\<not> denied pol resolved" "\<not> denied pol l"
    "access = WriteAccess \<Longrightarrow>
       list_ex (is_within resolved) (write_allowed pol) \<or> (\<exists>m \<in> set (managed_mappings pol). through_mapping v l resolved m)"
  using assms mapping_loop_Some [of v l resolved "managed_mappings pol"]
  by (auto simp: check_resolved_def and_then_Ok_iff split: option.splits)

text \<open>What a checked path satisfies, in terms of the path of the request.\<close>

definition confined :: "file_view \<Rightarrow> executor_paths \<Rightarrow> path_access \<Rightarrow> path \<Rightarrow> path \<Rightarrow> bool" where
  "confined v ex access p q \<longleftrightarrow>
     (case desktop_policy ex of
        None \<Rightarrow> \<exists>base \<in> set (allowed_roots ex). starts_with q base
      | Some pol \<Rightarrow> \<exists>logical. logical_path p = Ok logical \<and> resolve_path v logical = Ok q \<and>
          \<not> denied pol p \<and> \<not> denied pol logical \<and> \<not> denied pol q \<and>
          (access = WriteAccess \<longrightarrow> (\<exists>base \<in> set (write_allowed pol). is_within q base) \<or>
             (\<exists>m \<in> set (managed_mappings pol). through_mapping v logical q m)))"

lemma checked_of_confined:
  assumes "checked_of v ex p must_exist access = Ok q"
  shows "confined v ex access p q"
proof (cases "desktop_policy ex")
  case None
  then show ?thesis
    using assms by (auto simp: confined_def checked_of_def and_then_Ok_iff list_ex_iff split: if_splits)
next
  case (Some pol)
  obtain logical where l: "logical_path p = Ok logical" "resolve_path v logical = Ok q"
    "\<not> denied pol p" "check_resolved v pol logical q access = Ok ()"
    using assms Some by (auto simp: checked_of_def and_then_Ok_iff split: if_splits)
  have "logical_path logical = Ok logical" using l(1) by (auto elim: logical_path_Ok)
  then show ?thesis
    using check_resolved_Ok [OF l(4)] l Some by (auto simp: confined_def list_ex_iff)
qed


section \<open>Names of checked paths\<close>

lemma file_name_append [simp]: "file_name (p @ [Normal n]) = Some n"
  by (simp add: file_name_def)

lemma file_name_Some: "file_name p = Some n \<longleftrightarrow> (\<exists>q. p = q @ [Normal n])"
  by (cases p rule: rev_cases) (auto simp: file_name_def split: component.splits)

lemma logical_file_name:
  assumes "logical_path p = Ok q" "file_name p = Some n"
  shows "file_name q = Some n"
proof -
  obtain cs ns where p: "p = RootDir # cs" "lexical [] cs = Some ns" "q = rooted ns"
    using assms(1) by (rule logical_path_Ok)
  obtain cs' where cs: "cs = cs' @ [Normal n]"
    using assms(2) p(1) by (auto simp: file_name_Some Cons_eq_append_conv)
  have "lexical ms (cs' @ [Normal n]) = map_option (\<lambda>ks. ks @ [n]) (lexical ms cs')" for ms
    by (induction ms cs' rule: lexical.induct) auto
  then show ?thesis using p cs by auto
qed

lemma missing_loop_names:
  "missing_loop v p missing = Ok (q, names) \<Longrightarrow> \<exists>more. names = missing @ more"
proof (induction v p missing rule: missing_loop.induct)
  case (1 v p missing)
  then show ?case
    by (subst (asm) missing_loop.simps) (fastforce simp: path_invalid_def split: if_splits option.splits)
qed

text \<open>A path that does not exist keeps its last name.\<close>

lemma resolve_missing:
  assumes "resolve_path v p = Ok q" "\<not> fv_exists v p" "file_name p = Some n"
  shows "file_name q = Some n"
proof -
  obtain ancestor names where m: "missing_loop v p [] = Ok (ancestor, names)"
    and q: "(case fv_canonicalize v ancestor of Ok q \<Rightarrow> Ok (q @ map Normal (rev names))
       | Err e \<Rightarrow> path_invalid (display p @ '': '' @ e) | Panic \<Rightarrow> Panic) = Ok q"
    using assms(1,2) by (auto simp: resolve_path_def path_invalid_def and_then_Ok_iff split: if_splits)
  obtain c where c: "q = c @ map Normal (rev names)"
    using q by (cases "fv_canonicalize v ancestor") (auto simp: path_invalid_def)
  have "\<exists>more. names = [n] @ more"
    using m assms(2,3)
    by (subst (asm) missing_loop.simps)
      (auto simp: path_invalid_def dest!: missing_loop_names split: if_splits option.splits)
  then show ?thesis using c by (auto simp: file_name_def)
qed

end
