(* ===== verification/Posix_Files.thy ===== *)
theory Posix_Files
  imports Path_Policy
begin

text \<open>
  The file system behind \<open>std::fs\<close> on Unix: a tree of folders, files with their access mode and
  symbolic links. \<open>walk\<close> is path resolution, which follows links (at most 40, as on Linux); the
  operations are the calls the program makes. Whether the system carries a call out is an
  observation \<open>io\<close>: a call that would succeed may still fail (a full disk, a permission), and
  \<open>kept\<close> says how much of its work a failed call leaves behind.
\<close>

datatype node = Folder "(string \<times> node) list" | File u32 string | Link path

datatype io_kind = NotFound | AlreadyExists | OtherKind

datatype os_error = OsError (kind: io_kind) (reason: string)

type_synonym 'a os = "(os_error, 'a) outcome"

datatype io = Works | Fails (why: os_error) (kept: nat)

definition no_entry :: os_error where
  "no_entry = OsError NotFound ''No such file or directory (os error 2)''"

definition file_exists :: os_error where
  "file_exists = OsError AlreadyExists ''File exists (os error 17)''"

definition not_a_directory :: os_error where
  "not_a_directory = OsError OtherKind ''Not a directory (os error 20)''"

definition is_a_directory :: os_error where
  "is_a_directory = OsError OtherKind ''Is a directory (os error 21)''"

definition invalid_argument :: os_error where
  "invalid_argument = OsError OtherKind ''Invalid argument (os error 22)''"

definition not_empty :: os_error where
  "not_empty = OsError OtherKind ''Directory not empty (os error 39)''"

definition too_many_links :: os_error where
  "too_many_links = OsError OtherKind ''Too many levels of symbolic links (os error 40)''"

section \<open>The tree\<close>

fun lookup :: "node \<Rightarrow> string list \<Rightarrow> node option" where
  "lookup t [] = Some t"
| "lookup (Folder es) (n # ns) = (case bt_get es n of Some c \<Rightarrow> lookup c ns | None \<Rightarrow> None)"
| "lookup (File m x) (n # ns) = None"
| "lookup (Link p) (n # ns) = None"

text \<open>Puts an entry at a place, or removes it (\<open>None\<close>); a place whose folder is missing is left alone.\<close>

fun place :: "string list \<Rightarrow> node option \<Rightarrow> node \<Rightarrow> node" where
  "place [] x t = (case x of Some c \<Rightarrow> c | None \<Rightarrow> t)"
| "place [n] x (Folder es) = Folder (case x of Some c \<Rightarrow> bt_insert n c es | None \<Rightarrow> bt_remove n es)"
| "place (n # m # ns) x (Folder es) =
     (case bt_get es n of Some c \<Rightarrow> Folder (bt_insert n (place (m # ns) x c) es) | None \<Rightarrow> Folder es)"
| "place (n # ns) x (File m y) = File m y"
| "place (n # ns) x (Link p) = Link p"

fun is_folder :: "node \<Rightarrow> bool" where
  "is_folder (Folder _) = True"
| "is_folder _ = False"

fun is_file :: "node \<Rightarrow> bool" where
  "is_file (File _ _) = True"
| "is_file _ = False"

fun is_link :: "node \<Rightarrow> bool" where
  "is_link (Link _) = True"
| "is_link _ = False"

section \<open>Path resolution\<close>

text \<open>
  \<open>walk d final links loc p\<close>: the place the path \<open>p\<close> leads to from the folder \<open>loc\<close>; the last name may be
  missing. A link in the last place is followed when \<open>final\<close> is set.
\<close>

function walk :: "node \<Rightarrow> bool \<Rightarrow> nat \<Rightarrow> string list \<Rightarrow> path \<Rightarrow> string list os" where
  "walk d final links loc [] = Ok loc"
| "walk d final links loc (RootDir # cs) = walk d final links [] cs"
| "walk d final links loc (CurDir # cs) = walk d final links loc cs"
| "walk d final links loc (ParentDir # cs) = walk d final links (butlast loc) cs"
| "walk d final links loc (Normal n # cs) =
     (case lookup d (loc @ [n]) of
        None \<Rightarrow> if cs = [] then Ok (loc @ [n]) else Err no_entry
      | Some (Folder es) \<Rightarrow> walk d final links (loc @ [n]) cs
      | Some (File m x) \<Rightarrow> if cs = [] then Ok (loc @ [n]) else Err not_a_directory
      | Some (Link p) \<Rightarrow>
          if cs = [] \<and> \<not> final then Ok (loc @ [n])
          else (case links of 0 \<Rightarrow> Err too_many_links | Suc k \<Rightarrow> walk d final k loc (p @ cs)))"
  by pat_completeness auto
termination by (relation "measures [\<lambda>(d, f, k, loc, p). k, \<lambda>(d, f, k, loc, p). length p]") auto

abbreviation follow :: "node \<Rightarrow> path \<Rightarrow> string list os" where
  "follow d p \<equiv> walk d True 40 [] p"

abbreviation locate :: "node \<Rightarrow> path \<Rightarrow> string list os" where
  "locate d p \<equiv> walk d False 40 [] p"

text \<open>The entry a path leads to, with its place: \<open>fs::metadata\<close>, and \<open>fs::symlink_metadata\<close> with \<open>final\<close> unset.\<close>

definition entry :: "node \<Rightarrow> bool \<Rightarrow> path \<Rightarrow> (string list \<times> node) os" where
  "entry d final p =
     and_then (walk d final 40 [] p) (\<lambda>loc. ok_or (map_option (Pair loc) (lookup d loc)) no_entry)"

abbreviation metadata :: "node \<Rightarrow> path \<Rightarrow> (string list \<times> node) os" where
  "metadata d p \<equiv> entry d True p"

abbreviation symlink_metadata :: "node \<Rightarrow> path \<Rightarrow> (string list \<times> node) os" where
  "symlink_metadata d p \<equiv> entry d False p"

definition path_exists :: "node \<Rightarrow> path \<Rightarrow> bool" where
  "path_exists d p = is_ok (metadata d p)"

definition path_is_dir :: "node \<Rightarrow> path \<Rightarrow> bool" where
  "path_is_dir d p = (case metadata d p of Ok (loc, c) \<Rightarrow> is_folder c | _ \<Rightarrow> False)"

definition canonicalize :: "node \<Rightarrow> path \<Rightarrow> path os" where
  "canonicalize d p = and_then (metadata d p) (\<lambda>(loc, c). Ok (rooted loc))"

definition view :: "node \<Rightarrow> file_view" where
  "view d = \<lparr>fv_exists = path_exists d,
             fv_canonicalize = (\<lambda>p. case canonicalize d p of Ok q \<Rightarrow> Ok q | Err e \<Rightarrow> Err (reason e) | Panic \<Rightarrow> Panic),
             fv_is_dir = path_is_dir d\<rparr>"

section \<open>Calls\<close>

type_synonym 'a fs_call = "node \<Rightarrow> node \<times> 'a os"

text \<open>\<open>fs::create_dir\<close>.\<close>

definition create_dir :: "io \<Rightarrow> path \<Rightarrow> unit fs_call" where
  "create_dir io p d =
     (case locate d p of
        Ok loc \<Rightarrow>
          if lookup d loc \<noteq> None then (d, Err file_exists)
          else (case io of Works \<Rightarrow> (place loc (Some (Folder [])) d, Ok ()) | Fails e _ \<Rightarrow> (d, Err e))
      | Err e \<Rightarrow> (d, Err e)
      | Panic \<Rightarrow> (d, Panic))"

text \<open>\<open>fs::create_dir_all\<close> makes the missing folders from the top; a failure may leave the first \<open>kept\<close> of them.\<close>

fun make_dirs :: "io \<Rightarrow> path \<Rightarrow> path \<Rightarrow> unit fs_call" where
  "make_dirs io done [] d = (d, Ok ())"
| "make_dirs io done (c # cs) d =
     (let p = done @ [c]
      in if path_is_dir d p then make_dirs io p cs d
         else case io of
                Fails e 0 \<Rightarrow> (d, Err e)
              | Fails e (Suc k) \<Rightarrow> sbind (create_dir Works p d) (\<lambda>d _. make_dirs (Fails e k) p cs d)
              | Works \<Rightarrow> sbind (create_dir Works p d) (\<lambda>d _. make_dirs Works p cs d))"

definition create_dir_all :: "io \<Rightarrow> path \<Rightarrow> unit fs_call" where
  "create_dir_all io p d = make_dirs io [] p d"

text \<open>\<open>fs::rename\<close> replaces the target in one step.\<close>

definition rename :: "io \<Rightarrow> path \<Rightarrow> path \<Rightarrow> unit fs_call" where
  "rename io p q d =
     (case (symlink_metadata d p, locate d q) of
        (Ok (a, c), Ok b) \<Rightarrow>
          if b = a then (d, Ok ())
          else if prefix a b \<or> prefix b a then (d, Err (if prefix a b then invalid_argument else not_empty))
          else if (case lookup d b of
                     None \<Rightarrow> False
                   | Some (Folder es) \<Rightarrow> es \<noteq> [] \<or> \<not> is_folder c
                   | Some _ \<Rightarrow> is_folder c)
          then (d, Err (case lookup d b of
                     Some (Folder es) \<Rightarrow> if is_folder c then not_empty else is_a_directory
                   | _ \<Rightarrow> not_a_directory))
          else (case io of Works \<Rightarrow> (place b (Some c) (place a None d), Ok ()) | Fails e _ \<Rightarrow> (d, Err e))
      | (Err e, _) \<Rightarrow> (d, Err e)
      | (Ok _, Err e) \<Rightarrow> (d, Err e)
      | _ \<Rightarrow> (d, Panic))"

text \<open>\<open>fs::hard_link\<close> of a file.\<close>

definition hard_link :: "io \<Rightarrow> path \<Rightarrow> path \<Rightarrow> unit fs_call" where
  "hard_link io p q d =
     (case (symlink_metadata d p, locate d q) of
        (Ok (a, c), Ok b) \<Rightarrow>
          if lookup d b \<noteq> None then (d, Err file_exists)
          else (case io of Works \<Rightarrow> (place b (Some c) d, Ok ()) | Fails e _ \<Rightarrow> (d, Err e))
      | (Err e, _) \<Rightarrow> (d, Err e)
      | (Ok _, Err e) \<Rightarrow> (d, Err e)
      | _ \<Rightarrow> (d, Panic))"

definition remove_file :: "io \<Rightarrow> path \<Rightarrow> unit fs_call" where
  "remove_file io p d =
     (case symlink_metadata d p of
        Ok (a, c) \<Rightarrow>
          if is_folder c then (d, Err is_a_directory)
          else (case io of Works \<Rightarrow> (place a None d, Ok ()) | Fails e _ \<Rightarrow> (d, Err e))
      | Err e \<Rightarrow> (d, Err e)
      | Panic \<Rightarrow> (d, Panic))"

text \<open>\<open>fs::remove_dir\<close>.\<close>

definition remove_dir :: "io \<Rightarrow> path \<Rightarrow> unit fs_call" where
  "remove_dir io p d =
     (case symlink_metadata d p of
        Ok (a, Folder es) \<Rightarrow>
          if es \<noteq> [] then (d, Err not_empty)
          else (case io of Works \<Rightarrow> (place a None d, Ok ()) | Fails e _ \<Rightarrow> (d, Err e))
      | Ok _ \<Rightarrow> (d, Err not_a_directory)
      | Err e \<Rightarrow> (d, Err e)
      | Panic \<Rightarrow> (d, Panic))"

text \<open>\<open>fs::remove_dir_all\<close>: a failure may leave the folder with some of its entries already removed.\<close>

definition remove_dir_all :: "io \<Rightarrow> path \<Rightarrow> unit fs_call" where
  "remove_dir_all io p d =
     (case symlink_metadata d p of
        Ok (a, Folder es) \<Rightarrow>
          (case io of
             Works \<Rightarrow> (place a None d, Ok ())
           | Fails e k \<Rightarrow> (place a (Some (Folder (drop k es))) d, Err e))
      | Ok _ \<Rightarrow> (d, Err not_a_directory)
      | Err e \<Rightarrow> (d, Err e)
      | Panic \<Rightarrow> (d, Panic))"

text \<open>Opening a file with \<open>create_new(true)\<close>: it must not exist, not even as a dangling link.\<close>

definition create_new :: "io \<Rightarrow> u32 \<Rightarrow> path \<Rightarrow> string list fs_call" where
  "create_new io mode p d =
     (case locate d p of
        Ok loc \<Rightarrow>
          if lookup d loc \<noteq> None then (d, Err file_exists)
          else (case io of Works \<Rightarrow> (place loc (Some (File mode [])) d, Ok loc) | Fails e _ \<Rightarrow> (d, Err e))
      | Err e \<Rightarrow> (d, Err e)
      | Panic \<Rightarrow> (d, Panic))"

text \<open>Opening a file with \<open>create(true)\<close>: links are followed, also to a file that does not exist yet.\<close>

definition open_create :: "io \<Rightarrow> u32 \<Rightarrow> path \<Rightarrow> string list fs_call" where
  "open_create io mode p d =
     (case follow d p of
        Ok loc \<Rightarrow>
          (case lookup d loc of
             None \<Rightarrow> (case io of Works \<Rightarrow> (place loc (Some (File mode [])) d, Ok loc) | Fails e _ \<Rightarrow> (d, Err e))
           | Some (File m x) \<Rightarrow> (case io of Works \<Rightarrow> (d, Ok loc) | Fails e _ \<Rightarrow> (d, Err e))
           | Some _ \<Rightarrow> (d, Err is_a_directory))
      | Err e \<Rightarrow> (d, Err e)
      | Panic \<Rightarrow> (d, Panic))"

text \<open>Writing and changing the mode of an open file; a failed \<open>write_all\<close> may leave a part of the content.\<close>

definition set_mode :: "io \<Rightarrow> u32 \<Rightarrow> string list \<Rightarrow> unit fs_call" where
  "set_mode io mode loc d =
     (case (io, lookup d loc) of
        (Works, Some (File m x)) \<Rightarrow> (place loc (Some (File mode x)) d, Ok ())
      | (Works, _) \<Rightarrow> (d, Ok ())
      | (Fails e _, _) \<Rightarrow> (d, Err e))"

definition write_all :: "io \<Rightarrow> string \<Rightarrow> string list \<Rightarrow> unit fs_call" where
  "write_all io content loc d =
     (case lookup d loc of
        Some (File m x) \<Rightarrow>
          (case io of
             Works \<Rightarrow> (place loc (Some (File m (x @ content))) d, Ok ())
           | Fails e k \<Rightarrow> (place loc (Some (File m (x @ take k content))) d, Err e))
      | _ \<Rightarrow> (d, Err no_entry))"

definition read_file :: "io \<Rightarrow> path \<Rightarrow> node \<Rightarrow> string os" where
  "read_file io p d =
     (case (io, metadata d p) of
        (Works, Ok (loc, File m x)) \<Rightarrow> Ok x
      | (Fails e _, Ok _) \<Rightarrow> Err e
      | (_, Ok _) \<Rightarrow> Err is_a_directory
      | (_, Err e) \<Rightarrow> Err e
      | _ \<Rightarrow> Panic)"

definition symlink :: "io \<Rightarrow> path \<Rightarrow> path \<Rightarrow> unit fs_call" where
  "symlink io target p d =
     (case locate d p of
        Ok loc \<Rightarrow>
          if lookup d loc \<noteq> None then (d, Err file_exists)
          else (case io of Works \<Rightarrow> (place loc (Some (Link target)) d, Ok ()) | Fails e _ \<Rightarrow> (d, Err e))
      | Err e \<Rightarrow> (d, Err e)
      | Panic \<Rightarrow> (d, Panic))"

definition read_link :: "path \<Rightarrow> node \<Rightarrow> path os" where
  "read_link p d =
     and_then (symlink_metadata d p) (\<lambda>(loc, c). case c of Link t \<Rightarrow> Ok t | _ \<Rightarrow> Err invalid_argument)"

section \<open>Laws of the tree\<close>

named_theorems tree_simps \<open>lookups after changes of the tree\<close>

fun wf_node :: "node \<Rightarrow> bool" where
  "wf_node (Folder es) \<longleftrightarrow> bt_wf es \<and> list_all (\<lambda>(n, c). wf_node c) es"
| "wf_node (File m x) \<longleftrightarrow> True"
| "wf_node (Link p) \<longleftrightarrow> True"

definition has_folder :: "node \<Rightarrow> string list \<Rightarrow> bool" where
  "has_folder d loc = (case lookup d loc of Some c \<Rightarrow> is_folder c | None \<Rightarrow> False)"

lemma is_folder_iff: "is_folder c \<longleftrightarrow> (\<exists>es. c = Folder es)"
  by (cases c) auto

lemma has_folder_iff: "has_folder d loc \<longleftrightarrow> (\<exists>es. lookup d loc = Some (Folder es))"
  by (auto simp: has_folder_def is_folder_iff split: option.splits)

lemma lookup_append: "lookup d (a @ b) = Option.bind (lookup d a) (\<lambda>c. lookup c b)"
  by (induction d a rule: lookup.induct) (auto split: option.splits)

lemma lookup_non_folder: "\<not> is_folder c \<Longrightarrow> lookup c ns = (if ns = [] then Some c else None)"
  by (cases c; cases ns) auto

lemma has_folder_prefix: "lookup d (a @ n # b) \<noteq> None \<Longrightarrow> has_folder d a"
  by (cases "lookup d a")
    (auto simp: lookup_append has_folder_def lookup_non_folder split: if_splits, metis lookup_non_folder list.distinct(1) option.distinct(1))

lemma lookup_place [tree_simps]:
  "loc \<noteq> [] \<Longrightarrow> has_folder d (butlast loc) \<Longrightarrow> lookup (place loc (Some c) d) (loc @ r) = lookup c r"
proof (induction loc "Some c" d rule: place.induct)
  case (3 n m ns es)
  then show ?case
    by (cases "bt_get es n") (auto simp: bt_get_insert has_folder_def split: if_splits)
qed (auto simp: bt_get_insert has_folder_def split: if_splits)

lemmas lookup_place_same [tree_simps] = lookup_place [where r = "[]", simplified]

lemma lookup_place_other [tree_simps]:
  "wf_node d \<Longrightarrow> loc \<parallel> q \<Longrightarrow> lookup (place loc x d) q = lookup d q"
proof (induction loc x d arbitrary: q rule: place.induct)
  case (2 n x es)
  then show ?case by (cases q; cases x) (auto simp: bt_simps)
next
  case (3 n m ns x es)
  show ?case
  proof (cases q)
    case (Cons a q')
    show ?thesis
    proof (cases "a = n")
      case True
      have "m # ns \<parallel> q'" using 3(3) Cons True by (auto simp: parallel_def)
      moreover have "wf_node c" if "bt_get es n = Some c" for c
        using 3(2) that by (auto simp: list_all_iff bt_get_in [symmetric])
      ultimately show ?thesis using 3(1) Cons True by (auto simp: bt_get_insert split: option.splits)
    qed (use Cons in \<open>auto simp: bt_get_insert split: option.splits\<close>)
  qed (use 3 in auto)
qed auto

lemma wf_child: "wf_node (Folder es) \<Longrightarrow> bt_get es n = Some c \<Longrightarrow> wf_node c"
  by (auto simp: list_all_iff bt_get_in [symmetric])

lemma wf_lookup: "wf_node d \<Longrightarrow> lookup d loc = Some c \<Longrightarrow> wf_node c"
  by (induction d loc rule: lookup.induct) (auto split: option.splits dest: wf_child simp del: wf_node.simps)

lemma wf_place:
  assumes "wf_node d" "\<And>c. x = Some c \<Longrightarrow> wf_node c"
  shows "wf_node (place loc x d)"
  using assms
proof (induction loc x d rule: place.induct)
  case (2 n x es)
  have keep: "list_all (\<lambda>(k, c). wf_node c) m" if "bt_wf m" "\<And>k c. bt_get m k = Some c \<Longrightarrow> wf_node c" for m
    using that by (auto simp: list_all_iff bt_get_in)
  have child: "\<And>k c. bt_get es k = Some c \<Longrightarrow> wf_node c" using 2(1) wf_child by blast
  have "bt_wf es" using 2(1) by simp
  then show ?case
    using 2(2) child by (cases x) (auto simp: bt_simps intro!: keep split: if_splits)
next
  case (3 n m ns x es)
  have wf: "bt_wf es" using 3(2) by simp
  have child: "\<And>k c. bt_get es k = Some c \<Longrightarrow> wf_node c" using 3(2) wf_child by blast
  show ?case
  proof (cases "bt_get es n")
    case (Some c)
    have "wf_node (place (m # ns) x c)" using 3(1) [OF Some] child [OF Some] 3(3) by blast
    then have "wf_node v" if "bt_get (bt_insert n (place (m # ns) x c) es) k = Some v" for k v
      using that child by (auto simp: bt_get_insert split: if_splits)
    then show ?thesis
      using Some bt_wf_insert [OF wf] by (auto simp: list_all_iff bt_get_in)
  qed (use 3 in auto)
qed (auto split: option.splits)

end
