(* ===== verification/File_Actions.thy ===== *)
theory File_Actions
  imports Posix_Files
begin

text \<open>
  The file actions of the executor (\<open>fs.*\<close> and \<open>filesystem.*\<close> in \<open>ExecutorRuntime::dispatch\<close>, with
  \<open>write_atomic_payload\<close>, \<open>digest_file\<close>, \<open>digest_tree\<close>, \<open>ensure_tree_readable\<close> and
  \<open>search_tree\<close>), each a function on the file system. SHA-256, the decoding of UTF-8, generated
  ids and the clock are fields of \<open>file_env\<close>; \<open>fe_io k\<close> is the outcome of the \<open>k\<close>-th call.
\<close>

record file_env =
  fe_paths :: executor_paths
  fe_io :: "nat \<Rightarrow> io"
  fe_read :: "nat \<Rightarrow> rpc_error option"
  fe_sha :: "string \<Rightarrow> string"
  fe_lossy :: "string \<Rightarrow> string"
  fe_utf8 :: "string \<Rightarrow> bool"
  fe_pid :: nat
  fe_uuid :: "nat \<Rightarrow> string"
  fe_now :: u64
  fe_umask :: u32
  fe_dir_mode :: u32

type_synonym 'a disk_step = "node \<Rightarrow> node \<times> 'a rpc"

text \<open>\<open>.map_err(|error| io_error(code, path, error))\<close>.\<close>

definition io_as :: "string \<Rightarrow> path \<Rightarrow> node \<times> 'a os \<Rightarrow> node \<times> 'a rpc" where
  "io_as cd p r = (fst r, case snd r of Ok a \<Rightarrow> Ok a | Err e \<Rightarrow> Err (io_failure cd p (reason e)) | Panic \<Rightarrow> Panic)"

definition invalid_params :: "string \<Rightarrow> rpc_error" where
  "invalid_params m = rpc_error_new ''INVALID_PARAMS'' m"

definition jpath :: "path \<Rightarrow> json" where
  "jpath p = JStr (display p)"

section \<open>Digests\<close>

definition digest_file :: "file_env \<Rightarrow> nat \<Rightarrow> path \<Rightarrow> node \<Rightarrow> string rpc" where
  "digest_file n k p d =
     (case read_file (fe_io n k) p d of
        Ok bytes \<Rightarrow> Ok (fe_sha n bytes)
      | Err e \<Rightarrow> Err (io_failure ''FS_READ_FAILED'' p (reason e))
      | Panic \<Rightarrow> Panic)"

text \<open>The entries below a folder that are not folders, with their paths relative to it.\<close>

fun collect :: "string list \<Rightarrow> node \<Rightarrow> (string list \<times> node) list" where
  "collect at_path (Folder es) = concat (map (\<lambda>(n, c). collect (at_path @ [n]) c) es)"
| "collect at_path c = [(at_path, c)]"

definition relative_text :: "string list \<Rightarrow> string" where
  "relative_text ns = display (map Normal ns)"

definition sorted_entries :: "node \<Rightarrow> (string \<times> node) list" where
  "sorted_entries c = sort_key fst (map (\<lambda>(ns, x). (relative_text ns, x)) (collect [] c))"

fun entry_bytes :: "string \<times> node \<Rightarrow> string" where
  "entry_bytes (t, Link p) = t @ [CHR 0x00] @ display p @ [CHR 0x00]"
| "entry_bytes (t, File m x) = t @ [CHR 0x00] @ x @ [CHR 0x00]"
| "entry_bytes (t, Folder es) = t @ [CHR 0x00] @ [CHR 0x00]"

fun entry_size :: "string \<times> node \<Rightarrow> u64" where
  "entry_size (t, File m x) = of_nat (length x)"
| "entry_size _ = 0"

definition digest_tree :: "file_env \<Rightarrow> nat \<Rightarrow> path \<Rightarrow> node \<Rightarrow> (string \<times> u64 \<times> u64) rpc" where
  "digest_tree n k p d =
     (case (fe_read n k, metadata d p) of
        (Some e, _) \<Rightarrow> Err e
      | (None, Ok (loc, Folder es)) \<Rightarrow>
          let entries = sorted_entries (Folder es)
          in Ok (fe_sha n (concat (map entry_bytes entries)),
                 fold (\<lambda>x total. sat_add total (entry_size x)) entries 0, of_nat (length entries))
      | (None, Ok _) \<Rightarrow> Err (io_failure ''ARTIFACT_READ_FAILED'' p (reason not_a_directory))
      | (None, Err e) \<Rightarrow> Err (io_failure ''ARTIFACT_READ_FAILED'' p (reason e))
      | (None, Panic) \<Rightarrow> Panic)"

text \<open>\<open>ensure_tree_readable\<close>: no entry below the folder is protected; links are not followed into folders.\<close>

fun readable :: "(path \<Rightarrow> bool rpc) \<Rightarrow> path \<Rightarrow> node \<Rightarrow> unit rpc"
  and readable_all :: "(path \<Rightarrow> bool rpc) \<Rightarrow> path \<Rightarrow> (string \<times> node) list \<Rightarrow> unit rpc" where
  "readable hidden p (Folder es) = readable_all hidden p es"
| "readable hidden p (File m x) = Ok ()"
| "readable hidden p (Link t) = Ok ()"
| "readable_all hidden p [] = Ok ()"
| "readable_all hidden p ((n, c) # es) =
     and_then (hidden (p @ [Normal n])) (\<lambda>h.
       if h
       then Err (rpc_error_new ''PATH_READ_DENIED'' (display p @ '' contains a protected system or credential path''))
       else and_then (readable hidden (p @ [Normal n]) c) (\<lambda>_. readable_all hidden p es))"

definition ensure_tree_readable :: "file_env \<Rightarrow> path \<Rightarrow> node \<Rightarrow> unit rpc" where
  "ensure_tree_readable n p d =
     (case metadata d p of
        Ok (loc, Folder es) \<Rightarrow> readable_all (read_path_denied (view d) (fe_paths n)) p es
      | Ok _ \<Rightarrow> Err (io_failure ''ARTIFACT_READ_FAILED'' p (reason not_a_directory))
      | Err e \<Rightarrow> Err (io_failure ''ARTIFACT_READ_FAILED'' p (reason e))
      | Panic \<Rightarrow> Panic)"

definition executor_digest_tree :: "file_env \<Rightarrow> nat \<Rightarrow> path \<Rightarrow> node \<Rightarrow> (string \<times> u64 \<times> u64) rpc" where
  "executor_digest_tree n k p d =
     and_then (if desktop_policy (fe_paths n) \<noteq> None then ensure_tree_readable n p d else Ok ())
       (\<lambda>_. digest_tree n k p d)"

section \<open>Reading\<close>

fun kind_text :: "node \<Rightarrow> string" where
  "kind_text (Folder es) = ''directory''"
| "kind_text (File m x) = ''file''"
| "kind_text (Link p) = ''other''"

fun node_size :: "node \<Rightarrow> nat" where
  "node_size (File m x) = length x"
| "node_size (Link p) = length (display p)"
| "node_size (Folder es) = 0"

definition fs_stat :: "file_env \<Rightarrow> json \<Rightarrow> node \<Rightarrow> json rpc" where
  "fs_stat n params d =
     and_then (read_param (view d) (fe_paths n) params ''path'' False) (\<lambda>p.
     case symlink_metadata d p of
       Err e \<Rightarrow> Err (io_failure ''FS_STAT_FAILED'' p (reason e))
     | Panic \<Rightarrow> Panic
     | Ok (loc, c) \<Rightarrow>
         and_then (if is_file c then and_then (digest_file n 0 p d) (\<lambda>x. Ok (JStr x)) else Ok JNull) (\<lambda>digest.
           Ok (jobj [(''path'', jpath p), (''exists'', JBool True), (''kind'', JStr (kind_text c)),
                     (''size'', jnat (node_size c)), (''digest'', digest)])))"

definition fs_resolve :: "file_env \<Rightarrow> json \<Rightarrow> node \<Rightarrow> json rpc" where
  "fs_resolve n params d =
     and_then (read_param (view d) (fe_paths n) params ''path'' False) (\<lambda>p.
       Ok (jobj [(''path'', jpath p), (''exists'', JBool (path_exists d p))]))"

definition fs_read :: "file_env \<Rightarrow> json \<Rightarrow> node \<Rightarrow> json rpc" where
  "fs_read n params d =
     and_then (read_param (view d) (fe_paths n) params ''path'' True) (\<lambda>p.
     case read_file (fe_io n 0) p d of
       Err e \<Rightarrow> Err (io_failure ''FS_READ_FAILED'' p (reason e))
     | Panic \<Rightarrow> Panic
     | Ok bytes \<Rightarrow> Ok (jobj [(''path'', jpath p), (''content'', JStr (fe_lossy n bytes)),
                             (''digest'', JStr (fe_sha n bytes)), (''size'', jnat (length bytes))]))"

text \<open>The entries of a folder that may be read, in the order of their names.\<close>

fun list_entries :: "(path \<Rightarrow> bool rpc) \<Rightarrow> path \<Rightarrow> (string \<times> node) list \<Rightarrow> json list rpc" where
  "list_entries hidden p [] = Ok []"
| "list_entries hidden p ((name, c) # es) =
     and_then (hidden (p @ [Normal name])) (\<lambda>h.
     and_then (list_entries hidden p es) (\<lambda>rest.
       Ok (if h then rest
           else jobj [(''name'', JStr name), (''path'', jpath (p @ [Normal name])), (''kind'', JStr (kind_text c)),
                      (''size'', jnat (node_size c))] # rest)))"

definition fs_list :: "file_env \<Rightarrow> json \<Rightarrow> node \<Rightarrow> json rpc" where
  "fs_list n params d =
     and_then (read_param (view d) (fe_paths n) params ''path'' True) (\<lambda>p.
     case (fe_read n 0, metadata d p) of
       (Some e, _) \<Rightarrow> Err e
     | (None, Ok (loc, Folder es)) \<Rightarrow>
         and_then (list_entries (read_path_denied (view d) (fe_paths n)) p es) (\<lambda>entries.
           Ok (jobj [(''path'', jpath p), (''entries'', JArr entries)]))
     | (None, Ok _) \<Rightarrow> Err (io_failure ''FS_LIST_FAILED'' p (reason not_a_directory))
     | (None, Err e) \<Rightarrow> Err (io_failure ''FS_LIST_FAILED'' p (reason e))
     | (None, Panic) \<Rightarrow> Panic)"

section \<open>Searching\<close>

text \<open>\<open>content.lines()\<close>: a carriage return before the end of a line belongs to it.\<close>

fun lines_of :: "string \<Rightarrow> string list" where
  "lines_of [] = []"
| "lines_of (c # cs) =
     (if c = CHR 0x0A then [] # lines_of cs
      else if c = CHR 0x0D \<and> cs \<noteq> [] \<and> hd cs = CHR 0x0A then lines_of cs
      else case lines_of cs of [] \<Rightarrow> [[c]] | l # ls \<Rightarrow> (c # l) # ls)"

fun contains_text :: "string \<Rightarrow> string \<Rightarrow> bool" where
  "contains_text q [] = (q = [])"
| "contains_text q (c # cs) = (prefix q (c # cs) \<or> contains_text q cs)"

fun search_lines :: "path \<Rightarrow> string \<Rightarrow> nat \<Rightarrow> nat \<Rightarrow> string list \<Rightarrow> json list \<Rightarrow> json list" where
  "search_lines p query limit i [] found = found"
| "search_lines p query limit i (l # ls) found =
     (if contains_text query l
      then let found = found @ [jobj [(''path'', jpath p), (''line'', jnat (i + 1)), (''text'', JStr l)]]
           in if length found \<ge> limit then found else search_lines p query limit (i + 1) ls found
      else search_lines p query limit (i + 1) ls found)"

fun search_tree ::
  "(path \<Rightarrow> bool rpc) \<Rightarrow> (string \<Rightarrow> string) \<Rightarrow> string \<Rightarrow> nat \<Rightarrow> path \<Rightarrow> node \<Rightarrow> json list \<Rightarrow> json list rpc"
  and search_entries ::
  "(path \<Rightarrow> bool rpc) \<Rightarrow> (string \<Rightarrow> string) \<Rightarrow> string \<Rightarrow> nat \<Rightarrow> path \<Rightarrow> (string \<times> node) list \<Rightarrow> json list \<Rightarrow> json list rpc"
where
  "search_tree hidden lossy query limit p (Folder es) found =
     (if length found \<ge> limit then Ok found
      else and_then (hidden p) (\<lambda>h. if h then Ok found else search_entries hidden lossy query limit p es found))"
| "search_tree hidden lossy query limit p (File m x) found =
     (if length found \<ge> limit then Ok found
      else and_then (hidden p) (\<lambda>h.
        if h \<or> length x > 16 * 1024 * 1024 then Ok found
        else Ok (search_lines p query limit 0 (lines_of (lossy x)) found)))"
| "search_tree hidden lossy query limit p (Link t) found =
     (if length found \<ge> limit then Ok found else and_then (hidden p) (\<lambda>h. Ok found))"
| "search_entries hidden lossy query limit p [] found = Ok found"
| "search_entries hidden lossy query limit p ((name, c) # es) found =
     and_then (search_tree hidden lossy query limit (p @ [Normal name]) c found) (\<lambda>found.
       if length found \<ge> limit then Ok found else search_entries hidden lossy query limit p es found)"

definition fs_search :: "file_env \<Rightarrow> json \<Rightarrow> node \<Rightarrow> json rpc" where
  "fs_search n params d =
     and_then (read_param (view d) (fe_paths n) params ''path'' True) (\<lambda>p.
     and_then (required_str params ''query'') (\<lambda>query.
     let limit = unat (case Option.bind (jget params ''maxResults'') as_u64 of Some m \<Rightarrow> m | None \<Rightarrow> 200)
     in case (fe_read n 0, metadata d p) of
          (Some e, _) \<Rightarrow> Err e
        | (None, Ok (loc, c)) \<Rightarrow>
            and_then (search_tree (read_path_denied (view d) (fe_paths n)) (fe_lossy n) query limit p c []) (\<lambda>found.
              Ok (jobj [(''path'', jpath p), (''query'', JStr query), (''matches'', JArr found),
                        (''truncated'', JBool (length found \<ge> limit))]))
        | (None, Err e) \<Rightarrow> Err (io_failure ''FS_SEARCH_FAILED'' p (reason e))
        | (None, Panic) \<Rightarrow> Panic))"

section \<open>Writing\<close>

definition node_mode :: "file_env \<Rightarrow> node \<Rightarrow> u32" where
  "node_mode n c = (case c of File m x \<Rightarrow> m | _ \<Rightarrow> fe_dir_mode n)"

definition masked :: "file_env \<Rightarrow> u32 \<Rightarrow> u32" where
  "masked n m = and m (not (fe_umask n))"

text \<open>The access mode of the file to be replaced; a missing file has none.\<close>

definition existing_mode :: "file_env \<Rightarrow> path \<Rightarrow> node \<Rightarrow> u32 option os" where
  "existing_mode n destination d =
     (case metadata d destination of
        Ok (loc, c) \<Rightarrow> Ok (Some (and (node_mode n c) 511))
      | Err e \<Rightarrow> if kind e = NotFound then Ok None else Err e
      | Panic \<Rightarrow> Panic)"

definition write_atomic_payload :: "file_env \<Rightarrow> nat \<Rightarrow> path \<Rightarrow> path \<Rightarrow> string \<Rightarrow> unit fs_call" where
  "write_atomic_payload n k destination temporary content d =
     sbind (lift_res d (existing_mode n destination d)) (\<lambda>d existing.
     sbind (create_new (fe_io n k) (masked n (case existing of Some m \<Rightarrow> m | None \<Rightarrow> 438)) temporary d) (\<lambda>d file.
     sbind (case existing of Some m \<Rightarrow> set_mode (fe_io n (k + 1)) m file d | None \<Rightarrow> (d, Ok ())) (\<lambda>d _.
       write_all (fe_io n (k + 2)) content file d)))"

definition create_parent :: "file_env \<Rightarrow> nat \<Rightarrow> string \<Rightarrow> path \<Rightarrow> unit disk_step" where
  "create_parent n k cd p d =
     (case parent p of
        Some up \<Rightarrow> io_as cd up (create_dir_all (fe_io n k) up d)
      | None \<Rightarrow> (d, Ok ()))"

text \<open>\<open>fs.write\<close> with \<open>expectedAbsent\<close>: a link publishes the complete file without replacing anything.\<close>

definition publish_new :: "file_env \<Rightarrow> path \<Rightarrow> path \<Rightarrow> string \<Rightarrow> string list \<Rightarrow> unit disk_step" where
  "publish_new n p temporary content file d =
     sbind (io_as ''FS_WRITE_FAILED'' temporary (write_all (fe_io n 2) content file d)) (\<lambda>d _.
     case hard_link (fe_io n 3) temporary p d of
       (d, Ok _) \<Rightarrow> (d, Ok ())
     | (d, Err e) \<Rightarrow>
         (d, Err (if kind e = AlreadyExists then rpc_error_new ''DIGEST_CONFLICT'' ''expected target to be absent''
                  else io_failure ''FS_WRITE_FAILED'' p (reason e)))
     | (d, Panic) \<Rightarrow> (d, Panic))"

definition write_absent :: "file_env \<Rightarrow> json \<Rightarrow> path \<Rightarrow> string \<Rightarrow> json disk_step" where
  "write_absent n params p content d =
     (if jget params ''expectedDigest'' \<noteq> None
      then (d, Err (invalid_params ''expectedAbsent and expectedDigest are mutually exclusive''))
      else
      sbind (lift_res d (required_str params ''path'')) (\<lambda>d raw.
      sbind (lift_res d (write_path_of (view d) (fe_paths n)
               (with_extension (components raw)
                  (''fabric.'' @ show_nat (fe_pid n) @ ''.'' @ fe_uuid n 0 @ ''.tmp'')) False)) (\<lambda>d temporary.
      if parent temporary \<noteq> parent p
      then (d, Err (rpc_error_new ''PATH_WRITE_DENIED'' ''creation temporary directory differs from checked destination''))
      else
      sbind (create_parent n 0 ''FS_WRITE_FAILED'' p d) (\<lambda>d _.
      sbind (io_as ''FS_WRITE_FAILED'' temporary (create_new (fe_io n 1) (masked n 438) temporary d)) (\<lambda>d file.
      case publish_new n p temporary content file d of
        (d, outcome) \<Rightarrow>
          let d = fst (remove_file (fe_io n 4) temporary d)
          in sbind (d, outcome) (\<lambda>d _.
             sbind (lift_res d (digest_file n 5 p d)) (\<lambda>d digest.
               (d, Ok (jobj [(''path'', jpath p), (''digest'', JStr digest)])))))))))"

definition expected_absent :: "json \<Rightarrow> bool rpc" where
  "expected_absent params =
     (case jget params ''expectedAbsent'' of
        None \<Rightarrow> Ok False
      | Some (JBool b) \<Rightarrow> Ok b
      | Some _ \<Rightarrow> Err (invalid_params ''expectedAbsent must be a boolean''))"

definition digest_conflict :: "string \<Rightarrow> string \<Rightarrow> rpc_error" where
  "digest_conflict expected actual = rpc_error_new ''DIGEST_CONFLICT'' (''expected '' @ expected @ '', got '' @ actual)"

definition check_expected :: "file_env \<Rightarrow> json \<Rightarrow> path \<Rightarrow> node \<Rightarrow> unit rpc" where
  "check_expected n params p d =
     (case Option.bind (jget params ''expectedDigest'') as_str of
        None \<Rightarrow> Ok ()
      | Some expected \<Rightarrow>
          and_then (if path_exists d p then and_then (digest_file n 6 p d) (\<lambda>x. Ok (Some x)) else Ok None) (\<lambda>actual.
            if actual \<noteq> Some expected
            then Err (digest_conflict expected (case actual of Some a \<Rightarrow> a | None \<Rightarrow> ''<missing>''))
            else Ok ()))"

text \<open>The temporary file and the replacement of the destination by it.\<close>

definition replace_file :: "file_env \<Rightarrow> nat \<Rightarrow> string \<Rightarrow> json \<Rightarrow> path \<Rightarrow> string \<Rightarrow> json disk_step" where
  "replace_file n k cd params p content d =
     sbind (lift_res d (atomic_temporary_path (view d) (fe_paths n) (fe_pid n) params p)) (\<lambda>d temporary.
     sbind (io_as cd temporary (write_atomic_payload n k p temporary content d)) (\<lambda>d _.
     sbind (io_as cd p (rename (fe_io n (k + 3)) temporary p d)) (\<lambda>d _.
     sbind (lift_res d (digest_file n (k + 4) p d)) (\<lambda>d digest.
       (d, Ok (jobj [(''path'', jpath p), (''digest'', JStr digest)]))))))"

definition fs_write :: "file_env \<Rightarrow> json \<Rightarrow> json disk_step" where
  "fs_write n params d =
     sbind (lift_res d (write_path (view d) (fe_paths n) params ''path'' False)) (\<lambda>d p.
     sbind (lift_res d (ok_or (Option.bind (jget params ''content'') as_str) (invalid_params ''content is required''))) (\<lambda>d content.
     sbind (lift_res d (expected_absent params)) (\<lambda>d absent.
     if absent then write_absent n params p content d
     else
     sbind (lift_res d (check_expected n params p d)) (\<lambda>d _.
     sbind (create_parent n 7 ''FS_WRITE_FAILED'' p d) (\<lambda>d _.
       replace_file n 8 ''FS_WRITE_FAILED'' params p content d)))))"

text \<open>\<open>content.matches(before).count()\<close> and \<open>content.replacen(before, after, 1)\<close>.\<close>

fun count_matches :: "nat \<Rightarrow> string \<Rightarrow> string \<Rightarrow> nat" where
  "count_matches (Suc skip) q (c # cs) = count_matches skip q cs"
| "count_matches 0 q (c # cs) =
     (if prefix q (c # cs) then Suc (count_matches (length q - 1) q cs) else count_matches 0 q cs)"
| "count_matches k q [] = 0"

fun replace_first :: "string \<Rightarrow> string \<Rightarrow> string \<Rightarrow> string" where
  "replace_first q r [] = []"
| "replace_first q r (c # cs) =
     (if prefix q (c # cs) then r @ drop (length q) (c # cs) else c # replace_first q r cs)"

definition fs_patch :: "file_env \<Rightarrow> json \<Rightarrow> json disk_step" where
  "fs_patch n params d =
     sbind (lift_res d (write_path (view d) (fe_paths n) params ''path'' True)) (\<lambda>d p.
     sbind (lift_res d (required_str params ''expectedDigest'')) (\<lambda>d expected.
     sbind (lift_res d (digest_file n 0 p d)) (\<lambda>d actual.
     if actual \<noteq> expected then (d, Err (digest_conflict expected actual))
     else
     sbind (lift_res d (required_str params ''before'')) (\<lambda>d before.
     sbind (lift_res d (required_str params ''after'')) (\<lambda>d after.
     sbind (lift_res d (case read_file (fe_io n 1) p d of
              Ok bytes \<Rightarrow>
                if fe_utf8 n bytes then Ok bytes
                else Err (io_failure ''FS_PATCH_FAILED'' p ''stream did not contain valid UTF-8'')
            | Err e \<Rightarrow> Err (io_failure ''FS_PATCH_FAILED'' p (reason e))
            | Panic \<Rightarrow> Panic)) (\<lambda>d content.
     let occurrences = count_matches 0 before content
     in if occurrences \<noteq> 1
        then (d, Err (rpc_error_new ''PATCH_CONTEXT_MISMATCH''
                (''patch context matched '' @ show_nat occurrences @ '' times'')))
        else replace_file n 2 ''FS_PATCH_FAILED'' params p (replace_first before after content) d))))))"

definition trash_name :: string where
  "trash_name = ''.machine-fabric-trash''"

definition fs_remove :: "file_env \<Rightarrow> json \<Rightarrow> json disk_step" where
  "fs_remove n params d =
     sbind (lift_res d (write_path (view d) (fe_paths n) params ''path'' True)) (\<lambda>d p.
     sbind (lift_res d (required_str params ''expectedDigest'')) (\<lambda>d expected.
     sbind (lift_res d (if path_is_dir d p then and_then (executor_digest_tree n 0 p d) (\<lambda>(x, s, f). Ok x)
                        else digest_file n 0 p d)) (\<lambda>d actual.
     if actual \<noteq> expected then (d, Err (digest_conflict expected actual))
     else
     sbind (lift_res d (required_str params ''path'')) (\<lambda>d raw.
     sbind (lift_res d (ok_or (parent (components raw)) (rpc_error_new ''PATH_INVALID'' ''path has no parent''))) (\<lambda>d logical_parent.
     let token = show_u64 (fe_now n) @ ''_'' @ fe_uuid n 0;
         logical_token = join_text (join_text logical_parent trash_name) token
     in
     sbind (lift_res d (write_path_of (view d) (fe_paths n) logical_token False)) (\<lambda>d destination.
     sbind (lift_res d (ok_or (parent destination) (rpc_error_new ''PATH_INVALID'' ''trash has no parent''))) (\<lambda>d trash.
     if parent trash \<noteq> parent p
     then (d, Err (rpc_error_new ''PATH_WRITE_DENIED'' ''trash directory differs from checked source directory''))
     else
     sbind (io_as ''FS_REMOVE_FAILED'' trash (create_dir_all (fe_io n 1) trash d)) (\<lambda>d _.
     sbind (io_as ''FS_REMOVE_FAILED'' p (rename (fe_io n 2) p destination d)) (\<lambda>d _.
       (d, Ok (jobj [(''path'', jpath p), (''removed'', JBool True), (''restoreToken'', jpath logical_token)])))))))))))"

definition fs_restore :: "file_env \<Rightarrow> json \<Rightarrow> json disk_step" where
  "fs_restore n params d =
     sbind (lift_res d (write_path (view d) (fe_paths n) params ''path'' False)) (\<lambda>d destination.
     sbind (lift_res d (write_path (view d) (fe_paths n) params ''restoreToken'' True)) (\<lambda>d token.
     if Option.bind (parent token) file_name \<noteq> Some trash_name
     then (d, Err (rpc_error_new ''INVALID_RESTORE_TOKEN'' ''restore token is not managed by fabric''))
     else if path_exists d destination
     then (d, Err (rpc_error_new ''RESTORE_CONFLICT'' ''restore destination already exists''))
     else
     sbind (io_as ''FS_RESTORE_FAILED'' destination (rename (fe_io n 0) token destination d)) (\<lambda>d _.
       (d, Ok (jobj [(''path'', jpath destination), (''restored'', JBool True)])))))"

definition fs_mkdir :: "file_env \<Rightarrow> json \<Rightarrow> json disk_step" where
  "fs_mkdir n params d =
     sbind (lift_res d (write_path (view d) (fe_paths n) params ''path'' False)) (\<lambda>d p.
     sbind (io_as ''FS_MKDIR_FAILED'' p (create_dir_all (fe_io n 0) p d)) (\<lambda>d _.
       (d, Ok (jobj [(''path'', jpath p), (''created'', JBool True)]))))"

end
