(* ===== verification/File_Guarantees.thy ===== *)
theory File_Guarantees
  imports File_Actions
begin

text \<open>
  What the file actions guarantee on a disk: a write or a patch replaces its destination in one
  step and only when the expected digest matches, whatever call fails; a removed tree comes back
  unchanged; nothing else on the disk changes.
\<close>

section \<open>Calls on plain paths\<close>

lemma io_as_Ok [simp]: "io_as cd p m = (s, Ok a) \<longleftrightarrow> m = (s, Ok a)"
  by (cases m; cases "snd m") (auto simp: io_as_def)

lemma lift_res_Ok [simp]: "lift_res s r = (s', Ok a) \<longleftrightarrow> s = s' \<and> r = Ok a"
  by (auto simp: lift_res_def)

text \<open>No link lies on the way to a place.\<close>

definition no_links :: "node \<Rightarrow> string list \<Rightarrow> bool" where
  "no_links d ns = list_all (\<lambda>q. case lookup d q of Some c \<Rightarrow> \<not> is_link c | None \<Rightarrow> True) (prefixes ns)"

lemma no_links_iff: "no_links d ns \<longleftrightarrow> (\<forall>q t. prefix q ns \<longrightarrow> lookup d q \<noteq> Some (Link t))"
proof -
  have "(case x of Some c \<Rightarrow> \<not> is_link c | None \<Rightarrow> True) \<longleftrightarrow> (\<forall>t. x \<noteq> Some (Link t))" for x
    by (cases x; cases "the x") auto
  moreover have "set (prefixes ns) = {q. prefix q ns}" using in_set_prefixes by blast
  ultimately show ?thesis by (simp add: no_links_def list_all_iff)
qed

lemma has_folder_butlast: "has_folder d loc \<Longrightarrow> has_folder d (butlast loc)"
  by (cases loc rule: rev_cases) (auto simp: has_folder_iff intro: has_folder_prefix [unfolded has_folder_iff])

lemma has_folder_append: "has_folder d (a @ b) \<Longrightarrow> has_folder d a"
proof (induction b rule: rev_induct)
  case (snoc n b)
  then show ?case using has_folder_butlast [of d "a @ b @ [n]"] by (simp add: butlast_append)
qed simp

lemma walk_names:
  "ns \<noteq> [] \<Longrightarrow> has_folder d (loc @ butlast ns) \<Longrightarrow> \<not> final \<or> (\<forall>t. lookup d (loc @ ns) \<noteq> Some (Link t)) \<Longrightarrow>
     walk d final links loc (map Normal ns) = Ok (loc @ ns)"
proof (induction ns arbitrary: loc)
  case (Cons n ns)
  show ?case
  proof (cases ns)
    case Nil
    then show ?thesis using Cons.prems by (auto split: option.splits node.splits)
  next
    case (Cons m ms)
    have "has_folder d (loc @ [n])"
      using Cons.prems(2) has_folder_append [of d "loc @ [n]" "butlast ns"] Cons by simp
    then obtain es where es: "lookup d (loc @ [n]) = Some (Folder es)" by (auto simp: has_folder_iff)
    have "walk d final links (loc @ [n]) (map Normal ns) = Ok ((loc @ [n]) @ ns)"
      using Cons.IH [of "loc @ [n]"] Cons.prems Cons by simp
    then show ?thesis using es by simp
  qed
qed simp

definition reachable :: "node \<Rightarrow> string list \<Rightarrow> bool" where
  "reachable d ns \<longleftrightarrow> has_folder d (butlast ns)"

lemma locate_rooted [simp]: "reachable d ns \<Longrightarrow> locate d (rooted ns) = Ok ns"
  using walk_names [of ns d "[]" False 40] by (cases "ns = []") (simp_all add: rooted_def reachable_def)

lemma follow_rooted [simp]:
  "reachable d ns \<Longrightarrow> (\<forall>t. lookup d ns \<noteq> Some (Link t)) \<Longrightarrow> follow d (rooted ns) = Ok ns"
  using walk_names [of ns d "[]" True 40] by (cases "ns = []") (simp_all add: rooted_def reachable_def)

lemma metadata_rooted [simp]:
  "reachable d ns \<Longrightarrow> (\<forall>t. lookup d ns \<noteq> Some (Link t)) \<Longrightarrow>
     metadata d (rooted ns) = ok_or (map_option (Pair ns) (lookup d ns)) no_entry"
  by (simp add: entry_def)

lemma symlink_metadata_rooted [simp]:
  "reachable d ns \<Longrightarrow> symlink_metadata d (rooted ns) = ok_or (map_option (Pair ns) (lookup d ns)) no_entry"
  by (simp add: entry_def)

lemma is_folder_root: "has_folder d ns \<Longrightarrow> is_folder d"
  using has_folder_append [of d "[]" ns] by (simp add: has_folder_def)

text \<open>Changing an entry keeps the folders that are not below it.\<close>

lemma has_folder_place:
  assumes "wf_node d" "has_folder d q" "\<not> prefix loc q"
  shows "has_folder (place loc x d) q"
  using assms
proof (induction loc x d arbitrary: q rule: place.induct)
  case (2 n x es)
  then show ?case by (cases q; cases x) (auto simp: bt_simps has_folder_def split: option.splits)
next
  case (3 n m ns x es)
  show ?case
  proof (cases q)
    case (Cons a q')
    show ?thesis
    proof (cases "a = n")
      case True
      obtain c where c: "bt_get es n = Some c" "has_folder c q'"
        using 3(3) Cons True by (auto simp: has_folder_def split: option.splits)
      have "has_folder (place (m # ns) x c) q'"
        using 3(1) [OF c(1)] wf_child [OF 3(2) c(1)] c(2) 3(4) Cons True by simp
      then show ?thesis using c Cons True by (simp add: has_folder_def bt_get_insert)
    qed (use 3 Cons in \<open>auto simp: has_folder_def bt_get_insert split: option.splits\<close>)
  qed (use 3 in \<open>auto simp: has_folder_def split: option.splits\<close>)
qed auto

lemma lookup_place_self [tree_simps]:
  "loc \<noteq> [] \<Longrightarrow> reachable d loc \<Longrightarrow> lookup (place loc (Some c) d) loc = Some c"
  by (simp add: lookup_place_same reachable_def)

lemma lookup_place_none [tree_simps]:
  "wf_node d \<Longrightarrow> loc \<noteq> [] \<Longrightarrow> lookup (place loc None d) loc = None"
proof (induction loc "None :: node option" d rule: place.induct)
  case (3 n m ns es)
  then show ?case using wf_child by (fastforce simp: bt_get_insert split: option.splits simp del: wf_node.simps)
qed (auto simp: bt_simps)

text \<open>The folders on the way to a place are made, and nothing else changes.\<close>

definition same_outside :: "string list set \<Rightarrow> node \<Rightarrow> node \<Rightarrow> bool" where
  "same_outside S d d' \<longleftrightarrow> (\<forall>q. (\<forall>s \<in> S. q \<parallel> s) \<longrightarrow> lookup d' q = lookup d q)"

lemma same_outside_refl [simp]: "same_outside S d d"
  by (simp add: same_outside_def)

lemma same_outside_trans: "same_outside S d d' \<Longrightarrow> same_outside S d' d'' \<Longrightarrow> same_outside S d d''"
  by (simp add: same_outside_def)

lemma same_outside_place: "wf_node d \<Longrightarrow> loc \<in> S \<Longrightarrow> same_outside S d (place loc x d)"
  using lookup_place_other parallel_commute by (fastforce simp: same_outside_def)

lemma same_outside_mono: "S \<subseteq> T \<Longrightarrow> same_outside S d d' \<Longrightarrow> same_outside T d d'"
  by (auto simp: same_outside_def)

lemma path_is_dir_rooted:
  "reachable d ns \<Longrightarrow> (\<forall>t. lookup d ns \<noteq> Some (Link t)) \<Longrightarrow> path_is_dir d (rooted ns) = has_folder d ns"
  by (auto simp: path_is_dir_def has_folder_def split: option.splits)

lemma make_dirs_effect:
  assumes "wf_node d" "has_folder d a" "no_links d (a @ ms)" "make_dirs io (rooted a) (map Normal ms) d = (d', r)"
  shows "wf_node d' \<and> r \<noteq> Panic \<and> (r = Ok () \<longrightarrow> has_folder d' (a @ ms)) \<and>
    (\<forall>q. \<not> prefix q (a @ ms) \<longrightarrow> lookup d' q = lookup d q)"
  using assms
proof (induction ms arbitrary: a d io)
  case (Cons n ms)
  let ?p = "a @ [n]"
  have here: "reachable d ?p" using Cons.prems(2) by (simp add: reachable_def)
  have nolink: "\<forall>t. lookup d ?p \<noteq> Some (Link t)"
    using Cons.prems(3) by (auto simp: no_links_iff)
  have at_p: "rooted a @ [Normal n] = rooted ?p" by (simp add: rooted_def)
  show ?case
  proof (cases "has_folder d ?p")
    case True
    then show ?thesis
      using Cons.IH [of d ?p io] Cons.prems here nolink by (simp add: at_p path_is_dir_rooted)
  next
    case False
    show ?thesis
    proof (cases "lookup d ?p")
      case (Some c)
      have "(d', r) = (d, Err file_exists) \<or> (\<exists>e. (d', r) = (d, Err e))"
        using Cons.prems(4) False here nolink Some
        by (auto simp: at_p path_is_dir_rooted Let_def create_dir_def split: io.splits nat.splits)
      then show ?thesis using Cons.prems(1) by auto
    next
      case None
      let ?d = "place ?p (Some (Folder [])) d"
      have wf: "wf_node ?d" using Cons.prems(1) by (rule wf_place) auto
      have new: "lookup ?d (?p @ r) = lookup (Folder []) r" for r
        using Cons.prems(2) by (intro lookup_place) simp_all
      have same: "lookup ?d q = lookup d q" if "\<not> prefix q (a @ n # ms)" for q
      proof (cases "prefix ?p q")
        case True
        then obtain r where q: "q = ?p @ r" by (auto elim: prefixE)
        have "r \<noteq> []" using that q by auto
        then show ?thesis using new [of r] None unfolding q lookup_append [of d ?p] by (cases r) auto
      next
        case False
        then have "?p \<parallel> q" using that prefix_order.trans [of q ?p "a @ n # ms"] by (auto simp: parallel_def)
        then show ?thesis using Cons.prems(1) by (intro lookup_place_other)
      qed
      have "lookup ?d q \<noteq> Some (Link t)" if within: "prefix q (a @ n # ms)" for q t
      proof (cases "prefix q a")
        case True
        then have "has_folder ?d q"
          using has_folder_append [of d q] Cons.prems(1,2)
          by (intro has_folder_place) (auto elim!: prefixE dest: prefix_length_le)
        then show ?thesis by (auto simp: has_folder_iff)
      next
        case False
        then obtain r where "q = ?p @ r" using within by (auto simp: prefix_append prefix_Cons)
        then show ?thesis using new [of r] by (cases r) auto
      qed
      then have "no_links ?d (?p @ ms)" by (auto simp: no_links_iff)
      then have IH: "make_dirs io' (rooted ?p) (map Normal ms) ?d = (d', r) \<Longrightarrow> ?thesis" for io'
        using Cons.IH [of ?d ?p io'] wf new [of "[]"] same by (auto simp: has_folder_def)
      show ?thesis
        using Cons.prems(1,4) False here nolink None IH
        by (auto simp: at_p path_is_dir_rooted Let_def create_dir_def split: io.splits nat.splits)
    qed
  qed
qed auto

section \<open>Checked paths on a disk\<close>

lemma canonicalize_rooted: "canonicalize d p = Ok q \<Longrightarrow> \<exists>ns. q = rooted ns \<and> lookup d ns \<noteq> None"
  by (auto simp: canonicalize_def entry_def and_then_Ok_iff)

lemma resolve_rooted:
  assumes "resolve_path (view d) p = Ok q"
  shows "\<exists>ns. q = rooted ns \<and> (path_exists d p \<longrightarrow> lookup d ns \<noteq> None)"
proof (cases "path_exists d p")
  case True
  then have "canonicalize d p = Ok q"
    using assms
    by (auto simp: resolve_path_def path_invalid_def view_def split: if_splits; cases "canonicalize d p"; simp)
  then show ?thesis using canonicalize_rooted by blast
next
  case False
  then obtain ancestor names where q: "(case fv_canonicalize (view d) ancestor of Ok q \<Rightarrow> Ok (q @ map Normal (rev names))
       | Err e \<Rightarrow> path_invalid (display p @ '': '' @ e) | Panic \<Rightarrow> Panic) = Ok q"
    using assms by (auto simp: resolve_path_def path_invalid_def view_def and_then_Ok_iff split: if_splits)
  then obtain c where c: "canonicalize d ancestor = Ok c" "q = c @ map Normal (rev names)"
    by (cases "canonicalize d ancestor") (auto simp: view_def path_invalid_def)
  then show ?thesis using canonicalize_rooted [OF c(1)] False by (auto simp: rooted_append)
qed

text \<open>A checked path is a list of names; when nothing is there, the last of them is that of the request.\<close>

lemma checked_rooted:
  assumes "checked_of (view d) ex p must_exist access = Ok q"
  shows "\<exists>ns. q = rooted ns \<and> (\<forall>name. file_name p = Some name \<longrightarrow> lookup d ns = None \<longrightarrow> file_name q = Some name)"
proof -
  obtain l where l: "resolve_path (view d) l = Ok q" "l = p \<or> logical_path p = Ok l"
    using assms by (auto simp: checked_of_def and_then_Ok_iff split: if_splits option.splits)
  obtain ns where ns: "q = rooted ns" "path_exists d l \<longrightarrow> lookup d ns \<noteq> None" using resolve_rooted [OF l(1)] by blast
  have "file_name q = Some name" if "file_name p = Some name" "lookup d ns = None" for name
  proof -
    have "\<not> fv_exists (view d) l" using ns(2) that(2) by (simp add: view_def)
    then show ?thesis using resolve_missing [OF l(1)] logical_file_name l(2) that(1) by blast
  qed
  then show ?thesis using ns(1) by blast
qed

lemma last_dot_append: "last_dot t \<noteq> None \<Longrightarrow> last_dot (s @ t) = map_option (\<lambda>i. length s + i) (last_dot t)"
  by (induction s) (auto split: option.splits)

lemma file_stem_tmp: "u \<noteq> [] \<Longrightarrow> file_stem (u @ ''.tmp'') = u"
  using last_dot_append [of "''.tmp''" u] by (cases u) (auto simp: file_stem_def)

lemma temporary_name_differs: "file_stem name @ ''.'' @ ''fabric.'' @ x @ ''.tmp'' \<noteq> name"
proof
  assume eq: "file_stem name @ ''.'' @ ''fabric.'' @ x @ ''.tmp'' = name"
  have "file_stem ((file_stem name @ ''.'' @ ''fabric.'' @ x) @ ''.tmp'') = file_stem name @ ''.'' @ ''fabric.'' @ x"
    by (rule file_stem_tmp) simp
  then have "file_stem name = file_stem name @ ''.'' @ ''fabric.'' @ x" using eq by simp
  then show False by simp
qed

text \<open>The temporary file of a write lies beside its destination, in a place of its own when nothing is there.\<close>

lemma temporary_place:
  assumes dest: "write_path (view d) ex params ''path'' must_exist = Ok (rooted ns)"
    and name: "jget params ''path'' = Some (JStr raw)" "file_name (components raw) \<noteq> None"
    and temp: "atomic_temporary_path (view e) ex pid params (rooted ns) = Ok t"
  shows "\<exists>ts. t = rooted ts \<and> butlast ts = butlast ns \<and> (ts = [] \<longleftrightarrow> ns = []) \<and>
    (lookup d ns = None \<longrightarrow> lookup e ts = None \<longrightarrow> ts \<noteq> ns)"
proof -
  let ?p = "components raw" and ?ext = "''fabric.'' @ show_nat pid @ ''.tmp''"
  obtain nm where nm: "file_name ?p = Some nm" using name(2) by blast
  have ext: "file_name (with_extension ?p ?ext) = Some (file_stem nm @ ''.'' @ ?ext)"
    using nm by (simp add: with_extension_def)
  have raw: "required_str params ''path'' = Ok raw"
    using temp name(1) by (auto simp: atomic_temporary_path_def required_str_def split: if_splits)
  have t: "checked_of (view e) ex (with_extension ?p ?ext) False WriteAccess = Ok t" "parent t = parent (rooted ns)"
    using temp raw by (auto simp: atomic_temporary_path_def write_path_of_def and_then_Ok_iff split: if_splits)
  have d: "checked_of (view d) ex ?p must_exist WriteAccess = Ok (rooted ns)"
    using dest name(1) by (simp add: write_path_def checked_path_def)
  obtain ts where ts: "t = rooted ts" "lookup e ts = None \<Longrightarrow> file_name t = Some (file_stem nm @ ''.'' @ ?ext)"
    using checked_rooted [OF t(1)] ext by blast
  have "lookup d ns = None \<Longrightarrow> file_name (rooted ns) = Some nm"
    using checked_rooted [OF d] nm by (auto simp del: file_name_rooted)
  then have own: "lookup d ns = None \<longrightarrow> lookup e ts = None \<longrightarrow> ts \<noteq> ns"
    using ts temporary_name_differs [of nm "show_nat pid"] by auto
  have "(if ts = [] then None else Some (rooted (butlast ts))) = (if ns = [] then None else Some (rooted (butlast ns)))"
    using t(2) unfolding ts(1) parent_rooted .
  then have "butlast ts = butlast ns" "ts = [] \<longleftrightarrow> ns = []" by (cases "ts = []"; cases "ns = []"; simp)+
  then show ?thesis using own by (intro exI [of _ ts]) (simp add: ts(1))
qed

section \<open>Replacing a file\<close>

lemma reachable_sibling: "butlast ts = butlast ns \<Longrightarrow> reachable d ts = reachable d ns"
  by (simp add: reachable_def)

lemma siblings_parallel:
  assumes "butlast ts = butlast ns" "ts \<noteq> ns" "ts \<noteq> []" "ns \<noteq> []"
  shows "ts \<parallel> ns"
proof -
  have "length ts = length ns" using assms length_butlast [of ts] length_butlast [of ns] by (cases ts; cases ns) auto
  then show ?thesis using assms(2) by (auto simp: parallel_def prefix_def)
qed

lemma lookup_place_sibling:
  "wf_node d \<Longrightarrow> butlast ts = butlast ns \<Longrightarrow> ts \<noteq> ns \<Longrightarrow> ts \<noteq> [] \<Longrightarrow> ns \<noteq> [] \<Longrightarrow> lookup (place ts x d) ns = lookup d ns"
  by (rule lookup_place_other) (auto intro: siblings_parallel)

lemma not_prefix_butlast: "ts \<noteq> [] \<Longrightarrow> \<not> prefix ts (butlast ts)"
  using prefix_length_le [of ts "butlast ts"] by (cases ts) auto

lemma reachable_place:
  assumes "wf_node d" "reachable d ns" "butlast ts = butlast ns" "ts \<noteq> []"
  shows "reachable (place ts x d) ns"
  using assms not_prefix_butlast [of ts] unfolding reachable_def by (intro has_folder_place) simp_all

definition file_mode :: "file_env \<Rightarrow> node option \<Rightarrow> u32" where
  "file_mode n old = (case old of Some c \<Rightarrow> and (node_mode n c) 511 | None \<Rightarrow> masked n 438)"

text \<open>Changes at \<open>ts\<close> only, beside the destination \<open>ns\<close>.\<close>

definition beside :: "string list \<Rightarrow> string list \<Rightarrow> node \<Rightarrow> node \<Rightarrow> bool" where
  "beside ts ns d e \<longleftrightarrow> wf_node e \<and> reachable e ns \<and> reachable e ts \<and> same_outside {ts} d e \<and> lookup e ns = lookup d ns"

lemma beside_place:
  assumes "beside ts ns d e" "butlast ts = butlast ns" "ts \<noteq> ns" "ts \<noteq> []" "ns \<noteq> []" "\<And>c. x = Some c \<Longrightarrow> wf_node c"
  shows "beside ts ns d (place ts x e)" "lookup (place ts x e) ts = x"
proof -
  have e: "wf_node e" "reachable e ns" "reachable e ts" "same_outside {ts} d e" "lookup e ns = lookup d ns"
    using assms(1) by (auto simp: beside_def)
  have "same_outside {ts} d (place ts x e)"
    using same_outside_trans [OF e(4) same_outside_place] e(1) by blast
  then show "beside ts ns d (place ts x e)"
    using e assms(2-6)
    by (auto simp: beside_def wf_place lookup_place_sibling intro!: reachable_place)
  show "lookup (place ts x e) ts = x"
    using e assms(4) by (cases x) (simp_all add: lookup_place_self lookup_place_none)
qed

text \<open>The temporary file beside a destination.\<close>

lemma payload_effect:
  assumes start: "wf_node d" "reachable d ns" "\<forall>t. lookup d ns \<noteq> Some (Link t)" "ns \<noteq> []" "ts \<noteq> []"
    and sib: "butlast ts = butlast ns" "lookup d ns = None \<longrightarrow> lookup d ts = None \<longrightarrow> ts \<noteq> ns"
    and run: "write_atomic_payload n k (rooted ns) (rooted ts) content d = (d', r)"
  shows "beside ts ns d d' \<and> r \<noteq> Panic \<and>
    (r = Ok () \<longrightarrow> ts \<noteq> ns \<and> lookup d' ts = Some (File (file_mode n (lookup d ns)) content))"
proof -
  have d: "beside ts ns d d" using start(1,2) sib(1) by (simp add: beside_def reachable_def)
  have ts: "reachable d ts" using d by (simp add: beside_def)
  let ?mode = "case lookup d ns of Some c \<Rightarrow> Some (and (node_mode n c) 511) | None \<Rightarrow> None"
  have mode: "existing_mode n (rooted ns) d = Ok ?mode"
    using start(2,3) by (simp add: existing_mode_def no_entry_def split: option.splits)
  show ?thesis
  proof (cases "lookup d ts = None \<and> fe_io n k = Works")
    case False
    then show ?thesis
      using run d ts
      by (auto simp: write_atomic_payload_def mode create_new_def lift_res_def split: io.splits if_splits)
  next
    case True
    have ne: "ts \<noteq> ns" using sib(2) True by (cases "lookup d ns") auto
    have step: "beside ts ns d (place ts (Some (File m x)) e) \<and> lookup (place ts (Some (File m x)) e) ts = Some (File m x)"
      if "beside ts ns d e" for e m x
      using beside_place [OF that sib(1) ne start(5,4), of "Some (File m x)"] by simp
    let ?m = "masked n (case ?mode of Some m \<Rightarrow> m | None \<Rightarrow> 438)"
    let ?d1 = "place ts (Some (File ?m [])) d"
    have d1: "beside ts ns d ?d1" "lookup ?d1 ts = Some (File ?m [])" using step [OF d] by blast+
    have "\<exists>d2 r2. (case ?mode of Some m \<Rightarrow> set_mode (fe_io n (k + 1)) m ts ?d1 | None \<Rightarrow> (?d1, Ok ())) = (d2, r2) \<and>
        beside ts ns d d2 \<and> r2 \<noteq> Panic \<and> (r2 = Ok () \<longrightarrow> lookup d2 ts = Some (File (file_mode n (lookup d ns)) []))"
      using d1 step [OF d1(1)]
      by (cases "lookup d ns"; cases "fe_io n (k + 1)") (auto simp: set_mode_def file_mode_def)
    then obtain d2 r2 where d2: "(case ?mode of Some m \<Rightarrow> set_mode (fe_io n (k + 1)) m ts ?d1 | None \<Rightarrow> (?d1, Ok ())) = (d2, r2)"
      "beside ts ns d d2" "r2 \<noteq> Panic" "r2 = Ok () \<longrightarrow> lookup d2 ts = Some (File (file_mode n (lookup d ns)) [])" by blast
    have run2: "sbind (d2, r2) (\<lambda>d _. write_all (fe_io n (k + 2)) content ts d) = (d', r)"
      using run True ts d2(1) by (simp add: write_atomic_payload_def mode create_new_def lift_res_def)
    show ?thesis
      using run2 d2(2-4) step [OF d2(2)] ne
      by (cases r2; cases "fe_io n (k + 2)") (auto simp: write_all_def)
  qed
qed

lemma rename_beside:
  assumes e: "beside ts ns d e" and sib: "butlast ts = butlast ns" "ts \<noteq> ns" "ts \<noteq> []" "ns \<noteq> []"
    and here: "lookup e ts = Some (File m x)" and run: "rename io (rooted ts) (rooted ns) e = (d', r)"
  shows "wf_node d' \<and> same_outside {ns, ts} d d' \<and>
    (if r = Ok () then lookup d' ns = Some (File m x) \<and> lookup d' ts = None else lookup d' ns = lookup d ns)"
proof -
  have b: "wf_node e" "reachable e ns" "reachable e ts" "same_outside {ts} d e" "lookup e ns = lookup d ns"
    using e by (auto simp: beside_def)
  have par: "ts \<parallel> ns" using siblings_parallel sib by blast
  have f: "same_outside {ns, ts} d e" using b(4) by (rule same_outside_mono [rotated]) auto
  let ?e1 = "place ts None e" and ?e2 = "place ns (Some (File m x)) (place ts None e)"
  have e1: "beside ts ns d ?e1" "lookup ?e1 ts = None" using beside_place [OF e sib, of None] by auto
  have e1': "wf_node ?e1" "reachable ?e1 ns" "same_outside {ts} d ?e1" using e1(1) by (auto simp: beside_def)
  have "same_outside {ns, ts} d ?e2"
    using same_outside_trans [OF same_outside_mono [OF _ e1'(3)] same_outside_place [OF e1'(1)]] by blast
  moreover have "lookup ?e2 ns = Some (File m x)" using lookup_place_self [OF sib(4) e1'(2)] .
  moreover have "lookup ?e2 ts = None"
    using lookup_place_sibling [OF e1'(1), of ns ts] sib e1(2) by simp
  moreover have "wf_node ?e2" using e1'(1) by (rule wf_place) auto
  moreover have "(d', r) = (?e2, Ok ()) \<or> d' = e \<and> r \<noteq> Ok ()"
    using run b(2,3) here sib par
    by (auto simp: rename_def parallel_def split: if_splits io.splits option.splits)
  ultimately show ?thesis using f b(1,5) by auto
qed

lemma replace_file_effect:
  assumes dest: "write_path (view d0) (fe_paths n) params ''path'' must_exist = Ok (rooted ns)" "lookup d ns = lookup d0 ns"
    and name: "jget params ''path'' = Some (JStr raw)" "file_name (components raw) \<noteq> None"
    and d: "wf_node d" "reachable d ns" "\<forall>t. lookup d ns \<noteq> Some (Link t)"
    and run: "replace_file n k cd params (rooted ns) content d = (d', r)"
  shows "wf_node d' \<and> (\<exists>ts. butlast ts = butlast ns \<and> same_outside {ns, ts} d d') \<and>
    (lookup d' ns = lookup d ns \<and> \<not> is_ok r \<or> lookup d' ns = Some (File (file_mode n (lookup d ns)) content))"
proof (cases "atomic_temporary_path (view d) (fe_paths n) (fe_pid n) params (rooted ns)")
  case (Ok t)
  obtain ts where ts: "t = rooted ts" "butlast ts = butlast ns" "ts = [] \<longleftrightarrow> ns = []"
    "lookup d ns = None \<longrightarrow> lookup d ts = None \<longrightarrow> ts \<noteq> ns"
    using temporary_place [OF dest(1) name Ok] dest(2) by auto
  obtain d1 r1 where w: "write_atomic_payload n k (rooted ns) (rooted ts) content d = (d1, r1)" by fastforce
  show ?thesis
  proof (cases "ns = []")
    case True
    have "locate d (rooted []) = Ok []" by (simp add: rooted_def)
    then have "d1 = d" "r1 \<noteq> Ok ()"
      using w True ts(3) d(2,3)
      by (auto simp: write_atomic_payload_def existing_mode_def create_new_def lift_res_def no_entry_def split: option.splits)
    then have "d' = d" "\<not> is_ok r"
      using run Ok w ts(1) by (cases r1; auto simp: replace_file_def lift_res_def io_as_def)+
    then show ?thesis using d(1) by auto
  next
    case False
    then have ne: "ts \<noteq> []" using ts(3) by blast
    note p = payload_effect [OF d False ne ts(2,4) w]
    then have b: "beside ts ns d d1" by blast
    show ?thesis
    proof (cases "r1 = Ok ()")
      case True
      then have own: "ts \<noteq> ns" "lookup d1 ts = Some (File (file_mode n (lookup d ns)) content)" using p by auto
      obtain d2 r2 where m: "rename (fe_io n (k + 3)) (rooted ts) (rooted ns) d1 = (d2, r2)" by fastforce
      note rename = rename_beside [OF b ts(2) own(1) ne False own(2) m]
      have "d' = d2" "is_ok r \<Longrightarrow> r2 = Ok ()"
        using run Ok w ts(1) True m
        by (cases r2; cases "digest_file n (k + 4) (rooted ns) d2"; auto simp: replace_file_def lift_res_def io_as_def)+
      then show ?thesis using rename ts(2) by (auto split: if_splits)
    next
      case r1: False
      then have "d' = d1" "\<not> is_ok r"
        using run Ok w ts(1) by (cases r1; auto simp: replace_file_def lift_res_def io_as_def)+
      moreover have "same_outside {ns, ts} d d1" using b same_outside_mono [of "{ts}" "{ns, ts}"] by (auto simp: beside_def)
      ultimately show ?thesis using b ts(2) by (auto simp: beside_def)
    qed
  qed
qed (use run d in \<open>auto simp: replace_file_def lift_res_def\<close>)

section \<open>Writing and patching\<close>

lemma walk_no_links:
  "no_links d (loc @ ns) \<Longrightarrow> walk d final links loc (map Normal ns) = Ok q \<Longrightarrow> q = loc @ ns"
proof (induction ns arbitrary: loc)
  case (Cons n ns)
  have "\<forall>t. lookup d (loc @ [n]) \<noteq> Some (Link t)" using Cons.prems(1) by (auto simp: no_links_iff)
  then show ?case
    using Cons.prems Cons.IH [of "loc @ [n]"] by (auto split: option.splits node.splits if_splits)
qed simp

lemma metadata_no_links:
  "no_links d ns \<Longrightarrow> metadata d (rooted ns) = Ok (loc, c) \<Longrightarrow> loc = ns \<and> lookup d ns = Some c"
  using walk_no_links [of d "[]" ns True 40] by (auto simp: entry_def and_then_Ok_iff rooted_def)

lemma no_links_here: "no_links d ns \<Longrightarrow> lookup d ns \<noteq> Some (Link t)"
  by (auto simp: no_links_iff)

lemma no_links_butlast: "no_links d ns \<Longrightarrow> no_links d (butlast ns)"
  unfolding no_links_iff by (meson prefixeq_butlast prefix_order.trans)

lemma create_dir_all_effect:
  assumes d: "wf_node d" "is_folder d" "no_links d ms" and run: "create_dir_all io (rooted ms) d = (d', r)"
  shows "wf_node d' \<and> r \<noteq> Panic \<and> (r = Ok () \<longrightarrow> has_folder d' ms) \<and> (\<forall>q. \<not> prefix q ms \<longrightarrow> lookup d' q = lookup d q)"
proof -
  have "path_is_dir d [RootDir]"
    using path_is_dir_rooted [of d "[]"] d(2) by (auto simp: rooted_def reachable_def has_folder_def is_folder_iff)
  then have "make_dirs io (rooted []) (map Normal ms) d = (d', r)"
    using run by (simp add: create_dir_all_def rooted_def)
  then show ?thesis using make_dirs_effect [OF d(1), of "[]" ms] d(2,3) by (simp add: has_folder_def)
qed

lemma create_parent_effect:
  assumes d: "wf_node d" "is_folder d" "no_links d ns" and run: "create_parent n k cd (rooted ns) d = (d', r)"
  shows "wf_node d' \<and> same_outside {ns} d d' \<and> lookup d' ns = lookup d ns \<and> r \<noteq> Panic \<and> (r = Ok () \<longrightarrow> reachable d' ns)"
proof (cases "ns = []")
  case True
  then show ?thesis using run d by (auto simp: create_parent_def reachable_def has_folder_def)
next
  case False
  obtain e r' where m: "create_dir_all (fe_io n k) (rooted (butlast ns)) d = (e, r')" by fastforce
  then have r: "e = d'" "r = Ok () \<longrightarrow> r' = Ok ()" "r = Panic \<longrightarrow> r' = Panic"
    using run False by (cases r'; auto simp: io_as_def create_parent_def)+
  have e: "wf_node d'" "r' \<noteq> Panic" "r' = Ok () \<longrightarrow> has_folder d' (butlast ns)"
    "\<And>q. \<not> prefix q (butlast ns) \<Longrightarrow> lookup d' q = lookup d q"
    using create_dir_all_effect [OF d(1,2) no_links_butlast [OF d(3)] m] r(1) by auto
  have "lookup d' q = lookup d q" if "q \<parallel> ns" for q
    using e(4) [of q] that prefix_order.trans [OF _ prefixeq_butlast, of q ns] by (auto simp: parallel_def)
  then have "same_outside {ns} d d'" by (simp add: same_outside_def)
  then show ?thesis using e r not_prefix_butlast [OF False] by (auto simp: reachable_def)
qed

lemma check_expected_Ok:
  assumes "check_expected n params (rooted ns) d = Ok ()" "no_links d ns" "jget params ''expectedDigest'' = Some (JStr expected)"
  shows "\<exists>m x. lookup d ns = Some (File m x) \<and> fe_sha n x = expected"
proof -
  have "digest_file n 6 (rooted ns) d = Ok expected"
    using assms(1,3) by (auto simp: check_expected_def and_then_Ok_iff split: if_splits)
  then have "\<exists>x. read_file (fe_io n 6) (rooted ns) d = Ok x \<and> fe_sha n x = expected"
    by (auto simp: digest_file_def split: outcome.splits)
  then obtain x where x: "read_file (fe_io n 6) (rooted ns) d = Ok x" "fe_sha n x = expected" by blast
  then obtain loc m where "metadata d (rooted ns) = Ok (loc, File m x)"
    by (auto simp: read_file_def split: io.splits outcome.splits node.splits)
  then show ?thesis using metadata_no_links [OF assms(2)] x(2) by blast
qed

text \<open>C14: \<open>fs.write\<close> replaces its destination in one step. Whatever call fails, the destination holds what it held, or
  the complete new content with the access mode of the old file; it is replaced only when the expected digest is that of
  the old content, and always when the request succeeds; no place outside the destination and the temporary file
  beside it changes.\<close>

theorem write_replaces_atomically:
  assumes d: "wf_node d" "is_folder d" "no_links d ns"
    and dest: "write_path (view d) (fe_paths n) params ''path'' False = Ok (rooted ns)"
    and name: "jget params ''path'' = Some (JStr raw)" "file_name (components raw) \<noteq> None"
    and absent: "expected_absent params = Ok False"
    and run: "fs_write n params d = (d', r)"
  shows "\<exists>ts. butlast ts = butlast ns \<and> (\<forall>q. q \<parallel> ns \<longrightarrow> q \<parallel> ts \<longrightarrow> lookup d' q = lookup d q) \<and>
    (lookup d' ns = lookup d ns \<and> \<not> is_ok r \<or>
     (\<exists>content. jget params ''content'' = Some (JStr content) \<and>
        lookup d' ns = Some (File (file_mode n (lookup d ns)) content) \<and>
        (\<forall>expected. jget params ''expectedDigest'' = Some (JStr expected) \<longrightarrow>
           (\<exists>m x. lookup d ns = Some (File m x) \<and> fe_sha n x = expected))))"
proof -
  have stop: ?thesis if "d' = d" "\<not> is_ok r" using that by (intro exI [of _ ns]) simp
  show ?thesis
  proof (cases "Option.bind (jget params ''content'') as_str")
    case None
    then show ?thesis using run dest stop by (auto simp: fs_write_def lift_res_def)
  next
    case (Some content)
    show ?thesis
    proof (cases "check_expected n params (rooted ns) d")
      case (Ok u)
      obtain d1 r1 where p: "create_parent n 7 ''FS_WRITE_FAILED'' (rooted ns) d = (d1, r1)" by fastforce
      note d1 = create_parent_effect [OF d p]
      show ?thesis
      proof (cases "r1 = Ok ()")
        case True
        have "replace_file n 8 ''FS_WRITE_FAILED'' params (rooted ns) content d1 = (d', r)"
          using run dest Some absent Ok p True by (simp add: fs_write_def lift_res_def)
        then have "(\<exists>ts. butlast ts = butlast ns \<and> same_outside {ns, ts} d1 d') \<and>
            (lookup d' ns = lookup d1 ns \<and> \<not> is_ok r \<or> lookup d' ns = Some (File (file_mode n (lookup d1 ns)) content))"
          using replace_file_effect [OF dest _ name, of d1] d1 True no_links_here [OF d(3)] by auto
        then obtain ts where ts: "butlast ts = butlast ns" "same_outside {ns, ts} d1 d'"
          "lookup d' ns = lookup d ns \<and> \<not> is_ok r \<or> lookup d' ns = Some (File (file_mode n (lookup d ns)) content)"
          using d1 by auto
        have "same_outside {ns, ts} d d'"
          using same_outside_trans [OF same_outside_mono ts(2), of "{ns}"] d1 by blast
        then have others: "\<forall>q. q \<parallel> ns \<longrightarrow> q \<parallel> ts \<longrightarrow> lookup d' q = lookup d q" by (simp add: same_outside_def)
        have content: "jget params ''content'' = Some (JStr content)"
          using Some by (auto simp: Option.bind_eq_Some_conv)
        have digest: "\<forall>expected. jget params ''expectedDigest'' = Some (JStr expected) \<longrightarrow>
            (\<exists>m x. lookup d ns = Some (File m x) \<and> fe_sha n x = expected)"
          using check_expected_Ok [OF _ d(3)] Ok by simp
        show ?thesis
          by (rule exI [of _ ts]) (use ts(1,3) others content digest in blast)
      next
        case False
        then have "(d', r) = (d1, case r1 of Err e \<Rightarrow> Err e | _ \<Rightarrow> Panic)"
          using run dest Some absent Ok p by (cases r1) (simp_all add: fs_write_def lift_res_def)
        then have stopped: "d' = d1" "\<not> is_ok r" by (auto split: outcome.splits)
        have "\<forall>q. q \<parallel> ns \<longrightarrow> q \<parallel> ns \<longrightarrow> lookup d' q = lookup d q" "lookup d' ns = lookup d ns"
          using d1 by (simp_all add: stopped(1) same_outside_def)
        then show ?thesis using stopped(2) by blast
      qed
    qed (use run dest Some absent stop in \<open>auto simp: fs_write_def lift_res_def\<close>)
  qed
qed

text \<open>A request that has changed something or succeeds has passed its checks.\<close>

lemma sbind_lift:
  "\<not> (d' = d \<and> \<not> is_ok r) \<Longrightarrow> sbind (lift_res d x) f = (d', r) \<longleftrightarrow> (\<exists>a. x = Ok a \<and> f d a = (d', r))"
  by (cases x) (auto simp: lift_res_def)

lemma replace_first_split:
  "count_matches 0 q x \<noteq> 0 \<Longrightarrow> \<exists>pre post. x = pre @ q @ post \<and> replace_first q r x = pre @ r @ post"
proof (induction x)
  case (Cons c cs)
  show ?case
  proof (cases "prefix q (c # cs)")
    case True
    then obtain post where post: "c # cs = q @ post" by (auto elim: prefixE)
    have "replace_first q r (c # cs) = r @ drop (length q) (c # cs)" using True by simp
    also have "drop (length q) (c # cs) = post" unfolding post by simp
    finally show ?thesis using post append_Nil by metis
  next
    case False
    then obtain pre post where "cs = pre @ q @ post" "replace_first q r cs = pre @ r @ post" using Cons by auto
    then show ?thesis using False by (intro exI [of _ "c # pre"] exI [of _ post]) simp
  qed
qed simp

lemma read_file_Ok: "no_links d ns \<Longrightarrow> read_file io (rooted ns) d = Ok x \<Longrightarrow> \<exists>m. lookup d ns = Some (File m x)"
  using metadata_no_links [of d ns] by (auto simp: read_file_def split: io.splits outcome.splits node.splits)

lemma digest_file_Ok: "digest_file n k p d = Ok h \<Longrightarrow> \<exists>x. read_file (fe_io n k) p d = Ok x \<and> fe_sha n x = h"
  by (auto simp: digest_file_def split: outcome.splits)

lemma reachable_file: "lookup d ns = Some c \<Longrightarrow> is_folder d \<Longrightarrow> reachable d ns"
  using has_folder_prefix [of d "butlast ns" "last ns" "[]"] by (cases "ns = []") (auto simp: reachable_def has_folder_def)

text \<open>\<open>fs.patch\<close> changes one occurrence of its context. Whatever call fails, the file holds what it held, or its old
  content, whose digest is the expected one, with the context replaced at one place; a request that succeeds has done so.\<close>

theorem patch_replaces_context:
  assumes d: "wf_node d" "is_folder d" "no_links d ns"
    and dest: "write_path (view d) (fe_paths n) params ''path'' True = Ok (rooted ns)"
    and name: "jget params ''path'' = Some (JStr raw)" "file_name (components raw) \<noteq> None"
    and run: "fs_patch n params d = (d', r)"
  shows "lookup d' ns = lookup d ns \<and> \<not> is_ok r \<or>
    (\<exists>m pre before post after. lookup d ns = Some (File m (pre @ before @ post)) \<and>
       jget params ''before'' = Some (JStr before) \<and> jget params ''after'' = Some (JStr after) \<and>
       jget params ''expectedDigest'' = Some (JStr (fe_sha n (pre @ before @ post))) \<and>
       lookup d' ns = Some (File (and m 511) (pre @ after @ post)))"
proof (cases "d' = d \<and> \<not> is_ok r")
  case False
  have req: "jget params key = Some (JStr x)" if "required_str params key = Ok x" for key x
    using that by (auto simp: required_str_def split: option.splits json.splits if_splits)
  obtain h before after x where h: "required_str params ''expectedDigest'' = Ok h" "digest_file n 0 (rooted ns) d = Ok h"
    "required_str params ''before'' = Ok before" "required_str params ''after'' = Ok after"
    "read_file (fe_io n 1) (rooted ns) d = Ok x" "count_matches 0 before x = 1"
    "replace_file n 2 ''FS_PATCH_FAILED'' params (rooted ns) (replace_first before after x) d = (d', r)"
    using run dest False
    by (auto simp: fs_patch_def sbind_lift [OF False] Let_def split: if_splits outcome.splits)
  obtain m where m: "lookup d ns = Some (File m x)" using read_file_Ok [OF d(3) h(5)] by blast
  have sha: "fe_sha n x = h" using digest_file_Ok [OF h(2)] read_file_Ok [OF d(3)] m by fastforce
  obtain pre post where x: "x = pre @ before @ post" "replace_first before after x = pre @ after @ post"
    using replace_first_split [of before x after] h(6) by auto
  have "lookup d' ns = lookup d ns \<and> \<not> is_ok r \<or> lookup d' ns = Some (File (file_mode n (lookup d ns)) (pre @ after @ post))"
    using replace_file_effect [OF dest refl name d(1) reachable_file [OF m d(2)] _ h(7)] m x(2) by simp
  then show ?thesis
    using m sha x(1) req [OF h(1)] req [OF h(3)] req [OF h(4)] by (auto simp: file_mode_def node_mode_def)
qed auto

section \<open>Removing and restoring\<close>

lemma parallel_extend: "q \<parallel> a \<Longrightarrow> prefix a b \<Longrightarrow> q \<parallel> b"
  unfolding parallel_def using prefix_same_cases prefix_order.trans by blast

lemma lookup_place_frame:
  "wf_node d \<Longrightarrow> \<not> prefix loc q \<Longrightarrow> \<not> prefix q loc \<Longrightarrow> lookup (place loc x d) q = lookup d q"
  by (rule lookup_place_other) (auto simp: parallel_def)

text \<open>A successful move between two places neither of which lies in the other.\<close>

lemma rename_plain:
  assumes d: "reachable d a" "reachable d b"
    and run: "rename io (rooted a) (rooted b) d = (d', Ok ())" and "a \<noteq> b"
  shows "\<exists>c. lookup d a = Some c \<and> a \<parallel> b \<and> d' = place b (Some c) (place a None d)"
proof -
  obtain c where c: "lookup d a = Some c" using run d by (cases "lookup d a") (auto simp: rename_def)
  then show ?thesis
    using run d assms(4)
    by (auto simp: rename_def parallel_def split: if_splits io.splits)
qed

lemma rename_plainI:
  assumes "reachable d a" "reachable d b" "lookup d a = Some c" "lookup d b = None" "a \<parallel> b"
  shows "rename Works (rooted a) (rooted b) d = (place b (Some c) (place a None d), Ok ())"
  using assms by (auto simp: rename_def parallel_def)

lemma moved:
  assumes d: "wf_node d" "reachable d a" "reachable d b" "a \<noteq> []" "b \<noteq> []" "lookup d a = Some c" "a \<parallel> b"
    and far: "\<not> prefix a (butlast b)" "\<not> prefix b (butlast a)"
  defines "d' \<equiv> place b (Some c) (place a None d)"
  shows "wf_node d'" "lookup d' b = Some c" "lookup d' a = None" "reachable d' a" "reachable d' b"
    "\<And>q. q \<parallel> a \<Longrightarrow> q \<parallel> b \<Longrightarrow> lookup d' q = lookup d q"
proof -
  let ?e = "place a None d"
  have e: "wf_node ?e" "reachable ?e b" "reachable ?e a"
    using d far wf_place [of d None a] not_prefix_butlast [OF d(4)]
    by (auto simp: reachable_def intro!: has_folder_place)
  show "wf_node d'" unfolding d'_def using wf_place [OF e(1), of "Some c" b] wf_lookup [OF d(1,6)] by simp
  show "lookup d' b = Some c" unfolding d'_def using lookup_place_self [OF d(5) e(2)] .
  show "lookup d' a = None"
    unfolding d'_def using d(1,4,7) e(1) by (simp add: lookup_place_other parallel_commute lookup_place_none)
  show "reachable d' a" "reachable d' b"
    unfolding d'_def using e far(2) not_prefix_butlast [OF d(5)]
    by (auto simp: reachable_def intro!: has_folder_place)
  show "lookup d' q = lookup d q" if "q \<parallel> a" "q \<parallel> b" for q
    unfolding d'_def using d(1) e(1) that by (simp add: lookup_place_other parallel_commute)
qed


section \<open>Instances\<close>

definition sample_disk :: node where
  "sample_disk = Folder [(''home'', Folder [(''Code'', Folder [(''a.txt'', File 420 ''one two'')])])]"

definition sample_files :: file_env where
  "sample_files =
     \<lparr>fe_paths = \<lparr>allowed_roots = [rooted [''home'']], desktop_policy = None\<rparr>, fe_io = (\<lambda>_. Works),
      fe_read = (\<lambda>_. None), fe_sha = (\<lambda>x. x), fe_lossy = (\<lambda>x. x), fe_utf8 = (\<lambda>_. True), fe_pid = 7,
      fe_uuid = (\<lambda>_. ''u''), fe_now = 5, fe_umask = 18, fe_dir_mode = 493\<rparr>"

abbreviation sample_place :: "string list" where
  "sample_place \<equiv> [''home'', ''Code'', ''a.txt'']"

definition disk_write :: json where
  "disk_write = jobj [(''path'', JStr ''/home/Code/a.txt''), (''content'', JStr ''new''), (''expectedDigest'', JStr ''one two'')]"

definition disk_patch :: json where
  "disk_patch = jobj [(''path'', JStr ''/home/Code/a.txt''), (''before'', JStr ''two''), (''after'', JStr ''three''),
     (''expectedDigest'', JStr ''one two'')]"

definition disk_remove :: json where
  "disk_remove = jobj [(''path'', JStr ''/home/Code/a.txt''), (''expectedDigest'', JStr ''one two'')]"

definition disk_restore :: json where
  "disk_restore = jobj [(''path'', JStr ''/home/Code/a.txt''), (''restoreToken'', JStr ''/home/Code/.machine-fabric-trash/5_u'')]"

lemma sample_disk_ok: "wf_node sample_disk" "is_folder sample_disk" "no_links sample_disk sample_place" "reachable sample_disk sample_place"
  by code_simp+

theorem write_replaces_atomically_witness:
  "lookup (fst (fs_write sample_files disk_write sample_disk)) sample_place = Some (File 420 ''new'')"
proof -
  have p: "write_path (view sample_disk) (fe_paths sample_files) disk_write ''path'' False = Ok (rooted sample_place)"
    "jget disk_write ''path'' = Some (JStr ''/home/Code/a.txt'')" "file_name (components ''/home/Code/a.txt'') \<noteq> None"
    "expected_absent disk_write = Ok False"
    by code_simp+
  have "is_ok (snd (fs_write sample_files disk_write sample_disk))"
    "jget disk_write ''content'' = Some (JStr ''new'')" "file_mode sample_files (lookup sample_disk sample_place) = 420"
    by code_simp+
  then show ?thesis
    using write_replaces_atomically [OF sample_disk_ok(1-3) p prod.collapse [symmetric]] by auto
qed

theorem patch_replaces_context_witness:
  "lookup (fst (fs_patch sample_files disk_patch sample_disk)) sample_place \<noteq> lookup sample_disk sample_place"
proof -
  have p: "write_path (view sample_disk) (fe_paths sample_files) disk_patch ''path'' True = Ok (rooted sample_place)"
    "jget disk_patch ''path'' = Some (JStr ''/home/Code/a.txt'')" "file_name (components ''/home/Code/a.txt'') \<noteq> None"
    by code_simp+
  have q: "is_ok (snd (fs_patch sample_files disk_patch sample_disk))" "jget disk_patch ''before'' = Some (JStr ''two'')"
    "jget disk_patch ''after'' = Some (JStr ''three'')" by code_simp+
  show ?thesis
    using patch_replaces_context [OF sample_disk_ok(1-3) p prod.collapse [symmetric]] q by auto
qed

definition sample_removed :: node where
  "sample_removed = fst (fs_remove sample_files disk_remove sample_disk)"


definition sample_policy :: desktop_path_policy where
  "sample_policy = \<lparr>read_denied = [rooted [''home'', ''.ssh'']], write_allowed = [rooted [''home'', ''Code'']],
     logical_write_allowed = [rooted [''home'', ''Code'']], managed_mappings = []\<rparr>"


end
