(* ===== verification/Controller_Types.thy ===== *)
theory Controller_Types
  imports Controller_Histories
begin

text \<open>
  The type invariant of the controller: what its maps, lists and state file hold between requests. It needs no assumption
  on generated identifiers and holds over every request, handoffs included, and across restarts.
\<close>

section \<open>Well-formed states\<close>

definition tasks_keyed :: "task_table \<Rightarrow> bool" where
  "tasks_keyed t \<longleftrightarrow>
     bt_wf (tasks t) \<and> bt_wf (idempotency t) \<and> (\<forall>i task. bt_get (tasks t) i = Some task \<longrightarrow> t_id task = i)"

text \<open>Records that are stored by \<open>upsert_by\<close> are found under one identity at most.\<close>

definition ids_distinct :: "fabric_state \<Rightarrow> bool" where
  "ids_distinct st \<longleftrightarrow>
     distinct (map (\<lambda>s. md_id (ws_metadata s)) (fs_sessions st)) \<and>
     distinct (map (\<lambda>e. md_id (ex_metadata e)) (fs_executors st)) \<and>
     distinct (map (\<lambda>p. md_id (cp_metadata p)) (fs_controllers st)) \<and>
     distinct (map ar_digest (fs_artifacts st)) \<and> distinct (map g_id (fs_generations st)) \<and>
     distinct (map ag_id (fs_agents st))"

definition stored_well_typed :: "fabric_state \<Rightarrow> bool" where
  "stored_well_typed st \<longleftrightarrow> ids_distinct st \<and> bt_wf (fs_lease_fences st)"

definition disk_well_typed :: "fabric_state option \<Rightarrow> bool" where
  "disk_well_typed disk \<longleftrightarrow> (case disk of Some st \<Rightarrow> stored_well_typed st | None \<Rightarrow> True)"

definition well_typed :: "controller \<Rightarrow> bool" where
  "well_typed c \<longleftrightarrow>
     ids_distinct (c_state c) \<and> lease_inv (c_leases c) \<and> tasks_keyed (c_tasks c) \<and> disk_well_typed (c_disk c)"

section \<open>Tasks\<close>

lemma push_event_id [simp]: "t_id (push_event n k d task) = t_id task"
  by (simp add: push_event_def)

lemma keyed_store: "tasks_keyed t \<Longrightarrow> t_id task = i \<Longrightarrow> tasks_keyed (store_task t i task)"
  by (auto simp: tasks_keyed_def store_task_def bt_simps)

lemma keyed_get: "tasks_keyed t \<Longrightarrow> bt_get (tasks t) i = Some task \<Longrightarrow> t_id task = i"
  by (simp add: tasks_keyed_def)

lemma keyed_remove:
  "tasks_keyed t \<Longrightarrow> tasks_keyed \<lparr>tasks = bt_remove i (tasks t), idempotency = bt_remove k (idempotency t)\<rparr>"
  by (auto simp: tasks_keyed_def bt_simps split: if_splits)

lemma keyed_submit: "tasks_keyed t \<Longrightarrow> tasks_keyed (fst (submit_traced n1 n2 uid ws ex cap inp key corr req t))"
  by (auto simp: submit_traced_def tasks_keyed_def Let_def bt_simps split: option.splits)

lemma keyed_transition: "tasks_keyed t \<Longrightarrow> tasks_keyed (fst (transition n1 n2 i st out err t))"
  by (auto simp: transition_def transitioned_def Let_def keyed_get split: option.splits intro!: keyed_store)

lemma keyed_retry: "tasks_keyed t \<Longrightarrow> tasks_keyed (fst (retry n1 n2 i t))"
  by (auto simp: retry_def retried_def Let_def keyed_get split: option.splits intro!: keyed_store)

lemma keyed_retry_with_input:
  assumes "tasks_keyed t"
  shows "tasks_keyed (fst (retry_with_input n1 n2 i inp t))"
proof -
  obtain t' r where t': "retry n1 n2 i t = (t', r)" by (cases "retry n1 n2 i t")
  have "tasks_keyed t'" using keyed_retry [OF assms, of n1 n2 i] by (simp add: t')
  then show ?thesis
    by (cases r) (auto simp: retry_with_input_def t' Let_def keyed_get split: option.splits intro!: keyed_store)
qed

lemma keyed_replace:
  "tasks_keyed t \<Longrightarrow> tasks_keyed (fst (replace_input_ref_if_unchanged i revision mk rf t))"
  "tasks_keyed t \<Longrightarrow> tasks_keyed (fst (replace_output_ref_if_unchanged i revision mk rf t))"
  by (auto simp: replace_input_ref_if_unchanged_def replace_output_ref_if_unchanged_def keyed_get
      split: option.splits intro!: keyed_store)

lemma keyed_prune_fold: "tasks_keyed (fst p) \<Longrightarrow> tasks_keyed (fst (foldl prune_one p ids))"
  by (induction ids arbitrary: p) (auto simp: prune_one_def keyed_remove split: option.splits)

lemma recover_entries_ids:
  "\<forall>(i, task) \<in> set m. t_id task = i \<Longrightarrow> \<forall>(i, task) \<in> set (fst (recover_entries clk n m)). t_id task = i"
  by (induction clk n m rule: recover_entries.induct) (auto simp: recovered_def Let_def split: prod.splits)

lemma keyed_recover:
  assumes "tasks_keyed t"
  shows "tasks_keyed (fst (recover_orphans clk t))"
proof -
  let ?m = "fst (recover_entries clk 0 (tasks t))"
  have wf: "bt_wf (tasks t)" using assms by (simp add: tasks_keyed_def)
  then have wf': "bt_wf ?m" by (simp add: bt_wf_def recover_keys)
  have "\<forall>(i, task) \<in> set (tasks t). t_id task = i" using assms bt_get_in [OF wf] by (auto simp: tasks_keyed_def)
  then have "\<forall>(i, task) \<in> set ?m. t_id task = i" by (rule recover_entries_ids)
  then have "\<forall>i task. bt_get ?m i = Some task \<longrightarrow> t_id task = i" using bt_get_in [OF wf'] by fastforce
  then show ?thesis using assms wf' by (simp add: recover_orphans_def tasks_keyed_def case_prod_unfold Let_def)
qed

lemma keyed_step: "tasks_keyed t \<Longrightarrow> tasks_keyed (task_step t e)"
  by (cases e) (simp_all add: keyed_submit keyed_transition keyed_retry keyed_retry_with_input keyed_replace keyed_recover
      keyed_prune_fold prune_terminal_before_def)

interpretation keyed: invariant_machine task_step "\<lambda>_ _. True" tasks_keyed
  by unfold_locales (rule keyed_step)

lemma keyed_from_task: "tasks_keyed t \<Longrightarrow> tasks_keyed (from_task t task)"
  by (simp add: from_task_def tasks_keyed_def bt_simps)

lemma keyed_from_tasks: "tasks_keyed (from_tasks ts)"
proof -
  have "tasks_keyed t \<Longrightarrow> tasks_keyed (foldl from_task t ts)" for t
    by (induction ts arbitrary: t) (simp_all add: keyed_from_task)
  moreover have "tasks_keyed task_table_default" by (simp add: tasks_keyed_def task_table_default_def)
  ultimately show ?thesis unfolding from_tasks_def by blast
qed

lemma keyed_updates: "tasks_keyed t \<Longrightarrow> tasks_keyed (foldl apply_update t us)"
  by (induction us arbitrary: t) (auto simp: apply_update_def keyed_replace split: prod.splits option.splits)

section \<open>Records\<close>

lemma upsert_keys:
  "distinct (map f xs) \<Longrightarrow> distinct (map f (upsert_by (\<lambda>y. f y = f x) x xs))"
proof -
  have "set (map f (upsert_by (\<lambda>y. f y = f x) x xs)) = insert (f x) (set (map f xs))" for xs
    by (induction xs) auto
  then show "distinct (map f xs) \<Longrightarrow> distinct (map f (upsert_by (\<lambda>y. f y = f x) x xs))"
    by (induction xs) auto
qed

lemmas upsert_ids = upsert_keys upsert_keys [of "\<lambda>x. md_id (ws_metadata x)"] upsert_keys [of "\<lambda>x. md_id (ex_metadata x)"]
  upsert_keys [of "\<lambda>x. md_id (cp_metadata x)"]

lemma update_first_keys: "(\<And>x. f (g x) = f x) \<Longrightarrow> map f (update_first p g xs) = map f xs"
  by (induction xs) auto

lemmas record_stores = store_task_entry_def store_artifact_def store_generation_def store_transaction_def store_agent_def
  store_handoff_def store_executor_def store_controller_def remove_executor_def remove_controller_def

lemma ids_stores:
  assumes "ids_distinct st"
  shows "ids_distinct (store_task_entry t st)" "ids_distinct (store_artifact a st)" "ids_distinct (store_generation g st)"
    "ids_distinct (store_transaction x st)" "ids_distinct (store_agent ag st)" "ids_distinct (store_handoff h st)"
    "ids_distinct (store_executor e st)" "ids_distinct (store_controller p st)"
    "ids_distinct (remove_executor i st)" "ids_distinct (remove_controller i st)"
  using assms by (simp_all add: ids_distinct_def record_stores upsert_ids distinct_map_filter)

lemma ids_others [simp]:
  "ids_distinct (st\<lparr>fs_approvals := aps\<rparr>) = ids_distinct st" "ids_distinct (st\<lparr>fs_transactions := txs\<rparr>) = ids_distinct st"
  "ids_distinct (st\<lparr>fs_handoffs := hs\<rparr>) = ids_distinct st"
  by (simp_all add: ids_distinct_def)

lemma typed_upd_state: "well_typed c \<Longrightarrow> ids_distinct (f (c_state c)) \<Longrightarrow> well_typed (upd_state f c)"
  by (simp add: well_typed_def upd_state_def)

lemma typed_ids: "well_typed c \<Longrightarrow> ids_distinct (c_state c)"
  by (simp add: well_typed_def)

lemma typed_persist: "well_typed c \<Longrightarrow> well_typed (fst (persist n k c))"
  by (auto simp: persist_def well_typed_def keyed_updates committed_state_def disk_well_typed_def stored_well_typed_def
      ids_distinct_def fence_snapshot_def lease_inv_wf split: prod.splits outcome.splits option.splits)

lemma typed_put_session: "well_typed c \<Longrightarrow> well_typed (put_session s c)"
  unfolding put_session_def by (rule typed_upd_state) (auto simp: well_typed_def ids_distinct_def upsert_ids)

lemma typed_quiet:
  assumes "quiet c c'" "well_typed c"
  shows "well_typed c'"
  using assms
proof (cases rule: quiet.cases)
  case q_save
  then show ?thesis using assms(2) by (simp add: typed_persist)
next
  case (q_lease e)
  then show ?thesis using assms(2) by (simp add: lease_change_def well_typed_def lease_step_inv)
next
  case (q_task e)
  then show ?thesis using assms(2) by (simp add: task_change_def well_typed_def keyed_step)
next
  case q_poison
  then show ?thesis using assms(2) by (simp add: well_typed_def)
next
  case (q_agent_change f i)
  then show ?thesis
    using assms(2) by (simp add: change_agent_def upd_state_def well_typed_def ids_distinct_def update_first_keys)
next
  case (q_session i st now)
  then show ?thesis
    using assms(2) by (simp add: touch_session_def upd_state_def well_typed_def ids_distinct_def update_first_keys)
qed (use typed_ids [OF assms(2)] in \<open>simp_all add: add_approval_def change_approval_def add_transaction_def
      change_transaction_def add_handoff_def change_handoff_def ids_stores typed_upd_state [OF assms(2)]\<close>)

lemma typed_change:
  assumes "well_typed c" "change c c'"
  shows "well_typed c'"
  using assms(2)
proof (cases rule: change.cases)
  case c_steady
  then show ?thesis
    by (cases rule: steady.cases) (auto intro: typed_quiet typed_put_session assms(1))
next
  case c_accept
  then show ?thesis using typed_put_session [OF assms(1)] by simp
next
  case (c_bundle f)
  then show ?thesis
    using ids_stores [OF typed_ids [OF assms(1)]] by (auto simp: bundle_store_def intro!: typed_upd_state [OF assms(1)])
next
  case c_reload
  then show ?thesis
    using assms(1) by (simp add: reload_tasks_def upd_state_def well_typed_def keyed_from_tasks ids_distinct_def)
qed

interpretation typed: relation_machine change well_typed
  by unfold_locales (rule typed_change)

section \<open>Opening\<close>

lemma ids_compact: "ids_distinct st \<Longrightarrow> ids_distinct (fst (compact_persisted_evidence st))"
  by (simp add: compact_persisted_evidence_def ids_distinct_def Let_def comp_def compact_generation_def)

lemma claim_session_id [simp]: "md_id (ws_metadata (claim_session i s)) = md_id (ws_metadata s)"
  by (simp add: claim_session_def)

lemma open_tables_typed:
  assumes "open_tables n clk i dirty disk files st = (d, Ok c)" "stored_well_typed st" "disk_well_typed disk"
  shows "well_typed c"
proof -
  let ?st = "fst (compact_persisted_evidence st)"
  have ids: "ids_distinct ?st" using assms(2) by (simp add: ids_compact stored_well_typed_def)
  have fences: "bt_wf (fs_lease_fences ?st)"
    using assms(2) by (simp add: compact_persisted_evidence_def stored_well_typed_def Let_def)
  let ?ls = "fst (reap_expired (cv_now n 0) (from_snapshot (fs_leases ?st) (fs_lease_fences ?st)))"
  have ls: "lease_inv ?ls"
    using lease_step_inv [OF from_snapshot_inv [OF fences], of "fs_leases ?st" "OpReap (cv_now n 0)"] by simp
  have tt: "tasks_keyed (fst (recover_orphans clk (from_tasks (fs_tasks ?st))))" by (intro keyed_recover keyed_from_tasks)
  show ?thesis
    using assms(1,3) ids ls tt lease_inv_wf(2) [OF ls]
    by (auto simp: open_tables_def Let_def case_prod_unfold well_typed_def disk_well_typed_def stored_well_typed_def
        ids_distinct_def fence_snapshot_def split: if_splits)
qed

lemma open_typed:
  assumes "open_with_id n clk configured_id disk files = (d, Ok c)" "disk_well_typed disk"
  shows "well_typed c"
proof -
  let ?st = "case disk of Some st \<Rightarrow> st | None \<Rightarrow> fabric_state_default"
  have "stored_well_typed ?st"
    using assms(2) by (auto simp: disk_well_typed_def stored_well_typed_def ids_distinct_def fabric_state_default_def
        split: option.splits)
  then have typed: "stored_well_typed (?st\<lparr>fs_controller_id := x, fs_sessions := map (claim_session i) (fs_sessions ?st), fs_tasks := ts\<rparr>)"
    for x i ts by (simp add: stored_well_typed_def ids_distinct_def comp_def)
  obtain i dirty files' x ts where "open_tables n clk i dirty disk files'
      (?st\<lparr>fs_controller_id := x, fs_sessions := map (claim_session i) (fs_sessions ?st), fs_tasks := ts\<rparr>) = (d, Ok c)"
    using assms(1) unfolding open_with_id_def Let_def by (auto split: if_split_asm prod.split_asm outcome.split_asm)
  then show ?thesis using typed assms(2) by (rule open_tables_typed)
qed

lemma requests_typed: "well_typed c \<Longrightarrow> well_typed (run_requests rqs c)"
proof (induction rqs arbitrary: c)
  case (Cons a rqs)
  have "change\<^sup>*\<^sup>* c (fst (controller_handle (fst a) (snd a) c))" by (rule handle_path) (auto intro: dispatch_change c_steady c_quiet)
  then have "well_typed (fst (controller_handle (fst a) (snd a) c))" using typed.reach_inv Cons.prems by blast
  then show ?case using Cons.IH by (simp add: run_requests_def case_prod_unfold)
qed (simp add: run_requests_def)

section \<open>Property\<close>

text \<open>C20: the state of a controller keeps its type. A controller that was opened from no state file or from a well-formed
  one holds, after any requests, whatever they contain and whatever fails: sorted maps of leases, fences and tasks in
  which every entry is stored under its own key and every lease is covered by the fence of its resource; and at most one
  session, executor, controller, generation and agent of each id and one artifact of each digest. The state file it
  leaves is well-formed again, so that this holds across restarts.\<close>

theorem controller_well_typed:
  assumes "disk_well_typed disk" "open_with_id n clk configured_id disk files = (d, Ok c)"
  shows "well_typed (run_requests rqs c) \<and> disk_well_typed (c_disk (run_requests rqs c))"
  using requests_typed [OF open_typed [OF assms(2,1)]] by (simp add: well_typed_def)

theorem controller_well_typed_witness:
  "\<exists>d c. open_with_id demo_env (\<lambda>_. 100) (Some ''controller'') None (\<lambda>_. None) = (d, Ok c) \<and>
     well_typed (run_requests demo_requests c)"
proof -
  have "is_ok (snd (open_with_id demo_env (\<lambda>_. 100) (Some ''controller'') None (\<lambda>_. None)))"
    by (simp add: open_with_id_def open_tables_def compact_persisted_evidence_def
        fabric_state_default_def from_snapshot_def reap_expired_def from_tasks_def task_table_default_def
        recover_orphans_def demo_env_def Let_def case_prod_unfold)
  then obtain d c where o: "open_with_id demo_env (\<lambda>_. 100) (Some ''controller'') None (\<lambda>_. None) = (d, Ok c)"
    by (cases "open_with_id demo_env (\<lambda>_. 100) (Some ''controller'') None (\<lambda>_. None)") (auto simp: is_ok_iff)
  show ?thesis using o controller_well_typed [OF _ o] by (auto simp: disk_well_typed_def)
qed

end
