(* ===== verification/Peer_Frames.thy ===== *)
theory Peer_Frames
  imports Schema_Types
begin

text \<open>
  The frames two peers exchange (\<open>Frame\<close>, \<open>encode\<close> and \<open>read_frame\<close> in \<open>connection.rs\<close>) and the compression of large
  responses (\<open>compression.rs\<close>). The JSON codec derived by serde, gzip and base64 are the fields of \<open>frame_codec\<close>;
  \<open>faithful_frame\<close> and \<open>faithful_response\<close> are what the code relies on for the values it sends: the codecs invert each
  other, JSON of a frame has no line break, gzip can be decompressed up to any length, and base64 has four characters
  for every three bytes.
\<close>

section \<open>Frames\<close>

record channel_binding =
  cb_lease_id :: string
  cb_scope :: json

record hello =
  h_protocol :: string
  h_node_id :: string
  h_roles :: "string list"
  h_binding :: "channel_binding option"
  h_response_gzip :: bool

datatype frame =
    Hello hello
  | HelloAck hello
  | RequestFrame string string request
  | ResponseFrame string response
  | ResponseGzip string nat string
  | CancelFrame string

datatype close_reason =
    Requested
  | LeaseExpired
  | LeaseRevoked
  | Disconnected
  | ProtocolError
  | HandshakeTimeout
  | Backpressure
  | DrainIncomplete

record frame_codec =
  fc_frame :: "frame \<Rightarrow> string"
  fc_unframe :: "string \<Rightarrow> frame option"
  fc_response :: "response \<Rightarrow> string"
  fc_unresponse :: "string \<Rightarrow> response option"
  fc_gzip :: "string \<Rightarrow> string option"
  fc_gunzip :: "string \<Rightarrow> nat \<Rightarrow> string option"
  fc_base64 :: "string \<Rightarrow> string"
  fc_unbase64 :: "string \<Rightarrow> string option"

definition div_ceil :: "nat \<Rightarrow> nat \<Rightarrow> nat" where
  "div_ceil a b = (a + b - 1) div b"

definition faithful_frame :: "frame_codec \<Rightarrow> frame \<Rightarrow> bool" where
  "faithful_frame fc f \<longleftrightarrow>
     CHR 0x0A \<notin> set (fc_frame fc f) \<and> fc_unframe fc (fc_frame fc f @ [CHR 0x0A]) = Some f"

definition faithful_response :: "frame_codec \<Rightarrow> response \<Rightarrow> bool" where
  "faithful_response fc r \<longleftrightarrow>
     fc_unresponse fc (fc_response fc r) = Some r \<and>
     (\<forall>z. fc_gzip fc (fc_response fc r) = Some z \<longrightarrow>
        (\<forall>k. fc_gunzip fc z k = Some (take k (fc_response fc r))) \<and>
        fc_unbase64 fc (fc_base64 fc z) = Some z \<and> length (fc_base64 fc z) = div_ceil (length z) 3 * 4)"

section \<open>Encoding\<close>

definition encode_frame :: "frame_codec \<Rightarrow> nat \<Rightarrow> frame \<Rightarrow> (string, string) outcome" where
  "encode_frame fc maximum f =
     (if length (fc_frame fc f) > maximum - 1 then Err ''encode bounded peer frame''
      else Ok (fc_frame fc f @ [CHR 0x0A]))"

text \<open>\<open>read_until\<close>: up to the line break, which is included.\<close>

fun until_break :: "string \<Rightarrow> string" where
  "until_break [] = []"
| "until_break (c # cs) = (if c = CHR 0x0A then [c] else c # until_break cs)"

text \<open>\<open>readable\<close> is whether the stream could be read.\<close>

definition read_frame :: "frame_codec \<Rightarrow> bool \<Rightarrow> nat \<Rightarrow> string \<Rightarrow> string \<times> (close_reason, frame) outcome" where
  "read_frame fc is_readable maximum input =
     (let bytes = until_break (take (maximum + 1) input); rest = drop (length bytes) input
      in if \<not> is_readable then (rest, Err Disconnected)
         else if bytes = [] then (rest, Err Disconnected)
         else if length bytes > maximum \<or> last bytes \<noteq> CHR 0x0A then (rest, Err ProtocolError)
         else (rest, ok_or (fc_unframe fc bytes) ProtocolError))"

section \<open>Compression\<close>

definition MAX_GZIP_RESPONSE :: nat where
  "MAX_GZIP_RESPONSE = 32 * 1024 * 1024"

definition MIN_GZIP_RESPONSE :: nat where
  "MIN_GZIP_RESPONSE = 64 * 1024"

text \<open>\<open>ResponseSize\<close>: the length of the serialized response, if it is within the budget.\<close>

definition response_size :: "frame_codec \<Rightarrow> response \<Rightarrow> nat option" where
  "response_size fc r = (let n = length (fc_response fc r) in if n \<le> MAX_GZIP_RESPONSE then Some n else None)"

definition encode_response_frame :: "frame_codec \<Rightarrow> string \<Rightarrow> response \<Rightarrow> bool \<Rightarrow> frame" where
  "encode_response_frame fc i r negotiated =
     (if negotiated \<and> rs_ok r
      then case response_size fc r of
             Some sz \<Rightarrow>
               if sz \<ge> MIN_GZIP_RESPONSE
               then case fc_gzip fc (fc_response fc r) of
                      Some bytes \<Rightarrow>
                        if div_ceil (length bytes) 3 * 4 + 256 < sz then ResponseGzip i sz (fc_base64 fc bytes)
                        else ResponseFrame i r
                    | None \<Rightarrow> ResponseFrame i r
               else ResponseFrame i r
           | None \<Rightarrow> ResponseFrame i r
      else ResponseFrame i r)"

definition decode_response_frame :: "frame_codec \<Rightarrow> frame \<Rightarrow> bool \<Rightarrow> nat \<Rightarrow> (string, frame) outcome" where
  "decode_response_frame fc f negotiated maximum =
     (case f of
        ResponseGzip i expanded payload \<Rightarrow>
          if \<not> negotiated \<or> expanded > maximum \<or> \<not> (MIN_GZIP_RESPONSE \<le> expanded \<and> expanded \<le> MAX_GZIP_RESPONSE)
             \<or> length payload > div_ceil MAX_GZIP_RESPONSE 3 * 4
          then Err ''invalid or unnegotiated compressed peer response''
          else
          and_then (ok_or (fc_unbase64 fc payload) ''decode compressed peer response base64'') (\<lambda>compressed.
          and_then (ok_or (fc_gunzip fc compressed (expanded + 1)) ''decode compressed peer response gzip'') (\<lambda>bytes.
          if length bytes \<noteq> expanded then Err ''compressed peer response length mismatch''
          else
          and_then (ok_or (fc_unresponse fc bytes) ''decode compressed peer response JSON'') (\<lambda>response.
          if \<not> rs_ok response then Err ''compressed error response is not supported''
          else Ok (ResponseFrame i response))))
      | _ \<Rightarrow> Ok f)"

section \<open>Frames arrive as they were sent\<close>

lemma until_break_line: "CHR 0x0A \<notin> set x \<Longrightarrow> until_break (x @ CHR 0x0A # y) = x @ [CHR 0x0A]"
  by (induction x) auto

lemma read_frame_encoded:
  assumes "faithful_frame fc f" "encode_frame fc maximum f = Ok bytes" "0 < maximum"
  shows "read_frame fc True maximum (bytes @ rest) = (rest, Ok f)"
proof -
  let ?b = "fc_frame fc f"
  have b: "bytes = ?b @ [CHR 0x0A]" "length ?b \<le> maximum - 1"
    using assms(2) by (auto simp: encode_frame_def split: if_splits)
  have laws: "CHR 0x0A \<notin> set ?b" "fc_unframe fc bytes = Some f" using assms(1) by (auto simp: faithful_frame_def b(1))
  have "length bytes \<le> maximum" using b assms(3) by simp
  then have "take (maximum + 1) (bytes @ rest) = ?b @ CHR 0x0A # take (maximum + 1 - length bytes) rest"
    by (simp add: b(1) Suc_diff_le)
  then have "until_break (take (maximum + 1) (bytes @ rest)) = bytes"
    using until_break_line [OF laws(1)] b(1) by simp
  then show ?thesis
    using \<open>length bytes \<le> maximum\<close> laws(2) by (simp add: read_frame_def Let_def b(1))
qed

text \<open>Reads \<open>k\<close> frames from a stream.\<close>

fun read_frames :: "frame_codec \<Rightarrow> nat \<Rightarrow> nat \<Rightarrow> string \<Rightarrow> frame list \<times> string" where
  "read_frames fc maximum 0 input = ([], input)"
| "read_frames fc maximum (Suc k) input =
     (case read_frame fc True maximum input of
        (rest, Ok f) \<Rightarrow> (let (fs, rest) = read_frames fc maximum k rest in (f # fs, rest))
      | (rest, _) \<Rightarrow> ([], rest))"

text \<open>C34: a stream of frames that were encoded within the limit of the reader is read back frame by frame, in order and
  without loss, and leaves the bytes that follow.\<close>

theorem frame_stream_roundtrip:
  assumes "list_all (faithful_frame fc) fs" "0 < maximum" "map (encode_frame fc maximum) fs = map Ok chunks"
  shows "read_frames fc maximum (length fs) (concat chunks @ rest) = (fs, rest)"
  using assms(1,3)
proof (induction fs arbitrary: chunks)
  case (Cons f fs)
  then obtain c cs where c: "chunks = c # cs" "encode_frame fc maximum f = Ok c" "map (encode_frame fc maximum) fs = map Ok cs"
    by (cases chunks) auto
  have "faithful_frame fc f" "list_all (faithful_frame fc) fs" using Cons.prems(1) by simp_all
  then show ?case using Cons.IH [OF _ c(3)] read_frame_encoded [OF _ c(2) assms(2)] by (simp add: c(1))
qed simp

section \<open>Compressed responses\<close>

lemma div_ceil_mono: "a \<le> b \<Longrightarrow> div_ceil a k \<le> div_ceil b k"
  by (simp add: div_ceil_def div_le_mono)

lemma encode_response_cases:
  obtains (plain) "encode_response_frame fc i r negotiated = ResponseFrame i r"
  | (gzip) z where "negotiated" "rs_ok r" "fc_gzip fc (fc_response fc r) = Some z"
      "MIN_GZIP_RESPONSE \<le> length (fc_response fc r)" "length (fc_response fc r) \<le> MAX_GZIP_RESPONSE"
      "div_ceil (length z) 3 * 4 + 256 < length (fc_response fc r)"
      "encode_response_frame fc i r negotiated = ResponseGzip i (length (fc_response fc r)) (fc_base64 fc z)"
proof (cases "\<exists>z. negotiated \<and> rs_ok r \<and> fc_gzip fc (fc_response fc r) = Some z \<and>
    MIN_GZIP_RESPONSE \<le> length (fc_response fc r) \<and> length (fc_response fc r) \<le> MAX_GZIP_RESPONSE \<and>
    div_ceil (length z) 3 * 4 + 256 < length (fc_response fc r)")
  case True
  then show thesis by (auto simp: encode_response_frame_def response_size_def Let_def intro!: gzip)
next
  case False
  then show thesis
    by (auto simp: encode_response_frame_def response_size_def Let_def intro!: plain split: option.splits)
qed

text \<open>C35: a response survives compression. Whether or not it is compressed, a receiver whose limit admits the response
  decodes exactly the response that was sent; and whatever a peer sends, a compressed frame is accepted only when
  compression was negotiated, its declared length is within the limits, and the response has that length.\<close>

theorem response_compression_roundtrip:
  assumes "faithful_response fc r"
  shows "(length (fc_response fc r) \<le> maximum \<longrightarrow>
      decode_response_frame fc (encode_response_frame fc i r negotiated) negotiated maximum = Ok (ResponseFrame i r)) \<and>
    (decode_response_frame fc (ResponseGzip j expanded payload) negotiated maximum = Ok f \<longrightarrow>
      negotiated \<and> expanded \<le> min maximum MAX_GZIP_RESPONSE \<and> MIN_GZIP_RESPONSE \<le> expanded \<and>
      (\<exists>r' bytes. f = ResponseFrame j r' \<and> rs_ok r' \<and> length bytes = expanded \<and> fc_unresponse fc bytes = Some r'))"
proof (rule conjI; rule impI)
  assume max: "length (fc_response fc r) \<le> maximum"
  show "decode_response_frame fc (encode_response_frame fc i r negotiated) negotiated maximum = Ok (ResponseFrame i r)"
  proof (rule encode_response_cases [where fc = fc and i = i and r = r and negotiated = negotiated])
    assume "encode_response_frame fc i r negotiated = ResponseFrame i r"
    then show ?thesis by (simp add: decode_response_frame_def)
  next
    fix z
    assume gzip: "negotiated" "rs_ok r" "fc_gzip fc (fc_response fc r) = Some z"
      "MIN_GZIP_RESPONSE \<le> length (fc_response fc r)" "length (fc_response fc r) \<le> MAX_GZIP_RESPONSE"
      "div_ceil (length z) 3 * 4 + 256 < length (fc_response fc r)"
      "encode_response_frame fc i r negotiated = ResponseGzip i (length (fc_response fc r)) (fc_base64 fc z)"
    have "length (fc_base64 fc z) \<le> div_ceil MAX_GZIP_RESPONSE 3 * 4"
      using assms gzip(3,5,6) by (auto simp: faithful_response_def div_ceil_def MAX_GZIP_RESPONSE_def)
    moreover have "fc_gunzip fc z (length (fc_response fc r) + 1) = Some (fc_response fc r)"
      using assms gzip(3) by (simp add: faithful_response_def)
    ultimately show ?thesis
      using assms gzip max by (simp add: decode_response_frame_def faithful_response_def)
  qed
next
  assume "decode_response_frame fc (ResponseGzip j expanded payload) negotiated maximum = Ok f"
  then show "negotiated \<and> expanded \<le> min maximum MAX_GZIP_RESPONSE \<and> MIN_GZIP_RESPONSE \<le> expanded \<and>
      (\<exists>r' bytes. f = ResponseFrame j r' \<and> rs_ok r' \<and> length bytes = expanded \<and> fc_unresponse fc bytes = Some r')"
    by (auto simp: decode_response_frame_def and_then_Ok_iff split: if_splits)
qed

section \<open>Instances\<close>

definition sample_response :: response where
  "sample_response = response_success ''r'' JNull"

definition sample_text :: string where
  "sample_text = replicate 70000 CHR ''x''"

definition sample_frame_codec :: frame_codec where
  "sample_frame_codec =
     \<lparr>fc_frame = (\<lambda>f. ''frame''), fc_unframe = (\<lambda>x. Some (CancelFrame ''i'')), fc_response = (\<lambda>r. sample_text),
      fc_unresponse = (\<lambda>x. Some sample_response), fc_gzip = (\<lambda>x. Some ''z''), fc_gunzip = (\<lambda>z k. Some (take k sample_text)),
      fc_base64 = (\<lambda>z. ''eg==''), fc_unbase64 = (\<lambda>x. Some ''z'')\<rparr>"

theorem frame_stream_roundtrip_witness:
  "read_frames sample_frame_codec 1024 (length [CancelFrame ''i'', CancelFrame ''i''])
     (concat [''frame'' @ [CHR 0x0A], ''frame'' @ [CHR 0x0A]] @ ''more'') =
     ([CancelFrame ''i'', CancelFrame ''i''], ''more'')"
proof -
  let ?fs = "[CancelFrame ''i'', CancelFrame ''i'']" and ?chunks = "[''frame'' @ [CHR 0x0A], ''frame'' @ [CHR 0x0A]]"
  have "list_all (faithful_frame sample_frame_codec) ?fs" "map (encode_frame sample_frame_codec 1024) ?fs = map Ok ?chunks"
    by (simp_all add: faithful_frame_def sample_frame_codec_def encode_frame_def)
  then show ?thesis by (intro frame_stream_roundtrip) simp_all
qed

theorem response_compression_roundtrip_witness:
  "encode_response_frame sample_frame_codec ''i'' sample_response True = ResponseGzip ''i'' 70000 ''eg=='' \<and>
   decode_response_frame sample_frame_codec (ResponseGzip ''i'' 70000 ''eg=='') True 80000 = Ok (ResponseFrame ''i'' sample_response)"
proof -
  have f: "faithful_response sample_frame_codec sample_response"
    by (simp add: faithful_response_def sample_frame_codec_def div_ceil_def)
  have len: "length (fc_response sample_frame_codec sample_response) = 70000"
    by (simp add: sample_frame_codec_def sample_text_def)
  have e: "encode_response_frame sample_frame_codec ''i'' sample_response True = ResponseGzip ''i'' 70000 ''eg==''"
    using len by (simp add: encode_response_frame_def response_size_def MAX_GZIP_RESPONSE_def MIN_GZIP_RESPONSE_def
        sample_response_def response_success_def sample_frame_codec_def div_ceil_def)
  then show ?thesis using response_compression_roundtrip [OF f, of 80000 "''i''" True] len by simp
qed

end
