(* ===== verification/Peer_Lease.thy ===== *)
theory Peer_Lease
  imports Fabric_Prelude
begin

text \<open>
  The lifetime of a peer connection (\<open>lease.rs\<close> of the peer crate): \<open>Lease\<close> with its deadline on the monotonic clock, its
  expiry on the wall clock and the reason why it has ended. \<open>Instant\<close>s are nanoseconds; the readings of the two clocks
  are arguments, and the wall clock may go back.
\<close>

section \<open>Operations\<close>

record peer_lease =
  pl_id :: string
  pl_deadline :: int
  pl_expires_at_ms :: u64
  pl_ended :: "string option"

record clock =
  cl_mono :: int
  cl_wall :: u64

definition millis :: "u64 \<Rightarrow> int" where
  "millis n = uint n * 1000000"

text \<open>An \<open>Instant\<close> holds a signed 64-bit number of seconds.\<close>

definition instant_limit :: int where
  "instant_limit = 9223372036854775808 * 1000000000"

definition instant_add :: "int \<Rightarrow> int \<Rightarrow> int option" where
  "instant_add t n = (if t + n < instant_limit then Some (t + n) else None)"

text \<open>\<open>char::is_control\<close> in a text of UTF-8 bytes: the ASCII controls and U+0080 to U+009F.\<close>

fun has_control :: "string \<Rightarrow> bool" where
  "has_control [] = False"
| "has_control [c] = (c < CHR '' '' \<or> c = CHR 0x7F)"
| "has_control (c # d # cs) =
     (c < CHR '' '' \<or> c = CHR 0x7F \<or> (c = CHR 0xC2 \<and> CHR 0x80 \<le> d \<and> d \<le> CHR 0x9F) \<or> has_control (d # cs))"

definition invalid_identity :: "string \<Rightarrow> bool" where
  "invalid_identity i \<longleftrightarrow> i = [] \<or> length i > 256 \<or> has_control i"

definition lease_new :: "clock \<Rightarrow> string \<Rightarrow> u64 \<Rightarrow> (string, peer_lease) outcome" where
  "lease_new c i expires_at_ms =
     (if invalid_identity i then Err ''invalid lease identity''
      else let remaining = sat_sub expires_at_ms (cl_wall c)
           in if remaining = 0 then Err ''lease has already expired''
              else case instant_add (cl_mono c) (millis remaining) of
                     None \<Rightarrow> Err ''lease deadline is out of range''
                   | Some deadline \<Rightarrow>
                       Ok \<lparr>pl_id = i, pl_deadline = deadline, pl_expires_at_ms = expires_at_ms, pl_ended = None\<rparr>)"

definition revoke :: "peer_lease \<Rightarrow> peer_lease" where
  "revoke l = l\<lparr>pl_ended := Some ''revoked''\<rparr>"

definition lease_ended :: "clock \<Rightarrow> peer_lease \<Rightarrow> peer_lease \<times> string option" where
  "lease_ended c l =
     (let l = (if pl_ended l = None \<and> (cl_mono c \<ge> pl_deadline l \<or> cl_wall c \<ge> pl_expires_at_ms l)
               then l\<lparr>pl_ended := Some ''expired''\<rparr> else l)
      in (l, pl_ended l))"

definition lease_extend :: "clock \<Rightarrow> u64 \<Rightarrow> peer_lease \<Rightarrow> peer_lease \<times> (string, unit) outcome" where
  "lease_extend c expires_at_ms l =
     (if pl_ended l \<noteq> None \<or> cl_mono c \<ge> pl_deadline l \<or> cl_wall c \<ge> pl_expires_at_ms l
      then (l\<lparr>pl_ended := Some (case pl_ended l of Some r \<Rightarrow> r | None \<Rightarrow> ''expired'')\<rparr>,
            Err ''an ended lease cannot be renewed'')
      else if expires_at_ms < pl_expires_at_ms l
      then (l, Err ''renewal cannot shorten a lease; revoke it explicitly'')
      else case instant_add (pl_deadline l) (millis (expires_at_ms - pl_expires_at_ms l)) of
             None \<Rightarrow> (l, Err ''lease deadline is out of range'')
           | Some deadline \<Rightarrow> (l\<lparr>pl_expires_at_ms := expires_at_ms, pl_deadline := deadline\<rparr>, Ok ()))"

section \<open>Life of a lease\<close>

text \<open>Any sequence of the calls, with any readings of the clocks.\<close>

datatype lease_call = CallRevoke | CallEnded clock | CallRenew clock u64

fun peer_lease_step :: "peer_lease \<Rightarrow> lease_call \<Rightarrow> peer_lease" where
  "peer_lease_step l CallRevoke = revoke l"
| "peer_lease_step l (CallEnded c) = fst (lease_ended c l)"
| "peer_lease_step l (CallRenew c e) = fst (lease_extend c e l)"

definition is_over :: "peer_lease \<Rightarrow> bool" where
  "is_over l \<longleftrightarrow> pl_ended l \<noteq> None"

lemma millis_diff: "a \<le> b \<Longrightarrow> millis (b - a) = millis b - millis a"
  by (simp add: millis_def uint_minus_simple_alt word_le_def left_diff_distrib)

lemma peer_lease_step_over: "is_over l \<Longrightarrow> is_over (peer_lease_step l e)"
  by (cases e) (auto simp: is_over_def revoke_def lease_ended_def lease_extend_def Let_def)

text \<open>The grant on the monotonic clock and the authorized expiry move together.\<close>

definition same_grant :: "peer_lease \<Rightarrow> peer_lease \<Rightarrow> bool" where
  "same_grant l0 l \<longleftrightarrow> pl_id l = pl_id l0 \<and> pl_expires_at_ms l0 \<le> pl_expires_at_ms l \<and>
     pl_deadline l - pl_deadline l0 = millis (pl_expires_at_ms l) - millis (pl_expires_at_ms l0)"

lemma peer_lease_step_grant: "same_grant l0 l \<Longrightarrow> same_grant l0 (peer_lease_step l e)"
proof (cases e)
  case (CallRenew c x)
  assume "same_grant l0 l"
  then show ?thesis
    using millis_diff [of "pl_expires_at_ms l" x]
    by (auto simp: CallRenew same_grant_def lease_extend_def instant_add_def split: option.splits)
qed (auto simp: same_grant_def revoke_def lease_ended_def Let_def)

interpretation over: invariant_machine peer_lease_step "\<lambda>_ _. True" is_over
  by unfold_locales (rule peer_lease_step_over)

interpretation grant: invariant_machine peer_lease_step "\<lambda>_ _. True" "same_grant l0" for l0
  by unfold_locales (rule peer_lease_step_grant)

text \<open>C32: the end of a lease is final and its lifetime is what was granted. Over any calls and any readings of the clocks,
  also when the wall clock goes back, the deadline moves by exactly the time by which the authorized expiry was extended,
  and neither is ever shortened; once a check has seen the lease ended, every later check does and every renewal is refused.\<close>

theorem peer_lease_final:
  assumes "lease_new c0 i e = Ok l0" "l = foldl peer_lease_step l0 calls"
  shows "pl_id l = i \<and> e \<le> pl_expires_at_ms l \<and>
      pl_deadline l = cl_mono c0 + millis (pl_expires_at_ms l - cl_wall c0) \<and>
      (snd (lease_ended c l) \<noteq> None \<longrightarrow>
        (\<forall>more c' e'. snd (lease_ended c' (foldl peer_lease_step (fst (lease_ended c l)) more)) \<noteq> None \<and>
           snd (lease_extend c' e' (foldl peer_lease_step (fst (lease_ended c l)) more)) = Err ''an ended lease cannot be renewed''))"
proof -
  have l0: "pl_id l0 = i" "pl_expires_at_ms l0 = e" "cl_wall c0 < e" "pl_deadline l0 = cl_mono c0 + millis (e - cl_wall c0)"
    using assms(1)
    by (auto simp: lease_new_def Let_def instant_add_def sat_sub_def not_le split: if_splits option.splits)
  have "same_grant l0 l0" by (simp add: same_grant_def)
  then have g: "same_grant l0 l" using grant.run_inv [of l0 l0 calls] assms(2) by simp
  have "cl_wall c0 \<le> e" "cl_wall c0 \<le> pl_expires_at_ms l" using g l0(2,3) by (auto simp: same_grant_def)
  then have "pl_deadline l = cl_mono c0 + millis (pl_expires_at_ms l - cl_wall c0)"
    using g l0(2,4) millis_diff [of "cl_wall c0"] by (auto simp: same_grant_def)
  moreover have "snd (lease_ended c' (foldl peer_lease_step (fst (lease_ended c l)) more)) \<noteq> None"
    "snd (lease_extend c' e' (foldl peer_lease_step (fst (lease_ended c l)) more)) = Err ''an ended lease cannot be renewed''"
    if "snd (lease_ended c l) \<noteq> None" for more c' e'
  proof -
    have "is_over (fst (lease_ended c l))" using that by (simp add: is_over_def lease_ended_def Let_def)
    then have "is_over (foldl peer_lease_step (fst (lease_ended c l)) more)" using over.run_inv by simp
    then show "snd (lease_ended c' (foldl peer_lease_step (fst (lease_ended c l)) more)) \<noteq> None"
      "snd (lease_extend c' e' (foldl peer_lease_step (fst (lease_ended c l)) more)) = Err ''an ended lease cannot be renewed''"
      by (auto simp: is_over_def lease_ended_def lease_extend_def Let_def)
  qed
  ultimately show ?thesis using g l0 by (auto simp: same_grant_def)
qed

definition sample_clock :: clock where
  "sample_clock = \<lparr>cl_mono = 5, cl_wall = 1000\<rparr>"

definition sample_grant :: peer_lease where
  "sample_grant = \<lparr>pl_id = ''l'', pl_deadline = 1000000005, pl_expires_at_ms = 2000, pl_ended = None\<rparr>"

text \<open>The lease is renewed by a second, is seen expired on the wall clock, and stays so when that clock goes back.\<close>

theorem peer_lease_final_witness:
  "snd (lease_extend sample_clock 5000
     (fst (lease_ended \<lparr>cl_mono = 6, cl_wall = 3000\<rparr> (foldl peer_lease_step sample_grant [CallRenew sample_clock 3000])))) =
   Err ''an ended lease cannot be renewed''"
proof -
  have "lease_new sample_clock ''l'' 2000 = Ok sample_grant" by code_simp
  note final = peer_lease_final [OF this refl, of "[CallRenew sample_clock 3000]" "\<lparr>cl_mono = 6, cl_wall = 3000\<rparr>"]
  have "snd (lease_ended \<lparr>cl_mono = 6, cl_wall = 3000\<rparr> (foldl peer_lease_step sample_grant [CallRenew sample_clock 3000])) \<noteq> None"
    by code_simp
  then have "\<forall>more c' e'. snd (lease_extend c' e' (foldl peer_lease_step (fst (lease_ended \<lparr>cl_mono = 6, cl_wall = 3000\<rparr>
      (foldl peer_lease_step sample_grant [CallRenew sample_clock 3000]))) more)) = Err ''an ended lease cannot be renewed''"
    using final by blast
  then show ?thesis by (metis foldl_Nil)
qed

end
