(* ===== verification/Peer_Connection.thy ===== *)
theory Peer_Connection
  imports Peer_Frames Peer_Lease
begin

text \<open>
  A connection between two peers (\<open>connection.rs\<close>): its configuration, the handshake, calls to the other side and
  requests from it. \<open>peer\<close> is \<open>State\<close> of the source with what its threads share besides: the queue of outgoing frames,
  the lease, and for every call in progress the request it waits for and what its channel holds. Every function that
  takes the lock more than once is a composition of the critical sections, and \<open>peer_step\<close> interleaves these.
\<close>

section \<open>Configuration\<close>

datatype peer_protocol = LegacyV1 | ScopedV2

fun protocol_name :: "peer_protocol \<Rightarrow> string" where
  "protocol_name LegacyV1 = ''machine-fabric.peer/v1''"
| "protocol_name ScopedV2 = ''machine-fabric.peer/v2''"

record peer_limits =
  max_frame_bytes :: nat
  max_outbound_requests :: nat
  max_inbound_requests :: nat
  max_queued_frames :: nat
  handshake_timeout :: nat
  request_timeout :: nat

text \<open>Durations are milliseconds.\<close>

definition default_limits :: peer_limits where
  "default_limits =
     \<lparr>max_frame_bytes = 8 * 1024 * 1024, max_outbound_requests = 64, max_inbound_requests = 16, max_queued_frames = 64,
      handshake_timeout = 15 * 1000, request_timeout = 60 * 1000\<rparr>"

record peer_config =
  pc_protocol :: peer_protocol
  pc_local_id :: string
  pc_expected_peer_id :: string
  pc_services :: "string list"
  pc_required_peer_services :: "string list"
  pc_binding :: "channel_binding option"
  pc_lease :: "peer_lease option"
  pc_limits :: peer_limits

definition is_ascii_alphanumeric :: "char \<Rightarrow> bool" where
  "is_ascii_alphanumeric c \<longleftrightarrow>
     CHR ''0'' \<le> c \<and> c \<le> CHR ''9'' \<or> CHR ''A'' \<le> c \<and> c \<le> CHR ''Z'' \<or> CHR ''a'' \<le> c \<and> c \<le> CHR ''z''"

definition valid_name :: "string \<Rightarrow> bool" where
  "valid_name name \<longleftrightarrow>
     name \<noteq> [] \<and> length name \<le> 256 \<and> list_all (\<lambda>c. is_ascii_alphanumeric c \<or> c \<in> set ''._:-'') name"

definition validate_name :: "string \<Rightarrow> (string, unit) outcome" where
  "validate_name name = (if valid_name name then Ok () else Err ''invalid peer/service identity'')"

fun validate_services :: "string list \<Rightarrow> string list \<Rightarrow> (string, unit) outcome" where
  "validate_services seen [] = Ok ()"
| "validate_services seen (s # ss) =
     and_then (validate_name s) (\<lambda>_.
       if s \<in> set seen then Err ''duplicate service name'' else validate_services (s # seen) ss)"

definition validate_service_list :: "string list \<Rightarrow> (string, unit) outcome" where
  "validate_service_list ss =
     (if ss = [] \<or> length ss > 64 then Err ''provide 1..64 service names'' else validate_services [] ss)"

text \<open>The check of the lease reads the clocks and may mark it expired.\<close>

definition validate_config :: "clock \<Rightarrow> peer_config \<Rightarrow> peer_config \<times> (string, unit) outcome" where
  "validate_config c cfg =
     sbind (lift_res cfg (and_then (validate_name (pc_local_id cfg)) (\<lambda>_. validate_name (pc_expected_peer_id cfg)))) (\<lambda>cfg _.
     sbind (lift_res cfg (and_then (validate_service_list (pc_services cfg))
              (\<lambda>_. validate_service_list (pc_required_peer_services cfg)))) (\<lambda>cfg _.
     sbind (case (pc_protocol cfg, pc_binding cfg, pc_lease cfg) of
              (LegacyV1, None, None) \<Rightarrow> (cfg, Ok ())
            | (ScopedV2, Some b, Some l) \<Rightarrow>
                if cb_lease_id b = pl_id l \<and> as_object (cb_scope b) \<noteq> None
                then (let (l, ended) = lease_ended c l; cfg = cfg\<lparr>pc_lease := Some l\<rparr>
                      in if ended \<noteq> None then (cfg, Err ''lease is no longer active'') else (cfg, Ok ()))
                else (cfg, Err ''scoped peers require a matching binding and lease; v1 is unscoped'')
            | _ \<Rightarrow> (cfg, Err ''scoped peers require a matching binding and lease; v1 is unscoped'')) (\<lambda>cfg _.
     let l = pc_limits cfg
     in if max_frame_bytes l < 1024 \<or> max_frame_bytes l > 256 * 1024 * 1024 \<or> max_outbound_requests l = 0
           \<or> max_inbound_requests l = 0 \<or> max_queued_frames l = 0 \<or> handshake_timeout l = 0 \<or> request_timeout l = 0
        then (cfg, Err ''invalid peer limits'') else (cfg, Ok ()))))"

section \<open>State\<close>

record peer =
  ps_response_gzip :: bool
  ps_ready :: bool
  ps_remote_services :: "string list"
  ps_closed :: "close_reason option"
  ps_pending :: "string btree"
  ps_inbound :: "bool btree"
  ps_io_threads :: nat
  ps_queue :: "string list"
  ps_lease :: "peer_lease option"
  ps_waiting :: "string \<Rightarrow> string option"
  ps_mail :: "string \<Rightarrow> response option"
  ps_returned :: "(string \<times> string \<times> response) list"

definition peer_start :: "clock \<Rightarrow> peer_config \<Rightarrow> (string, peer) outcome" where
  "peer_start c cfg =
     (case validate_config c cfg of
        (cfg, Ok _) \<Rightarrow>
          Ok \<lparr>ps_response_gzip = False, ps_ready = False, ps_remote_services = [], ps_closed = None, ps_pending = [],
              ps_inbound = [], ps_io_threads = 2, ps_queue = [], ps_lease = pc_lease cfg, ps_waiting = (\<lambda>_. None),
              ps_mail = (\<lambda>_. None), ps_returned = []\<rparr>
      | (_, Err e) \<Rightarrow> Err e
      | (_, Panic) \<Rightarrow> Panic)"

definition failure_response :: "string \<Rightarrow> string \<Rightarrow> string \<Rightarrow> response" where
  "failure_response i cd m = response_failure i (rpc_error_new cd m)"

section \<open>Critical sections\<close>

text \<open>
  \<open>close\<close>: the first reason stays; handlers are cancelled and every waiting call is told that its outcome is unknown.
  The source sends the answers after it has released the lock; until then a call can only find its time elapsed, which
  \<open>call_give_up\<close> allows at any moment. The interrupt of the transport is not part of the state.
\<close>

definition peer_close :: "close_reason \<Rightarrow> peer \<Rightarrow> peer" where
  "peer_close why p =
     (if ps_closed p \<noteq> None then p
      else p\<lparr>ps_closed := Some why, ps_inbound := bt_map (\<lambda>_. True) (ps_inbound p), ps_pending := [],
             ps_mail := (\<lambda>i. case bt_get (ps_pending p) i of
                  Some request_id \<Rightarrow> Some (failure_response request_id ''PEER_OUTCOME_UNKNOWN''
                    ''connection ended before response; query execution before any retry'')
                | None \<Rightarrow> ps_mail p i)\<rparr>)"

definition check_lease :: "clock \<Rightarrow> peer \<Rightarrow> peer \<times> string option" where
  "check_lease c p =
     (case ps_lease p of
        None \<Rightarrow> (p, None)
      | Some l \<Rightarrow> (let (l, ended) = lease_ended c l in (p\<lparr>ps_lease := Some l\<rparr>, ended)))"

definition ensure_live :: "clock \<Rightarrow> peer \<Rightarrow> peer \<times> unit rpc" where
  "ensure_live c p =
     (case check_lease c p of
        (p, Some ended) \<Rightarrow>
          (peer_close (if ended = ''revoked'' then LeaseRevoked else LeaseExpired) p,
           Err (rpc_error_new ''PEER_LEASE_ENDED'' ''channel lease is no longer active''))
      | (p, None) \<Rightarrow>
          if ps_closed p \<noteq> None
          then (p, Err (rpc_error_new ''PEER_CLOSED'' ''channel is closed; request was not sent''))
          else (p, Ok ()))"

text \<open>\<open>try_send\<close> on the bounded channel to the writer, which may be gone.\<close>

definition try_send :: "peer_config \<Rightarrow> bool \<Rightarrow> string \<Rightarrow> peer \<Rightarrow> peer \<times> bool" where
  "try_send cfg writer_alive bytes p =
     (if writer_alive \<and> length (ps_queue p) < max_queued_frames (pc_limits cfg)
      then (p\<lparr>ps_queue := ps_queue p @ [bytes]\<rparr>, True) else (p, False))"

text \<open>The locked part of \<open>call_timeout\<close>: a failure that is returned at once, or the call waits.\<close>

definition call_admit :: "peer_config \<Rightarrow> bool \<Rightarrow> string \<Rightarrow> string \<Rightarrow> string \<Rightarrow> string \<Rightarrow> peer \<Rightarrow> peer \<times> (response, unit) outcome" where
  "call_admit cfg writer_alive i service request_id bytes p =
     (if ps_closed p \<noteq> None \<or> \<not> ps_ready p
      then (p, Err (failure_response request_id ''PEER_NOT_READY'' ''request was not sent''))
      else if service \<notin> set (ps_remote_services p)
      then (p, Err (failure_response request_id ''PEER_SERVICE_UNAVAILABLE'' ''request was not sent''))
      else if length (ps_pending p) \<ge> max_outbound_requests (pc_limits cfg)
      then (p, Err (failure_response request_id ''PEER_BUSY'' ''outbound limit; request was not sent''))
      else case try_send cfg writer_alive bytes p of
             (q, True) \<Rightarrow>
               (q\<lparr>ps_pending := bt_insert i request_id (ps_pending q), ps_waiting := (ps_waiting q)(i \<mapsto> request_id)\<rparr>, Ok ())
           | (q, False) \<Rightarrow> (q, Err (failure_response request_id ''PEER_BUSY'' ''outgoing queue full; request was not sent'')))"

text \<open>A call returns what its channel holds, or gives up when its time has elapsed.\<close>

definition call_return :: "string \<Rightarrow> response \<Rightarrow> peer \<Rightarrow> peer" where
  "call_return i r p =
     p\<lparr>ps_waiting := (ps_waiting p)(i := None), ps_mail := (ps_mail p)(i := None),
       ps_returned := (case ps_waiting p i of Some request_id \<Rightarrow> (i, request_id, r) # ps_returned p | None \<Rightarrow> ps_returned p)\<rparr>"

definition elapsed_response :: "string \<Rightarrow> response" where
  "elapsed_response request_id =
     failure_response request_id ''PEER_OUTCOME_UNKNOWN'' ''response deadline elapsed; query execution before any retry''"

definition take_response :: "peer_config \<Rightarrow> string \<Rightarrow> response \<Rightarrow> peer \<Rightarrow> peer \<times> (close_reason, unit) outcome" where
  "take_response cfg i r p =
     (case bt_get (ps_pending p) i of
        None \<Rightarrow> (p, Ok ())
      | Some request_id \<Rightarrow>
          let p = p\<lparr>ps_pending := bt_remove i (ps_pending p)\<rparr>
          in if rs_request_id r \<noteq> request_id \<and> pc_protocol cfg = ScopedV2
             then (p\<lparr>ps_mail := (ps_mail p)(i \<mapsto>
                      failure_response request_id ''PEER_OUTCOME_UNKNOWN'' ''invalid response identity'')\<rparr>, Err ProtocolError)
             else (p\<lparr>ps_mail := (ps_mail p)(i \<mapsto> r)\<rparr>, Ok ()))"

definition cancel_inbound :: "string \<Rightarrow> peer \<Rightarrow> peer" where
  "cancel_inbound i p =
     (case bt_get (ps_inbound p) i of Some _ \<Rightarrow> p\<lparr>ps_inbound := bt_insert i True (ps_inbound p)\<rparr> | None \<Rightarrow> p)"

text \<open>\<open>Ok False\<close>: the inbound limit is reached.\<close>

definition admit_inbound :: "peer_config \<Rightarrow> string \<Rightarrow> peer \<Rightarrow> peer \<times> (close_reason, bool) outcome" where
  "admit_inbound cfg i p =
     (if bt_get (ps_inbound p) i \<noteq> None then (p, Err ProtocolError)
      else if length (ps_inbound p) \<ge> max_inbound_requests (pc_limits cfg) then (p, Ok False)
      else (p\<lparr>ps_inbound := bt_insert i False (ps_inbound p)\<rparr>, Ok True))"

definition finish_inbound :: "string \<Rightarrow> peer \<Rightarrow> peer" where
  "finish_inbound i p = p\<lparr>ps_inbound := bt_remove i (ps_inbound p)\<rparr>"

definition become_ready :: "hello \<Rightarrow> peer \<Rightarrow> peer" where
  "become_ready h p =
     (if ps_closed p \<noteq> None then p
      else p\<lparr>ps_ready := True, ps_remote_services := h_roles h, ps_response_gzip := h_response_gzip h\<rparr>)"

definition io_finished :: "peer \<Rightarrow> peer" where
  "io_finished p = p\<lparr>ps_io_threads := ps_io_threads p - 1\<rparr>"

definition call_give_up :: "string \<Rightarrow> string \<Rightarrow> peer \<Rightarrow> peer" where
  "call_give_up i request_id p =
     call_return i (elapsed_response request_id) (p\<lparr>ps_pending := bt_remove i (ps_pending p)\<rparr>)"

section \<open>Sending and calling\<close>

record peer_env =
  pe_codec :: frame_codec
  pe_clock :: "nat \<Rightarrow> clock"
  pe_writer_alive :: bool

definition peer_send :: "peer_env \<Rightarrow> peer_config \<Rightarrow> nat \<Rightarrow> frame \<Rightarrow> peer \<Rightarrow> peer \<times> (string, unit) outcome" where
  "peer_send n cfg k f p =
     (case ensure_live (pe_clock n k) p of
        (p, Err e) \<Rightarrow> (p, Err (message e))
      | (p, Panic) \<Rightarrow> (p, Panic)
      | (p, Ok _) \<Rightarrow>
          sbind (lift_res p (encode_frame (pe_codec n) (max_frame_bytes (pc_limits cfg)) f)) (\<lambda>p bytes.
          case try_send cfg (pe_writer_alive n) bytes p of
            (p, True) \<Rightarrow> (p, Ok ())
          | (p, False) \<Rightarrow> (peer_close Backpressure p, Err ''peer write queue is full'')))"

text \<open>A response that does not fit into a frame is replaced by an error; its own outcome is dropped.\<close>

definition send_response :: "peer_env \<Rightarrow> peer_config \<Rightarrow> nat \<Rightarrow> string \<Rightarrow> response \<Rightarrow> peer \<Rightarrow> peer" where
  "send_response n cfg k i r p =
     (let r = (if is_ok (encode_frame (pe_codec n) (max_frame_bytes (pc_limits cfg)) (ResponseFrame i r)) then r
               else failure_response (rs_request_id r) ''PEER_FRAME_TOO_LARGE'' ''response exceeds frame limit'')
      in fst (peer_send n cfg k (encode_response_frame (pe_codec n) i r (ps_response_gzip p)) p))"

text \<open>\<open>call_timeout\<close> until it waits on its channel, and after its time has elapsed.\<close>

definition call_start :: "peer_env \<Rightarrow> peer_config \<Rightarrow> string \<Rightarrow> string \<Rightarrow> nat \<Rightarrow> request \<Rightarrow> peer \<Rightarrow> peer \<times> (response, unit) outcome" where
  "call_start n cfg uuid service timeout rq p =
     (let request_id = rq_request_id rq; i = ''peer_request_'' @ uuid
      in case ensure_live (pe_clock n 0) p of
           (p, Err e) \<Rightarrow> (p, Err (response_failure request_id e))
         | (p, Panic) \<Rightarrow> (p, Panic)
         | (p, Ok _) \<Rightarrow>
             if timeout = 0 then (p, Err (failure_response request_id ''PEER_INVALID_TIMEOUT'' ''request was not sent''))
             else case encode_frame (pe_codec n) (max_frame_bytes (pc_limits cfg)) (RequestFrame i service rq) of
                    Ok bytes \<Rightarrow> call_admit cfg (pe_writer_alive n) i service request_id bytes p
                  | _ \<Rightarrow> (p, Err (failure_response request_id ''PEER_FRAME_TOO_LARGE'' ''request was not sent'')))"

definition call_elapsed :: "peer_env \<Rightarrow> peer_config \<Rightarrow> string \<Rightarrow> string \<Rightarrow> peer \<Rightarrow> peer" where
  "call_elapsed n cfg i request_id p =
     (let p = call_give_up i request_id p
      in if pc_protocol cfg = ScopedV2 then fst (peer_send n cfg 0 (CancelFrame i) p) else p)"

section \<open>Handshake\<close>

datatype handshake = Initiate | Accept

definition own_hello :: "peer_config \<Rightarrow> bool \<Rightarrow> hello" where
  "own_hello cfg gzip =
     \<lparr>h_protocol = protocol_name (pc_protocol cfg), h_node_id = pc_local_id cfg, h_roles = pc_services cfg,
      h_binding = pc_binding cfg, h_response_gzip = gzip\<rparr>"

definition check_hello :: "handshake \<Rightarrow> frame \<Rightarrow> (close_reason, hello) outcome" where
  "check_hello hs f =
     (case (hs, f) of
        (Initiate, HelloAck h) \<Rightarrow> Ok h
      | (Accept, Hello h) \<Rightarrow> Ok h
      | _ \<Rightarrow> Err ProtocolError)"

definition hello_mismatch :: "peer_config \<Rightarrow> hello \<Rightarrow> bool" where
  "hello_mismatch cfg h \<longleftrightarrow>
     h_protocol h \<noteq> protocol_name (pc_protocol cfg) \<or> h_node_id h \<noteq> pc_expected_peer_id cfg \<or>
     h_binding h \<noteq> pc_binding cfg \<or> length (h_roles h) > 64 \<or>
     list_ex (\<lambda>role. role \<notin> set (h_roles h)) (pc_required_peer_services cfg) \<or>
     list_ex (\<lambda>role. \<not> valid_name role) (h_roles h)"

text \<open>
  The first frame is what \<open>read_frame\<close> returned. The result is whether compression was negotiated, or \<open>None\<close> when the
  connection was closed meanwhile, which ends the read loop without an error.
\<close>

definition send_hello :: "peer_env \<Rightarrow> peer_config \<Rightarrow> nat \<Rightarrow> frame \<Rightarrow> peer \<Rightarrow> peer \<times> (close_reason, unit) outcome" where
  "send_hello n cfg k f p =
     (case peer_send n cfg k f p of (p, Err _) \<Rightarrow> (p, Err Disconnected) | (p, Ok _) \<Rightarrow> (p, Ok ()) | (p, Panic) \<Rightarrow> (p, Panic))"

definition shake_hands ::
  "peer_env \<Rightarrow> peer_config \<Rightarrow> handshake \<Rightarrow> (close_reason, frame) outcome \<Rightarrow> peer
     \<Rightarrow> peer \<times> (close_reason, bool option) outcome" where
  "shake_hands n cfg hs first p =
     sbind (if hs = Initiate then send_hello n cfg 0 (Hello (own_hello cfg True)) p else (p, Ok ())) (\<lambda>p _.
     sbind (lift_res p (and_then first (check_hello hs))) (\<lambda>p h.
     if hello_mismatch cfg h then (p, Err ProtocolError)
     else
     sbind (if hs = Accept then send_hello n cfg 1 (HelloAck (own_hello cfg (h_response_gzip h))) p else (p, Ok ())) (\<lambda>p _.
     (become_ready h p, Ok (if ps_closed p \<noteq> None then None else Some (h_response_gzip h))))))"

section \<open>Frames from the other side\<close>

text \<open>What the read loop does next: read on, or start a thread for a request.\<close>

datatype next_action = Continue | Dispatch string string request

definition on_request :: "peer_env \<Rightarrow> peer_config \<Rightarrow> string \<Rightarrow> string \<Rightarrow> request \<Rightarrow> peer \<Rightarrow> peer \<times> (close_reason, next_action) outcome" where
  "on_request n cfg i role rq p =
     (if i = [] \<or> length i > 256 then (p, Err ProtocolError)
      else if role \<notin> set (pc_services cfg)
      then (send_response n cfg 1 i (failure_response (rq_request_id rq) ''PEER_SERVICE_UNAVAILABLE'' ''service is not exposed'') p,
            Ok Continue)
      else sbind (admit_inbound cfg i p) (\<lambda>p admitted.
             if admitted then (p, Ok (Dispatch i role rq))
             else (send_response n cfg 1 i (failure_response (rq_request_id rq) ''PEER_BUSY''
                     ''inbound limit; request was not dispatched'') p, Ok Continue)))"

text \<open>One round of the read loop for the frame \<open>read_frame\<close> returned; the length limit is that of the local side.\<close>

definition on_frame :: "peer_env \<Rightarrow> peer_config \<Rightarrow> bool \<Rightarrow> frame \<Rightarrow> peer \<Rightarrow> peer \<times> (close_reason, next_action) outcome" where
  "on_frame n cfg gzip f p =
     (case decode_response_frame (pe_codec n) f gzip (max_frame_bytes (pc_limits cfg)) of
        Ok f \<Rightarrow>
          (case ensure_live (pe_clock n 0) p of
             (p, Ok _) \<Rightarrow>
               (case f of
                  ResponseFrame i r \<Rightarrow> sbind (take_response cfg i r p) (\<lambda>p _. (p, Ok Continue))
                | CancelFrame i \<Rightarrow>
                    if pc_protocol cfg = ScopedV2 then (cancel_inbound i p, Ok Continue) else (p, Err ProtocolError)
                | RequestFrame i role rq \<Rightarrow> on_request n cfg i role rq p
                | _ \<Rightarrow> (p, Err ProtocolError))
           | (p, _) \<Rightarrow> (p, Err Disconnected))
      | _ \<Rightarrow> (p, Err ProtocolError))"

text \<open>
  The read loop over what \<open>read_frame\<close> returns, each round with its own readings, and the thread that runs it: it collects
  the requests it starts a thread for.
\<close>

fun read_rounds ::
  "peer_config \<Rightarrow> bool \<Rightarrow> (peer_env \<times> (close_reason, frame) outcome) list \<Rightarrow> peer
     \<Rightarrow> peer \<times> next_action list \<times> close_reason option" where
  "read_rounds cfg gzip [] p = (p, [], None)"
| "read_rounds cfg gzip ((n, input) # rounds) p =
     (case sbind (lift_res p input) (\<lambda>p f. on_frame n cfg gzip f p) of
        (p, Ok a) \<Rightarrow> (let (p, as, why) = read_rounds cfg gzip rounds p in (p, a # as, why))
      | (p, Err why) \<Rightarrow> (p, [], Some why)
      | (p, Panic) \<Rightarrow> (p, [], None))"

definition reader_ended :: "close_reason option \<Rightarrow> peer \<Rightarrow> peer" where
  "reader_ended why p = io_finished (case why of Some why \<Rightarrow> peer_close why p | None \<Rightarrow> p)"

section \<open>Requests of the other side\<close>

record request_context =
  rc_peer_id :: string
  rc_service :: string
  rc_binding :: "channel_binding option"

text \<open>
  The thread of a request: \<open>authorize\<close> and \<open>handler\<close> are given by the embedding program, and a panic in either is
  caught. \<open>cancelled\<close> is the reading of the cancellation flag before the handler runs.
\<close>

definition request_response ::
  "(request_context \<Rightarrow> request \<Rightarrow> unit rpc) \<Rightarrow> (request_context \<Rightarrow> request \<Rightarrow> response option)
     \<Rightarrow> peer_config \<Rightarrow> string \<Rightarrow> request \<Rightarrow> unit rpc \<Rightarrow> bool \<Rightarrow> response" where
  "request_response authorize handler cfg role rq live cancelled =
     (let context = \<lparr>rc_peer_id = pc_expected_peer_id cfg, rc_service = role, rc_binding = pc_binding cfg\<rparr>;
          panicked = failure_response (rq_request_id rq) ''PEER_HANDLER_PANICKED'' ''handler outcome is unknown''
      in case and_then live (\<lambda>_. authorize context rq) of
           Err e \<Rightarrow> response_failure (rq_request_id rq) e
         | Panic \<Rightarrow> panicked
         | Ok _ \<Rightarrow>
             if cancelled then failure_response (rq_request_id rq) ''PEER_CANCELLED'' ''dispatch was cancelled''
             else (case handler context rq of Some r \<Rightarrow> r | None \<Rightarrow> panicked))"

definition is_cancelled :: "string \<Rightarrow> peer \<Rightarrow> bool" where
  "is_cancelled i p \<longleftrightarrow> bt_get (ps_inbound p) i = Some True"

text \<open>\<open>cancelled\<close> is whether a cancellation arrived while the authorizer ran.\<close>

definition serve_request ::
  "(request_context \<Rightarrow> request \<Rightarrow> unit rpc) \<Rightarrow> (request_context \<Rightarrow> request \<Rightarrow> response option)
     \<Rightarrow> peer_env \<Rightarrow> peer_config \<Rightarrow> bool \<Rightarrow> string \<Rightarrow> string \<Rightarrow> request \<Rightarrow> peer \<Rightarrow> peer" where
  "serve_request authorize handler n cfg cancelled i role rq p =
     (let (p, live) = ensure_live (pe_clock n 0) p;
          r = request_response authorize handler cfg role rq live (cancelled \<or> is_cancelled i p)
      in finish_inbound i (send_response n cfg 1 i r p))"

section \<open>Waiting for a connection\<close>

text \<open>\<open>None\<close>: the thread goes on waiting.\<close>

definition wait_ready :: "peer \<Rightarrow> (close_reason, unit) outcome option" where
  "wait_ready p =
     (if \<not> ps_ready p \<and> ps_closed p = None then None
      else case ps_closed p of Some why \<Rightarrow> Some (Err why) | None \<Rightarrow> Some (Ok ()))"

definition wait_closed :: "peer \<Rightarrow> close_reason option" where
  "wait_closed p = ps_closed p"

definition wait_drained :: "bool \<Rightarrow> peer \<Rightarrow> bool option" where
  "wait_drained elapsed p =
     (if ps_io_threads p \<noteq> 0 \<or> ps_inbound p \<noteq> [] then if elapsed then Some False else None else Some True)"

record peer_status =
  st_ready :: bool
  st_closed :: "close_reason option"
  st_pending_requests :: nat
  st_active_handlers :: nat
  st_io_threads :: nat

definition peer_status_of :: "peer \<Rightarrow> peer_status" where
  "peer_status_of p =
     \<lparr>st_ready = (ps_ready p \<and> ps_closed p = None), st_closed = ps_closed p, st_pending_requests = length (ps_pending p),
      st_active_handlers = length (ps_inbound p), st_io_threads = ps_io_threads p\<rparr>"

section \<open>The other threads\<close>

text \<open>
  One round of the watchdog and of the writer; \<open>False\<close> ends the thread. \<open>late\<close> is whether the handshake deadline has
  passed, \<open>works\<close> whether the frame could be written and flushed.
\<close>

definition watchdog :: "clock \<Rightarrow> bool \<Rightarrow> peer \<Rightarrow> peer \<times> bool" where
  "watchdog c late p =
     (case ensure_live c p of
        (p, Ok _) \<Rightarrow> if \<not> ps_ready p \<and> late then (peer_close HandshakeTimeout p, False) else (p, True)
      | (p, _) \<Rightarrow> (p, False))"

definition write_round :: "clock \<Rightarrow> bool \<Rightarrow> peer \<Rightarrow> peer \<times> bool" where
  "write_round c works p =
     (if ps_closed p \<noteq> None then (io_finished p, False)
      else case ps_queue p of
             [] \<Rightarrow> (p, True)
           | _ # rest \<Rightarrow>
               (case ensure_live c (p\<lparr>ps_queue := rest\<rparr>) of
                  (p, Ok _) \<Rightarrow> if works then (p, True) else (io_finished (peer_close Disconnected p), False)
                | (p, _) \<Rightarrow> (io_finished p, False)))"

end
