(* ===== verification/Peer_Guarantees.thy ===== *)
theory Peer_Guarantees
  imports Peer_Connection
begin

text \<open>
  What a connection between peers guarantees while its threads interleave. \<open>peer_step\<close> has one rule for every critical
  section of \<open>connection.rs\<close>; every function of the connection is a sequence of them, and the bounds, the fate of calls
  and the conditions of readiness are invariants of every interleaving.
\<close>

section \<open>Interleaving\<close>

text \<open>The identifiers of calls are random: a new one is that of no other call.\<close>

definition fresh_call :: "string \<Rightarrow> peer \<Rightarrow> bool" where
  "fresh_call i p \<longleftrightarrow> ps_waiting p i = None \<and> i \<notin> fst ` set (ps_returned p)"

inductive peer_step :: "peer_config \<Rightarrow> peer \<Rightarrow> peer \<Rightarrow> bool" for cfg :: peer_config where
  check: "peer_step cfg p (fst (check_lease c p))"
| lease: "peer_step cfg p (p\<lparr>ps_lease := map_option (\<lambda>l. peer_lease_step l e) (ps_lease p)\<rparr>)"
| close: "peer_step cfg p (peer_close why p)"
| enqueue: "peer_step cfg p (fst (try_send cfg alive bytes p))"
| dequeue: "ps_queue p = bytes # rest \<Longrightarrow> peer_step cfg p (p\<lparr>ps_queue := rest\<rparr>)"
| admit: "fresh_call i p \<Longrightarrow> peer_step cfg p (fst (call_admit cfg alive i service request_id bytes p))"
| answered: "ps_waiting p i \<noteq> None \<Longrightarrow> ps_mail p i = Some r \<Longrightarrow> peer_step cfg p (call_return i r p)"
| elapsed: "ps_waiting p i = Some request_id \<Longrightarrow> peer_step cfg p (call_give_up i request_id p)"
| respond: "peer_step cfg p (fst (take_response cfg i r p))"
| cancel: "peer_step cfg p (cancel_inbound i p)"
| accept: "peer_step cfg p (fst (admit_inbound cfg i p))"
| finish: "peer_step cfg p (finish_inbound i p)"
| ready: "\<not> hello_mismatch cfg h \<Longrightarrow> peer_step cfg p (become_ready h p)"
| io_end: "peer_step cfg p (io_finished p)"

inductive_cases peer_stepE: "peer_step cfg p p'"

abbreviation peer_path :: "peer_config \<Rightarrow> peer \<Rightarrow> peer \<Rightarrow> bool" where
  "peer_path cfg \<equiv> (peer_step cfg)\<^sup>*\<^sup>*"

text \<open>The functions of a connection: those its users call and the rounds of its threads.\<close>

datatype peer_op =
    OpCall string string nat request
  | OpAnswered string
  | OpElapsed string
  | OpClose
  | OpLease lease_call
  | OpShake handshake "(close_reason, frame) outcome"
  | OpFrame bool frame
  | OpReaderEnd "close_reason option"
  | OpServe bool string string request
  | OpWatch bool
  | OpWrite bool

fun peer_do ::
  "(request_context \<Rightarrow> request \<Rightarrow> unit rpc) \<Rightarrow> (request_context \<Rightarrow> request \<Rightarrow> response option)
     \<Rightarrow> peer_config \<Rightarrow> peer_env \<Rightarrow> peer \<Rightarrow> peer_op \<Rightarrow> peer" where
  "peer_do authorize handler cfg n p (OpCall uuid service timeout rq) = fst (call_start n cfg uuid service timeout rq p)"
| "peer_do authorize handler cfg n p (OpAnswered i) =
     (case (ps_waiting p i, ps_mail p i) of (Some _, Some r) \<Rightarrow> call_return i r p | _ \<Rightarrow> p)"
| "peer_do authorize handler cfg n p (OpElapsed i) =
     (case ps_waiting p i of Some request_id \<Rightarrow> call_elapsed n cfg i request_id p | None \<Rightarrow> p)"
| "peer_do authorize handler cfg n p OpClose = peer_close Requested p"
| "peer_do authorize handler cfg n p (OpLease e) = p\<lparr>ps_lease := map_option (\<lambda>l. peer_lease_step l e) (ps_lease p)\<rparr>"
| "peer_do authorize handler cfg n p (OpShake hs first) = fst (shake_hands n cfg hs first p)"
| "peer_do authorize handler cfg n p (OpFrame gzip f) = fst (on_frame n cfg gzip f p)"
| "peer_do authorize handler cfg n p (OpReaderEnd why) = reader_ended why p"
| "peer_do authorize handler cfg n p (OpServe cancelled i role rq) = serve_request authorize handler n cfg cancelled i role rq p"
| "peer_do authorize handler cfg n p (OpWatch late) = fst (watchdog (pe_clock n 0) late p)"
| "peer_do authorize handler cfg n p (OpWrite works) = fst (write_round (pe_clock n 0) works p)"

fun op_fresh :: "peer \<Rightarrow> peer_op \<Rightarrow> bool" where
  "op_fresh p (OpCall uuid service timeout rq) = fresh_call (''peer_request_'' @ uuid) p"
| "op_fresh p _ = True"

section \<open>Invariants\<close>

definition within_limits :: "peer_config \<Rightarrow> peer \<Rightarrow> bool" where
  "within_limits cfg p \<longleftrightarrow>
     bt_wf (ps_pending p) \<and> bt_wf (ps_inbound p) \<and>
     length (ps_pending p) \<le> max_outbound_requests (pc_limits cfg) \<and>
     length (ps_inbound p) \<le> max_inbound_requests (pc_limits cfg) \<and>
     length (ps_queue p) \<le> max_queued_frames (pc_limits cfg)"

text \<open>A waiting call is either pending or has its answer, never both; a call that returned does not wait.\<close>

definition calls_settled :: "peer_config \<Rightarrow> peer \<Rightarrow> bool" where
  "calls_settled cfg p \<longleftrightarrow>
     (\<forall>i request_id. bt_get (ps_pending p) i = Some request_id \<longrightarrow> ps_waiting p i = Some request_id \<and> ps_mail p i = None) \<and>
     (\<forall>i. ps_mail p i \<noteq> None \<longrightarrow> ps_waiting p i \<noteq> None) \<and>
     (\<forall>i. ps_waiting p i \<noteq> None \<longrightarrow> bt_get (ps_pending p) i \<noteq> None \<or> ps_mail p i \<noteq> None) \<and>
     (\<forall>i. ps_waiting p i \<noteq> None \<longrightarrow> i \<notin> fst ` set (ps_returned p)) \<and>
     distinct (map fst (ps_returned p)) \<and>
     (ps_closed p \<noteq> None \<longrightarrow> ps_pending p = [])"

definition answers_match :: "peer_config \<Rightarrow> peer \<Rightarrow> bool" where
  "answers_match cfg p \<longleftrightarrow>
     (pc_protocol cfg = ScopedV2 \<longrightarrow>
        (\<forall>i r request_id. ps_mail p i = Some r \<longrightarrow> ps_waiting p i = Some request_id \<longrightarrow> rs_request_id r = request_id) \<and>
        (\<forall>(i, request_id, r) \<in> set (ps_returned p). rs_request_id r = request_id))"

definition ready_agreed :: "peer_config \<Rightarrow> peer \<Rightarrow> bool" where
  "ready_agreed cfg p \<longleftrightarrow>
     (ps_ready p \<longrightarrow> set (pc_required_peer_services cfg) \<subseteq> set (ps_remote_services p) \<and>
        length (ps_remote_services p) \<le> 64 \<and> list_all valid_name (ps_remote_services p))"

definition peer_inv :: "peer_config \<Rightarrow> peer \<Rightarrow> bool" where
  "peer_inv cfg p \<longleftrightarrow> within_limits cfg p \<and> calls_settled cfg p \<and> answers_match cfg p \<and> ready_agreed cfg p"

lemmas section_defs = check_lease_def peer_close_def try_send_def call_admit_def call_return_def call_give_up_def
  take_response_def cancel_inbound_def admit_inbound_def finish_inbound_def become_ready_def io_finished_def

lemma length_bt_insert:
  "bt_wf m \<Longrightarrow> length (bt_insert k v m) = (if bt_get m k = None then Suc (length m) else length m)"
proof (induction m)
  case (Cons a m)
  obtain k' v' where a: "a = (k', v')" by (cases a)
  show ?case
  proof (cases "k < k'")
    case True
    then have "k \<notin> fst ` set m" using Cons.prems by (auto simp: a)
    then show ?thesis using True by (auto simp: a bt_get_None)
  qed (use Cons in \<open>auto simp: a\<close>)
qed simp

lemma length_bt_remove: "length (bt_remove k m) \<le> length m"
  by (induction m) auto

lemma length_bt_map [simp]: "length (bt_map f m) = length m"
  by (simp add: bt_map_def)

lemma failure_response_id [simp]: "rs_request_id (failure_response i c m) = i"
  by (simp add: failure_response_def response_failure_def)

lemma elapsed_response_id [simp]: "rs_request_id (elapsed_response i) = i"
  by (simp add: elapsed_response_def)

lemma step_within_limits:
  assumes "peer_step cfg p p'" "within_limits cfg p"
  shows "within_limits cfg p'"
  using assms
  by (cases rule: peer_step.cases)
     (auto simp: within_limits_def section_defs bt_simps length_bt_insert Let_def
       intro: le_trans [OF length_bt_remove] split: option.splits prod.splits bool.splits if_splits)

lemma step_calls_settled:
  assumes "peer_step cfg p p'" "calls_settled cfg p" "within_limits cfg p"
  shows "calls_settled cfg p'"
  using assms
  by (cases rule: peer_step.cases)
     (auto simp: calls_settled_def within_limits_def section_defs fresh_call_def bt_simps Let_def
       split: option.splits prod.splits bool.splits if_splits)

lemma step_answers_match:
  assumes "peer_step cfg p p'" "answers_match cfg p" "calls_settled cfg p" "within_limits cfg p"
  shows "answers_match cfg p'"
  using assms
  by (cases rule: peer_step.cases)
     (auto simp: answers_match_def calls_settled_def within_limits_def section_defs fresh_call_def bt_simps Let_def
       split: option.splits prod.splits bool.splits if_splits)

lemma step_ready_agreed:
  assumes "peer_step cfg p p'" "ready_agreed cfg p"
  shows "ready_agreed cfg p'"
  using assms
  by (cases rule: peer_step.cases)
     (auto simp: ready_agreed_def section_defs hello_mismatch_def list_ex_iff list_all_iff Let_def
       split: option.splits prod.splits bool.splits if_splits)

lemma step_closed_stays:
  assumes "peer_step cfg p p'" "ps_closed p = Some why"
  shows "ps_closed p' = Some why"
  using assms
  by (cases rule: peer_step.cases)
     (auto simp: section_defs Let_def split: option.splits prod.splits bool.splits if_splits)

lemma step_peer_inv: "peer_inv cfg p \<Longrightarrow> peer_step cfg p p' \<Longrightarrow> peer_inv cfg p'"
  by (auto simp: peer_inv_def intro: step_within_limits step_calls_settled step_answers_match step_ready_agreed)

interpretation wire: relation_machine "peer_step cfg" "peer_inv cfg" for cfg
  by unfold_locales (rule step_peer_inv)

interpretation shut: relation_machine "peer_step cfg" "\<lambda>p. ps_closed p = Some why" for cfg why
  by unfold_locales (rule step_closed_stays)

lemma peer_start_inv: "peer_start c cfg = Ok p \<Longrightarrow> peer_inv cfg p"
  by (auto simp: peer_start_def peer_inv_def within_limits_def calls_settled_def answers_match_def ready_agreed_def
      split: prod.splits outcome.splits)

section \<open>Functions are sequences of critical sections\<close>

lemma path_1: "peer_step cfg p p' \<Longrightarrow> peer_path cfg p p'"
  by (rule r_into_rtranclp)

lemma path_close: "peer_path cfg p (peer_close why p)"
  by (rule path_1, rule peer_step.close)

lemma path_ensure_live: "peer_path cfg p (fst (ensure_live c p))"
proof -
  obtain q ended where q: "check_lease c p = (q, ended)" by (cases "check_lease c p")
  have "peer_path cfg p q" using path_1 [OF peer_step.check [of cfg p c]] by (simp add: q)
  then show ?thesis using path_close by (auto simp: ensure_live_def q split: option.splits intro: rtranclp_trans)
qed

text \<open>A check of the connection does not touch the calls.\<close>

lemma ensure_live_calls:
  "ps_waiting (fst (ensure_live c p)) = ps_waiting p" "ps_returned (fst (ensure_live c p)) = ps_returned p"
  by (auto simp: ensure_live_def check_lease_def peer_close_def Let_def split: option.splits prod.splits)

lemma path_peer_send: "peer_path cfg p (fst (peer_send n cfg k f p))"
proof -
  obtain q r where q: "ensure_live (pe_clock n k) p = (q, r)" by (cases "ensure_live (pe_clock n k) p")
  have live: "peer_path cfg p q" using path_ensure_live [of cfg p "pe_clock n k"] by (simp add: q)
  have "peer_path cfg q (fst (try_send cfg alive bytes q))" for alive bytes by (rule path_1, rule peer_step.enqueue)
  then have sent: "peer_path cfg p (fst (try_send cfg alive bytes q))" for alive bytes using live by (rule rtranclp_trans [rotated])
  show ?thesis
  proof (cases "\<exists>u bytes. r = Ok u \<and> encode_frame (pe_codec n) (max_frame_bytes (pc_limits cfg)) f = Ok bytes")
    case True
    then obtain u bytes where b: "r = Ok u" "encode_frame (pe_codec n) (max_frame_bytes (pc_limits cfg)) f = Ok bytes" by blast
    obtain q' b' where t: "try_send cfg (pe_writer_alive n) bytes q = (q', b')" by (cases "try_send cfg (pe_writer_alive n) bytes q")
    have "peer_path cfg p q'" using sent [of "pe_writer_alive n" bytes] by (simp add: t)
    then show ?thesis
      using rtranclp_trans [OF _ path_close] by (cases b') (simp_all add: peer_send_def q b t lift_res_def)
  next
    case False
    then show ?thesis
      using live
      by (cases r; cases "encode_frame (pe_codec n) (max_frame_bytes (pc_limits cfg)) f")
         (auto simp: peer_send_def q lift_res_def)
  qed
qed

lemma path_send_response: "peer_path cfg p (send_response n cfg k i r p)"
  unfolding send_response_def Let_def by (rule path_peer_send)

lemma path_call_start:
  assumes "fresh_call (''peer_request_'' @ uuid) p"
  shows "peer_path cfg p (fst (call_start n cfg uuid service timeout rq p))"
proof -
  obtain q r where q: "ensure_live (pe_clock n 0) p = (q, r)" by (cases "ensure_live (pe_clock n 0) p")
  have live: "peer_path cfg p q" using path_ensure_live [of cfg p "pe_clock n 0"] by (simp add: q)
  have "fresh_call (''peer_request_'' @ uuid) q"
    using assms ensure_live_calls [of "pe_clock n 0" p] by (simp add: fresh_call_def q)
  then have "peer_path cfg p (fst (call_admit cfg alive (''peer_request_'' @ uuid) service rid bytes q))" for alive rid bytes
    by (rule rtranclp.rtrancl_into_rtrancl [OF live peer_step.admit])
  then show ?thesis using live by (auto simp: call_start_def q Let_def split: outcome.splits)
qed

lemma path_call_elapsed:
  assumes "ps_waiting p i = Some request_id"
  shows "peer_path cfg p (call_elapsed n cfg i request_id p)"
proof -
  have "peer_path cfg p (call_give_up i request_id p)" by (rule path_1 [OF peer_step.elapsed [OF assms]])
  then show ?thesis using rtranclp_trans [OF _ path_peer_send] by (simp add: call_elapsed_def Let_def)
qed

lemma path_send_hello: "peer_path cfg p (fst (send_hello n cfg k f p))"
  using path_peer_send [of cfg p n k f] by (auto simp: send_hello_def split: prod.splits outcome.splits)

lemma path_sbind:
  assumes "peer_path cfg p (fst x)" "\<And>q a. x = (q, Ok a) \<Longrightarrow> peer_path cfg q (fst (f q a))"
  shows "peer_path cfg p (fst (sbind x f))"
proof -
  obtain q r where x: "x = (q, r)" by (cases x)
  show ?thesis using assms by (cases r) (auto simp: x intro: rtranclp_trans)
qed

lemma path_shake_hands: "peer_path cfg p (fst (shake_hands n cfg hs first p))"
  unfolding shake_hands_def
proof (rule path_sbind)
  show "peer_path cfg p (fst (if hs = Initiate then send_hello n cfg 0 (Hello (own_hello cfg True)) p else (p, Ok ())))"
    by (simp add: path_send_hello)
next
  fix q and a :: unit
  show "peer_path cfg q (fst (sbind (lift_res q (and_then first (check_hello hs))) (\<lambda>p h.
     if hello_mismatch cfg h then (p, Err ProtocolError)
     else sbind (if hs = Accept then send_hello n cfg 1 (HelloAck (own_hello cfg (h_response_gzip h))) p else (p, Ok ()))
       (\<lambda>p _. (become_ready h p, Ok (if ps_closed p \<noteq> None then None else Some (h_response_gzip h)))))))"
    by (rule path_sbind) (auto intro!: path_sbind path_send_hello path_1 [OF peer_step.ready] simp: lift_res_def)
qed

lemma path_on_request: "peer_path cfg p (fst (on_request n cfg i role rq p))"
  using path_send_response path_1 [OF peer_step.accept]
  by (auto simp: on_request_def intro!: path_sbind)

lemma path_on_frame: "peer_path cfg p (fst (on_frame n cfg gzip f p))"
proof -
  obtain q r where q: "ensure_live (pe_clock n 0) p = (q, r)" by (cases "ensure_live (pe_clock n 0) p")
  have live: "peer_path cfg p q" using path_ensure_live [of cfg p "pe_clock n 0"] by (simp add: q)
  have "peer_path cfg q (fst (sbind (take_response cfg i x q) (\<lambda>p _. (p, Ok Continue))))" for i x
    by (rule path_sbind) (auto intro: path_1 [OF peer_step.respond])
  moreover have "peer_path cfg q (cancel_inbound i q)" for i by (rule path_1, rule peer_step.cancel)
  ultimately show ?thesis
    using live path_on_request [of cfg q n]
    by (auto simp: on_frame_def q split: outcome.splits frame.splits intro: rtranclp_trans)
qed

lemma path_serve: "peer_path cfg p (serve_request authorize handler n cfg cancelled i role rq p)"
proof -
  obtain q r where q: "ensure_live (pe_clock n 0) p = (q, r)" by (cases "ensure_live (pe_clock n 0) p")
  have live: "peer_path cfg p q" using path_ensure_live [of cfg p "pe_clock n 0"] by (simp add: q)
  show ?thesis
    unfolding serve_request_def q Let_def prod.case
    by (rule rtranclp.rtrancl_into_rtrancl [OF rtranclp_trans [OF live path_send_response] peer_step.finish])
qed

lemma path_watchdog: "peer_path cfg p (fst (watchdog c late p))"
  using path_ensure_live [of cfg p c] path_close
  by (auto simp: watchdog_def split: prod.splits outcome.splits intro: rtranclp_trans)

lemma path_io_finished: "peer_path cfg p q \<Longrightarrow> peer_path cfg p (io_finished q)"
  by (rule rtranclp.rtrancl_into_rtrancl) (auto intro: peer_step.io_end)

lemma path_write_round: "peer_path cfg p (fst (write_round c works p))"
proof (cases "ps_queue p")
  case (Cons bytes rest)
  let ?p = "p\<lparr>ps_queue := rest\<rparr>"
  obtain q r where q: "ensure_live c ?p = (q, r)" by (cases "ensure_live c ?p")
  have "peer_path cfg p ?p" using path_1 [OF peer_step.dequeue [OF Cons]] .
  moreover have "peer_path cfg ?p q" using path_ensure_live [of cfg ?p c] by (simp add: q)
  ultimately have "peer_path cfg p q" by (rule rtranclp_trans)
  then show ?thesis
    using rtranclp_trans [OF _ path_close]
    by (auto simp: write_round_def Cons q split: outcome.splits intro: path_io_finished)
qed (auto simp: write_round_def intro: path_io_finished)


lemma calls_settledD:
  assumes "calls_settled cfg p" "ps_waiting p i \<noteq> None"
  shows "(bt_get (ps_pending p) i \<noteq> None) \<noteq> (ps_mail p i \<noteq> None)" "ps_closed p \<noteq> None \<Longrightarrow> ps_mail p i \<noteq> None"
proof -
  have one: "bt_get (ps_pending p) i \<noteq> None \<or> ps_mail p i \<noteq> None" using assms by (simp add: calls_settled_def)
  have "bt_get (ps_pending p) i \<noteq> None \<Longrightarrow> ps_mail p i = None" using assms(1) by (auto simp: calls_settled_def)
  then show "(bt_get (ps_pending p) i \<noteq> None) \<noteq> (ps_mail p i \<noteq> None)" using one
    by (cases "bt_get (ps_pending p) i") simp_all
  assume "ps_closed p \<noteq> None"
  then have "ps_pending p = []" using assms(1) by (simp add: calls_settled_def)
  then show "ps_mail p i \<noteq> None" using one by simp
qed

text \<open>C15: every call is answered once and none is lost. In every interleaving after \<open>start\<close>, a call that waits is either
  registered, so that a response or the end of the connection will answer it, or has its one answer, never both; calls
  that returned did so once. When the connection is closed, for whatever reason, every waiting call has its answer. On
  scoped connections every answer, delivered or returned, names the request of that call.\<close>

theorem peer_calls_settle:
  assumes "peer_start c cfg = Ok p0" "peer_path cfg p0 p"
  shows "(ps_waiting p i \<noteq> None \<longrightarrow> (bt_get (ps_pending p) i \<noteq> None) \<noteq> (ps_mail p i \<noteq> None)) \<and>
    (ps_closed p \<noteq> None \<and> ps_waiting p i \<noteq> None \<longrightarrow> ps_mail p i \<noteq> None) \<and>
    distinct (map fst (ps_returned p)) \<and>
    (pc_protocol cfg = ScopedV2 \<longrightarrow>
       (\<forall>r request_id. ps_mail p i = Some r \<and> ps_waiting p i = Some request_id \<longrightarrow> rs_request_id r = request_id) \<and>
       (\<forall>request_id r. (i, request_id, r) \<in> set (ps_returned p) \<longrightarrow> rs_request_id r = request_id))"
proof -
  have "peer_inv cfg p" using wire.reach_inv [OF assms(2)] peer_start_inv [OF assms(1)] by blast
  then have c: "calls_settled cfg p" and a: "answers_match cfg p" by (simp_all add: peer_inv_def)
  have settled: "ps_waiting p i \<noteq> None \<longrightarrow> (bt_get (ps_pending p) i \<noteq> None) \<noteq> (ps_mail p i \<noteq> None)"
    "ps_closed p \<noteq> None \<and> ps_waiting p i \<noteq> None \<longrightarrow> ps_mail p i \<noteq> None"
    by (rule impI, rule calls_settledD(1) [OF c], simp) (rule impI, rule calls_settledD(2) [OF c], simp_all)
  have once: "distinct (map fst (ps_returned p))" using c by (simp add: calls_settled_def)
  have "pc_protocol cfg = ScopedV2 \<longrightarrow>
       (\<forall>r request_id. ps_mail p i = Some r \<and> ps_waiting p i = Some request_id \<longrightarrow> rs_request_id r = request_id) \<and>
       (\<forall>request_id r. (i, request_id, r) \<in> set (ps_returned p) \<longrightarrow> rs_request_id r = request_id)"
    using a by (auto simp: answers_match_def)
  then show ?thesis by (intro conjI settled once)
qed

text \<open>C17: a connection stays within its limits in every interleaving: calls in progress, requests being served and frames
  waiting for the writer are never more than configured; it is ready only with a peer that offers every required service
  under valid names, at most 64; and once it is closed the first reason stays.\<close>

theorem peer_limits_hold:
  assumes "peer_start c cfg = Ok p0" "peer_path cfg p0 p"
  shows "length (ps_pending p) \<le> max_outbound_requests (pc_limits cfg) \<and>
    length (ps_inbound p) \<le> max_inbound_requests (pc_limits cfg) \<and>
    length (ps_queue p) \<le> max_queued_frames (pc_limits cfg) \<and>
    (ps_ready p \<longrightarrow> set (pc_required_peer_services cfg) \<subseteq> set (ps_remote_services p) \<and>
       length (ps_remote_services p) \<le> 64 \<and> list_all valid_name (ps_remote_services p)) \<and>
    (\<forall>why p'. ps_closed p = Some why \<and> peer_path cfg p p' \<longrightarrow> ps_closed p' = Some why)"
proof -
  have inv: "peer_inv cfg p" using wire.reach_inv [OF assms(2)] peer_start_inv [OF assms(1)] by blast
  have "\<forall>why p'. ps_closed p = Some why \<and> peer_path cfg p p' \<longrightarrow> ps_closed p' = Some why"
    using shut.reach_inv by blast
  moreover have "length (ps_pending p) \<le> max_outbound_requests (pc_limits cfg)"
    "length (ps_inbound p) \<le> max_inbound_requests (pc_limits cfg)"
    "length (ps_queue p) \<le> max_queued_frames (pc_limits cfg)"
    using inv by (simp_all add: peer_inv_def within_limits_def)
  moreover have "ready_agreed cfg p" using inv by (simp add: peer_inv_def)
  ultimately show ?thesis unfolding ready_agreed_def by (intro conjI)
qed

section \<open>Requests of the other side\<close>

lemma ensure_live_Ok:
  "ensure_live c p = (q, Ok u) \<Longrightarrow>
     ps_closed p = None \<and> ps_inbound q = ps_inbound p \<and> (\<forall>l. ps_lease p = Some l \<longrightarrow> snd (lease_ended c l) = None)"
  by (auto simp: ensure_live_def check_lease_def Let_def split: option.splits prod.splits if_splits)

lemma handler_guard:
  assumes "serve_request authorize h1 n cfg cancelled i role rq p \<noteq> serve_request authorize h2 n cfg cancelled i role rq p"
  obtains q where "ensure_live (pe_clock n 0) p = (q, Ok ())"
    and "authorize \<lparr>rc_peer_id = pc_expected_peer_id cfg, rc_service = role, rc_binding = pc_binding cfg\<rparr> rq = Ok ()"
    and "\<not> cancelled" and "\<not> is_cancelled i q"
proof -
  obtain q live where q: "ensure_live (pe_clock n 0) p = (q, live)" by (cases "ensure_live (pe_clock n 0) p")
  have "request_response authorize h1 cfg role rq live (cancelled \<or> is_cancelled i q) \<noteq>
        request_response authorize h2 cfg role rq live (cancelled \<or> is_cancelled i q)"
    using assms by (auto simp: serve_request_def q)
  then show ?thesis
    using that q by (cases live) (auto simp: request_response_def Let_def split: outcome.splits if_splits)
qed

lemma dispatch_guard:
  assumes "on_frame n cfg gzip f p = (p', Ok (Dispatch i role rq))"
  obtains q where "ensure_live (pe_clock n 0) p = (q, Ok ())" and "f = RequestFrame i role rq"
    and "role \<in> set (pc_services cfg)" "i \<noteq> []" "length i \<le> 256" "admit_inbound cfg i q = (p', Ok True)"
proof -
  obtain g where g: "decode_response_frame (pe_codec n) f gzip (max_frame_bytes (pc_limits cfg)) = Ok g"
    using assms by (auto simp: on_frame_def split: outcome.splits)
  obtain q where q: "ensure_live (pe_clock n 0) p = (q, Ok ())"
    using assms by (auto simp: on_frame_def g split: prod.splits outcome.splits)
  obtain i' role' rq' where r: "g = RequestFrame i' role' rq'"
    using assms by (cases g) (auto simp: on_frame_def g q sbind_Ok split: if_splits)
  have f: "f = g" using g r by (cases f) (auto simp: decode_response_frame_def and_then_Ok_iff split: if_splits)
  have o: "on_request n cfg i' role' rq' q = (p', Ok (Dispatch i role rq))" using assms by (simp add: on_frame_def g q r)
  show ?thesis
    using that [OF q] o f r
    by (cases "admit_inbound cfg i' q" rule: prod.exhaust; cases "snd (admit_inbound cfg i' q)")
       (auto simp: on_request_def split: if_splits)
qed

text \<open>C16: a request of the other side reaches the handler only when everything allows it. If what the handler would return
  makes any difference, then the connection is open, its lease has not ended, the authorizer of the embedding program
  has accepted this request under the identity, service and binding of the connection, and the request was not
  cancelled. The reader starts a request only for a service the connection exposes, under a valid identifier that no
  running request has, and below the limit.\<close>

theorem peer_dispatch_guarded:
  "(serve_request authorize h1 n cfg cancelled i role rq p \<noteq> serve_request authorize h2 n cfg cancelled i role rq p \<longrightarrow>
      ps_closed p = None \<and> (\<forall>l. ps_lease p = Some l \<longrightarrow> snd (lease_ended (pe_clock n 0) l) = None) \<and>
      authorize \<lparr>rc_peer_id = pc_expected_peer_id cfg, rc_service = role, rc_binding = pc_binding cfg\<rparr> rq = Ok () \<and>
      \<not> cancelled \<and> \<not> is_cancelled i p) \<and>
   (on_frame n cfg gzip f p = (p', Ok (Dispatch i role rq)) \<longrightarrow>
      f = RequestFrame i role rq \<and> role \<in> set (pc_services cfg) \<and> i \<noteq> [] \<and> length i \<le> 256 \<and> ps_closed p = None \<and>
      bt_get (ps_inbound p) i = None \<and> bt_get (ps_inbound p') i = Some False \<and>
      length (ps_inbound p) < max_inbound_requests (pc_limits cfg))"
    (is "(?differ \<longrightarrow> ?allowed) \<and> (?start \<longrightarrow> ?admitted)")
proof (rule conjI; rule impI)
  assume ?differ
  then obtain q where q: "ensure_live (pe_clock n 0) p = (q, Ok ())"
    and r: "authorize \<lparr>rc_peer_id = pc_expected_peer_id cfg, rc_service = role, rc_binding = pc_binding cfg\<rparr> rq = Ok ()"
      "\<not> cancelled" "\<not> is_cancelled i q"
    by (rule handler_guard)
  show ?allowed using ensure_live_Ok [OF q] r by (simp add: is_cancelled_def)
next
  assume ?start
  then obtain q where q: "ensure_live (pe_clock n 0) p = (q, Ok ())" and r: "f = RequestFrame i role rq"
    "role \<in> set (pc_services cfg)" "i \<noteq> []" "length i \<le> 256" and a: "admit_inbound cfg i q = (p', Ok True)"
    by (rule dispatch_guard)
  show ?admitted
    using ensure_live_Ok [OF q] r a by (auto simp: admit_inbound_def bt_get_insert split: if_splits)
qed

section \<open>A scoped connection\<close>

definition demo_limits :: peer_limits where
  "demo_limits = \<lparr>max_frame_bytes = 2048, max_outbound_requests = 1, max_inbound_requests = 1, max_queued_frames = 4,
     handshake_timeout = 1, request_timeout = 1\<rparr>"

definition demo_config :: peer_config where
  "demo_config =
     \<lparr>pc_protocol = ScopedV2, pc_local_id = ''a'', pc_expected_peer_id = ''b'', pc_services = [''x''],
      pc_required_peer_services = [''y''], pc_binding = Some \<lparr>cb_lease_id = ''l'', cb_scope = JObj []\<rparr>,
      pc_lease = Some \<lparr>pl_id = ''l'', pl_deadline = 1000, pl_expires_at_ms = 1000, pl_ended = None\<rparr>,
      pc_limits = demo_limits\<rparr>"

definition demo_clock :: clock where
  "demo_clock = \<lparr>cl_mono = 0, cl_wall = 0\<rparr>"

definition demo_peer :: peer where
  "demo_peer =
     \<lparr>ps_response_gzip = False, ps_ready = False, ps_remote_services = [], ps_closed = None, ps_pending = [],
      ps_inbound = [], ps_io_threads = 2, ps_queue = [], ps_lease = pc_lease demo_config, ps_waiting = (\<lambda>_. None),
      ps_mail = (\<lambda>_. None), ps_returned = []\<rparr>"

definition demo_hello :: hello where
  "demo_hello = \<lparr>h_protocol = ''machine-fabric.peer/v2'', h_node_id = ''b'', h_roles = [''y''],
     h_binding = pc_binding demo_config, h_response_gzip = False\<rparr>"

definition demo_frame_codec :: frame_codec where
  "demo_frame_codec = \<lparr>fc_frame = (\<lambda>_. ''f''), fc_unframe = (\<lambda>_. None), fc_response = (\<lambda>_. ''r''), fc_unresponse = (\<lambda>_. None),
     fc_gzip = (\<lambda>_. None), fc_gunzip = (\<lambda>_ _. None), fc_base64 = (\<lambda>x. x), fc_unbase64 = Some\<rparr>"

definition demo_peer_env :: peer_env where
  "demo_peer_env = \<lparr>pe_codec = demo_frame_codec, pe_clock = (\<lambda>_. demo_clock), pe_writer_alive = True\<rparr>"

definition demo_request :: request where
  "demo_request = \<lparr>rq_api_version = ''v'', rq_request_id = ''r'', rq_correlation_id = None, rq_parent_request_id = None,
     rq_action = ''act'', rq_params = JNull\<rparr>"

text \<open>The connection becomes ready, a call is sent, and the connection is closed.\<close>

definition demo_called :: peer where
  "demo_called = fst (call_admit demo_config True ''i'' ''y'' ''r'' ''f'' (become_ready demo_hello demo_peer))"

definition demo_closed :: peer where
  "demo_closed = peer_close Requested demo_called"

lemmas demo_defs = demo_limits_def demo_config_def demo_clock_def demo_peer_def demo_hello_def demo_frame_codec_def demo_peer_env_def
  demo_request_def

lemma demo_start: "peer_start demo_clock demo_config = Ok demo_peer"
  by (simp add: peer_start_def validate_config_def validate_name_def valid_name_def is_ascii_alphanumeric_def
      validate_service_list_def lease_ended_def lift_res_def demo_defs Let_def less_eq_char_def)

lemma demo_path_called: "peer_path demo_config demo_peer demo_called"
proof -
  have "\<not> hello_mismatch demo_config demo_hello"
    by (simp add: hello_mismatch_def demo_defs valid_name_def is_ascii_alphanumeric_def less_eq_char_def)
  then have "peer_path demo_config demo_peer (become_ready demo_hello demo_peer)" by (intro path_1 peer_step.ready)
  moreover have "fresh_call ''i'' (become_ready demo_hello demo_peer)"
    by (simp add: fresh_call_def become_ready_def demo_peer_def)
  then have "peer_step demo_config (become_ready demo_hello demo_peer) demo_called"
    unfolding demo_called_def by (rule peer_step.admit)
  ultimately show ?thesis by (rule rtranclp.rtrancl_into_rtrancl)
qed

lemma demo_path_closed: "peer_path demo_config demo_peer demo_closed"
  unfolding demo_closed_def by (rule rtranclp_trans [OF demo_path_called path_close])

lemma demo_called_simps:
  "ps_pending demo_called = [(''i'', ''r'')]" "ps_waiting demo_called = [''i'' \<mapsto> ''r'']" "ps_closed demo_called = None"
  "ps_ready demo_called"
  by (simp_all add: demo_called_def call_admit_def become_ready_def try_send_def demo_defs)

theorem peer_calls_settle_witness:
  "ps_closed demo_closed = Some Requested \<and> ps_waiting demo_closed ''i'' = Some ''r'' \<and>
   bt_get (ps_pending demo_called) ''i'' = Some ''r'' \<and> ps_mail demo_called ''i'' = None \<and> ps_mail demo_closed ''i'' \<noteq> None"
  using peer_calls_settle [OF demo_start demo_path_called, of "''i''"]
    peer_calls_settle [OF demo_start demo_path_closed, of "''i''"]
  by (simp add: demo_closed_def peer_close_def demo_called_simps)

theorem peer_limits_hold_witness:
  "ps_ready demo_called \<and> length (ps_pending demo_called) \<le> 1 \<and> set [''y''] \<subseteq> set (ps_remote_services demo_called)"
proof -
  have "length (ps_pending demo_called) \<le> max_outbound_requests (pc_limits demo_config)"
    "ps_ready demo_called \<longrightarrow> set (pc_required_peer_services demo_config) \<subseteq> set (ps_remote_services demo_called)"
    using peer_limits_hold [OF demo_start demo_path_called] by blast+
  then show ?thesis by (simp add: demo_called_simps demo_config_def demo_limits_def)
qed


text \<open>A request that is served: the two handlers differ in what they return.\<close>

definition demo_inbound :: peer where
  "demo_inbound = demo_peer\<lparr>ps_inbound := [(''j'', False)]\<rparr>"

definition demo_codec2 :: frame_codec where
  "demo_codec2 = demo_frame_codec\<lparr>fc_frame := (\<lambda>f. case f of ResponseFrame _ r \<Rightarrow> if rs_ok r then ''t'' else ''f'' | _ \<Rightarrow> ''f'')\<rparr>"

definition demo_env2 :: peer_env where
  "demo_env2 = demo_peer_env\<lparr>pe_codec := demo_codec2\<rparr>"

theorem peer_dispatch_guarded_witness:
  "serve_request (\<lambda>_ _. Ok ()) (\<lambda>_ _. None) demo_env2 demo_config False ''j'' ''x'' demo_request demo_inbound \<noteq>
   serve_request (\<lambda>_ _. Ok ()) (\<lambda>_ _. Some (response_success ''r'' JNull)) demo_env2 demo_config False ''j'' ''x''
     demo_request demo_inbound \<and>
   \<not> is_cancelled ''j'' demo_inbound \<and>
   snd (on_frame demo_peer_env demo_config False (RequestFrame ''j'' ''x'' demo_request) demo_peer) = Ok (Dispatch ''j'' ''x'' demo_request) \<and>
   ''x'' \<in> set (pc_services demo_config)"
proof -
  let ?h1 = "\<lambda>(_ :: request_context) (_ :: request). None" and ?h2 = "\<lambda>_ _. Some (response_success ''r'' JNull)"
  let ?a = "\<lambda>(_ :: request_context) (_ :: request). Ok () :: unit rpc"
  let ?f = "on_frame demo_peer_env demo_config False (RequestFrame ''j'' ''x'' demo_request) demo_peer"
  have "ps_queue (serve_request ?a ?h1 demo_env2 demo_config False ''j'' ''x'' demo_request demo_inbound) \<noteq>
        ps_queue (serve_request ?a ?h2 demo_env2 demo_config False ''j'' ''x'' demo_request demo_inbound)"
    by (simp add: serve_request_def ensure_live_def check_lease_def lease_ended_def request_response_def is_cancelled_def
        send_response_def peer_send_def encode_frame_def encode_response_frame_def try_send_def finish_inbound_def
        failure_response_def response_failure_def response_success_def lift_res_def Let_def
        demo_inbound_def demo_env2_def demo_codec2_def demo_defs)
  then have d: "serve_request ?a ?h1 demo_env2 demo_config False ''j'' ''x'' demo_request demo_inbound \<noteq>
    serve_request ?a ?h2 demo_env2 demo_config False ''j'' ''x'' demo_request demo_inbound" by metis
  have f: "snd ?f = Ok (Dispatch ''j'' ''x'' demo_request)"
    by (simp add: on_frame_def decode_response_frame_def ensure_live_def check_lease_def lease_ended_def on_request_def
        admit_inbound_def Let_def demo_defs)
  then have "?f = (fst ?f, Ok (Dispatch ''j'' ''x'' demo_request))" by (simp add: prod_eq_iff)
  then show ?thesis
    using d f peer_dispatch_guarded [of ?a ?h1 demo_env2 demo_config False "''j''" "''x''" demo_request demo_inbound ?h2]
      peer_dispatch_guarded [of ?a ?h1 demo_peer_env demo_config False "''j''" "''x''" demo_request demo_peer ?h2 False
        "RequestFrame ''j'' ''x'' demo_request" "fst ?f"]
    by blast
qed

end
