(* ===== verification/Spec2Isabelle.thy ===== *)
theory Spec2Isabelle
  imports Lease_Table Task_Table Desktop_Guarantees Execution_Capacity Execution_Resources Desktop_Dispatch
    Fabric_Store Task_Payloads Schema_Validation Session_Failures File_Guarantees Controller_Types Peer_Guarantees
begin

text \<open>
  Machine Fabric lets agents work on several machines. A \<^emph>\<open>controller\<close> keeps workspace sessions, leases, tasks,
  approvals and records of what was deployed, in memory and in one state file. An \<^emph>\<open>executor\<close> on each machine offers
  capabilities (files, processes, applications, the desktop) and runs the requests a controller passes on. Controllers
  hand sessions over to each other, and machines that cannot be reached directly are connected by \<^emph>\<open>peer connections\<close>.
  This development models these three parts and proves what they guarantee to each other. Paths below are relative to
  \<open>src/crates\<close>; \<open>runtime\<close>, \<open>core\<close>, \<open>schema\<close>, \<open>protocol\<close> and \<open>peer\<close> stand for the crates \<open>machine-fabric-runtime\<close> and so on.

  \<^bold>\<open>Conventions.\<close> A struct is a record and an enum a datatype with the constructors of the source. A fallible function
  returns an \<open>outcome\<close>: \<open>Ok\<close>, \<open>Err\<close> or \<open>Panic\<close>; \<open>and_then\<close> and \<open>sbind\<close> are the operator \<open>?\<close> without and with state. \<open>u64\<close>
  is a 64-bit word with the saturating operations written out. What the program cannot decide is an argument: readings
  of the clock, generated identifiers, the results of calls, of saves and of system calls. Code outside the repository
  (the codecs derived by serde, SHA-256, gzip, base64, printing of numbers) is a parameter; a theorem that relies on it
  says what it assumes, and its instance shows that the assumption can hold.

  \<^bold>\<open>Shared theories.\<close> \<open>Fabric_Prelude\<close> has the outcomes, words and the locales \<open>invariant_machine\<close>, \<open>monotone_machine\<close>
  and \<open>relation_machine\<close>, through which every invariant of a state machine is lifted from a step to a run; \<open>BTree_Map\<close>
  is the map of the standard library with the locale \<open>ordered_map\<close>; \<open>Json_Value\<close> is \<open>serde_json::Value\<close>; \<open>Schema_Types\<close>
  holds the types of \<open>schema/src/lib.rs\<close> and the envelope of \<open>protocol/src/lib.rs\<close>.

  \<^bold>\<open>Core tables\<close> (\<open>core/src\<close>). \<open>Lease_Table\<close> is \<open>lease.rs\<close>: a resource has one holder, a lease can be changed only with its
  token, and fences rise with every grant and never fall. \<open>Task_Table\<close> is \<open>task.rs\<close>: the life cycle of tasks as a
  refinement, idempotent submission, paging and recovery after a restart. \<open>Fabric_Store\<close> is \<open>store.rs\<close>: after a crash at
  any step of a save, the file holds the old or the new state. \<open>Task_Payloads\<close> moves large inputs and outputs of tasks
  to files and reads them back.

  \<^bold>\<open>Controller\<close> (\<open>runtime/src/controller.rs\<close>). \<open>Controller_State\<close> has the record \<open>controller\<close>, opening, saving, compaction and
  routing; \<open>Controller_Sessions\<close>, \<open>Controller_Records\<close>, \<open>Controller_Queries\<close>, \<open>Controller_Relay\<close> and \<open>Controller_Invoke\<close> have
  one definition for every request; \<open>Controller_Dispatch\<close> is \<open>dispatch\<close> and \<open>handle\<close>; \<open>Schema_Validation\<close> is
  \<open>validate_schema\<close>, proved to decide an independent definition of conformance. \<open>Controller_Effects\<close> proves once that
  every request is a sequence of elementary changes under guards (\<open>quiet\<close>, \<open>steady\<close>, \<open>change\<close>). On this rest
  \<open>Controller_Guarantees\<close> (an approval admits one command, across restarts), \<open>Controller_Calls\<close> (what an invocation that
  reaches an executor has passed, repetition, settling), \<open>Controller_Histories\<close> (generations, transactions and handoff
  documents develop in order; locale \<open>record_history\<close>) and \<open>Controller_Types\<close> (the type invariant of the whole state).
  \<open>Controller_Samples\<close> is a small controller on which the theorems are applied.

  \<^bold>\<open>Sessions across controllers.\<close> \<open>Session_Protocol\<close> is an abstract handoff protocol with epochs. \<open>Session_Fabric\<close> lets
  several controllers of the model exchange handoffs that may be late, repeated or lost, with restarts, and proves that
  they refine the protocol, that at most one controller serves a session, and that forwarding reaches it. The assumption
  is that the session requests can write the state file; \<open>Session_Failures\<close> shows what happens without it and other
  ways in which the code loses a session or its tasks.

  \<^bold>\<open>Executor\<close> (\<open>runtime/src/executor.rs\<close>, \<open>desktop.rs\<close>, \<open>path_policy.rs\<close>). \<open>Capability_Catalog\<close> is the table of capabilities.
  \<open>Execution_Resources\<close> renders the locks of a request and issues fences; \<open>Execution_Capacity\<close> is the admission with its
  waiting threads, split at the waits: held resources are disjoint, conflicting requests run in order of arrival, and
  the first waiting request is granted when nothing runs. \<open>Desktop_Queue\<close> is \<open>desktop.rs\<close>; \<open>Desktop_Laws\<close>
  decomposes its calls into elementary changes (locales \<open>desk_base\<close> to \<open>desk_stable\<close>), from which \<open>Desktop_Properties\<close> and
  \<open>Desktop_Guarantees\<close> derive a single holder, order, admission and quarantine. \<open>Desktop_Dispatch\<close> composes catalogue,
  locks, admission, queue and an arbitrary function for the actions into \<open>handle\<close>: changes run under their locks with
  fresh fences, and an action with a doubtful outcome blocks the desktop. \<open>Rust_Path\<close> and \<open>Path_Policy\<close> decide which
  paths a request may touch, whatever the file system answers; \<open>Posix_Files\<close> is a file system with symbolic links and
  failing calls; \<open>File_Actions\<close> are the \<open>fs\<close> actions on it, and \<open>File_Guarantees\<close> proves atomic replacement, removal and
  restoring, and that nothing else changes.

  \<^bold>\<open>Peer connections\<close> (\<open>peer/src\<close>). \<open>Peer_Lease\<close> is \<open>lease.rs\<close>: the end of a lease is final also when the clock goes back.
  \<open>Peer_Frames\<close> has the frames of \<open>connection.rs\<close> and \<open>compression.rs\<close> with their round trips. \<open>Peer_Connection\<close> is the
  rest of \<open>connection.rs\<close>, split into its critical sections; \<open>Peer_Guarantees\<close> proves that every function is a sequence
  of these and that in every interleaving each call gets one answer, the limits hold, and a request of the other side
  reaches the handler only when the lease, the authorizer and the cancellation allow it.

  \<^bold>\<open>Loops and bounds.\<close> Loops are structural recursions or functions with a termination measure: the transfer loops of a
  relay stop because the offset rises, the resolution of a missing path because the path gets shorter. Rendering of a
  lock template may run forever, so it is a partial function into \<open>option\<close>; for the templates of the catalogue it is
  proved to return when no parameter contains a dollar sign, and a parameter that names itself is shown to hang it. A path lookup follows 40 symbolic links, the limit of the kernel. Polling loops that end at a
  deadline take the number of rounds (\<open>cv_rounds\<close>) or the list of their readings (\<open>cv_polls\<close>, \<open>cv_process_polls\<close>) as an
  observation, since only the clock bounds them; the theorems hold for every such number.

  \<^bold>\<open>Not modelled.\<close> The process table (\<open>process.rs\<close>), the handling of application trees on executors (\<open>generation.rs\<close>) and the
  other actions of the executor (archives, commands, applications, tunnels, data packs) are covered only as the
  arbitrary function behind \<open>handle\<close>: their effects are processes, copies and tools of the operating system. The Windows
  branches of the path policy are left out, as are the integration with macOS, Windows and X11 (\<open>macos.rs\<close>, \<open>windows.rs\<close>,
  \<open>clipboard.rs\<close>, \<open>computer_use.rs\<close>, \<open>desktop_worker.rs\<close> and others), sockets, SSH and logging (\<open>rpc.rs\<close>, \<open>transport.rs\<close>,
  \<open>ssh.rs\<close>, \<open>telemetry.rs\<close>), the processes that keep peers connected (\<open>peer.rs\<close>, \<open>peer_channel.rs\<close>), the command line and the
  scripts: they are input and output. A request of the controller is atomic between the points where it releases its
  locks. The encodings derived by serde are not modelled.
\<close>

end
